(* ===== verification/Prelude.thy ===== *)
theory Prelude
  imports Main "HOL-Library.Multiset"
begin

text \<open>
  What the components of the development share: the named collections that the component
  theories add their rules to, and general facts on lists, modular indices and bags that are not
  about any program.

  \<^item> \<open>io_simps\<close>: evaluation of the process model (sequencing, system calls, logging);
  \<^item> \<open>cstr_simps\<close>: evaluation of the C string functions;
  \<^item> \<open>ext_intros\<close>: rules that a piece of code only extends its trace;
  \<^item> \<open>count_simps\<close>: counting of program points in a bag of clients.
\<close>

named_theorems io_simps
named_theorems cstr_simps
named_theorems ext_intros
named_theorems count_simps

section \<open>Lists\<close>

lemma takeWhile_id: "(\<And>x. x \<in> set xs \<Longrightarrow> P x) \<Longrightarrow> takeWhile P xs = xs"
  by (induction xs) auto

lemma takeWhile_stop: "(\<And>x. x \<in> set xs \<Longrightarrow> P x) \<Longrightarrow> \<not> P y \<Longrightarrow> takeWhile P (xs @ y # ys) = xs"
  by (induction xs) auto

lemma dropWhile_none: "(\<And>x. x \<in> set xs \<Longrightarrow> \<not> P x) \<Longrightarrow> dropWhile P xs = xs"
  by (cases xs) auto

lemma take_length_takeWhile: "take (length (takeWhile P xs)) xs = takeWhile P xs"
  by (metis takeWhile_eq_take)

lemma filter_take_le: "length (filter P (take n xs)) \<le> length (filter P xs)"
proof -
  have "filter P xs = filter P (take n xs) @ filter P (drop n xs)"
    by (metis append_take_drop_id filter_append)
  then show ?thesis by simp
qed

section \<open>Indices of a ring\<close>

lemma mod_add_inj_le:
  fixes i j h n :: nat
  assumes "(h + i) mod n = (h + j) mod n" and "i \<le> j" and "j < n"
  shows "i = j"
proof -
  have "(h + j) mod n = (h + i) mod n \<longleftrightarrow> n dvd (h + j) - (h + i)"
    using assms(2) by (intro mod_eq_dvd_iff_nat) simp
  with assms(1) have "n dvd j - i" by simp
  moreover have "j - i < n" using assms(3) by simp
  ultimately have "j - i = 0" by (meson nat_dvd_not_less not_gr_zero)
  with assms(2) show ?thesis by simp
qed

lemma mod_add_inj:
  fixes i j h n :: nat
  assumes "(h + i) mod n = (h + j) mod n" and "i < n" and "j < n"
  shows "i = j"
  using assms mod_add_inj_le [of h i n j] mod_add_inj_le [of h j n i]
  by (metis nat_le_linear)

end
