(* ===== verification/CString.thy ===== *)
theory CString
  imports Prelude "HOL-Library.Char_ord"
begin

text \<open>
  The functions of the C library the programs call on text: \<open>strlen\<close>/\<open>strcmp\<close> on the string a
  buffer holds, \<open>strncmp\<close> and \<open>strncasecmp\<close> on raw buffers, \<open>strcspn\<close>, \<open>strncpy\<close>, \<open>snprintf\<close>
  with \<open>%s\<close> and \<open>%d\<close>, \<open>atoi\<close>, \<open>strtok\<close> with its saved position, \<open>std::string::find\<close>.
  A byte is a HOL \<open>char\<close>; a buffer is a list of bytes of its declared size; a C string is the
  list of bytes before the first NUL.
\<close>

section \<open>Bytes\<close>

abbreviation NUL :: char where "NUL \<equiv> CHR 0x00"
abbreviation TAB :: char where "TAB \<equiv> CHR 0x09"
abbreviation LF :: char where "LF \<equiv> CHR 0x0A"
abbreviation CR :: char where "CR \<equiv> CHR 0x0D"

definition is_space :: "char \<Rightarrow> bool" where
  "is_space c \<longleftrightarrow> c \<in> {CHR '' '', TAB, LF, CHR 0x0B, CHR 0x0C, CR}"

definition is_digit :: "char \<Rightarrow> bool" where
  "is_digit c \<longleftrightarrow> (48::nat) \<le> of_char c \<and> of_char c \<le> (57::nat)"

definition digit :: "char \<Rightarrow> int" where
  "digit c = int (of_char c) - 48"

definition to_lower :: "char \<Rightarrow> char" where
  "to_lower c = (if (65::nat) \<le> of_char c \<and> of_char c \<le> (90::nat)
     then char_of (of_char c + (32::nat)) else c)"

section \<open>Strings in buffers\<close>

definition cstr :: "char list \<Rightarrow> string" where
  "cstr b = takeWhile (\<lambda>c. c \<noteq> NUL) b"

text \<open>A read of at most \<open>length b\<close> bytes overwrites the front of a buffer.\<close>

definition buf_fill :: "char list \<Rightarrow> char list \<Rightarrow> char list" where
  "buf_fill b d = d @ drop (length d) b"

definition strcspn :: "string \<Rightarrow> string \<Rightarrow> nat" where
  "strcspn s rej = length (takeWhile (\<lambda>c. c \<notin> set rej) s)"

text \<open>The idiom \<open>item[strcspn(item, "\r\n")] = 0\<close> on the string of a buffer.\<close>

definition chomp :: "string \<Rightarrow> string" where
  "chomp s = take (strcspn s [CR, LF]) s"

definition strncmp_eq :: "char list \<Rightarrow> char list \<Rightarrow> nat \<Rightarrow> bool" where
  "strncmp_eq a b n \<longleftrightarrow> take n (cstr a) = take n (cstr b)"

definition strncasecmp_eq :: "char list \<Rightarrow> char list \<Rightarrow> nat \<Rightarrow> bool" where
  "strncasecmp_eq a b n \<longleftrightarrow> map to_lower (take n (cstr a)) = map to_lower (take n (cstr b))"

text \<open>\<open>strncpy(dst, src, n)\<close> followed by \<open>dst[n] = 0\<close>: the string the buffer then holds.\<close>

definition strncpy_str :: "nat \<Rightarrow> string \<Rightarrow> string" where
  "strncpy_str n s = take n s"

text \<open>\<open>snprintf(buf, size, ...)\<close> keeps at most \<open>size - 1\<close> characters of the formatted text.\<close>

definition snprintf_str :: "nat \<Rightarrow> string \<Rightarrow> string" where
  "snprintf_str n s = take (n - 1) s"

section \<open>Numbers\<close>

fun digits_val :: "int \<Rightarrow> string \<Rightarrow> int" where
  "digits_val acc [] = acc"
| "digits_val acc (c # cs) = (if is_digit c then digits_val (10 * acc + digit c) cs else acc)"

definition atoi :: "string \<Rightarrow> int" where
  "atoi s = (case dropWhile is_space s of
      [] \<Rightarrow> 0
    | c # cs \<Rightarrow> if c = CHR ''-'' then - digits_val 0 cs
                else if c = CHR ''+'' then digits_val 0 cs
                else digits_val 0 (c # cs))"

definition int_range :: "int \<Rightarrow> bool" where
  "int_range i \<longleftrightarrow> - (2 ^ 31) \<le> i \<and> i < 2 ^ 31"

fun show_nat :: "nat \<Rightarrow> string" where
  "show_nat n = (if n < 10 then [char_of (48 + n)] else show_nat (n div 10) @ [char_of (48 + n mod 10)])"

declare show_nat.simps [simp del]

definition show_int :: "int \<Rightarrow> string" where
  "show_int i = (if i < 0 then CHR ''-'' # show_nat (nat (- i)) else show_nat (nat i))"

datatype farg = AInt int | AStr string

text \<open>\<open>printf\<close> conversions \<open>%d\<close> and \<open>%s\<close>; \<open>None\<close> where format and arguments do not match.\<close>

fun c_format :: "string \<Rightarrow> farg list \<Rightarrow> string option" where
  "c_format [] as = Some []"
| "c_format [c] as = Some [c]"
| "c_format (c # d # cs) as =
     (if c = CHR ''%'' \<and> d = CHR ''d'' then
        (case as of AInt i # as' \<Rightarrow> map_option (\<lambda>t. show_int i @ t) (c_format cs as') | _ \<Rightarrow> None)
      else if c = CHR ''%'' \<and> d = CHR ''s'' then
        (case as of AStr s # as' \<Rightarrow> map_option (\<lambda>t. s @ t) (c_format cs as') | _ \<Rightarrow> None)
      else map_option (\<lambda>t. c # t) (c_format (d # cs) as))"

section \<open>Tokens\<close>

text \<open>
  \<open>strtok(s, delims)\<close> on a string and \<open>strtok(NULL, delims)\<close> on the saved position: the token, or
  none, and the new saved position (the text after the delimiter that ended the token).
\<close>

definition strtok :: "string \<Rightarrow> string \<Rightarrow> string option \<times> string" where
  "strtok s ds =
     (let t = dropWhile (\<lambda>c. c \<in> set ds) s in
      if t = [] then (None, [])
      else (Some (takeWhile (\<lambda>c. c \<notin> set ds) t), drop 1 (dropWhile (\<lambda>c. c \<notin> set ds) t)))"

fun is_prefix :: "string \<Rightarrow> string \<Rightarrow> bool" where
  "is_prefix [] s = True"
| "is_prefix (p # ps) [] = False"
| "is_prefix (p # ps) (c # cs) = (p = c \<and> is_prefix ps cs)"

text \<open>\<open>(int) s.find(p)\<close>: the first position, -1 where \<open>npos\<close> is converted to \<open>int\<close>.\<close>

fun find_from :: "int \<Rightarrow> string \<Rightarrow> string \<Rightarrow> int" where
  "find_from i p [] = (if p = [] then i else -1)"
| "find_from i p (c # cs) = (if is_prefix p (c # cs) then i else find_from (i + 1) p cs)"

definition str_find :: "string \<Rightarrow> string \<Rightarrow> int" where
  "str_find s p = find_from 0 p s"

section \<open>Facts\<close>

lemma cstr_no_nul [simp]: "NUL \<notin> set (cstr b)"
  by (auto simp: cstr_def dest: set_takeWhileD)

lemma cstr_id: "NUL \<notin> set s \<Longrightarrow> cstr s = s"
  by (auto simp: cstr_def intro: takeWhile_id)

lemma cstr_cstr [simp]: "cstr (cstr b) = cstr b"
  by (simp add: cstr_id)

lemma cstr_append_nul: "NUL \<notin> set s \<Longrightarrow> cstr (s @ NUL # t) = s"
  by (auto simp: cstr_def intro: takeWhile_stop)

lemma length_cstr_le: "length (cstr b) \<le> length b"
  by (simp add: cstr_def length_takeWhile_le)

lemma length_buf_fill [simp]: "length d \<le> length b \<Longrightarrow> length (buf_fill b d) = length b"
  by (simp add: buf_fill_def)

lemma chomp_takeWhile: "chomp s = takeWhile (\<lambda>c. c \<noteq> CR \<and> c \<noteq> LF) s"
  by (simp add: chomp_def strcspn_def take_length_takeWhile)

lemma length_chomp_le: "length (chomp s) \<le> length s"
  by (simp add: chomp_takeWhile length_takeWhile_le)

lemma chomp_no_eol: "CR \<notin> set (chomp s)" "LF \<notin> set (chomp s)"
  by (auto simp: chomp_takeWhile dest: set_takeWhileD)

lemma set_chomp_subset: "set (chomp s) \<subseteq> set s"
  by (auto simp: chomp_takeWhile dest: set_takeWhileD)

lemma chomp_id: "CR \<notin> set s \<Longrightarrow> LF \<notin> set s \<Longrightarrow> chomp s = s"
  by (auto simp: chomp_takeWhile intro!: takeWhile_id)

lemma chomp_append_lf: "CR \<notin> set s \<Longrightarrow> LF \<notin> set s \<Longrightarrow> chomp (s @ LF # t) = s"
  by (auto simp: chomp_takeWhile intro!: takeWhile_stop)

lemma chomp_chomp [simp]: "chomp (chomp s) = chomp s"
  by (simp add: chomp_id chomp_no_eol)

lemma length_snprintf_str: "0 < n \<Longrightarrow> length (snprintf_str n s) < n"
  by (auto simp: snprintf_str_def)

lemma snprintf_str_id: "length s < n \<Longrightarrow> snprintf_str n s = s"
  by (simp add: snprintf_str_def)

lemma strncpy_str_id: "length s \<le> n \<Longrightarrow> strncpy_str n s = s"
  by (simp add: strncpy_str_def)

lemma length_strncpy_str: "length (strncpy_str n s) \<le> n"
  by (simp add: strncpy_str_def)

lemma is_digit_char_of: "n < 10 \<Longrightarrow> is_digit (char_of (48 + n :: nat))"
  by (simp add: is_digit_def)

lemma digit_char_of: "n < 10 \<Longrightarrow> digit (char_of (48 + n :: nat)) = int n"
  by (simp add: digit_def)

lemma digits_val_append_digit:
  "(\<And>c. c \<in> set cs \<Longrightarrow> is_digit c) \<Longrightarrow> digits_val acc (cs @ ds) = digits_val (digits_val acc cs) ds"
  by (induction cs arbitrary: acc) auto

lemma show_nat_digits: "c \<in> set (show_nat n) \<Longrightarrow> is_digit c"
proof (induction n rule: show_nat.induct)
  case (1 n)
  show ?case
  proof (cases "n < 10")
    case True
    with 1(2) show ?thesis by (simp add: show_nat.simps [of n] is_digit_char_of)
  next
    case False
    with 1(2) have "c \<in> set (show_nat (n div 10)) \<or> c = char_of (48 + n mod 10)"
      by (auto simp: show_nat.simps [of n])
    then show ?thesis
      using 1(1) [OF False] is_digit_char_of [of "n mod 10"] by auto
  qed
qed

lemma show_nat_nonempty: "show_nat n \<noteq> []"
  by (simp add: show_nat.simps [of n])

lemma length_show_nat: "length (show_nat n) \<le> k" if "n < 10 ^ k" "0 < k" for k
  using that
proof (induction n arbitrary: k rule: show_nat.induct)
  case (1 n)
  show ?case
  proof (cases "n < 10")
    case True
    with 1(3) show ?thesis by (simp add: show_nat.simps [of n] Suc_le_eq)
  next
    case False
    then obtain j where k: "k = Suc j" "0 < j"
      using 1(2,3) by (cases k; cases "k - 1") auto
    have "n div 10 < 10 ^ j" using 1(2) k by (simp add: less_mult_imp_div_less mult.commute)
    with 1(1) [OF False] k False show ?thesis by (simp add: show_nat.simps [of n])
  qed
qed

lemma digits_val_show_nat: "digits_val 0 (show_nat n) = int n"
proof (induction n rule: show_nat.induct)
  case (1 n)
  show ?case
  proof (cases "n < 10")
    case True
    then show ?thesis
      by (simp add: show_nat.simps [of n] is_digit_char_of digit_char_of)
  next
    case False
    have "digits_val 0 (show_nat (n div 10) @ [char_of (48 + n mod 10)])
        = 10 * int (n div 10) + int (n mod 10)"
      using 1 [OF False] show_nat_digits
      by (simp add: digits_val_append_digit is_digit_char_of digit_char_of)
    also have "\<dots> = int n" by (simp add: zdiv_int zmod_int)
    finally show ?thesis using False by (simp add: show_nat.simps [of n])
  qed
qed

lemma digit_not_special:
  assumes "is_digit c" shows "\<not> is_space c" "c \<noteq> CHR ''-''" "c \<noteq> CHR ''+''"
  using assms by (auto simp: is_digit_def is_space_def)

text \<open>Printing a number with \<open>%d\<close> and reading it back with \<open>atoi\<close> gives the number.\<close>

lemma atoi_show_int: "atoi (show_int i) = i"
proof (cases "i < 0")
  case True
  then show ?thesis
    by (simp add: atoi_def show_int_def digits_val_show_nat is_space_def)
next
  case False
  obtain c cs where s: "show_nat (nat i) = c # cs"
    using show_nat_nonempty [of "nat i"] by (cases "show_nat (nat i)") auto
  then have "is_digit c" using show_nat_digits [of c "nat i"] by simp
  note d = digit_not_special [OF this]
  have "digits_val 0 (c # cs) = i" using digits_val_show_nat [of "nat i"] s False by simp
  with False s d show ?thesis by (simp add: atoi_def show_int_def)
qed

lemma strtok_none: "dropWhile (\<lambda>c. c \<in> set ds) s = [] \<Longrightarrow> strtok s ds = (None, [])"
  by (simp add: strtok_def)

text \<open>A token followed by a delimiter is cut off; the saved position is what follows.\<close>

lemma strtok_split:
  assumes "s \<noteq> []" and "\<And>c. c \<in> set s \<Longrightarrow> c \<notin> set ds" and "d \<in> set ds"
  shows "strtok (s @ d # t) ds = (Some s, t)"
proof -
  have dw: "dropWhile (\<lambda>c. c \<in> set ds) (s @ d # t) = s @ d # t"
    using assms(1,2) by (cases s) auto
  have "takeWhile (\<lambda>c. c \<notin> set ds) (s @ d # t) = s"
    using assms(2,3) by (intro takeWhile_stop) auto
  moreover have "dropWhile (\<lambda>c. c \<notin> set ds) (s @ d # t) = d # t"
    using assms(2,3) by (simp add: dropWhile_append)
  ultimately show ?thesis by (simp add: strtok_def dw)
qed

lemma strtok_whole:
  assumes "s \<noteq> []" and "\<And>c. c \<in> set s \<Longrightarrow> c \<notin> set ds"
  shows "strtok s ds = (Some s, [])"
proof -
  have a: "dropWhile (\<lambda>c. c \<in> set ds) s = s"
    using assms by (cases s) auto
  have b: "dropWhile (\<lambda>c. c \<notin> set ds) s = []"
    using assms(2) by (simp add: dropWhile_eq_Nil_conv)
  have c: "takeWhile (\<lambda>c. c \<notin> set ds) s = s"
    using assms(2) by (auto intro: takeWhile_id)
  show ?thesis unfolding strtok_def Let_def a b c using assms(1) by simp
qed

lemma strtok_no_delims: "strtok s [] = (if s = [] then (None, []) else (Some s, []))"
  using strtok_whole [of s "[]"] by (auto simp: strtok_def)

lemma is_prefix_append: "is_prefix p (p @ s)"
  by (induction p) auto

lemma is_prefix_iff: "is_prefix p s \<longleftrightarrow> (\<exists>t. s = p @ t)"
  by (induction p s rule: is_prefix.induct) auto

lemma find_from_ge: "find_from i p s = -1 \<or> i \<le> find_from i p s"
  by (induction i p s rule: find_from.induct) force+

lemma find_from_found: "0 \<le> i \<Longrightarrow> find_from i p (a @ p @ b) \<noteq> -1"
proof (induction a arbitrary: i)
  case Nil
  then show ?case
    using is_prefix_append [of p b] by (cases "p @ b") auto
next
  case (Cons c a)
  then show ?case by simp
qed

lemma find_from_not_found: "0 \<le> i \<Longrightarrow> find_from i p s \<noteq> -1 \<Longrightarrow> \<exists>a b. s = a @ p @ b"
proof (induction i p s rule: find_from.induct)
  case (1 i p)
  then show ?case by (auto split: if_splits)
next
  case (2 i p c cs)
  show ?case
  proof (cases "is_prefix p (c # cs)")
    case True
    then show ?thesis by (metis append_Nil is_prefix_iff)
  next
    case False
    with 2 obtain a b where "cs = a @ p @ b" by auto
    then have "c # cs = (c # a) @ p @ b" by simp
    then show ?thesis by blast
  qed
qed

text \<open>\<open>find\<close> returns \<open>npos\<close> exactly where the pattern does not occur.\<close>

lemma str_find_iff: "str_find s p \<noteq> -1 \<longleftrightarrow> (\<exists>a b. s = a @ p @ b)"
  using find_from_found [of 0 p] find_from_not_found [of 0 p s] by (auto simp: str_find_def)

lemmas [cstr_simps] =
  cstr_def chomp_takeWhile strncmp_eq_def strncasecmp_eq_def strncpy_str_def snprintf_str_def
  is_space_def is_digit_def digit_def to_lower_def buf_fill_def

end
