(* ===== verification/Posix.thy ===== *)
theory Posix
  imports CString "HOL-Library.Word"
begin

text \<open>
  The process model. A program is a function on a \<open>world\<close>: the behaviour of its environment
  still to come (\<open>w_oracle\<close>), the system calls it has completed so far (\<open>w_calls\<close>), \<open>errno\<close>, the
  debug level all programs have, its own globals (\<open>w_priv\<close>) and the kernel objects it shares with
  other processes (\<open>w_kern\<close>): semaphores, shared memory objects and message queues, each with a
  directory of names.

  Every call that can block, fail or return data consumes one entry of the oracle; a theorem for
  all worlds is a theorem for all behaviours of the environment. An entry also says, optionally,
  what the other processes have made of the kernel objects by the time the call returns, so that
  interference can happen at every such call. When the oracle is used up the process waits in
  that call (\<open>Blocked\<close>). Calls whose result the programs ignore only extend the trace.

  \<open>fork\<close> returns what the oracle says, so a run follows either the parent or the child.
\<close>

section \<open>Calls, results, worlds\<close>

text \<open>A call is answered with a number, with bytes, by failing with an \<open>errno\<close>, with the two \<open>POLLIN\<close>
  flags, an address, the two ends of a pipe, with what \<open>stat\<close> says (a directory or not, and the size),
  or with \<open>POLLIN\<close> and \<open>POLLHUP | POLLERR\<close> of each of many descriptors.\<close>

datatype sysret = Ret int | Data string | Fail nat | Ready bool bool | Addr string int
  | Fds int int | Stat bool int | Events "(bool \<times> bool) list"

datatype (plugins only: code size) call =
    CPoll "int list" | CRead int nat | CWrite int string | CClose int
  | COpen string | CLseek int int | CStat string | CAccess string nat
  | CSocket | CSetsockopt int | CBind int "16 word" | CListen int nat | CAccept int
  | CGetaddrinfo string | CConnect int "16 word" | CGetsockname int | CGetpeername int
  | CFork | CExec string "string list" | CWaitpid int | CDup2 int int | CPipe
  | CSemOpen string nat | CSemInit nat nat | CSemWait nat | CSemTimedwait nat | CSemPost nat
  | CSemGetvalue nat | CSemClose nat | CSemUnlink string
  | CShmget | CShmat int | CShmOpen string bool | CFtruncate int | CMmap int | CMunmap nat | CShmUnlink string
  | CMqOpen string bool | CMqSend nat string | CMqReceive nat | CMqClose nat | CMqUnlink string
  | CUsleep int | CClock | CSignal | CCondWait nat | CCondSignal nat | CThread string | CThreadCancel | CThreadJoin
  | CChmod string nat | CUnlink string | CGetpid
  | CLog int string | CPrint string

datatype 'a res = Val 'a | Exit int | Blocked | Fuel | UB

abbreviation EINTR :: nat where "EINTR \<equiv> 4"
abbreviation ETIMEDOUT :: nat where "ETIMEDOUT \<equiv> 110"

abbreviation STDIN_FILENO :: int where "STDIN_FILENO \<equiv> 0"
abbreviation STDOUT_FILENO :: int where "STDOUT_FILENO \<equiv> 1"
abbreviation STDERR_FILENO :: int where "STDERR_FILENO \<equiv> 2"

record 'm kernel =
  k_sem :: "nat \<Rightarrow> nat"
  k_sem_dir :: "string \<Rightarrow> nat option"
  k_sem_next :: nat
  k_shm :: "nat \<Rightarrow> 'm"
  k_shm_dir :: "string \<Rightarrow> nat option"
  k_shm_next :: nat
  k_mq :: "nat \<Rightarrow> string list"
  k_mq_dir :: "string \<Rightarrow> nat option"
  k_mq_next :: nat

type_synonym 'm entry = "'m kernel option \<times> sysret"

record ('p, 'm) world =
  w_oracle :: "'m entry list"
  w_calls :: "call list"
  w_errno :: nat
  w_debug :: int
  w_priv :: 'p
  w_kern :: "'m kernel"

type_synonym ('a, 'p, 'm) io = "('p, 'm) world \<Rightarrow> 'a res \<times> ('p, 'm) world"

section \<open>Sequencing\<close>

definition io_ret :: "'a \<Rightarrow> ('a, 'p, 'm) io" where
  "io_ret a w = (Val a, w)"

definition io_exit :: "int \<Rightarrow> ('a, 'p, 'm) io" where
  "io_exit c w = (Exit c, w)"

text \<open>Undefined behaviour: a write outside a buffer, a use of a null pointer, an overflow.\<close>

definition io_ub :: "('a, 'p, 'm) io" where
  "io_ub w = (UB, w)"

definition io_bind :: "('a, 'p, 'm) io \<Rightarrow> ('a \<Rightarrow> ('b, 'p, 'm) io) \<Rightarrow> ('b, 'p, 'm) io" where
  "io_bind m f w = (case m w of
      (Val a, w') \<Rightarrow> f a w'
    | (Exit c, w') \<Rightarrow> (Exit c, w')
    | (Blocked, w') \<Rightarrow> (Blocked, w')
    | (Fuel, w') \<Rightarrow> (Fuel, w')
    | (UB, w') \<Rightarrow> (UB, w'))"

definition io_seq :: "('a, 'p, 'm) io \<Rightarrow> ('b, 'p, 'm) io \<Rightarrow> ('b, 'p, 'm) io" where
  "io_seq m k = io_bind m (\<lambda>_. k)"

fun io_block :: "(unit, 'p, 'm) io list \<Rightarrow> (unit, 'p, 'm) io" where
  "io_block [] = io_ret ()"
| "io_block (m # ms) = io_seq m (io_block ms)"

definition io_when :: "bool \<Rightarrow> (unit, 'p, 'm) io \<Rightarrow> (unit, 'p, 'm) io" where
  "io_when b m = (if b then m else io_ret ())"

section \<open>State of the process\<close>

definition get_priv :: "('p \<Rightarrow> 'a) \<Rightarrow> ('a, 'p, 'm) io" where
  "get_priv f w = (Val (f (w_priv w)), w)"

definition upd_priv :: "('p \<Rightarrow> 'p) \<Rightarrow> (unit, 'p, 'm) io" where
  "upd_priv f w = (Val (), w\<lparr>w_priv := f (w_priv w)\<rparr>)"

definition get_errno :: "(nat, 'p, 'm) io" where
  "get_errno w = (Val (w_errno w), w)"

definition get_kern :: "('m kernel \<Rightarrow> 'a) \<Rightarrow> ('a, 'p, 'm) io" where
  "get_kern f w = (Val (f (w_kern w)), w)"

definition upd_kern :: "('m kernel \<Rightarrow> 'm kernel) \<Rightarrow> (unit, 'p, 'm) io" where
  "upd_kern f w = (Val (), w\<lparr>w_kern := f (w_kern w)\<rparr>)"

definition set_errno :: "nat \<Rightarrow> (unit, 'p, 'm) io" where
  "set_errno e w = (Val (), w\<lparr>w_errno := e\<rparr>)"

section \<open>System calls\<close>

definition emit :: "call \<Rightarrow> (unit, 'p, 'm) io" where
  "emit c w = (Val (), w\<lparr>w_calls := w_calls w @ [c]\<rparr>)"

definition pop :: "call \<Rightarrow> (sysret, 'p, 'm) io" where
  "pop c w = (case w_oracle w of
      [] \<Rightarrow> (Blocked, w)
    | (e, r) # os \<Rightarrow> (Val r, w\<lparr>w_oracle := os, w_calls := w_calls w @ [c],
          w_kern := (case e of None \<Rightarrow> w_kern w | Some k \<Rightarrow> k)\<rparr>))"

text \<open>A call with an integer result; a failure sets \<open>errno\<close> and returns -1.\<close>

definition sys_int :: "call \<Rightarrow> (int, 'p, 'm) io" where
  "sys_int c = io_bind (pop c) (\<lambda>r. case r of
      Ret i \<Rightarrow> io_ret i
    | Fail e \<Rightarrow> io_seq (set_errno e) (io_ret (-1))
    | _ \<Rightarrow> io_ret (-1))"

text \<open>\<open>read(fd, buf, n)\<close>: the count and the bytes, 0 at the end of input, -1 for a failure.\<close>

definition sys_read :: "int \<Rightarrow> nat \<Rightarrow> (int \<times> string, 'p, 'm) io" where
  "sys_read fd n = io_bind (pop (CRead fd n)) (\<lambda>r. case r of
      Data s \<Rightarrow> io_ret (int (length (take n s)), take n s)
    | Fail e \<Rightarrow> io_seq (set_errno e) (io_ret (-1, []))
    | _ \<Rightarrow> io_ret (-1, []))"

text \<open>\<open>poll\<close> on two descriptors without time limit: the count and the two \<open>POLLIN\<close> flags.\<close>

definition sys_poll :: "int list \<Rightarrow> (int \<times> bool \<times> bool, 'p, 'm) io" where
  "sys_poll fds = io_bind (pop (CPoll fds)) (\<lambda>r. case r of
      Ready a b \<Rightarrow> io_ret (of_bool a + of_bool b, a, b)
    | Fail e \<Rightarrow> io_seq (set_errno e) (io_ret (-1, False, False))
    | _ \<Rightarrow> io_ret (-1, False, False))"

text \<open>\<open>getsockname\<close>, \<open>getpeername\<close>: a dotted quad and a port; a failure leaves the old address.\<close>

definition sys_addr :: "call \<Rightarrow> string \<times> int \<Rightarrow> (string \<times> int, 'p, 'm) io" where
  "sys_addr c old = io_bind (pop c) (\<lambda>r. case r of
      Addr ip p \<Rightarrow> io_ret (take 15 ip, p mod 65536)
    | Fail e \<Rightarrow> io_seq (set_errno e) (io_ret old)
    | _ \<Rightarrow> io_ret old)"

section \<open>Semaphores\<close>

definition sem_new :: "nat \<Rightarrow> 'm kernel \<Rightarrow> 'm kernel" where
  "sem_new v k = k\<lparr>k_sem := (k_sem k)(k_sem_next k := v), k_sem_next := Suc (k_sem_next k)\<rparr>"

text \<open>\<open>sem_open(name, O_CREAT, mode, v)\<close>: an existing semaphore keeps its value.\<close>

definition sem_open :: "string \<Rightarrow> nat \<Rightarrow> (nat option, 'p, 'm) io" where
  "sem_open nm v = io_bind (pop (CSemOpen nm v)) (\<lambda>r. case r of
      Fail e \<Rightarrow> io_seq (set_errno e) (io_ret None)
    | _ \<Rightarrow> io_bind (get_kern (\<lambda>k. k_sem_dir k nm)) (\<lambda>d. case d of
          Some h \<Rightarrow> io_ret (Some h)
        | None \<Rightarrow> io_bind (get_kern k_sem_next) (\<lambda>h.
            io_seq (upd_kern (\<lambda>k. (sem_new v k)\<lparr>k_sem_dir := (k_sem_dir k)(nm := Some h)\<rparr>))
              (io_ret (Some h)))))"

definition sem_unlink :: "string \<Rightarrow> (unit, 'p, 'm) io" where
  "sem_unlink nm = io_seq (upd_kern (\<lambda>k. k\<lparr>k_sem_dir := (k_sem_dir k)(nm := None)\<rparr>)) (emit (CSemUnlink nm))"

definition sem_init :: "nat \<Rightarrow> nat \<Rightarrow> (unit, 'p, 'm) io" where
  "sem_init h v = io_seq (upd_kern (\<lambda>k. k\<lparr>k_sem := (k_sem k)(h := v)\<rparr>)) (emit (CSemInit h v))"

definition sem_close :: "nat \<Rightarrow> (unit, 'p, 'm) io" where
  "sem_close h = emit (CSemClose h)"

definition sem_down :: "nat \<Rightarrow> (int, 'p, 'm) io" where
  "sem_down h w = (if 0 < k_sem (w_kern w) h
     then (Val 0, w\<lparr>w_kern := (w_kern w)\<lparr>k_sem := (k_sem (w_kern w))(h := k_sem (w_kern w) h - 1)\<rparr>\<rparr>)
     else (Blocked, w))"

definition sem_wait :: "nat \<Rightarrow> (int, 'p, 'm) io" where
  "sem_wait h = io_bind (pop (CSemWait h)) (\<lambda>r. case r of
      Fail e \<Rightarrow> io_seq (set_errno e) (io_ret (-1))
    | _ \<Rightarrow> sem_down h)"

definition sem_timedwait :: "nat \<Rightarrow> (int, 'p, 'm) io" where
  "sem_timedwait h = io_bind (pop (CSemTimedwait h)) (\<lambda>r. case r of
      Fail e \<Rightarrow> io_seq (set_errno e) (io_ret (-1))
    | _ \<Rightarrow> sem_down h)"

definition sem_post :: "nat \<Rightarrow> (unit, 'p, 'm) io" where
  "sem_post h = io_seq (upd_kern (\<lambda>k. k\<lparr>k_sem := (k_sem k)(h := Suc (k_sem k h))\<rparr>)) (emit (CSemPost h))"

section \<open>Shared memory and message queues\<close>

text \<open>The number of an object stands for its descriptor; -1 is the failed open.\<close>

definition shm_open :: "string \<Rightarrow> bool \<Rightarrow> 'm \<Rightarrow> (int, 'p, 'm) io" where
  "shm_open nm creat zero = io_bind (pop (CShmOpen nm creat)) (\<lambda>r. case r of
      Fail e \<Rightarrow> io_seq (set_errno e) (io_ret (-1))
    | _ \<Rightarrow> io_bind (get_kern (\<lambda>k. k_shm_dir k nm)) (\<lambda>d. case d of
          Some h \<Rightarrow> io_ret (int h)
        | None \<Rightarrow> if creat then io_bind (get_kern k_shm_next) (\<lambda>h.
              io_seq (upd_kern (\<lambda>k. k\<lparr>k_shm := (k_shm k)(h := zero), k_shm_next := Suc h,
                    k_shm_dir := (k_shm_dir k)(nm := Some h)\<rparr>))
                (io_ret (int h)))
            else io_seq (set_errno 2) (io_ret (-1))))"

definition shm_unlink :: "string \<Rightarrow> (unit, 'p, 'm) io" where
  "shm_unlink nm = io_seq (upd_kern (\<lambda>k. k\<lparr>k_shm_dir := (k_shm_dir k)(nm := None)\<rparr>)) (emit (CShmUnlink nm))"

text \<open>\<open>mmap\<close> of a shared memory object: \<open>None\<close> is \<open>MAP_FAILED\<close>.\<close>

definition sys_mmap :: "int \<Rightarrow> (nat option, 'p, 'm) io" where
  "sys_mmap fd = io_bind (pop (CMmap fd)) (\<lambda>r. case r of
      Fail e \<Rightarrow> io_seq (set_errno e) (io_ret None)
    | _ \<Rightarrow> io_ret (Some (nat fd)))"

definition mem_get :: "nat \<Rightarrow> ('m \<Rightarrow> 'a) \<Rightarrow> ('a, 'p, 'm) io" where
  "mem_get h f = get_kern (\<lambda>k. f (k_shm k h))"

definition mem_upd :: "nat \<Rightarrow> ('m \<Rightarrow> 'm) \<Rightarrow> (unit, 'p, 'm) io" where
  "mem_upd h f = upd_kern (\<lambda>k. k\<lparr>k_shm := (k_shm k)(h := f (k_shm k h))\<rparr>)"

definition mq_open :: "string \<Rightarrow> bool \<Rightarrow> (int, 'p, 'm) io" where
  "mq_open nm creat = io_bind (pop (CMqOpen nm creat)) (\<lambda>r. case r of
      Fail e \<Rightarrow> io_seq (set_errno e) (io_ret (-1))
    | _ \<Rightarrow> io_bind (get_kern (\<lambda>k. k_mq_dir k nm)) (\<lambda>d. case d of
          Some h \<Rightarrow> io_ret (int h)
        | None \<Rightarrow> if creat then io_bind (get_kern k_mq_next) (\<lambda>h.
              io_seq (upd_kern (\<lambda>k. k\<lparr>k_mq := (k_mq k)(h := []), k_mq_next := Suc h,
                    k_mq_dir := (k_mq_dir k)(nm := Some h)\<rparr>))
                (io_ret (int h)))
            else io_seq (set_errno 2) (io_ret (-1))))"

definition mq_unlink :: "string \<Rightarrow> (unit, 'p, 'm) io" where
  "mq_unlink nm = io_seq (upd_kern (\<lambda>k. k\<lparr>k_mq_dir := (k_mq_dir k)(nm := None)\<rparr>)) (emit (CMqUnlink nm))"

text \<open>\<open>mq_send\<close> waits while the queue holds \<open>maxmsg\<close> messages; \<open>mq_receive\<close> waits while it is empty.\<close>

definition mq_send :: "int \<Rightarrow> nat \<Rightarrow> string \<Rightarrow> (int, 'p, 'm) io" where
  "mq_send q maxmsg m = io_bind (pop (CMqSend (nat q) m)) (\<lambda>r. case r of
      Fail e \<Rightarrow> io_seq (set_errno e) (io_ret (-1))
    | _ \<Rightarrow> (\<lambda>w. if length (k_mq (w_kern w) (nat q)) < maxmsg
        then (Val 0, w\<lparr>w_kern := (w_kern w)\<lparr>k_mq := (k_mq (w_kern w))(nat q := k_mq (w_kern w) (nat q) @ [m])\<rparr>\<rparr>)
        else (Blocked, w)))"

definition mq_receive :: "int \<Rightarrow> (int \<times> string, 'p, 'm) io" where
  "mq_receive q = io_bind (pop (CMqReceive (nat q))) (\<lambda>r. case r of
      Fail e \<Rightarrow> io_seq (set_errno e) (io_ret (-1, []))
    | _ \<Rightarrow> (\<lambda>w. case k_mq (w_kern w) (nat q) of
        [] \<Rightarrow> (Blocked, w)
      | m # ms \<Rightarrow> (Val (int (length m), m),
          w\<lparr>w_kern := (w_kern w)\<lparr>k_mq := (k_mq (w_kern w))(nat q := ms)\<rparr>\<rparr>)))"

section \<open>Evaluation\<close>

lemma io_bind_simps [io_simps]:
  "m w = (Val a, w') \<Longrightarrow> io_bind m f w = f a w'"
  "m w = (Exit c, w') \<Longrightarrow> io_bind m f w = (Exit c, w')"
  "m w = (Blocked, w') \<Longrightarrow> io_bind m f w = (Blocked, w')"
  "m w = (Fuel, w') \<Longrightarrow> io_bind m f w = (Fuel, w')"
  "m w = (UB, w') \<Longrightarrow> io_bind m f w = (UB, w')"
  by (simp_all add: io_bind_def)

text \<open>A condition \<open>False = ?a\<close> is simplified before it is solved, hence the case of its own.\<close>

lemma io_bind_False [io_simps]: "m w = (Val False, w') \<Longrightarrow> io_bind m f w = f False w'"
  by (simp add: io_bind_def)

lemma io_basic_simps [io_simps]:
  "io_bind (io_ret a) f = f a"
  "io_bind (io_exit c) f = io_exit c"
  "io_bind io_ub f = io_ub"
  "io_ret a w = (Val a, w)"
  "io_exit c w = (Exit c, w)"
  "io_ub w = (UB, w)"
  by (auto simp: io_bind_def io_ret_def io_exit_def io_ub_def fun_eq_iff)

lemma io_bind_assoc: "io_bind (io_bind m f) g = io_bind m (\<lambda>a. io_bind (f a) g)"
  by (auto simp: io_bind_def fun_eq_iff split: res.splits prod.splits)

lemma io_bind_ret: "io_bind m io_ret = m"
  by (auto simp: io_bind_def io_ret_def fun_eq_iff split: res.splits prod.splits)

lemma io_when_simps [io_simps]:
  "io_when True m = m"
  "io_when False m = io_ret ()"
  by (simp_all add: io_when_def)

lemmas [io_simps] =
  io_seq_def get_priv_def upd_priv_def get_errno_def get_kern_def upd_kern_def set_errno_def
  emit_def pop_def sys_int_def sys_read_def sys_poll_def sys_addr_def
  sem_open_def sem_unlink_def sem_init_def sem_close_def sem_down_def sem_wait_def
  sem_timedwait_def sem_post_def sem_new_def shm_open_def shm_unlink_def sys_mmap_def
  mem_get_def mem_upd_def mq_open_def mq_unlink_def mq_send_def mq_receive_def

end
