(* ===== verification/Run.thy ===== *)
theory Run
  imports Posix
begin

text \<open>
  Runs of the process model. A piece of code \<open>extends\<close> the world when it only appends to the
  trace of calls and only consumes the front of the oracle; it \<open>uses\<close> the oracle when it cannot
  return without consuming an entry. An event loop whose body has both properties is the fixed
  point of its own unfolding and never runs out of the fuel the model gives it: the loop goes on
  as long as the environment has events, and then waits.
\<close>

section \<open>Code only extends the trace\<close>

definition grows :: "('p, 'm) world \<Rightarrow> ('p, 'm) world \<Rightarrow> bool" where
  "grows w w' \<longleftrightarrow> (\<exists>cs. w_calls w' = w_calls w @ cs) \<and> (\<exists>os. w_oracle w = os @ w_oracle w')"

definition extends :: "('a, 'p, 'm) io \<Rightarrow> bool" where
  "extends m \<longleftrightarrow> (\<forall>w. grows w (snd (m w)))"

definition uses :: "('a, 'p, 'm) io \<Rightarrow> bool" where
  "uses m \<longleftrightarrow> (\<forall>w a w'. m w = (Val a, w') \<longrightarrow> length (w_oracle w') < length (w_oracle w))"

definition terminates :: "('a, 'p, 'm) io \<Rightarrow> bool" where
  "terminates m \<longleftrightarrow> (\<forall>w. fst (m w) \<noteq> Fuel)"

text \<open>The three together: what every loop-free piece of code of the programs has.\<close>

definition sane :: "('a, 'p, 'm) io \<Rightarrow> bool" where
  "sane m \<longleftrightarrow> extends m \<and> terminates m"

lemma grows_refl [simp]: "grows w w"
  by (simp add: grows_def)

lemma grows_trans: "grows u v \<Longrightarrow> grows v w \<Longrightarrow> grows u w"
  by (fastforce simp: grows_def)

lemma grows_oracle: "grows w w' \<Longrightarrow> length (w_oracle w') \<le> length (w_oracle w)"
  by (auto simp: grows_def)

lemma sane_ret [ext_intros]: "sane (io_ret a)"
  by (simp add: sane_def extends_def terminates_def io_ret_def)

lemma sane_exit [ext_intros]: "sane (io_exit c)"
  by (simp add: sane_def extends_def terminates_def io_exit_def)

lemma sane_ub [ext_intros]: "sane io_ub"
  by (simp add: sane_def extends_def terminates_def io_ub_def)

lemma sane_bind [ext_intros]:
  assumes "sane m" and "\<And>a. sane (f a)"
  shows "sane (io_bind m f)"
proof -
  have "grows w (snd (io_bind m f w)) \<and> fst (io_bind m f w) \<noteq> Fuel" for w
  proof (cases "m w")
    case (Pair r w')
    then have g: "grows w w'" and nf: "r \<noteq> Fuel"
      using assms(1) unfolding sane_def extends_def terminates_def by (metis snd_conv, metis fst_conv)
    show ?thesis
    proof (cases r)
      case (Val a)
      then have "grows w' (snd (f a w'))" "fst (f a w') \<noteq> Fuel"
        using assms(2) [of a] by (auto simp: sane_def extends_def terminates_def)
      with Pair Val g show ?thesis by (auto simp: io_bind_def intro: grows_trans)
    qed (use Pair g nf in \<open>auto simp: io_bind_def\<close>)
  qed
  then show ?thesis by (simp add: sane_def extends_def terminates_def)
qed

lemma sane_seq [ext_intros]: "sane m \<Longrightarrow> sane k \<Longrightarrow> sane (io_seq m k)"
  unfolding io_seq_def by (rule sane_bind)

lemma sane_block [ext_intros]:
  "sane (io_block [])"
  "sane m \<Longrightarrow> sane (io_block ms) \<Longrightarrow> sane (io_block (m # ms))"
  by (simp_all add: sane_ret sane_seq)

lemma sane_if [ext_intros]: "sane a \<Longrightarrow> sane b \<Longrightarrow> sane (if c then a else b)"
  by simp

lemma sane_when [ext_intros]: "sane a \<Longrightarrow> sane (io_when c a)"
  by (cases c) (auto simp: io_simps intro: ext_intros)

lemma sane_let [ext_intros]: "(\<And>a. sane (f a)) \<Longrightarrow> sane (Let x f)"
  by simp

lemma sane_case_option [ext_intros]:
  "sane a \<Longrightarrow> (\<And>x. sane (f x)) \<Longrightarrow> sane (case x of None \<Rightarrow> a | Some x \<Rightarrow> f x)"
  by (cases x) auto

lemma sane_case_prod [ext_intros]: "(\<And>a b. sane (f a b)) \<Longrightarrow> sane (case x of (a, b) \<Rightarrow> f a b)"
  by (cases x) auto

lemma sane_case_sysret [ext_intros]:
  "(\<And>i. sane (f i)) \<Longrightarrow> (\<And>s. sane (g s)) \<Longrightarrow> (\<And>e. sane (h e)) \<Longrightarrow> (\<And>a b. sane (k a b)) \<Longrightarrow>
   (\<And>s p. sane (l s p)) \<Longrightarrow> (\<And>a b. sane (m a b)) \<Longrightarrow> (\<And>a b. sane (n a b)) \<Longrightarrow>
   (\<And>es. sane (ev es)) \<Longrightarrow>
   sane (case x of Ret i \<Rightarrow> f i | Data s \<Rightarrow> g s | Fail e \<Rightarrow> h e | Ready a b \<Rightarrow> k a b | Addr s p \<Rightarrow> l s p
     | Fds a b \<Rightarrow> m a b | Stat a b \<Rightarrow> n a b | Events es \<Rightarrow> ev es)"
  by (cases x) auto

lemma sane_case_sum [ext_intros]:
  "(\<And>x. sane (f x)) \<Longrightarrow> (\<And>y. sane (g y)) \<Longrightarrow> sane (case x of Inl x \<Rightarrow> f x | Inr y \<Rightarrow> g y)"
  by (cases x) auto

lemma sane_case_list [ext_intros]:
  "sane a \<Longrightarrow> (\<And>y ys. sane (f y ys)) \<Longrightarrow> sane (case x of [] \<Rightarrow> a | y # ys \<Rightarrow> f y ys)"
  by (cases x) auto

lemma sane_state [ext_intros]:
  "sane (get_priv f)" "sane (upd_priv g)" "sane get_errno" "sane (get_kern h)" "sane (upd_kern k)"
  "sane (set_errno e)" "sane (emit c)"
  by (simp_all add: sane_def extends_def terminates_def grows_def get_priv_def upd_priv_def
      get_errno_def get_kern_def upd_kern_def set_errno_def emit_def)

lemma sane_pop [ext_intros]: "sane (pop c)"
  by (auto simp: sane_def extends_def terminates_def grows_def pop_def split: list.splits)

lemma sane_sem_down [ext_intros]: "sane (sem_down h)"
  by (simp add: sane_def extends_def terminates_def grows_def sem_down_def)

lemma sane_sys [ext_intros]:
  "sane (sys_int c)" "sane (sys_read fd n)" "sane (sys_poll fds)" "sane (sys_addr c old)"
  unfolding sys_int_def sys_read_def sys_poll_def sys_addr_def by (intro ext_intros)+

lemma sane_sem [ext_intros]:
  "sane (sem_open nm v)" "sane (sem_unlink nm)" "sane (sem_init h v)" "sane (sem_close h)"
  "sane (sem_wait h)" "sane (sem_timedwait h)" "sane (sem_post h)"
  unfolding sem_open_def sem_unlink_def sem_init_def sem_close_def sem_wait_def sem_timedwait_def
    sem_post_def
  by (intro ext_intros)+

lemma sane_shm [ext_intros]:
  "sane (shm_open nm b z)" "sane (shm_unlink nm)" "sane (sys_mmap fd)" "sane (mem_get h g)" "sane (mem_upd h f)"
  unfolding shm_open_def shm_unlink_def sys_mmap_def mem_get_def mem_upd_def
  by (intro ext_intros)+

lemma sane_mq_send_body: "sane (\<lambda>w. if P w then (Val v, w\<lparr>w_kern := f w\<rparr>) else (Blocked, w))"
  by (simp add: sane_def extends_def terminates_def grows_def)

lemma sane_mq_receive_body:
  "sane (\<lambda>w. case q w of [] \<Rightarrow> (Blocked, w) | m # ms \<Rightarrow> (Val (g m), w\<lparr>w_kern := f w ms\<rparr>))"
  by (auto simp: sane_def extends_def terminates_def grows_def split: list.splits)

lemma sane_mq [ext_intros]:
  "sane (mq_open nm b)" "sane (mq_unlink nm)" "sane (mq_send q n m)" "sane (mq_receive q)"
  unfolding mq_open_def mq_unlink_def mq_send_def mq_receive_def
  by (intro ext_intros sane_mq_send_body sane_mq_receive_body)+

section \<open>Code that consumes an event\<close>

lemma usesD: "uses m \<Longrightarrow> m w = (Val a, w') \<Longrightarrow> length (w_oracle w') < length (w_oracle w)"
  by (auto simp: uses_def)

lemma uses_exit: "uses (io_exit c)"
  by (simp add: uses_def io_exit_def)

lemma uses_ub: "uses io_ub"
  by (simp add: uses_def io_ub_def)

lemma uses_pop: "uses (pop c)"
  by (auto simp: uses_def pop_def split: list.splits)

lemma uses_bind_first:
  assumes "uses m" and "\<And>a. sane (f a)"
  shows "uses (io_bind m f)"
  unfolding uses_def
proof (intro allI impI)
  fix w b w''
  assume r: "io_bind m f w = (Val b, w'')"
  then obtain a w' where m: "m w = (Val a, w')" and f: "f a w' = (Val b, w'')"
    by (auto simp: io_bind_def split: prod.splits res.splits)
  have "length (w_oracle w') < length (w_oracle w)"
    using assms(1) m by (auto simp: uses_def)
  moreover have "grows w' w''"
    using assms(2) [of a] f unfolding sane_def extends_def by (metis snd_conv)
  ultimately show "length (w_oracle w'') < length (w_oracle w)"
    using grows_oracle by fastforce
qed

lemma uses_bind_second:
  assumes "sane m" and "\<And>a. uses (f a)"
  shows "uses (io_bind m f)"
  unfolding uses_def
proof (intro allI impI)
  fix w b w''
  assume r: "io_bind m f w = (Val b, w'')"
  then obtain a w' where m: "m w = (Val a, w')" and f: "f a w' = (Val b, w'')"
    by (auto simp: io_bind_def split: prod.splits res.splits)
  have "grows w w'"
    using assms(1) m unfolding sane_def extends_def by (metis snd_conv)
  then have "length (w_oracle w') \<le> length (w_oracle w)" by (rule grows_oracle)
  moreover have "length (w_oracle w'') < length (w_oracle w')"
    using assms(2) [of a] f by (auto simp: uses_def)
  ultimately show "length (w_oracle w'') < length (w_oracle w)" by simp
qed

lemma uses_if: "uses a \<Longrightarrow> uses b \<Longrightarrow> uses (if c then a else b)"
  by simp

lemma uses_seq_first: "uses m \<Longrightarrow> sane k \<Longrightarrow> uses (io_seq m k)"
  unfolding io_seq_def by (rule uses_bind_first)

lemma uses_sys: "uses (sys_int c)" "uses (sys_read fd n)" "uses (sys_poll fds)" "uses (sys_addr c old)"
  unfolding sys_int_def sys_read_def sys_poll_def sys_addr_def
  by (rule uses_bind_first [OF uses_pop], intro ext_intros)+

lemma uses_sem: "uses (sem_wait h)" "uses (sem_timedwait h)" "uses (sem_open nm v)"
  unfolding sem_wait_def sem_timedwait_def sem_open_def
  by (rule uses_bind_first [OF uses_pop], intro ext_intros)+

section \<open>Loops\<close>

text \<open>\<open>while (1)\<close>: the body says whether to go on (\<open>Inl\<close>) or to leave the loop (\<open>Inr\<close>).\<close>

fun io_loop :: "nat \<Rightarrow> ('s \<Rightarrow> ('s + 'a, 'p, 'm) io) \<Rightarrow> 's \<Rightarrow> ('a, 'p, 'm) io" where
  "io_loop 0 body s w = (Fuel, w)"
| "io_loop (Suc n) body s w =
     io_bind (body s) (\<lambda>r. case r of Inl s' \<Rightarrow> io_loop n body s' | Inr a \<Rightarrow> io_ret a) w"

text \<open>One round for each event still to come, and one more to find that there is none.\<close>

definition io_while :: "('s \<Rightarrow> ('s + 'a, 'p, 'm) io) \<Rightarrow> 's \<Rightarrow> ('a, 'p, 'm) io" where
  "io_while body s w = io_loop (Suc (length (w_oracle w))) body s w"

text \<open>
  A loop that goes round again only after it has consumed an entry of the oracle cannot run out of
  the fuel of \<open>io_while\<close>.
\<close>

locale bounded_loop =
  fixes body :: "'s \<Rightarrow> ('s + 'a, 'p, 'm) io"
  assumes body_sane: "sane (body s)"
    and body_spends: "body s w = (Val (Inl s'), w') \<Longrightarrow> length (w_oracle w') < length (w_oracle w)"
begin

lemma loop_fuel:
  "length (w_oracle w) < n \<Longrightarrow> length (w_oracle w) < k \<Longrightarrow> io_loop n body s w = io_loop k body s w"
proof (induction n arbitrary: k s w)
  case 0
  then show ?case by simp
next
  case (Suc n)
  then obtain k' where k: "k = Suc k'" by (cases k) auto
  show ?case
  proof (cases "body s w")
    case (Pair r w')
    show ?thesis
    proof (cases r)
      case (Val v)
      show ?thesis
      proof (cases v)
        case (Inl s')
        with Pair Val have l: "length (w_oracle w') < length (w_oracle w)" by (auto intro: body_spends)
        have "io_loop n body s' w' = io_loop k' body s' w'"
          using Suc.prems k l by (intro Suc.IH) auto
        with Pair Val Inl k show ?thesis by (auto simp: io_simps)
      qed (use Pair Val k in \<open>auto simp: io_simps\<close>)
    qed (use Pair k in \<open>auto simp: io_simps\<close>)
  qed
qed

lemma loop_sane: "grows w (snd (io_loop n body s w)) \<and> (length (w_oracle w) < n \<longrightarrow> fst (io_loop n body s w) \<noteq> Fuel)"
proof (induction n arbitrary: s w)
  case 0
  then show ?case by simp
next
  case (Suc n)
  show ?case
  proof (cases "body s w")
    case (Pair r w')
    then have g: "grows w w'" and nf: "r \<noteq> Fuel"
      using body_sane [of s] unfolding sane_def extends_def terminates_def
      by (metis snd_conv, metis fst_conv)
    show ?thesis
    proof (cases r)
      case (Val v)
      show ?thesis
      proof (cases v)
        case (Inl s')
        with Pair Val have "length (w_oracle w') < length (w_oracle w)" by (auto intro: body_spends)
        with Suc.IH [of w' s'] Pair Val Inl g show ?thesis
          by (auto simp: io_simps intro: grows_trans)
      qed (use Pair Val g in \<open>auto simp: io_simps\<close>)
    qed (use Pair g nf in \<open>auto simp: io_simps\<close>)
  qed
qed

lemma while_unfold:
  "io_while body s = io_bind (body s) (\<lambda>r. case r of Inl s' \<Rightarrow> io_while body s' | Inr a \<Rightarrow> io_ret a)"
proof
  fix w
  show "io_while body s w = io_bind (body s) (\<lambda>r. case r of Inl s' \<Rightarrow> io_while body s' | Inr a \<Rightarrow> io_ret a) w"
  proof (cases "body s w")
    case (Pair r w')
    show ?thesis
    proof (cases r)
      case (Val v)
      show ?thesis
      proof (cases v)
        case (Inl s')
        with Pair Val have "length (w_oracle w') < length (w_oracle w)" by (auto intro: body_spends)
        then have "io_loop (length (w_oracle w)) body s' w' = io_while body s' w'"
          unfolding io_while_def by (intro loop_fuel) auto
        with Pair Val Inl show ?thesis by (auto simp: io_while_def io_simps)
      qed (use Pair Val in \<open>auto simp: io_while_def io_simps\<close>)
    qed (use Pair in \<open>auto simp: io_while_def io_simps\<close>)
  qed
qed

lemma while_sane: "sane (io_while body s)"
  using loop_sane by (auto simp: sane_def extends_def terminates_def io_while_def simp del: io_loop.simps)

lemma while_terminates: "fst (io_while body s w) \<noteq> Fuel"
  using while_sane [of s] by (simp add: sane_def terminates_def)

text \<open>
  An invariant of the body is one of the loop: what it says of every way the loop ends or waits.
\<close>

lemma while_invariant:
  assumes step: "\<And>s w. I s w \<Longrightarrow> (case body s w of
        (Val (Inl s'), w') \<Rightarrow> I s' w' | (Val (Inr a), w') \<Rightarrow> Q (Val a) w'
      | (Exit c, w') \<Rightarrow> Q (Exit c) w' | (Blocked, w') \<Rightarrow> Q Blocked w' | (UB, w') \<Rightarrow> Q UB w' | (Fuel, w') \<Rightarrow> True)"
    and start: "I s w"
  shows "Q (fst (io_while body s w)) (snd (io_while body s w))"
proof -
  have "length (w_oracle w) < n \<Longrightarrow> I s w \<Longrightarrow> Q (fst (io_loop n body s w)) (snd (io_loop n body s w))" for n s w
  proof (induction n arbitrary: s w)
    case 0
    then show ?case by simp
  next
    case (Suc n)
    note st = step [OF Suc.prems(2)]
    show ?case
    proof (cases "body s w")
      case (Pair r w')
      have nf: "r \<noteq> Fuel"
        using Pair body_sane [of s] unfolding sane_def terminates_def by (metis fst_conv)
      show ?thesis
      proof (cases r)
        case (Val v)
        show ?thesis
        proof (cases v)
          case (Inl s')
          with Pair Val have "length (w_oracle w') < length (w_oracle w)" by (auto intro: body_spends)
          with Suc Pair Val Inl st show ?thesis by (auto simp: io_simps)
        qed (use Pair Val st in \<open>auto simp: io_simps\<close>)
      qed (use Pair st nf in \<open>auto simp: io_simps\<close>)
    qed
  qed
  with start show ?thesis by (simp add: io_while_def del: io_loop.simps)
qed

end

text \<open>An event loop consumes an entry in every round, the last one included.\<close>

locale event_loop =
  fixes body :: "'s \<Rightarrow> ('s + 'a, 'p, 'm) io"
  assumes event_sane: "sane (body s)"
    and event_uses: "uses (body s)"

sublocale event_loop \<subseteq> bounded_loop body
  by unfold_locales (use event_sane event_uses in \<open>auto simp: uses_def\<close>)

context event_loop
begin

lemma while_uses: "uses (io_while body s)"
  unfolding while_unfold [of s]
  by (rule uses_bind_first [OF event_uses]) (auto intro: while_sane ext_intros split: sum.split)

end

section \<open>Code that only makes calls\<close>

definition only_calls :: "(unit, 'p, 'm) io \<Rightarrow> bool" where
  "only_calls m \<longleftrightarrow> (\<forall>w. \<exists>cs. m w = (Val (), w\<lparr>w_calls := w_calls w @ cs\<rparr>))"

lemma only_calls_ret: "only_calls (io_ret ())"
  by (auto simp: only_calls_def io_ret_def intro!: exI [of _ "[]"])

lemma only_calls_emit: "only_calls (emit c)"
  by (auto simp: only_calls_def emit_def)

lemma only_calls_seq:
  assumes "only_calls m" and "only_calls k"
  shows "only_calls (io_seq m k)"
  unfolding only_calls_def
proof
  fix w
  obtain cs where m: "m w = (Val (), w\<lparr>w_calls := w_calls w @ cs\<rparr>)"
    using assms(1) by (auto simp: only_calls_def)
  obtain ds where "k (w\<lparr>w_calls := w_calls w @ cs\<rparr>) =
      (Val (), w\<lparr>w_calls := w_calls w @ cs\<rparr>\<lparr>w_calls := (w_calls w @ cs) @ ds\<rparr>)"
    using assms(2) [unfolded only_calls_def, rule_format, of "w\<lparr>w_calls := w_calls w @ cs\<rparr>"] by auto
  then show "\<exists>cs. io_seq m k w = (Val (), w\<lparr>w_calls := w_calls w @ cs\<rparr>)"
    using m by (auto simp: io_seq_def io_simps intro!: exI [of _ "cs @ ds"])
qed

lemma only_calls_bind: "only_calls m \<Longrightarrow> io_bind m f w = (r, w') \<Longrightarrow>
    \<exists>cs. f () (w\<lparr>w_calls := w_calls w @ cs\<rparr>) = (r, w')"
  unfolding only_calls_def by (erule allE [where x = w]) (auto simp: io_bind_def)

lemma only_calls_block: "(\<And>m. m \<in> set ms \<Longrightarrow> only_calls m) \<Longrightarrow> only_calls (io_block ms)"
  by (induction ms) (auto intro: only_calls_ret only_calls_seq)

text \<open>What the process has sent on a socket.\<close>

definition sent_to :: "int \<Rightarrow> call list \<Rightarrow> string list" where
  "sent_to fd cs = concat (map (\<lambda>c. case c of CWrite f s \<Rightarrow> (if f = fd then [s] else []) | _ \<Rightarrow> []) cs)"

lemma sent_to_simps [simp]:
  "sent_to fd [] = []"
  "sent_to fd (xs @ ys) = sent_to fd xs @ sent_to fd ys"
  "sent_to fd (CWrite f s # cs) = (if f = fd then s # sent_to fd cs else sent_to fd cs)"
  "sent_to fd (CRead f n # cs) = sent_to fd cs" "sent_to fd (CSemWait i # cs) = sent_to fd cs"
  "sent_to fd (CSemPost i # cs) = sent_to fd cs" "sent_to fd (CLog l t # cs) = sent_to fd cs"
  "sent_to fd (CClose f # cs) = sent_to fd cs" "sent_to fd (CPrint t # cs) = sent_to fd cs"
  "sent_to fd (CUsleep us # cs) = sent_to fd cs" "sent_to fd (COpen nm # cs) = sent_to fd cs"
  by (auto simp: sent_to_def)

end
