(* ===== verification/Server.thy ===== *)
theory Server
  imports Run
begin

text \<open>
  What the socket programs have in common, as the sources have it in each of them: logging with
  the debug level \<open>g_debug\<close>, the usage text, the argument loop, the listening socket, the report
  of the two addresses of a connection, and the two event loops of the single-client server
  (waiting for a client, talking to it) of \<open>cv_skuska/socket-demo/socket_srv.cpp\<close>.
\<close>

section \<open>Logging\<close>

abbreviation LOG_ERROR :: int where "LOG_ERROR \<equiv> 0"
abbreviation LOG_INFO :: int where "LOG_INFO \<equiv> 1"
abbreviation LOG_DEBUG :: int where "LOG_DEBUG \<equiv> 2"

abbreviation STR_CLOSE :: string where "STR_CLOSE \<equiv> ''close''"
abbreviation STR_QUIT :: string where "STR_QUIT \<equiv> ''quit''"

definition get_debug :: "(int, 'p, 'm) io" where
  "get_debug w = (Val (w_debug w), w)"

definition set_debug :: "int \<Rightarrow> (unit, 'p, 'm) io" where
  "set_debug l w = (Val (), w\<lparr>w_debug := l\<rparr>)"

text \<open>
  The message is expanded with \<open>vsprintf\<close> into \<open>char l_buf[1024]\<close>: a longer one is written past
  the end of it.
\<close>

definition log_msg :: "int \<Rightarrow> string \<Rightarrow> farg list \<Rightarrow> (unit, 'p, 'm) io" where
  "log_msg t_log_level t_form args = io_bind get_debug (\<lambda>g_debug.
     if t_log_level \<noteq> 0 \<and> t_log_level > g_debug then io_ret ()
     else (case c_format t_form args of
         None \<Rightarrow> io_ub
       | Some l_buf \<Rightarrow> if length l_buf < 1024 then emit (CLog t_log_level l_buf) else io_ub))"

section \<open>Usage text and arguments\<close>

text \<open>\<open>t_args\<close> is \<open>argv\<close>, \<open>t_narg\<close> its length; \<open>help\<close> returns unless it was asked for.\<close>

definition show_help :: "string list \<Rightarrow> (unit, 'p, 'm) io" where
  "show_help t_args =
     (if length t_args \<le> 1 \<or> t_args ! 1 = ''-h'' then
        io_seq (emit (CPrint ''usage'')) (io_exit 0)
      else io_when (t_args ! 1 = ''-d'') (set_debug LOG_DEBUG))"

definition not_option :: "string \<Rightarrow> bool" where
  "not_option a = (case a of [] \<Rightarrow> True | c # _ \<Rightarrow> c \<noteq> CHR ''-'')"

text \<open>\<open>atoi\<close>; a value outside the range of \<open>int\<close> is undefined.\<close>

definition atoi_io :: "string \<Rightarrow> (int, 'p, 'm) io" where
  "atoi_io s = (if int_range (atoi s) then io_ret (atoi s) else io_ub)"

fun parse_port :: "string list \<Rightarrow> string list \<Rightarrow> (int, 'p, 'm) io" where
  "parse_port t_args [] = io_ret 0"
| "parse_port t_args (a # rest) =
     io_seq (io_when (a = ''-d'') (set_debug LOG_DEBUG))
    (io_seq (io_when (a = ''-h'') (show_help t_args))
    (if not_option a then atoi_io a else parse_port t_args rest))"

text \<open>The port to listen on: the program goes on after \<open>help\<close> with whatever port it has.\<close>

definition check_port :: "string list \<Rightarrow> int \<Rightarrow> (int, 'p, 'm) io" where
  "check_port t_args l_port =
     io_seq (io_when (l_port \<le> 0)
         (io_seq (log_msg LOG_INFO ''Bad or missing port number %d!'' [AInt l_port]) (show_help t_args)))
    (io_seq (log_msg LOG_INFO ''Server will listen on port: %d.'' [AInt l_port])
    (io_ret l_port))"

definition server_port :: "string list \<Rightarrow> (int, 'p, 'm) io" where
  "server_port t_args = io_bind (parse_port t_args (tl t_args)) (check_port t_args)"

definition server_args :: "string list \<Rightarrow> (int, 'p, 'm) io" where
  "server_args t_args = io_seq (io_when (length t_args \<le> 1) (show_help t_args)) (server_port t_args)"

section \<open>The listening socket\<close>

definition htons :: "int \<Rightarrow> 16 word" where
  "htons p = word_of_int p"

definition open_listener :: "int \<Rightarrow> nat \<Rightarrow> (int, 'p, 'm) io" where
  "open_listener l_port backlog =
     io_bind (sys_int CSocket) (\<lambda>l_sock_listen.
     if l_sock_listen = -1 then io_seq (log_msg LOG_ERROR ''Unable to create socket.'' []) (io_exit 1)
     else
     io_bind (sys_int (CSetsockopt l_sock_listen)) (\<lambda>r.
     io_seq (io_when (r < 0) (log_msg LOG_ERROR ''Unable to set socket option!'' []))
    (io_bind (sys_int (CBind l_sock_listen (htons l_port))) (\<lambda>r.
     if r < 0 then io_seq (log_msg LOG_ERROR ''Bind failed!'' [])
                  (io_seq (emit (CClose l_sock_listen)) (io_exit 1))
     else
     io_bind (sys_int (CListen l_sock_listen backlog)) (\<lambda>r.
     if r < 0 then io_seq (log_msg LOG_ERROR ''Unable to listen on given port!'' [])
                  (io_seq (emit (CClose l_sock_listen)) (io_exit 1))
     else io_ret l_sock_listen)))))"

text \<open>The addresses of a new connection; \<open>l_srv_addr\<close> is overwritten by both calls.\<close>

definition announce :: "int \<Rightarrow> string \<times> int \<Rightarrow> (string \<times> int, 'p, 'm) io" where
  "announce s l_srv_addr =
     io_bind (sys_addr (CGetsockname s) l_srv_addr) (\<lambda>(ip, port).
     io_seq (log_msg LOG_INFO ''My IP: '%s'  port: %d'' [AStr ip, AInt port])
    (io_bind (sys_addr (CGetpeername s) (ip, port)) (\<lambda>(ip, port).
     io_seq (log_msg LOG_INFO ''Client IP: '%s'  port: %d'' [AStr ip, AInt port])
    (io_ret (ip, port)))))"

definition any_addr :: "int \<Rightarrow> string \<times> int" where
  "any_addr l_port = (''0.0.0.0'', uint (htons l_port))"

section \<open>The single-client server\<close>

text \<open>
  A descriptor that \<open>poll\<close> watches is read into a buffer on the stack; what a buffer holds
  before the first read is whatever the stack held, an arbitrary list of its size.
\<close>

text \<open>Console input while waiting for a client: \<open>quit\<close>, or the end of it, ends the server.\<close>

definition wait_stdin :: "int \<Rightarrow> char list \<Rightarrow> (unit, 'p, 'm) io" where
  "wait_stdin l_sock_listen buf =
     io_bind (sys_read STDIN_FILENO 128) (\<lambda>(l_len, d).
     if l_len = 0 then io_seq (log_msg LOG_DEBUG ''Stdin closed.'' []) (io_exit 0)
     else if l_len < 0 then io_seq (log_msg LOG_DEBUG ''Unable to read from stdin!'' []) (io_exit 1)
     else
     io_seq (log_msg LOG_DEBUG ''Read %d bytes from stdin'' [AInt l_len])
    (io_when (strncmp_eq (buf_fill buf d) STR_QUIT (length STR_QUIT))
       (io_block [log_msg LOG_INFO ''Request to 'quit' entered.'' [],
                  emit (CClose l_sock_listen), io_exit 0])))"

text \<open>A new connection; \<open>accept\<close> failing ends the server.\<close>

definition accept_client :: "int \<Rightarrow> (int, 'p, 'm) io" where
  "accept_client l_sock_listen =
     io_bind (sys_int (CAccept l_sock_listen)) (\<lambda>l_sock_client.
     if l_sock_client = -1 then
       io_seq (log_msg LOG_ERROR ''Unable to accept new client.'' [])
      (io_seq (emit (CClose l_sock_listen)) (io_exit 1))
     else io_ret l_sock_client)"

definition poll_or_exit :: "int list \<Rightarrow> (bool \<times> bool, 'p, 'm) io" where
  "poll_or_exit fds = io_bind (sys_poll fds) (\<lambda>(l_poll, in0, in1).
     if l_poll < 0 then io_seq (log_msg LOG_ERROR ''Function poll failed!'' []) (io_exit 1)
     else io_ret (in0, in1))"

text \<open>One round of the inner loop \<open>wait for new client\<close>.\<close>

definition wait_body ::
  "int \<Rightarrow> char list \<Rightarrow> string \<times> int \<Rightarrow> (string \<times> int + int \<times> string \<times> int, 'p, 'm) io" where
  "wait_body l_sock_listen buf l_srv_addr =
     io_bind (poll_or_exit [STDIN_FILENO, l_sock_listen]) (\<lambda>(in0, in1).
     io_seq (io_when in0 (wait_stdin l_sock_listen buf))
    (if in1 then
       io_bind (accept_client l_sock_listen) (\<lambda>l_sock_client.
       io_bind (announce l_sock_client l_srv_addr) (\<lambda>a. io_ret (Inr (l_sock_client, a))))
     else io_ret (Inl l_srv_addr)))"

text \<open>Console input while talking to a client is sent to it.\<close>

definition comm_stdin :: "int \<Rightarrow> char list \<Rightarrow> (char list, 'p, 'm) io" where
  "comm_stdin l_sock_client l_buf =
     io_bind (sys_read STDIN_FILENO 256) (\<lambda>(l_len, d).
     if l_len = 0 then io_seq (log_msg LOG_DEBUG ''Stdin closed.'' []) (io_exit 0)
     else if l_len < 0 then io_seq (log_msg LOG_ERROR ''Unable to read data from stdin.'' []) (io_exit 1)
     else
     io_seq (log_msg LOG_DEBUG ''Read %d bytes from stdin.'' [AInt l_len])
    (io_bind (sys_int (CWrite l_sock_client d)) (\<lambda>l_len.
     io_seq (if l_len < 0 then io_seq (log_msg LOG_ERROR ''Unable to send data to client.'' []) (io_exit 1)
             else log_msg LOG_DEBUG ''Sent %d bytes to client.'' [AInt l_len])
    (io_ret (buf_fill l_buf d)))))"

text \<open>Data from the client is printed; \<open>None\<close>: the connection is over.\<close>

definition comm_client :: "int \<Rightarrow> char list \<Rightarrow> (char list option, 'p, 'm) io" where
  "comm_client l_sock_client l_buf =
     io_bind (sys_read l_sock_client 256) (\<lambda>(l_len, d).
     if l_len = 0 then
       io_seq (log_msg LOG_DEBUG ''Client closed socket!'' []) (io_seq (emit (CClose l_sock_client)) (io_ret None))
     else if l_len < 0 then
       io_seq (log_msg LOG_ERROR ''Unable to read data from client.'' []) (io_seq (emit (CClose l_sock_client)) (io_ret None))
     else
     io_seq (log_msg LOG_DEBUG ''Read %d bytes from client.'' [AInt l_len])
    (io_bind (sys_int (CWrite STDOUT_FILENO d)) (\<lambda>l_len.
     io_seq (if l_len < 0 then io_seq (log_msg LOG_ERROR ''Unable to write data to stdout.'' []) (io_exit 1)
             else io_ret ())
    (if strncasecmp_eq (buf_fill l_buf d) STR_CLOSE (length STR_CLOSE) then
       io_seq (io_block [log_msg LOG_INFO ''Client sent 'close' request to close connection.'' [],
                  emit (CClose l_sock_client),
                  log_msg LOG_INFO ''Connection closed. Waiting for new client.'' []]) (io_ret None)
     else io_ret (Some (buf_fill l_buf d))))))"

text \<open>The check for \<open>quit\<close> at the end of each round, whoever sent it.\<close>

definition comm_quit :: "int \<Rightarrow> int \<Rightarrow> char list \<Rightarrow> (unit, 'p, 'm) io" where
  "comm_quit l_sock_listen l_sock_client l_buf =
     io_when (strncasecmp_eq l_buf STR_QUIT (length STR_QUIT))
       (io_block [emit (CClose l_sock_listen), emit (CClose l_sock_client),
                  log_msg LOG_INFO ''Request to 'quit' entered'' [], io_exit 0])"

text \<open>One round of the loop \<open>communication\<close>.\<close>

definition comm_body :: "int \<Rightarrow> int \<Rightarrow> char list \<Rightarrow> (char list + char list, 'p, 'm) io" where
  "comm_body l_sock_listen l_sock_client l_buf =
     io_bind (poll_or_exit [STDIN_FILENO, l_sock_client]) (\<lambda>(in0, in1).
     io_bind (if in0 then comm_stdin l_sock_client l_buf else io_ret l_buf) (\<lambda>l_buf.
     io_bind (if in1 then comm_client l_sock_client l_buf else io_ret (Some l_buf)) (\<lambda>b.
     case b of
       None \<Rightarrow> io_ret (Inr l_buf)
     | Some l_buf \<Rightarrow> io_seq (comm_quit l_sock_listen l_sock_client l_buf) (io_ret (Inl l_buf)))))"

text \<open>The outer loop \<open>go!\<close>: one client after the other.\<close>

definition serve_body ::
  "int \<Rightarrow> char list \<Rightarrow> (string \<times> int) \<times> char list \<Rightarrow> ((string \<times> int) \<times> char list + unit, 'p, 'm) io" where
  "serve_body l_sock_listen buf = (\<lambda>(l_srv_addr, l_buf).
     io_bind (io_while (wait_body l_sock_listen buf) l_srv_addr) (\<lambda>(l_sock_client, a).
     io_bind (io_while (comm_body l_sock_listen l_sock_client) l_buf) (\<lambda>l_buf.
     io_ret (Inl (a, l_buf)))))"

definition demo_main :: "string list \<Rightarrow> char list \<Rightarrow> char list \<Rightarrow> (unit, 'p, 'm) io" where
  "demo_main t_args buf l_buf =
     io_bind (server_args t_args) (\<lambda>l_port.
     io_bind (open_listener l_port 1) (\<lambda>l_sock_listen.
     io_seq (log_msg LOG_INFO ''Enter 'quit' to quit server.'' [])
    (io_while (serve_body l_sock_listen buf) (any_addr l_port, l_buf))))"

section \<open>Facts\<close>

lemma sane_get_debug [ext_intros]: "sane get_debug" "sane (set_debug l)"
  by (simp_all add: sane_def extends_def terminates_def grows_def get_debug_def set_debug_def)

lemma sane_log_msg [ext_intros]: "sane (log_msg l f xs)"
  unfolding log_msg_def by (intro ext_intros)

lemma sane_help [ext_intros]: "sane (show_help ta)"
  unfolding show_help_def by (intro ext_intros)

lemma sane_atoi [ext_intros]: "sane (atoi_io s)"
  unfolding atoi_io_def by (intro ext_intros)

lemma sane_parse_port [ext_intros]: "sane (parse_port ta xs)"
  by (induction ta xs rule: parse_port.induct) (auto intro!: ext_intros)

lemma sane_server_args [ext_intros]: "sane (check_port ta p)" "sane (server_port ta)" "sane (server_args ta)"
  unfolding server_args_def server_port_def check_port_def by (intro ext_intros)+

lemma sane_open_listener [ext_intros]: "sane (open_listener p b)"
  unfolding open_listener_def by (intro ext_intros)

lemma sane_announce [ext_intros]: "sane (announce s a)"
  unfolding announce_def by (intro ext_intros)

lemma sane_accept [ext_intros]: "sane (accept_client s)" "sane (poll_or_exit fds)"
  unfolding accept_client_def poll_or_exit_def by (intro ext_intros)+

lemma uses_poll_or_exit: "uses (poll_or_exit fds)"
  unfolding poll_or_exit_def by (rule uses_bind_first [OF uses_sys(3)]) (intro ext_intros)

lemma sane_wait_stdin [ext_intros]: "sane (wait_stdin s b)"
  unfolding wait_stdin_def by (intro ext_intros)+

lemma sane_wait_body [ext_intros]: "sane (wait_body s b a)"
  unfolding wait_body_def by (intro ext_intros)

lemma sane_comm [ext_intros]:
  "sane (comm_stdin s b)" "sane (comm_client s b)" "sane (comm_quit s c b)"
  unfolding comm_stdin_def comm_client_def comm_quit_def by (intro ext_intros)+

lemma sane_comm_body [ext_intros]: "sane (comm_body s c b)"
  unfolding comm_body_def by (intro ext_intros)

text \<open>The three loops of the server end only as the code says, and never spin.\<close>

interpretation wait_loop: event_loop "wait_body s b"
proof
  show "sane (wait_body s b a)" for a by (rule sane_wait_body)
  show "uses (wait_body s b a)" for a
    unfolding wait_body_def by (rule uses_bind_first [OF uses_poll_or_exit]) (intro ext_intros)
qed

interpretation comm_loop: event_loop "comm_body s c"
proof
  show "sane (comm_body s c b)" for b by (rule sane_comm_body)
  show "uses (comm_body s c b)" for b
    unfolding comm_body_def by (rule uses_bind_first [OF uses_poll_or_exit]) (intro ext_intros)
qed

interpretation serve_loop: event_loop "serve_body s b"
proof
  show "sane (serve_body s b x)" for x
    unfolding serve_body_def by (intro ext_intros wait_loop.while_sane comm_loop.while_sane)
  show "uses (serve_body s b x)" for x
    unfolding serve_body_def
    by (cases x) (auto intro!: uses_bind_first [OF wait_loop.while_uses] ext_intros comm_loop.while_sane)
qed

lemmas [io_simps] = get_debug_def set_debug_def show_help_def not_option_def atoi_io_def

end
