(* ===== verification/Guarantee.thy ===== *)
theory Guarantee
  imports Server
begin

text \<open>
  Rely and guarantee. Between two calls of a process the other processes may change the kernel
  objects (the first components of the entries of the oracle). If whatever they leave satisfies
  \<open>K\<close>, and the globals of the process satisfy \<open>A\<close>, a piece of code \<open>keeps A K\<close> when it never runs
  into undefined behaviour and itself leaves \<open>A\<close> and \<open>K\<close> true, in whatever way it ends. A piece
  of code \<open>gives A K Q\<close> when moreover the values it returns satisfy \<open>Q\<close>.

  Runs are bounded to fewer than \<open>2 ^ 31\<close> events, so that a counter of events fits an \<open>int\<close>.
\<close>

definition rely :: "('p \<Rightarrow> bool) \<Rightarrow> ('m kernel \<Rightarrow> bool) \<Rightarrow> ('p, 'm) world \<Rightarrow> bool" where
  "rely A K w \<longleftrightarrow> A (w_priv w) \<and> K (w_kern w) \<and>
     (\<forall>k r. (Some k, r) \<in> set (w_oracle w) \<longrightarrow> K k) \<and> length (w_oracle w) < 2 ^ 31"

definition gives :: "('p \<Rightarrow> bool) \<Rightarrow> ('m kernel \<Rightarrow> bool) \<Rightarrow> ('a \<Rightarrow> bool) \<Rightarrow> ('a, 'p, 'm) io \<Rightarrow> bool" where
  "gives A K Q m \<longleftrightarrow> (\<forall>w. rely A K w \<longrightarrow> rely A K (snd (m w)) \<and> fst (m w) \<noteq> UB \<and>
     (\<forall>a. fst (m w) = Val a \<longrightarrow> Q a))"

abbreviation keeps :: "('p \<Rightarrow> bool) \<Rightarrow> ('m kernel \<Rightarrow> bool) \<Rightarrow> ('a, 'p, 'm) io \<Rightarrow> bool" where
  "keeps A K m \<equiv> gives A K (\<lambda>_. True) m"

named_theorems keeps_intros

lemma gives_weaken: "gives A K Q m \<Longrightarrow> (\<And>a. Q a \<Longrightarrow> R a) \<Longrightarrow> gives A K R m"
  by (auto simp: gives_def)

lemma gives_bind:
  assumes "gives A K Q m" and "\<And>a. Q a \<Longrightarrow> gives A K R (f a)"
  shows "gives A K R (io_bind m f)"
  unfolding gives_def
proof (intro allI impI)
  fix w
  assume w: "rely A K w"
  obtain r w' where m: "m w = (r, w')" by (cases "m w")
  with w assms(1) have w': "rely A K w'" "r \<noteq> UB" and q: "\<And>a. r = Val a \<Longrightarrow> Q a"
    by (auto simp: gives_def)
  show "rely A K (snd (io_bind m f w)) \<and> fst (io_bind m f w) \<noteq> UB \<and>
      (\<forall>a. fst (io_bind m f w) = Val a \<longrightarrow> R a)"
  proof (cases r)
    case (Val a)
    with q assms(2) [of a] w' m show ?thesis by (auto simp: gives_def io_bind_def)
  qed (use m w' in \<open>auto simp: io_bind_def\<close>)
qed

lemma keeps_bind [keeps_intros]: "keeps A K m \<Longrightarrow> (\<And>a. gives A K R (f a)) \<Longrightarrow> gives A K R (io_bind m f)"
  by (rule gives_bind)

lemma keeps_seq [keeps_intros]: "keeps A K m \<Longrightarrow> gives A K R k \<Longrightarrow> gives A K R (io_seq m k)"
  unfolding io_seq_def by (rule keeps_bind)

lemma gives_ret: "Q a \<Longrightarrow> gives A K Q (io_ret a)"
  by (simp add: gives_def io_ret_def)

lemma keeps_ret [keeps_intros]: "keeps A K (io_ret a)"
  by (simp add: gives_ret)

lemma gives_exit [keeps_intros]: "gives A K Q (io_exit c)"
  by (simp add: gives_def io_exit_def)

lemma gives_if [keeps_intros]:
  "(c \<Longrightarrow> gives A K Q a) \<Longrightarrow> (\<not> c \<Longrightarrow> gives A K Q b) \<Longrightarrow> gives A K Q (if c then a else b)"
  by simp

lemma keeps_when [keeps_intros]: "(c \<Longrightarrow> keeps A K m) \<Longrightarrow> keeps A K (io_when c m)"
  by (simp add: io_when_def keeps_ret)

lemma keeps_block [keeps_intros]:
  "keeps A K (io_block [])"
  "keeps A K m \<Longrightarrow> keeps A K (io_block ms) \<Longrightarrow> keeps A K (io_block (m # ms))"
  by (simp_all add: keeps_ret keeps_seq)

lemma keeps_block_all: "(\<And>m. m \<in> set ms \<Longrightarrow> keeps A K m) \<Longrightarrow> keeps A K (io_block ms)"
  by (induction ms) (simp_all add: keeps_ret keeps_seq)

lemma gives_let [keeps_intros]: "gives A K Q (f x) \<Longrightarrow> gives A K Q (Let x f)"
  by simp

lemma gives_case_option [keeps_intros]:
  "(x = None \<Longrightarrow> gives A K Q a) \<Longrightarrow> (\<And>y. x = Some y \<Longrightarrow> gives A K Q (f y)) \<Longrightarrow>
   gives A K Q (case x of None \<Rightarrow> a | Some y \<Rightarrow> f y)"
  by (cases x) auto

lemma gives_case_prod [keeps_intros]: "(\<And>a b. gives A K Q (f a b)) \<Longrightarrow> gives A K Q (case x of (a, b) \<Rightarrow> f a b)"
  by (cases x) auto

lemma gives_case_sysret [keeps_intros]:
  "(\<And>i. gives A K Q (f i)) \<Longrightarrow> (\<And>s. gives A K Q (g s)) \<Longrightarrow> (\<And>e. gives A K Q (h e)) \<Longrightarrow>
   (\<And>a b. gives A K Q (k a b)) \<Longrightarrow> (\<And>s p. gives A K Q (l s p)) \<Longrightarrow>
   (\<And>a b. gives A K Q (m a b)) \<Longrightarrow> (\<And>a b. gives A K Q (n a b)) \<Longrightarrow>
   (\<And>es. gives A K Q (ev es)) \<Longrightarrow>
   gives A K Q (case x of Ret i \<Rightarrow> f i | Data s \<Rightarrow> g s | Fail e \<Rightarrow> h e | Ready a b \<Rightarrow> k a b | Addr s p \<Rightarrow> l s p
     | Fds a b \<Rightarrow> m a b | Stat a b \<Rightarrow> n a b | Events es \<Rightarrow> ev es)"
  by (cases x) auto

section \<open>Calls\<close>

lemma keeps_state [keeps_intros]: "keeps A K get_errno" "keeps A K (set_errno e)" "keeps A K (emit c)"
  "keeps A K get_debug" "keeps A K (set_debug l)"
  by (simp_all add: gives_def rely_def get_errno_def set_errno_def emit_def get_debug_def set_debug_def)

lemma keeps_pop [keeps_intros]: "keeps A K (pop c)"
  by (fastforce simp: gives_def rely_def pop_def split: list.splits option.splits)

lemma gives_get_priv: "(\<And>p. A p \<Longrightarrow> Q (f p)) \<Longrightarrow> gives A K Q (get_priv f)"
  by (simp add: gives_def rely_def get_priv_def)

lemma gives_bind_priv:
  assumes "\<And>p. A p \<Longrightarrow> gives A K R (g (f p))"
  shows "gives A K R (io_bind (get_priv f) g)"
  unfolding gives_def
proof (intro allI impI)
  fix w
  assume w: "rely A K w"
  then have "A (w_priv w)" by (simp add: rely_def)
  from assms [OF this] w
  show "rely A K (snd (io_bind (get_priv f) g w)) \<and> fst (io_bind (get_priv f) g w) \<noteq> UB \<and>
      (\<forall>a. fst (io_bind (get_priv f) g w) = Val a \<longrightarrow> R a)"
    by (simp add: gives_def get_priv_def io_bind_def)
qed

lemma keeps_upd_priv: "(\<And>p. A p \<Longrightarrow> A (f p)) \<Longrightarrow> keeps A K (upd_priv f)"
  by (simp add: gives_def rely_def upd_priv_def)

lemma gives_get_kern: "(\<And>k. K k \<Longrightarrow> Q (f k)) \<Longrightarrow> gives A K Q (get_kern f)"
  by (simp add: gives_def rely_def get_kern_def)

lemma keeps_get_kern [keeps_intros]: "keeps A K (get_kern f)" "keeps A K (mem_get h g)"
  by (simp_all add: gives_get_kern mem_get_def)

lemma gives_bind_kern:
  assumes "\<And>k. K k \<Longrightarrow> gives A K R (g (f k))"
  shows "gives A K R (io_bind (get_kern f) g)"
  unfolding gives_def
proof (intro allI impI)
  fix w
  assume w: "rely A K w"
  then have "K (w_kern w)" by (simp add: rely_def)
  from assms [OF this] w
  show "rely A K (snd (io_bind (get_kern f) g w)) \<and> fst (io_bind (get_kern f) g w) \<noteq> UB \<and>
      (\<forall>a. fst (io_bind (get_kern f) g w) = Val a \<longrightarrow> R a)"
    by (simp add: gives_def get_kern_def io_bind_def)
qed

lemma gives_bind_mem:
  "(\<And>k. K k \<Longrightarrow> gives A K R (g (f (k_shm k h)))) \<Longrightarrow> gives A K R (io_bind (mem_get h f) g)"
  unfolding mem_get_def by (rule gives_bind_kern)

lemma keeps_upd_kern: "(\<And>k. K k \<Longrightarrow> K (f k)) \<Longrightarrow> keeps A K (upd_kern f)"
  by (simp add: gives_def rely_def upd_kern_def)

lemma keeps_mem_upd: "(\<And>k. K k \<Longrightarrow> K (k\<lparr>k_shm := (k_shm k)(h := f (k_shm k h))\<rparr>)) \<Longrightarrow> keeps A K (mem_upd h f)"
  by (simp add: mem_upd_def keeps_upd_kern)

lemma keeps_sys [keeps_intros]: "keeps A K (sys_int c)" "keeps A K (sys_poll fds)" "keeps A K (sys_mmap fd)"
  unfolding sys_int_def sys_poll_def sys_mmap_def by (intro keeps_intros)+

text \<open>What is known of the results of \<open>read\<close> and of the address calls.\<close>

definition read_ok :: "nat \<Rightarrow> int \<times> string \<Rightarrow> bool" where
  "read_ok n x \<longleftrightarrow> length (snd x) \<le> n \<and> (fst x = -1 \<and> snd x = [] \<or> fst x = int (length (snd x)))"

definition addr_ok :: "string \<times> int \<Rightarrow> bool" where
  "addr_ok a \<longleftrightarrow> length (fst a) \<le> 15 \<and> 0 \<le> snd a \<and> snd a < 65536"

lemma gives_read: "gives A K (read_ok n) (sys_read fd n)"
  unfolding sys_read_def
  by (rule keeps_bind [OF keeps_pop])
    (auto intro!: gives_ret keeps_intros simp: read_ok_def split: sysret.split)

lemma gives_bind_read:
  "(\<And>r d. read_ok n (r, d) \<Longrightarrow> gives A K R (f r d)) \<Longrightarrow>
   gives A K R (io_bind (sys_read fd n) (\<lambda>(r, d). f r d))"
  by (rule gives_bind [OF gives_read]) auto

lemma keeps_read [keeps_intros]: "keeps A K (sys_read fd n)"
  by (rule gives_weaken [OF gives_read]) simp

lemma gives_addr: "addr_ok old \<Longrightarrow> gives A K addr_ok (sys_addr c old)"
  unfolding sys_addr_def
  by (rule keeps_bind [OF keeps_pop])
    (auto intro!: gives_ret keeps_intros simp: addr_ok_def split: sysret.split)

text \<open>Semaphores and message queues leave alone what depends on the shared memory only.\<close>

definition mem_only :: "('m kernel \<Rightarrow> bool) \<Rightarrow> bool" where
  "mem_only K \<longleftrightarrow> (\<forall>k k'. k_shm k = k_shm k' \<longrightarrow> K k \<longrightarrow> K k')"

lemma mem_onlyD: "mem_only K \<Longrightarrow> K k \<Longrightarrow> k_shm k' = k_shm k \<Longrightarrow> K k'"
  unfolding mem_only_def by (erule allE [where x = k], erule allE [where x = k'], simp)

lemma mem_only_upd:
  assumes "mem_only K"
  shows "K (k\<lparr>k_sem := f\<rparr>) = K k" "K (k\<lparr>k_sem_dir := d\<rparr>) = K k" "K (k\<lparr>k_mq := q\<rparr>) = K k"
  by (rule iffI; erule mem_onlyD [OF assms]; simp)+

lemma keeps_sem_down [keeps_intros]: "mem_only K \<Longrightarrow> keeps A K (sem_down h)"
  by (simp add: gives_def rely_def sem_down_def mem_only_upd)

lemma keeps_sem_waits [keeps_intros]:
  assumes "mem_only K"
  shows "keeps A K (sem_wait h)" "keeps A K (sem_timedwait h)"
  unfolding sem_wait_def sem_timedwait_def
  by (rule keeps_bind [OF keeps_pop], simp add: keeps_ret keeps_seq keeps_state keeps_sem_down [OF assms]
      split: sysret.split)+

lemma keeps_sem_upds [keeps_intros]:
  assumes "mem_only K"
  shows "keeps A K (sem_post h)" "keeps A K (sem_init h v)" "keeps A K (sem_unlink nm)"
  unfolding sem_post_def sem_init_def sem_unlink_def
  by (rule keeps_seq [OF keeps_upd_kern keeps_state(3)], simp add: mem_only_upd [OF assms])+

lemma keeps_sem_close [keeps_intros]: "keeps A K (sem_close h)"
  unfolding sem_close_def by (rule keeps_state(3))

lemma keeps_mq_receive [keeps_intros]:
  assumes "mem_only K"
  shows "keeps A K (mq_receive q)"
proof -
  have "keeps A K (\<lambda>w. case k_mq (w_kern w) (nat q) of [] \<Rightarrow> (Blocked, w)
      | m # ms \<Rightarrow> (Val (int (length m), m),
          w\<lparr>w_kern := (w_kern w)\<lparr>k_mq := (k_mq (w_kern w))(nat q := ms)\<rparr>\<rparr>))"
    by (simp add: gives_def rely_def mem_only_upd [OF assms] split: list.split)
  then show ?thesis
    unfolding mq_receive_def
    by (intro keeps_bind [OF keeps_pop]) (simp add: keeps_ret keeps_seq keeps_state split: sysret.split)
qed

section \<open>Loops\<close>

lemma keeps_while:
  assumes "\<And>s. I s \<Longrightarrow> gives A K (\<lambda>r. case r of Inl s' \<Rightarrow> I s' | Inr a \<Rightarrow> Q a) (body s)" and "I s"
  shows "gives A K Q (io_while body s)"
proof -
  have "gives A K Q (io_loop n body s)" if "I s" for n s
    using that
  proof (induction n arbitrary: s)
    case 0
    then show ?case by (simp add: gives_def)
  next
    case (Suc n)
    have "gives A K Q (io_bind (body s) (\<lambda>r. case r of Inl s' \<Rightarrow> io_loop n body s' | Inr a \<Rightarrow> io_ret a))"
    proof (rule gives_bind [OF assms(1) [OF Suc.prems]])
      fix r
      assume "case r of Inl s' \<Rightarrow> I s' | Inr a \<Rightarrow> Q a"
      then show "gives A K Q (case r of Inl s' \<Rightarrow> io_loop n body s' | Inr a \<Rightarrow> io_ret a)"
        by (cases r) (simp_all add: gives_ret Suc.IH)
    qed
    then show ?case by (simp add: gives_def)
  qed
  with assms(2) show ?thesis by (simp add: gives_def io_while_def del: io_loop.simps)
qed

lemma keeps_while_simple: "(\<And>s. keeps A K (body s)) \<Longrightarrow> keeps A K (io_while body s)"
  by (rule keeps_while [where I = "\<lambda>_. True"]) (auto elim: gives_weaken split: sum.split)

text \<open>A loop that counts some of its rounds: the count stays an \<open>int\<close>.\<close>

lemma keeps_while_count:
  assumes loop: "event_loop body"
    and step: "\<And>c. gives A K (\<lambda>r. case r of Inl c' \<Rightarrow> c' = c \<or> c' = c + 1 | Inr a \<Rightarrow> a = c) (body c)"
  shows "gives A K int_range (io_while body (0 :: int))"
  unfolding gives_def
proof (intro allI impI)
  fix w
  assume w: "rely A K w"
  define I where "I c u \<longleftrightarrow> rely A K u \<and> 0 \<le> c \<and> c + int (length (w_oracle u)) < 2 ^ 31" for c :: int and u
  define Q where "Q r u \<longleftrightarrow> rely A K u \<and> r \<noteq> UB \<and> (\<forall>a. r = Val a \<longrightarrow> int_range a)" for r :: "int res" and u
  have bl: "bounded_loop body"
    by (rule bounded_loop.intro [OF event_loop.event_sane [OF loop] usesD [OF event_loop.event_uses [OF loop]]])
  have "Q (fst (io_while body 0 w)) (snd (io_while body 0 w))"
  proof (rule bounded_loop.while_invariant [OF bl, where I = I])
    show "I 0 w" using w by (simp add: I_def rely_def)
    fix c u
    assume i: "I c u"
    obtain r u' where b: "body c u = (r, u')" by (cases "body c u")
    have g: "rely A K u'" "r \<noteq> UB" and q: "\<And>v. r = Val v \<Longrightarrow>
        (case v of Inl c' \<Rightarrow> c' = c \<or> c' = c + 1 | Inr a \<Rightarrow> a = c)"
      using step [of c] i b by (auto simp: gives_def I_def)
    show "case body c u of (Val (Inl s'), w') \<Rightarrow> I s' w' | (Val (Inr a), w') \<Rightarrow> Q (Val a) w'
        | (Exit c, w') \<Rightarrow> Q (Exit c) w' | (Fuel, w') \<Rightarrow> True | (Blocked, w') \<Rightarrow> Q Blocked w'
        | (UB, w') \<Rightarrow> Q UB w'"
    proof (cases r)
      case (Val v)
      have "length (w_oracle u') < length (w_oracle u)"
        using usesD [OF event_loop.event_uses [OF loop]] b Val by simp
      with b g q Val i show ?thesis
        by (cases v) (auto simp: I_def Q_def int_range_def)
    qed (use b g in \<open>auto simp: Q_def\<close>)
  qed
  then show "rely A K (snd (io_while body 0 w)) \<and> fst (io_while body 0 w) \<noteq> UB \<and>
      (\<forall>a. fst (io_while body 0 w) = Val a \<longrightarrow> int_range a)"
    by (simp add: Q_def)
qed

section \<open>Logging\<close>

text \<open>A message that fits the buffer of \<open>log_msg\<close>, whatever the debug level.\<close>

definition fits :: "string option \<Rightarrow> bool" where
  "fits f \<longleftrightarrow> (\<exists>s. f = Some s \<and> length s < 1024)"

lemma keeps_log: "fits (c_format f xs) \<Longrightarrow> keeps A K (log_msg l f xs)"
  unfolding log_msg_def fits_def
  by (intro keeps_intros) (auto intro!: keeps_intros)

lemma length_show_int:
  assumes "int_range i"
  shows "length (show_int i) \<le> 11"
proof -
  have "nat i < 10 ^ 10" "nat (- i) < 10 ^ 10"
    using assms by (auto simp: int_range_def nat_less_iff)
  then show ?thesis
    using length_show_nat [of "nat i" 10] length_show_nat [of "nat (- i)" 10]
    by (auto simp: show_int_def)
qed

text \<open>The messages about the port.\<close>

lemma log_port:
  assumes "int_range p" and "w_debug w = LOG_INFO"
  shows "log_msg LOG_INFO ''Server will listen on port: %d.'' [AInt p] w = (Val (),
      w\<lparr>w_calls := w_calls w @ [CLog LOG_INFO (''Server will listen on port: '' @ show_int p @ ''.'')]\<rparr>)"
    and "log_msg LOG_INFO ''Bad or missing port number %d!'' [AInt p] w = (Val (),
      w\<lparr>w_calls := w_calls w @ [CLog LOG_INFO (''Bad or missing port number '' @ show_int p @ ''!'')]\<rparr>)"
  using length_show_int [OF assms(1)] assms(2) by (simp_all add: log_msg_def io_simps)

text \<open>The report of the addresses of a connection.\<close>

lemma addr_fits:
  assumes "addr_ok (ip, port)"
  shows "fits (c_format ''My IP: '%s'  port: %d'' [AStr ip, AInt port])"
    "fits (c_format ''Client IP: '%s'  port: %d'' [AStr ip, AInt port])"
proof -
  have "length ip \<le> 15" "length (show_int port) \<le> 11"
    using assms by (auto simp: addr_ok_def int_range_def intro: length_show_int)
  then show "fits (c_format ''My IP: '%s'  port: %d'' [AStr ip, AInt port])"
    "fits (c_format ''Client IP: '%s'  port: %d'' [AStr ip, AInt port])"
    by (simp_all add: fits_def)
qed

lemma gives_announce: "addr_ok a \<Longrightarrow> gives A K addr_ok (announce s a)"
  unfolding announce_def
  by (rule gives_bind [OF gives_addr])
    (auto intro!: gives_ret keeps_seq keeps_log gives_bind [OF gives_addr] addr_fits)

lemma addr_ok_any: "addr_ok (any_addr p)"
  using uint_lt2p [of "htons p"] by (simp add: addr_ok_def any_addr_def)

end
