(* ===== verification/Ring.thy ===== *)
theory Ring
  imports Prelude
begin

text \<open>
  The circular buffer all the producer/consumer programs keep: an array, the index of the next
  item to take and the index of the next free slot, both advanced modulo the size of the array.
  \<open>ring_rep\<close> relates such a buffer to the queue of items it holds; nothing in the buffer itself
  tells a full ring from an empty one (the semaphores of the programs do), so the queue is a
  parameter of the relation and not a function of the buffer.

  \<open>bounded_fifo\<close> is the contract the clients of a buffer rely on: what putting and getting do to
  the queue it stands for. Each program's buffer is an interpretation of it.
\<close>

section \<open>Ring buffers\<close>

definition ring_rep :: "nat \<Rightarrow> 'x list \<Rightarrow> nat \<Rightarrow> nat \<Rightarrow> 'x list \<Rightarrow> bool" where
  "ring_rep n buf h t xs \<longleftrightarrow> length buf = n \<and> h < n \<and> length xs \<le> n \<and>
     t = (h + length xs) mod n \<and> (\<forall>i < length xs. buf ! ((h + i) mod n) = xs ! i)"

lemma ring_rep_empty: "0 < n \<Longrightarrow> length buf = n \<Longrightarrow> ring_rep n buf 0 0 []"
  by (simp add: ring_rep_def)

lemma ring_rep_bounds:
  "ring_rep n buf h t xs \<Longrightarrow> h < n \<and> t < n \<and> length buf = n \<and> length xs \<le> n"
  by (auto simp: ring_rep_def)

lemma ring_rep_put:
  assumes r: "ring_rep n buf h t xs" and free: "length xs < n"
  shows "ring_rep n (buf[t := x]) h ((t + 1) mod n) (xs @ [x])"
proof -
  from r have t: "t = (h + length xs) mod n" and h: "h < n" and l: "length buf = n"
    and c: "\<And>i. i < length xs \<Longrightarrow> buf ! ((h + i) mod n) = xs ! i"
    by (auto simp: ring_rep_def)
  have "buf[t := x] ! ((h + i) mod n) = (xs @ [x]) ! i" if "i < Suc (length xs)" for i
  proof (cases "i = length xs")
    case True
    with t l h show ?thesis by simp
  next
    case False
    with that have i: "i < length xs" by simp
    then have "(h + i) mod n \<noteq> t"
      using mod_add_inj [of h i n "length xs"] free t by auto
    with i c show ?thesis by (simp add: nth_append)
  qed
  moreover have "(t + 1) mod n = (h + Suc (length xs)) mod n"
    using t by (simp add: mod_Suc_eq)
  ultimately show ?thesis
    using h l free by (simp add: ring_rep_def)
qed

lemma ring_rep_get:
  assumes r: "ring_rep n buf h t (x # xs)"
  shows "buf ! h = x" and "ring_rep n buf ((h + 1) mod n) t xs"
proof -
  from r have t: "t = (h + Suc (length xs)) mod n" and h: "h < n" and l: "length buf = n"
    and c: "\<And>i. i < Suc (length xs) \<Longrightarrow> buf ! ((h + i) mod n) = (x # xs) ! i"
    and len: "Suc (length xs) \<le> n"
    by (auto simp: ring_rep_def)
  show "buf ! h = x" using c [of 0] h by simp
  have "buf ! (((h + 1) mod n + i) mod n) = xs ! i" if "i < length xs" for i
    using c [of "Suc i"] that by (simp add: mod_add_left_eq)
  moreover have "t = ((h + 1) mod n + length xs) mod n"
    using t by (simp add: mod_add_left_eq)
  ultimately show "ring_rep n buf ((h + 1) mod n) t xs"
    using l len h by (simp add: ring_rep_def)
qed

section \<open>The contract of a bounded queue\<close>

locale bounded_fifo =
  fixes put :: "'x \<Rightarrow> 'q \<Rightarrow> 'q"
    and get :: "'q \<Rightarrow> 'x \<times> 'q"
    and norm :: "'x \<Rightarrow> 'x"
    and rep :: "'q \<Rightarrow> 'x list \<Rightarrow> bool"
    and cap :: nat
  assumes cap_pos: "0 < cap"
    and rep_put: "rep q xs \<Longrightarrow> length xs < cap \<Longrightarrow> rep (put x q) (xs @ [norm x])"
    and rep_get: "rep q (x # xs) \<Longrightarrow> fst (get q) = x \<and> rep (snd (get q)) xs"
begin

fun puts :: "'q \<Rightarrow> 'x list \<Rightarrow> 'q" where
  "puts q [] = q"
| "puts q (x # xs) = puts (put x q) xs"

fun gets :: "'q \<Rightarrow> nat \<Rightarrow> 'x list" where
  "gets q 0 = []"
| "gets q (Suc n) = fst (get q) # gets (snd (get q)) n"

lemma rep_puts: "rep q ys \<Longrightarrow> length ys + length xs \<le> cap \<Longrightarrow> rep (puts q xs) (ys @ map norm xs)"
proof (induction xs arbitrary: q ys)
  case Nil
  then show ?case by simp
next
  case (Cons x xs)
  then have "rep (put x q) (ys @ [norm x])" by (intro rep_put) auto
  from Cons.IH [OF this] Cons.prems(2) show ?case by simp
qed

lemma gets_rep: "rep q (xs @ ys) \<Longrightarrow> gets q (length xs) = xs"
proof (induction xs arbitrary: q)
  case Nil
  then show ?case by simp
next
  case (Cons x xs)
  then show ?case using rep_get [of q x "xs @ ys"] by simp
qed

text \<open>First in, first out: whatever fits is returned in the order it was put.\<close>

lemma fifo_roundtrip: "rep q [] \<Longrightarrow> length xs \<le> cap \<Longrightarrow> gets (puts q xs) (length xs) = map norm xs"
  using rep_puts [of q "[]" xs] gets_rep [of "puts q xs" "map norm xs" "[]"] by simp

end

end
