(* ===== verification/Protocol.thy ===== *)
theory Protocol
  imports Ring
begin

text \<open>
  The producer/consumer protocol of the servers, at the grain of the semaphore operations: every
  client process is at one of the program points of \<open>producer()\<close> or \<open>consumer()\<close>, and a step moves
  one of them, in any order. \<open>s_put\<close> and \<open>s_got\<close> record, in the order of the critical sections,
  what was put in and what was taken out; the code does not have them.

  The relation is over any buffer (\<open>put\<close>, \<open>get\<close>); what holds of it is proved once, for any buffer
  that meets the contract of a bounded queue, and used for the buffer of each program.
\<close>

section \<open>Program points and steps\<close>

datatype 'x point =
    PWaitEmpty 'x | PWaitMutex 'x | PInside 'x | PLeave | PPostFull
  | CWaitPause | CPostPause | CWaitFull | CWaitMutex | CInside | CLeave 'x | CPostEmpty 'x

text \<open>Whether consumers pass the pause gate first, and whether their wait has a time limit.\<close>

record flavour =
  pausing :: bool
  timed :: bool

record ('x, 'q) pstate =
  s_empty :: nat
  s_full :: nat
  s_mutex :: nat
  s_pause :: nat
  s_q :: 'q
  s_clients :: "'x point multiset"
  s_put :: "'x list"
  s_got :: "'x list"

definition move :: "'x point \<Rightarrow> 'x point \<Rightarrow> 'x point multiset \<Rightarrow> 'x point multiset" where
  "move a b cl = add_mset b (cl - {#a#})"

definition leave :: "'x point \<Rightarrow> 'x point multiset \<Rightarrow> 'x point multiset" where
  "leave a cl = cl - {#a#}"

text \<open>Steps of the clients.\<close>

inductive client_step ::
  "('x \<Rightarrow> 'q \<Rightarrow> 'q) \<Rightarrow> ('q \<Rightarrow> 'x \<times> 'q) \<Rightarrow> flavour \<Rightarrow> ('x, 'q) pstate \<Rightarrow> ('x, 'q) pstate \<Rightarrow> bool"
  for put get fl where
  wait_empty: "PWaitEmpty x \<in># s_clients s \<Longrightarrow> 0 < s_empty s \<Longrightarrow>
     client_step put get fl s (s\<lparr>s_empty := s_empty s - 1, s_clients := move (PWaitEmpty x) (PWaitMutex x) (s_clients s)\<rparr>)"
| p_lock: "PWaitMutex x \<in># s_clients s \<Longrightarrow> 0 < s_mutex s \<Longrightarrow>
     client_step put get fl s (s\<lparr>s_mutex := s_mutex s - 1, s_clients := move (PWaitMutex x) (PInside x) (s_clients s)\<rparr>)"
| p_put: "PInside x \<in># s_clients s \<Longrightarrow>
     client_step put get fl s (s\<lparr>s_q := put x (s_q s), s_put := s_put s @ [x], s_clients := move (PInside x) PLeave (s_clients s)\<rparr>)"
| p_unlock: "PLeave \<in># s_clients s \<Longrightarrow>
     client_step put get fl s (s\<lparr>s_mutex := Suc (s_mutex s), s_clients := move PLeave PPostFull (s_clients s)\<rparr>)"
| post_full: "PPostFull \<in># s_clients s \<Longrightarrow>
     client_step put get fl s (s\<lparr>s_full := Suc (s_full s), s_clients := leave PPostFull (s_clients s)\<rparr>)"
| wait_pause: "CWaitPause \<in># s_clients s \<Longrightarrow> 0 < s_pause s \<Longrightarrow>
     client_step put get fl s (s\<lparr>s_pause := s_pause s - 1, s_clients := move CWaitPause CPostPause (s_clients s)\<rparr>)"
| post_pause: "CPostPause \<in># s_clients s \<Longrightarrow>
     client_step put get fl s (s\<lparr>s_pause := Suc (s_pause s), s_clients := move CPostPause CWaitFull (s_clients s)\<rparr>)"
| wait_full: "CWaitFull \<in># s_clients s \<Longrightarrow> 0 < s_full s \<Longrightarrow>
     client_step put get fl s (s\<lparr>s_full := s_full s - 1, s_clients := move CWaitFull CWaitMutex (s_clients s)\<rparr>)"
| timeout: "timed fl \<Longrightarrow> CWaitFull \<in># s_clients s \<Longrightarrow>
     client_step put get fl s (s\<lparr>s_clients := leave CWaitFull (s_clients s)\<rparr>)"
| c_lock: "CWaitMutex \<in># s_clients s \<Longrightarrow> 0 < s_mutex s \<Longrightarrow>
     client_step put get fl s (s\<lparr>s_mutex := s_mutex s - 1, s_clients := move CWaitMutex CInside (s_clients s)\<rparr>)"
| c_get: "CInside \<in># s_clients s \<Longrightarrow> get (s_q s) = (x, q') \<Longrightarrow>
     client_step put get fl s (s\<lparr>s_q := q', s_got := s_got s @ [x], s_clients := move CInside (CLeave x) (s_clients s)\<rparr>)"
| c_unlock: "CLeave x \<in># s_clients s \<Longrightarrow>
     client_step put get fl s (s\<lparr>s_mutex := Suc (s_mutex s), s_clients := move (CLeave x) (CPostEmpty x) (s_clients s)\<rparr>)"
| post_empty: "CPostEmpty x \<in># s_clients s \<Longrightarrow>
     client_step put get fl s (s\<lparr>s_empty := Suc (s_empty s), s_clients := leave (CPostEmpty x) (s_clients s)\<rparr>)"

text \<open>Clients come with a line to put, or to take one.\<close>

inductive arrival :: "flavour \<Rightarrow> ('x, 'q) pstate \<Rightarrow> ('x, 'q) pstate \<Rightarrow> bool" for fl where
  new_put: "arrival fl s (s\<lparr>s_clients := add_mset (PWaitEmpty x) (s_clients s)\<rparr>)"
| new_get: "arrival fl s (s\<lparr>s_clients := add_mset (if pausing fl then CWaitPause else CWaitFull) (s_clients s)\<rparr>)"

text \<open>Steps of the whole server: the console pauses and resumes the consumers.\<close>

inductive server_step ::
  "('x \<Rightarrow> 'q \<Rightarrow> 'q) \<Rightarrow> ('q \<Rightarrow> 'x \<times> 'q) \<Rightarrow> flavour \<Rightarrow> ('x, 'q) pstate \<Rightarrow> ('x, 'q) pstate \<Rightarrow> bool"
  for put get fl where
  client: "client_step put get fl s t \<Longrightarrow> server_step put get fl s t"
| arrive: "arrival fl s t \<Longrightarrow> server_step put get fl s t"
| console_pause: "pausing fl \<Longrightarrow> 0 < s_pause s \<Longrightarrow> server_step put get fl s (s\<lparr>s_pause := s_pause s - 1\<rparr>)"
| console_resume: "pausing fl \<Longrightarrow> server_step put get fl s (s\<lparr>s_pause := Suc (s_pause s)\<rparr>)"

text \<open>Runs in which the console stays silent.\<close>

inductive silent_run ::
  "('x \<Rightarrow> 'q \<Rightarrow> 'q) \<Rightarrow> ('q \<Rightarrow> 'x \<times> 'q) \<Rightarrow> flavour \<Rightarrow> ('x, 'q) pstate \<Rightarrow> ('x, 'q) pstate \<Rightarrow> bool"
  for put get fl s0 where
  silent_start: "silent_run put get fl s0 s0"
| silent_client: "silent_run put get fl s0 s \<Longrightarrow> client_step put get fl s t \<Longrightarrow> silent_run put get fl s0 t"
| silent_arrive: "silent_run put get fl s0 s \<Longrightarrow> arrival fl s t \<Longrightarrow> silent_run put get fl s0 t"

definition pstart :: "nat \<Rightarrow> 'q \<Rightarrow> ('x, 'q) pstate" where
  "pstart cap q = \<lparr>s_empty = cap, s_full = 0, s_mutex = 1, s_pause = 1, s_q = q,
     s_clients = {#}, s_put = [], s_got = []\<rparr>"

inductive preach ::
  "('x \<Rightarrow> 'q \<Rightarrow> 'q) \<Rightarrow> ('q \<Rightarrow> 'x \<times> 'q) \<Rightarrow> flavour \<Rightarrow> ('x, 'q) pstate \<Rightarrow> ('x, 'q) pstate \<Rightarrow> bool"
  for put get fl s0 where
  start: "preach put get fl s0 s0"
| step: "preach put get fl s0 s \<Longrightarrow> server_step put get fl s t \<Longrightarrow> preach put get fl s0 t"

section \<open>Counting clients\<close>

text \<open>The points at which a client is inside the critical section, holds a free slot it has not
  yet turned into an item, or holds an item it has not yet turned into a free slot.\<close>

fun in_critical :: "'x point \<Rightarrow> bool" where
  "in_critical (PInside x) = True"
| "in_critical PLeave = True"
| "in_critical CInside = True"
| "in_critical (CLeave x) = True"
| "in_critical p = False"

fun has_slot :: "'x point \<Rightarrow> bool" where
  "has_slot (PWaitMutex x) = True"
| "has_slot (PInside x) = True"
| "has_slot (CLeave x) = True"
| "has_slot (CPostEmpty x) = True"
| "has_slot p = False"

fun has_item :: "'x point \<Rightarrow> bool" where
  "has_item PLeave = True"
| "has_item PPostFull = True"
| "has_item CWaitMutex = True"
| "has_item CInside = True"
| "has_item p = False"

definition cnt :: "('x point \<Rightarrow> bool) \<Rightarrow> 'x point multiset \<Rightarrow> nat" where
  "cnt f cl = size (filter_mset f cl)"

lemma cnt_add [count_simps]: "cnt f (add_mset b cl) = (if f b then Suc (cnt f cl) else cnt f cl)"
  by (simp add: cnt_def)

lemma cnt_empty [count_simps]: "cnt f {#} = 0"
  by (simp add: cnt_def)

lemma cnt_remove: "a \<in># cl \<Longrightarrow> cnt f cl = (if f a then Suc (cnt f (cl - {#a#})) else cnt f (cl - {#a#}))"
  using cnt_add [of f a "cl - {#a#}"] by simp

lemma cnt_pos: "a \<in># cl \<Longrightarrow> f a \<Longrightarrow> 0 < cnt f cl"
  using cnt_remove [of a cl f] by simp

lemma cnt_zero: "cnt f cl = 0 \<Longrightarrow> a \<in># cl \<Longrightarrow> \<not> f a"
  using cnt_pos [of a cl f] by auto

lemmas cnt_step = cnt_remove [where f = in_critical] cnt_remove [where f = has_slot]
  cnt_remove [where f = has_item]

section \<open>The invariant\<close>

text \<open>
  The mutex counts the free critical section; free slots, items and the clients between taking the
  one and giving the other add up to the capacity; the queue holds the items counted, and what went
  in is what came out followed by what the queue holds.
\<close>

definition slots :: "('x, 'q) pstate \<Rightarrow> nat" where
  "slots s = s_empty s + cnt has_slot (s_clients s)"

definition items :: "('x, 'q) pstate \<Rightarrow> nat" where
  "items s = s_full s + cnt has_item (s_clients s)"

definition pinv ::
  "('x \<Rightarrow> 'x) \<Rightarrow> ('q \<Rightarrow> 'x list \<Rightarrow> bool) \<Rightarrow> nat \<Rightarrow> ('x, 'q) pstate \<Rightarrow> bool" where
  "pinv norm rep cap s \<longleftrightarrow> s_mutex s + cnt in_critical (s_clients s) = 1 \<and>
     slots s + items s = cap \<and>
     (\<exists>xs. rep (s_q s) xs \<and> length xs = items s \<and> map norm (s_put s) = s_got s @ xs)"

context bounded_fifo
begin

lemma pinv_start: "rep q [] \<Longrightarrow> pinv norm rep cap (pstart cap q)"
  by (simp add: pinv_def pstart_def slots_def items_def count_simps)

lemma pinv_put:
  assumes inv: "pinv norm rep cap s" and p: "PInside x \<in># s_clients s"
  shows "pinv norm rep cap (s\<lparr>s_q := put x (s_q s), s_put := s_put s @ [x],
    s_clients := move (PInside x) PLeave (s_clients s)\<rparr>)"
proof -
  from inv obtain xs where xs: "rep (s_q s) xs" "length xs = items s" "map norm (s_put s) = s_got s @ xs"
    and tot: "slots s + items s = cap" and mu: "s_mutex s + cnt in_critical (s_clients s) = 1"
    by (auto simp: pinv_def)
  note c = cnt_step [OF p]
  have "0 < slots s" using p cnt_pos [of "PInside x" "s_clients s" has_slot] by (simp add: slots_def)
  with xs tot have "rep (put x (s_q s)) (xs @ [norm x])" by (intro rep_put) auto
  with xs tot mu c show ?thesis
    by (auto simp: pinv_def slots_def items_def move_def count_simps intro!: exI [of _ "xs @ [norm x]"])
qed

lemma pinv_get:
  assumes inv: "pinv norm rep cap s" and p: "CInside \<in># s_clients s" and g: "get (s_q s) = (x, q')"
  shows "pinv norm rep cap (s\<lparr>s_q := q', s_got := s_got s @ [x],
    s_clients := move CInside (CLeave x) (s_clients s)\<rparr>)"
proof -
  from inv obtain xs where xs: "rep (s_q s) xs" "length xs = items s" "map norm (s_put s) = s_got s @ xs"
    and tot: "slots s + items s = cap" and mu: "s_mutex s + cnt in_critical (s_clients s) = 1"
    by (auto simp: pinv_def)
  note c = cnt_step [OF p]
  have "0 < items s" using p cnt_pos [of CInside "s_clients s" has_item] by (simp add: items_def)
  with xs(2) obtain y ys where ys: "xs = y # ys" by (cases xs) auto
  with xs(1) g rep_get [of "s_q s" y ys] have "x = y" "rep q' ys" by auto
  with xs ys tot mu c show ?thesis
    by (auto simp: pinv_def slots_def items_def move_def count_simps intro!: exI [of _ ys])
qed

lemma pinv_cong:
  assumes "s_q t = s_q s" "s_put t = s_put s" "s_got t = s_got s" "slots t = slots s" "items t = items s"
    "s_mutex t + cnt in_critical (s_clients t) = s_mutex s + cnt in_critical (s_clients s)"
  shows "pinv norm rep cap s \<Longrightarrow> pinv norm rep cap t"
  unfolding pinv_def using assms by simp

lemma pinv_client_step: "client_step put get fl s t \<Longrightarrow> pinv norm rep cap s \<Longrightarrow> pinv norm rep cap t"
proof (induction rule: client_step.induct)
  case (p_put x s)
  then show ?case by (intro pinv_put)
next
  case (c_get s x q')
  then show ?case by (intro pinv_get)
qed (drule multi_member_split, elim exE, erule pinv_cong [rotated -1];
    simp add: slots_def items_def move_def leave_def count_simps)+

lemma pinv_arrival: "arrival fl s t \<Longrightarrow> pinv norm rep cap s \<Longrightarrow> pinv norm rep cap t"
proof (induction rule: arrival.induct)
qed (erule pinv_cong [rotated -1]; simp add: slots_def items_def count_simps)+

lemma pinv_server_step: "server_step put get fl s t \<Longrightarrow> pinv norm rep cap s \<Longrightarrow> pinv norm rep cap t"
proof (induction rule: server_step.induct)
  case (client s t)
  then show ?case by (rule pinv_client_step)
next
  case (arrive s t)
  then show ?case by (rule pinv_arrival)
qed (erule pinv_cong [rotated -1]; simp add: slots_def items_def count_simps)+

lemma pinv_reach:
  assumes "preach put get fl (pstart cap q) s" and "rep q []"
  shows "pinv norm rep cap s"
  using assms(1)
proof (induction rule: preach.induct)
  case start
  then show ?case using assms(2) by (rule pinv_start)
next
  case (step s t)
  from step.hyps(2) step.IH show ?case by (rule pinv_server_step)
qed

text \<open>What the invariant says of a reachable state.\<close>

lemma reach_content:
  assumes "preach put get fl (pstart cap q) s" and "rep q []"
  obtains xs where "rep (s_q s) xs" "length xs \<le> cap" "map norm (s_put s) = s_got s @ xs"
  using pinv_reach [OF assms] by (auto simp: pinv_def)

lemma reach_bounds:
  assumes "preach put get fl (pstart cap q) s" and "rep q []"
  shows "s_mutex s \<le> 1" "s_empty s \<le> cap" "s_full s \<le> cap" "s_empty s + s_full s \<le> cap"
  using pinv_reach [OF assms] by (auto simp: pinv_def slots_def items_def)

lemma reach_exclusion:
  assumes "preach put get fl (pstart cap q) s" and "rep q []"
  shows "cnt in_critical (s_clients s) \<le> 1"
  using pinv_reach [OF assms] by (auto simp: pinv_def)

lemma reach_put_free:
  assumes "preach put get fl (pstart cap q) s" and "rep q []" and "PInside x \<in># s_clients s"
  shows "\<exists>xs. rep (s_q s) xs \<and> length xs < cap"
proof -
  from pinv_reach [OF assms(1,2)] obtain xs
    where "rep (s_q s) xs" "length xs = items s" "slots s + items s = cap"
    by (auto simp: pinv_def)
  moreover have "0 < slots s"
    using assms(3) cnt_pos [of "PInside x" "s_clients s" has_slot] by (simp add: slots_def)
  ultimately show ?thesis by (intro exI [of _ xs]) simp
qed

lemma reach_get_item:
  assumes "preach put get fl (pstart cap q) s" and "rep q []" and "CInside \<in># s_clients s"
  shows "\<exists>x xs. rep (s_q s) (x # xs)"
proof -
  from pinv_reach [OF assms(1,2)] obtain xs where xs: "rep (s_q s) xs" "length xs = items s"
    by (auto simp: pinv_def)
  moreover have "0 < items s"
    using assms(3) cnt_pos [of CInside "s_clients s" has_item] by (simp add: items_def)
  ultimately obtain y ys where "xs = y # ys" by (cases xs) auto
  with xs(1) show ?thesis by blast
qed

end

section \<open>Progress\<close>

definition stuck :: "('x \<Rightarrow> 'q \<Rightarrow> 'q) \<Rightarrow> ('q \<Rightarrow> 'x \<times> 'q) \<Rightarrow> flavour \<Rightarrow> ('x, 'q) pstate \<Rightarrow> bool" where
  "stuck put get fl s \<longleftrightarrow> \<not> (\<exists>t. client_step put get fl s t)"

text \<open>A client in the critical section can always go on.\<close>

lemma critical_moves: "p \<in># s_clients s \<Longrightarrow> in_critical p \<Longrightarrow> \<not> stuck put get fl s"
  unfolding stuck_def
  by (cases p; cases "get (s_q s)") (auto intro: client_step.intros)

lemma stuck_points:
  assumes st: "stuck put get fl s" and p: "p \<in># s_clients s"
    and mu: "s_mutex s + cnt in_critical (s_clients s) = 1"
  shows "(\<exists>x. p = PWaitEmpty x) \<and> s_empty s = 0 \<or> p = CWaitPause \<and> s_pause s = 0
    \<or> p = CWaitFull \<and> s_full s = 0 \<and> \<not> timed fl"
proof -
  have "cnt in_critical (s_clients s) = 0"
  proof (rule ccontr)
    assume "cnt in_critical (s_clients s) \<noteq> 0"
    then obtain r where "r \<in># s_clients s" "in_critical r"
      by (auto simp: cnt_def dest: multi_nonempty_split)
    with critical_moves st show False by blast
  qed
  with mu have m: "0 < s_mutex s" by simp
  from critical_moves st p have "\<not> in_critical p" by blast
  then show ?thesis
    using st p m unfolding stuck_def
    by (cases p) (auto intro: client_step.intros)
qed

context bounded_fifo
begin

text \<open>
  When no client can move, each one waits for a reason the protocol gives it, and never do a
  producer waiting for a slot and a consumer waiting for an item block each other.
\<close>

lemma reach_no_deadlock:
  assumes r: "preach put get fl (pstart cap q) s" and q: "rep q []" and st: "stuck put get fl s"
  shows "PWaitEmpty x \<in># s_clients s \<Longrightarrow> s_full s = cap"
    and "CWaitFull \<in># s_clients s \<Longrightarrow> s_empty s = cap"
proof -
  from pinv_reach [OF r q] have mu: "s_mutex s + cnt in_critical (s_clients s) = 1"
    and tot: "slots s + items s = cap"
    by (auto simp: pinv_def)
  note pts = stuck_points [OF st _ mu]
  have "cnt has_slot (s_clients s) = 0" "cnt has_item (s_clients s) = 0"
    using pts by (fastforce simp: cnt_def filter_mset_eq_mempty_iff)+
  with tot have sum: "s_empty s + s_full s = cap" by (simp add: slots_def items_def)
  show "PWaitEmpty x \<in># s_clients s \<Longrightarrow> s_full s = cap"
    using pts [of "PWaitEmpty x"] sum by simp
  show "CWaitFull \<in># s_clients s \<Longrightarrow> s_empty s = cap"
    using pts [of CWaitFull] sum by simp
qed

end

section \<open>The pause gate\<close>

text \<open>Without the gate nobody waits at it.\<close>

lemma no_gate_step:
  "server_step put get fl s t \<Longrightarrow> \<not> pausing fl \<Longrightarrow> CWaitPause \<notin># s_clients s \<Longrightarrow> CWaitPause \<notin># s_clients t"
proof (induction rule: server_step.induct)
  case (client s t)
  then show ?case
    by (induction rule: client_step.induct) (auto simp: move_def leave_def dest: in_diffD)
next
  case (arrive s t)
  then show ?case by (induction rule: arrival.induct) auto
qed auto

lemma no_gate_reach:
  "preach put get fl s0 s \<Longrightarrow> \<not> pausing fl \<Longrightarrow> CWaitPause \<notin># s_clients s0 \<Longrightarrow> CWaitPause \<notin># s_clients s"
proof (induction rule: preach.induct)
  case (step s t)
  show ?case by (rule no_gate_step [OF step.hyps(2) step.prems(1) step.IH [OF step.prems]])
qed

text \<open>Consumers past the gate that have not taken their item yet.\<close>

fun past_gate :: "'x point \<Rightarrow> bool" where
  "past_gate CWaitFull = True"
| "past_gate CWaitMutex = True"
| "past_gate CInside = True"
| "past_gate p = False"

text \<open>While the gate is closed, what is taken from the queue is bounded by those already past it.\<close>

definition gate_closed :: "nat \<Rightarrow> ('x, 'q) pstate \<Rightarrow> bool" where
  "gate_closed n s \<longleftrightarrow> s_pause s = 0 \<and> CPostPause \<notin># s_clients s \<and>
     length (s_got s) + cnt past_gate (s_clients s) \<le> n"

lemma gate_client_step:
  "client_step put get fl s t \<Longrightarrow> gate_closed n s \<Longrightarrow> gate_closed n t"
proof (induction rule: client_step.induct)
qed (simp add: gate_closed_def; drule multi_member_split; elim exE;
    simp add: gate_closed_def move_def leave_def count_simps)+

lemma gate_silent_run:
  "silent_run put get fl s t \<Longrightarrow> pausing fl \<Longrightarrow> gate_closed n s \<Longrightarrow> gate_closed n t"
proof (induction rule: silent_run.induct)
  case (silent_client s' t)
  then show ?case by (blast intro: gate_client_step)
next
  case (silent_arrive s' t)
  from silent_arrive(2) silent_arrive.IH [OF silent_arrive.prems] silent_arrive.prems(1) show ?case
    by (induction rule: arrival.induct) (simp_all add: gate_closed_def count_simps)
qed

end
