(* ===== verification/PcServer.thy ===== *)
theory PcServer
  imports Server Protocol
begin

text \<open>
  The producer/consumer server \<open>DU/DU05_test/socket_srv.cpp\<close>: a process per client, the queue in
  a shared memory object guarded by named semaphores (\<open>MODE_SHM\<close>) or in a POSIX message queue
  (\<open>MODE_MQ\<close>), limits on the numbers of clients, a console that pauses the consumers, a log file.
\<close>

section \<open>Shared data and globals\<close>

abbreviation N :: nat where "N \<equiv> 8"
abbreviation MAX_STR :: nat where "MAX_STR \<equiv> 8192"
abbreviation SEM_MUTEX_NAME :: string where "SEM_MUTEX_NAME \<equiv> ''/pc_mutex''"
abbreviation SEM_EMPTY_NAME :: string where "SEM_EMPTY_NAME \<equiv> ''/pc_empty''"
abbreviation SEM_FULL_NAME :: string where "SEM_FULL_NAME \<equiv> ''/pc_full''"
abbreviation SEM_PAUSE_NAME :: string where "SEM_PAUSE_NAME \<equiv> ''/pc_pause''"
abbreviation SHM_NAME :: string where "SHM_NAME \<equiv> ''/pc_buffer''"
abbreviation MQ_NAME :: string where "MQ_NAME \<equiv> ''/pc_mq''"
abbreviation MAX_PRODUCERS :: int where "MAX_PRODUCERS \<equiv> 2"
abbreviation MAX_CONSUMERS :: int where "MAX_CONSUMERS \<equiv> 3"

text \<open>A row of \<open>buffer\<close> is modelled by the string it holds.\<close>

record shm_data =
  buffer :: "string list"
  head :: nat
  tail :: nat
  item_num :: int
  total_produced :: int
  total_consumed :: int
  producer_clients :: int
  consumer_clients :: int

datatype queue_mode = MODE_SHM | MODE_MQ

text \<open>The globals of the process; a semaphore handle or mapping is \<open>None\<close> while it is null.\<close>

record srv =
  g_mode :: queue_mode
  g_shm :: "nat option"
  g_shm_fd :: int
  mutex :: "nat option"
  empty_sem :: "nat option"
  full_sem :: "nat option"
  pause_sem :: "nat option"
  g_mq :: int
  g_running :: bool
  g_log :: "int option"
  mq_counter :: int

definition srv_init :: srv where
  "srv_init = \<lparr>g_mode = MODE_SHM, g_shm = None, g_shm_fd = -1, mutex = None, empty_sem = None,
     full_sem = None, pause_sem = None, g_mq = -1, g_running = True, g_log = None, mq_counter = 0\<rparr>"

definition shm_zero :: shm_data where
  "shm_zero = \<lparr>buffer = replicate N [], head = 0, tail = 0, item_num = 0, total_produced = 0,
     total_consumed = 0, producer_clients = 0, consumer_clients = 0\<rparr>"

type_synonym 'a pc = "('a, srv, shm_data) io"

text \<open>Use of a global that may be a null pointer.\<close>

definition deref :: "(srv \<Rightarrow> nat option) \<Rightarrow> (nat \<Rightarrow> 'a pc) \<Rightarrow> 'a pc" where
  "deref f k = io_bind (get_priv f) (\<lambda>p. case p of None \<Rightarrow> io_ub | Some h \<Rightarrow> k h)"

section \<open>The critical sections\<close>

text \<open>
  What \<open>producer()\<close> and \<open>consumer()\<close> do to the shared data between taking and releasing the
  mutex.
\<close>

definition shm_put :: "string \<Rightarrow> shm_data \<Rightarrow> shm_data" where
  "shm_put item m =
     (let tmp = snprintf_str MAX_STR item in
      m\<lparr>total_produced := total_produced m + 1,
        buffer := (buffer m)[tail m := strncpy_str (MAX_STR - 1) tmp],
        tail := (tail m + 1) mod N,
        item_num := item_num m + 1\<rparr>)"

definition shm_get :: "shm_data \<Rightarrow> string \<times> shm_data" where
  "shm_get m =
     (strncpy_str (MAX_STR - 1) (buffer m ! head m),
      m\<lparr>head := (head m + 1) mod N,
        item_num := item_num m - 1,
        total_consumed := total_consumed m + 1\<rparr>)"

definition shm_rep :: "shm_data \<Rightarrow> string list \<Rightarrow> bool" where
  "shm_rep m xs \<longleftrightarrow> ring_rep N (buffer m) (head m) (tail m) xs \<and> item_num m = int (length xs) \<and>
     (\<forall>x \<in> set xs. length x < MAX_STR)"

lemma shm_rep_zero: "shm_rep shm_zero []"
  by (simp add: shm_rep_def shm_zero_def ring_rep_empty del: replicate.simps)

text \<open>The shared ring meets the contract of a bounded queue of strings cut at \<open>MAX_STR - 1\<close>.\<close>

interpretation shmq: bounded_fifo shm_put shm_get "take (MAX_STR - 1)" shm_rep N
proof
  show "0 < N" by simp
next
  fix m xs x
  assume "shm_rep m xs" and "length xs < N"
  then show "shm_rep (shm_put x m) (xs @ [take (MAX_STR - 1) x])"
    using ring_rep_put [of N "buffer m" "head m" "tail m" xs "take (MAX_STR - 1) x"]
    by (auto simp: shm_rep_def shm_put_def snprintf_str_def strncpy_str_def Let_def)
next
  fix m x xs
  assume r: "shm_rep m (x # xs)"
  then have "buffer m ! head m = x" "ring_rep N (buffer m) ((head m + 1) mod N) (tail m) xs"
    using ring_rep_get [of N "buffer m" "head m" "tail m" x xs] by (auto simp: shm_rep_def)
  with r show "fst (shm_get m) = x \<and> shm_rep (snd (shm_get m)) xs"
    by (auto simp: shm_rep_def shm_get_def strncpy_str_def)
qed

section \<open>Producer and consumer\<close>

definition sem_wait_on :: "(srv \<Rightarrow> nat option) \<Rightarrow> unit pc" where
  "sem_wait_on f = deref f (\<lambda>h. io_seq (sem_wait h) (io_ret ()))"

definition sem_post_on :: "(srv \<Rightarrow> nat option) \<Rightarrow> unit pc" where
  "sem_post_on f = deref f sem_post"

text \<open>The block after the \<open>if\<close> of \<open>producer()\<close> is not its \<open>else\<close>: it runs in both modes, and
  its \<open>mq_send\<close> is commented out.\<close>

definition producer :: "string \<Rightarrow> unit pc" where
  "producer item =
     io_bind (get_priv g_mode) (\<lambda>mode.
     io_seq (io_when (mode = MODE_SHM)
       (io_block [sem_wait_on empty_sem, sem_wait_on mutex,
          deref g_shm (\<lambda>h. io_bind (mem_get h id) (\<lambda>m.
            if tail m < length (buffer m) then mem_upd h (shm_put item) else io_ub)),
          sem_post_on mutex, sem_post_on full_sem]))
    (upd_priv (\<lambda>p. p\<lparr>mq_counter := mq_counter p + 1\<rparr>)))"

text \<open>The result code and the string left in \<open>item\<close>.\<close>

definition consumer_shm :: "(int \<times> string) pc" where
  "consumer_shm =
     io_seq (sem_wait_on pause_sem)
    (io_seq (sem_post_on pause_sem)
    (io_bind (sys_int CClock) (\<lambda>r.
     if r = -1 then io_seq (log_msg LOG_ERROR ''clock_gettime failed'' []) (io_ret (-2, []))
     else
     deref full_sem (\<lambda>h. io_bind (sem_timedwait h) (\<lambda>r.
     if r = -1 then
       io_bind get_errno (\<lambda>e.
         if e = ETIMEDOUT then io_seq (log_msg LOG_INFO ''Consumer timeout (SHM).'' []) (io_ret (-1, []))
         else io_seq (log_msg LOG_ERROR ''sem_timedwait(full) failed'' []) (io_ret (-2, [])))
     else
     io_seq (sem_wait_on mutex)
    (io_bind (deref g_shm (\<lambda>h. io_bind (mem_get h id) (\<lambda>m.
        if head m < length (buffer m)
        then io_seq (mem_upd h (\<lambda>m. snd (shm_get m))) (io_ret (fst (shm_get m)))
        else io_ub))) (\<lambda>item.
     io_seq (sem_post_on mutex)
    (io_seq (sem_post_on empty_sem)
    (io_ret (0, item))))))))))"

definition consumer_mq :: "(int \<times> string) pc" where
  "consumer_mq =
     io_bind (sys_int CClock) (\<lambda>r.
     if r = -1 then io_seq (log_msg LOG_ERROR ''clock_gettime failed'' []) (io_ret (-2, []))
     else
     io_bind (get_priv g_mq) (\<lambda>q. io_bind (mq_receive q) (\<lambda>(n, msg).
     if n = -1 then
       io_bind get_errno (\<lambda>e.
         if e = ETIMEDOUT then io_seq (log_msg LOG_INFO ''Consumer timeout (MQ).'' []) (io_ret (-1, []))
         else io_seq (log_msg LOG_ERROR ''mq_timedreceive failed'' []) (io_ret (-2, [])))
     else io_ret (0, if n > 0 then cstr (take (nat n - 1) msg) else []))))"

definition consumer :: "(int \<times> string) pc" where
  "consumer = io_bind (get_priv g_mode) (\<lambda>mode. if mode = MODE_SHM then consumer_shm else consumer_mq)"

section \<open>Clients\<close>

definition ok_line :: string where "ok_line = ''Ok'' @ [LF]"

definition producer_round :: "int \<Rightarrow> int \<Rightarrow> (int + int) pc" where
  "producer_round sock local_count =
     io_bind (sys_read sock (MAX_STR - 1)) (\<lambda>(r, d).
     if r \<le> 0 then io_seq (log_msg LOG_INFO ''Producer client disconnected'' []) (io_ret (Inr local_count))
     else let item = chomp (cstr d) in
     if item = [] then io_ret (Inl local_count)
     else io_seq (producer item) (io_seq (emit (CWrite sock ok_line)) (io_ret (Inl (local_count + 1)))))"

definition run_producer_client :: "int \<Rightarrow> unit pc" where
  "run_producer_client sock =
     io_bind (io_while (producer_round sock) 0) (\<lambda>local_count.
     log_msg LOG_INFO ''Producer client finished, sent %d items.'' [AInt local_count])"

definition EN_DASH :: string where "EN_DASH = [CHR 0xE2, CHR 0x80, CHR 0x93]"

definition consumer_round :: "int \<Rightarrow> unit \<Rightarrow> (unit + unit) pc" where
  "consumer_round sock = (\<lambda>_.
     io_bind consumer (\<lambda>(res, item).
     if res = -1 then
       io_seq (emit (CWrite sock (''Timeout'' @ [LF])))
      (io_seq (log_msg LOG_INFO (''Consumer client timeout '' @ EN_DASH @ '' closing.'') []) (io_ret (Inr ())))
     else if res \<noteq> 0 then
       io_seq (emit (CWrite sock (''Error'' @ [LF])))
      (io_seq (log_msg LOG_ERROR (''Consumer internal error '' @ EN_DASH @ '' closing.'') []) (io_ret (Inr ())))
     else
     io_seq (emit (CWrite sock (snprintf_str MAX_STR (item @ [LF]))))
    (io_bind (sys_read sock 255) (\<lambda>(r, d).
     if r \<le> 0 then io_seq (log_msg LOG_INFO ''Consumer client disconnected'' []) (io_ret (Inr ()))
     else let ack = chomp (cstr d) in
       io_seq (io_when (ack \<noteq> ''Ok'') (log_msg LOG_INFO (''Consumer sent invalid ACK: '%s'' @ [CHR 0x27]) [AStr ack]))
         (io_ret (Inl ()))))))"

definition run_consumer_client :: "int \<Rightarrow> unit pc" where
  "run_consumer_client sock = io_while (consumer_round sock) ()"

text \<open>
  A client of one kind registers under the mutex, unless there are too many of them. The result
  says whether it may go on.
\<close>

definition register_client ::
  "(shm_data \<Rightarrow> int) \<Rightarrow> int \<Rightarrow> (shm_data \<Rightarrow> shm_data) \<Rightarrow> string \<Rightarrow> int \<Rightarrow> bool pc" where
  "register_client field limit incr refusal sock =
     io_bind (get_priv g_mode) (\<lambda>mode.
     if mode = MODE_SHM then
       io_seq (sem_wait_on mutex)
      (deref g_shm (\<lambda>h. io_bind (mem_get h field) (\<lambda>c.
       if c \<ge> limit then
         io_seq (sem_post_on mutex)
        (io_seq (emit (CWrite sock refusal))
        (io_seq (emit (CClose sock)) (io_ret False)))
       else
         io_seq (mem_upd h incr) (io_seq (sem_post_on mutex) (io_ret True)))))
     else io_ret True)"

definition register_producer :: "int \<Rightarrow> bool pc" where
  "register_producer = register_client producer_clients MAX_PRODUCERS
     (\<lambda>m. m\<lparr>producer_clients := producer_clients m + 1\<rparr>) (''Too many producers'' @ [LF, NUL])"

definition register_consumer :: "int \<Rightarrow> bool pc" where
  "register_consumer = register_client consumer_clients MAX_CONSUMERS
     (\<lambda>m. m\<lparr>consumer_clients := consumer_clients m + 1\<rparr>) (''Too many consumers'' @ [LF, NUL])"

definition unregister_client :: "bool \<Rightarrow> bool \<Rightarrow> unit pc" where
  "unregister_client is_producer is_consumer =
     io_bind (get_priv (\<lambda>p. g_mode p = MODE_SHM \<and> g_shm p \<noteq> None)) (\<lambda>b.
     io_when b
       (io_block [sem_wait_on mutex,
          deref g_shm (\<lambda>h. mem_upd h (\<lambda>m. if is_producer \<and> producer_clients m > 0
            then m\<lparr>producer_clients := producer_clients m - 1\<rparr> else m)),
          deref g_shm (\<lambda>h. mem_upd h (\<lambda>m. if is_consumer \<and> consumer_clients m > 0
            then m\<lparr>consumer_clients := consumer_clients m - 1\<rparr> else m)),
          sem_post_on mutex]))"

definition handle_client :: "int \<Rightarrow> unit pc" where
  "handle_client sock =
     io_seq (emit (CWrite sock (''Task?'' @ [LF])))
    (io_bind (sys_read sock 255) (\<lambda>(r, d).
     if r \<le> 0 then emit (CClose sock)
     else let buf = chomp (cstr d) in
     io_seq (emit (CPrint (''Client choose: '' @ buf @ [LF])))
    (if buf = ''producer'' then
       io_bind (register_producer sock) (\<lambda>ok. io_when ok
         (io_block [run_producer_client sock, unregister_client True False, emit (CClose sock)]))
     else if buf = ''consumer'' then
       io_bind (register_consumer sock) (\<lambda>ok. io_when ok
         (io_block [run_consumer_client sock, unregister_client False True, emit (CClose sock)]))
     else
       io_block [emit (CWrite sock (''Unknown task'' @ [LF])), unregister_client False False,
         emit (CClose sock)])))"

section \<open>Facts\<close>

lemma sane_deref [ext_intros]: "(\<And>h. sane (k h)) \<Longrightarrow> sane (deref f k)"
  unfolding deref_def by (intro ext_intros)

lemma sane_sem_on [ext_intros]: "sane (sem_wait_on f)" "sane (sem_post_on f)"
  unfolding sem_wait_on_def sem_post_on_def by (intro ext_intros)+

lemma sane_producer [ext_intros]: "sane (producer item)"
  unfolding producer_def by (intro ext_intros)+

lemma sane_consumer_shm [ext_intros]: "sane consumer_shm"
  unfolding consumer_shm_def by (intro ext_intros)

lemma sane_consumer_mq [ext_intros]: "sane consumer_mq"
  unfolding consumer_mq_def by (intro ext_intros)

lemma sane_consumer [ext_intros]: "sane consumer"
  unfolding consumer_def by (intro ext_intros)

interpretation producer_loop: event_loop "producer_round sock"
proof
  show "sane (producer_round sock c)" for c
    unfolding producer_round_def by (intro ext_intros)
  show "uses (producer_round sock c)" for c
    unfolding producer_round_def by (rule uses_bind_first [OF uses_sys(2)]) (intro ext_intros)
qed

lemma uses_deref: "(\<And>h. uses (k h)) \<Longrightarrow> uses (deref f k)"
  unfolding deref_def
  by (intro uses_bind_second ext_intros) (auto split: option.split intro: uses_ub)

lemma uses_sem_wait_on: "uses (sem_wait_on f)"
  unfolding sem_wait_on_def io_seq_def
  by (intro uses_deref uses_bind_first [OF uses_sem(1)] ext_intros)

lemma uses_consumer: "uses consumer"
proof -
  have "uses consumer_shm"
    unfolding consumer_shm_def io_seq_def [of "sem_wait_on pause_sem"]
    by (rule uses_bind_first [OF uses_sem_wait_on]) (intro ext_intros)
  moreover have "uses consumer_mq"
    unfolding consumer_mq_def by (rule uses_bind_first [OF uses_sys(1)]) (intro ext_intros)
  ultimately show ?thesis
    unfolding consumer_def by (intro uses_bind_second ext_intros) auto
qed

interpretation consumer_loop: event_loop "consumer_round sock"
proof
  show "sane (consumer_round sock c)" for c
    unfolding consumer_round_def by (intro ext_intros)
  show "uses (consumer_round sock c)" for c
    unfolding consumer_round_def by (rule uses_bind_first [OF uses_consumer]) (intro ext_intros)
qed

lemma sane_run_clients [ext_intros]: "sane (run_producer_client s)" "sane (run_consumer_client s)"
  unfolding run_producer_client_def run_consumer_client_def
  by (intro ext_intros producer_loop.while_sane consumer_loop.while_sane)+

lemma sane_register [ext_intros]:
  "sane (register_client c l i r s)" "sane (register_producer s)" "sane (register_consumer s)"
  "sane (unregister_client p q)"
  unfolding register_producer_def register_consumer_def register_client_def unregister_client_def
  by (intro ext_intros)+

lemma sane_handle_client [ext_intros]: "sane (handle_client s)"
  unfolding handle_client_def by (intro ext_intros)+

end
