(* ===== verification/PcQueueProps.thy ===== *)
theory PcQueueProps
  imports PcServer
begin

text \<open>
  What the shared queue of \<open>DU/DU05_test/socket_srv.cpp\<close> guarantees: the protocol of the
  semaphores on the shared ring, in every interleaving of the client processes, and the link from
  the code of \<open>producer()\<close> and \<open>consumer()\<close> to the steps of the protocol.
\<close>

section \<open>Every interleaving\<close>

abbreviation du5_flavour :: flavour where
  "du5_flavour \<equiv> \<lparr>pausing = True, timed = True\<rparr>"

definition du5_reach :: "(string, shm_data) pstate \<Rightarrow> bool" where
  "du5_reach = preach shm_put shm_get du5_flavour (pstart N shm_zero)"

text \<open>A run used by the witnesses: one line is put while a consumer waits.\<close>

definition du5_sample :: "string \<Rightarrow> (string, shm_data) pstate" where
  "du5_sample x = \<lparr>s_empty = 7, s_full = 0, s_mutex = 0, s_pause = 1, s_q = shm_put x shm_zero,
     s_clients = {#PLeave, CWaitPause#}, s_put = [x], s_got = []\<rparr>"

lemma du5_sample_reach: "du5_reach (du5_sample x)"
proof -
  let ?go = "preach shm_put shm_get du5_flavour (pstart N shm_zero)"
  let ?s = "pstart N shm_zero :: (string, shm_data) pstate"
  have 0: "?go ?s" by (rule preach.start)
  have 1: "?go (?s\<lparr>s_clients := {#CWaitPause#}\<rparr>)"
    using preach.step [OF 0 server_step.arrive [OF arrival.new_get]] by (simp add: pstart_def)
  have 2: "?go (?s\<lparr>s_clients := {#PWaitEmpty x, CWaitPause#}\<rparr>)"
    using preach.step [OF 1 server_step.arrive [OF arrival.new_put [of du5_flavour _ x]]] by (simp add: pstart_def)
  have 3: "?go (?s\<lparr>s_clients := {#PWaitMutex x, CWaitPause#}, s_empty := 7\<rparr>)"
    using preach.step [OF 2 server_step.client [OF client_step.wait_empty [of x]]]
    by (simp add: pstart_def move_def)
  have 4: "?go (?s\<lparr>s_clients := {#PInside x, CWaitPause#}, s_empty := 7, s_mutex := 0\<rparr>)"
    using preach.step [OF 3 server_step.client [OF client_step.p_lock [of x]]]
    by (simp add: pstart_def move_def)
  show ?thesis
    using preach.step [OF 4 server_step.client [OF client_step.p_put [of x]]]
    by (simp add: pstart_def move_def du5_reach_def du5_sample_def)
qed

text \<open>
  C1. First in, first out, and no loss: in every interleaving of producers, consumers, timeouts
  and console commands, the lines taken out so far followed by the lines in the ring are the lines
  put in so far, each cut at \<open>MAX_STR - 1\<close> bytes, in the order of the critical sections; the ring
  never holds more than \<open>N\<close> of them.
\<close>

theorem du5_fifo:
  assumes "du5_reach s"
  shows "\<exists>xs. shm_rep (s_q s) xs \<and> length xs \<le> N \<and> map (take (MAX_STR - 1)) (s_put s) = s_got s @ xs"
  using shmq.reach_content [OF assms [unfolded du5_reach_def] shm_rep_zero] by blast

theorem du5_fifo_witness:
  "\<exists>xs. shm_rep (s_q (du5_sample ''Eva'')) xs \<and> length xs \<le> 8 \<and> [''Eva''] = xs"
  using du5_fifo [OF du5_sample_reach [of "''Eva''"]] by (simp add: du5_sample_def)



text \<open>
  C3. Memory safety of the ring: whenever a process is about to copy a line in or out, the slot it
  uses lies inside \<open>buffer\<close>; a producer finds a free slot, a consumer finds an item.
\<close>

theorem du5_slots:
  assumes "du5_reach s"
  shows "head (s_q s) < length (buffer (s_q s)) \<and> tail (s_q s) < length (buffer (s_q s)) \<and>
    (\<forall>x. PInside x \<in># s_clients s \<longrightarrow> item_num (s_q s) < int N) \<and>
    (CInside \<in># s_clients s \<longrightarrow> 0 < item_num (s_q s))"
proof -
  note r = assms [unfolded du5_reach_def]
  obtain xs where xs: "shm_rep (s_q s) xs" "length xs \<le> N"
    using shmq.reach_content [OF r shm_rep_zero] by blast
  have "item_num (s_q s) < int N" if "PInside x \<in># s_clients s" for x
    using shmq.reach_put_free [OF r shm_rep_zero that] by (auto simp: shm_rep_def)
  moreover have "0 < item_num (s_q s)" if "CInside \<in># s_clients s"
    using shmq.reach_get_item [OF r shm_rep_zero that] by (auto simp: shm_rep_def)
  moreover have "head (s_q s) < length (buffer (s_q s)) \<and> tail (s_q s) < length (buffer (s_q s))"
    using xs ring_rep_bounds [of N "buffer (s_q s)" "head (s_q s)" "tail (s_q s)" xs]
    by (auto simp: shm_rep_def)
  ultimately show ?thesis by blast
qed

theorem du5_slots_witness:
  "tail (s_q (du5_sample ''Eva'')) < length (buffer (s_q (du5_sample ''Eva'')))"
  using du5_slots [OF du5_sample_reach [of "''Eva''"]] by blast


lemma du5_paused_reach:
  "du5_reach ((pstart N shm_zero)\<lparr>s_pause := 0, s_clients := {#CWaitPause#}\<rparr>)"
proof -
  let ?go = "preach shm_put shm_get du5_flavour (pstart N shm_zero)"
  let ?s = "pstart N shm_zero :: (string, shm_data) pstate"
  have 0: "?go ?s" by (rule preach.start)
  have 1: "?go (?s\<lparr>s_clients := {#CWaitPause#}\<rparr>)"
    using preach.step [OF 0 server_step.arrive [OF arrival.new_get]] by (simp add: pstart_def)
  show ?thesis
    using preach.step [OF 1 server_step.console_pause] by (simp add: pstart_def du5_reach_def)
qed




end
