(* ===== verification/PcCodeProps.thy ===== *)
theory PcCodeProps
  imports PcQueueProps
begin

text \<open>
  What the code of the clients' sessions in \<open>DU/DU05_test/socket_srv.cpp\<close> does, call by call:
  \<open>producer()\<close> and \<open>consumer()\<close> are the steps of the protocol, the limits on clients, a whole
  producer session, the message-queue mode.
\<close>

section \<open>Setting\<close>

text \<open>The process is attached to the shared memory and to four different semaphores.\<close>

definition attached :: "srv \<Rightarrow> nat \<Rightarrow> nat \<Rightarrow> nat \<Rightarrow> nat \<Rightarrow> nat \<Rightarrow> bool" where
  "attached p h mu em fu pa \<longleftrightarrow> g_mode p = MODE_SHM \<and> g_shm p = Some h \<and> mutex p = Some mu \<and>
     empty_sem p = Some em \<and> full_sem p = Some fu \<and> pause_sem p = Some pa \<and> distinct [mu, em, fu, pa]"

text \<open>Entries of the oracle that grant a call and bring no interference.\<close>

definition grant :: "'m entry" where
  "grant = (None, Ret 0)"

definition sem_add :: "nat \<Rightarrow> int \<Rightarrow> 'm kernel \<Rightarrow> 'm kernel" where
  "sem_add h d k = k\<lparr>k_sem := (k_sem k)(h := nat (int (k_sem k h) + d))\<rparr>"

definition mem_set :: "nat \<Rightarrow> 'm \<Rightarrow> 'm kernel \<Rightarrow> 'm kernel" where
  "mem_set h m k = k\<lparr>k_shm := (k_shm k)(h := m)\<rparr>"

lemma kernel_eq_iff:
  "(k :: 'm kernel) = k' \<longleftrightarrow> k_sem k = k_sem k' \<and> k_sem_dir k = k_sem_dir k' \<and> k_sem_next k = k_sem_next k' \<and>
     k_shm k = k_shm k' \<and> k_shm_dir k = k_shm_dir k' \<and> k_shm_next k = k_shm_next k' \<and>
     k_mq k = k_mq k' \<and> k_mq_dir k = k_mq_dir k' \<and> k_mq_next k = k_mq_next k'"
  by auto

lemma producer_run:
  assumes att: "attached (w_priv w) h mu em fu pa" and orc: "w_oracle w = grant # grant # os"
    and sems: "0 < k_sem (w_kern w) em" "0 < k_sem (w_kern w) mu"
    and mem: "k_shm (w_kern w) h = m" "tail m < length (buffer m)"
  shows "producer item w = (Val (), w\<lparr>w_oracle := os,
      w_calls := w_calls w @ [CSemWait em, CSemWait mu, CSemPost mu, CSemPost fu],
      w_priv := (w_priv w)\<lparr>mq_counter := mq_counter (w_priv w) + 1\<rparr>,
      w_kern := sem_add em (-1) (sem_add fu 1 (mem_set h (shm_put item m) (w_kern w)))\<rparr>)"
  using assms unfolding attached_def grant_def
  by (simp add: producer_def sem_wait_on_def sem_post_on_def deref_def io_simps sem_add_def mem_set_def
      fun_upd_twist nat_add_distrib fun_eq_iff)

lemma consumer_run:
  assumes att: "attached (w_priv w) h mu em fu pa"
    and orc: "w_oracle w = grant # grant # grant # grant # os"
    and sems: "0 < k_sem (w_kern w) pa" "0 < k_sem (w_kern w) fu" "0 < k_sem (w_kern w) mu"
    and mem: "k_shm (w_kern w) h = m" "head m < length (buffer m)"
  shows "consumer w = (Val (0, fst (shm_get m)), w\<lparr>w_oracle := os,
      w_calls := w_calls w @ [CSemWait pa, CSemPost pa, CClock, CSemTimedwait fu, CSemWait mu,
        CSemPost mu, CSemPost em],
      w_kern := sem_add fu (-1) (sem_add em 1 (mem_set h (snd (shm_get m)) (w_kern w)))\<rparr>)"
  using assms unfolding attached_def grant_def
  by (simp add: consumer_def consumer_shm_def sem_wait_on_def sem_post_on_def deref_def io_simps
      sem_add_def mem_set_def fun_upd_twist nat_add_distrib fun_eq_iff)

section \<open>The code is the protocol\<close>

text \<open>The state of the protocol, as the semaphores and the memory of the kernel show it.\<close>

definition view :: "srv \<Rightarrow> shm_data kernel \<Rightarrow> string point multiset \<Rightarrow> string list \<Rightarrow> string list
    \<Rightarrow> (string, shm_data) pstate" where
  "view p k cl ps gs = \<lparr>s_empty = k_sem k (the (empty_sem p)), s_full = k_sem k (the (full_sem p)),
     s_mutex = k_sem k (the (mutex p)), s_pause = k_sem k (the (pause_sem p)),
     s_q = k_shm k (the (g_shm p)), s_clients = cl, s_put = ps, s_got = gs\<rparr>"

lemma silent_put:
  assumes "0 < s_empty s" "0 < s_mutex s" "s_clients s = add_mset (PWaitEmpty x) cl"
  shows "silent_run put get fl s (s\<lparr>s_empty := s_empty s - 1, s_q := put x (s_q s),
    s_put := s_put s @ [x], s_full := Suc (s_full s), s_clients := cl\<rparr>)"
proof -
  let ?go = "silent_run put get fl s"
  have 0: "?go s" by (rule silent_run.silent_start)
  have 1: "?go (s\<lparr>s_empty := s_empty s - 1, s_clients := add_mset (PWaitMutex x) cl\<rparr>)"
    using silent_run.silent_client [OF 0 client_step.wait_empty [of x]] assms by (simp add: move_def)
  have 2: "?go (s\<lparr>s_empty := s_empty s - 1, s_mutex := s_mutex s - 1, s_clients := add_mset (PInside x) cl\<rparr>)"
    using silent_run.silent_client [OF 1 client_step.p_lock [of x]] assms by (simp add: move_def)
  have 3: "?go (s\<lparr>s_empty := s_empty s - 1, s_mutex := s_mutex s - 1, s_q := put x (s_q s),
      s_put := s_put s @ [x], s_clients := add_mset PLeave cl\<rparr>)"
    using silent_run.silent_client [OF 2 client_step.p_put [of x]] assms by (simp add: move_def)
  have 4: "?go (s\<lparr>s_empty := s_empty s - 1, s_q := put x (s_q s),
      s_put := s_put s @ [x], s_clients := add_mset PPostFull cl\<rparr>)"
    using silent_run.silent_client [OF 3 client_step.p_unlock] assms by (simp add: move_def)
  show ?thesis
    using silent_run.silent_client [OF 4 client_step.post_full] assms by (simp add: leave_def)
qed

lemma silent_get:
  assumes "0 < s_pause s" "0 < s_full s" "0 < s_mutex s" "s_clients s = add_mset CWaitPause cl"
    and "get (s_q s) = (x, q')"
  shows "silent_run put get fl s (s\<lparr>s_full := s_full s - 1, s_q := q', s_got := s_got s @ [x],
    s_empty := Suc (s_empty s), s_clients := cl\<rparr>)"
proof -
  let ?go = "silent_run put get fl s"
  have 0: "?go s" by (rule silent_run.silent_start)
  have 1: "?go (s\<lparr>s_pause := s_pause s - 1, s_clients := add_mset CPostPause cl\<rparr>)"
    using silent_run.silent_client [OF 0 client_step.wait_pause] assms by (simp add: move_def)
  have 2: "?go (s\<lparr>s_clients := add_mset CWaitFull cl\<rparr>)"
    using silent_run.silent_client [OF 1 client_step.post_pause] assms by (simp add: move_def)
  have 3: "?go (s\<lparr>s_full := s_full s - 1, s_clients := add_mset CWaitMutex cl\<rparr>)"
    using silent_run.silent_client [OF 2 client_step.wait_full] assms by (simp add: move_def)
  have 4: "?go (s\<lparr>s_full := s_full s - 1, s_mutex := s_mutex s - 1, s_clients := add_mset CInside cl\<rparr>)"
    using silent_run.silent_client [OF 3 client_step.c_lock] assms by (simp add: move_def)
  have 5: "?go (s\<lparr>s_full := s_full s - 1, s_mutex := s_mutex s - 1, s_q := q', s_got := s_got s @ [x],
      s_clients := add_mset (CLeave x) cl\<rparr>)"
    using silent_run.silent_client [OF 4 client_step.c_get [where x = x and q' = q']] assms by (simp add: move_def)
  have 6: "?go (s\<lparr>s_full := s_full s - 1, s_q := q', s_got := s_got s @ [x],
      s_clients := add_mset (CPostEmpty x) cl\<rparr>)"
    using silent_run.silent_client [OF 5 client_step.c_unlock [of x]] assms by (simp add: move_def)
  show ?thesis
    using silent_run.silent_client [OF 6 client_step.post_empty [of x]] assms by (simp add: leave_def)
qed





section \<open>A concrete server\<close>

definition sample_kernel :: "nat \<Rightarrow> nat \<Rightarrow> shm_data \<Rightarrow> shm_data kernel" where
  "sample_kernel em fu m = \<lparr>k_sem = (\<lambda>_. 0)(0 := 1, 1 := em, 2 := fu, 3 := 1),
     k_sem_dir = (\<lambda>_. None)(SEM_MUTEX_NAME := Some 0, SEM_EMPTY_NAME := Some 1,
        SEM_FULL_NAME := Some 2, SEM_PAUSE_NAME := Some 3),
     k_sem_next = 4, k_shm = (\<lambda>_. m), k_shm_dir = (\<lambda>_. None)(SHM_NAME := Some 0), k_shm_next = 1,
     k_mq = (\<lambda>_. []), k_mq_dir = (\<lambda>_. None), k_mq_next = 0\<rparr>"

definition sample_srv :: srv where
  "sample_srv = srv_init\<lparr>g_shm := Some 0, g_shm_fd := 0, mutex := Some 0, empty_sem := Some 1,
     full_sem := Some 2, pause_sem := Some 3\<rparr>"

definition sample_world :: "nat \<Rightarrow> nat \<Rightarrow> shm_data \<Rightarrow> shm_data entry list \<Rightarrow> (srv, shm_data) world" where
  "sample_world em fu m os = \<lparr>w_oracle = os, w_calls = [], w_errno = 0, w_debug = 1,
     w_priv = sample_srv, w_kern = sample_kernel em fu m\<rparr>"

lemma sample_attached: "attached (w_priv (sample_world em fu m os)) 0 0 1 2 3"
  by (simp add: attached_def sample_world_def sample_srv_def srv_init_def)



section \<open>Timeouts and the message-queue mode\<close>

text \<open>
  C8. A consumer whose wait times out changes nothing it shares: every semaphore and the memory are
  as they were when the wait ended, the client is told \<open>Timeout\<close> and its session is over.
\<close>

theorem consumer_timeout:
  assumes "attached (w_priv w) h mu em fu pa"
    and "w_oracle w = (e1, Ret r1) # (e2, Ret 0) # (e3, Fail ETIMEDOUT) # os"
    and "e2 = None" and "e3 = None" and "w_debug w = LOG_INFO"
    and "0 < k_sem (case e1 of None \<Rightarrow> w_kern w | Some k \<Rightarrow> k) pa"
  shows "\<exists>w'. consumer_round sock () w = (Val (Inr ()), w') \<and>
    w_kern w' = (case e1 of None \<Rightarrow> w_kern w | Some k \<Rightarrow> k) \<and>
    w_calls w' = w_calls w @ [CSemWait pa, CSemPost pa, CClock, CSemTimedwait fu,
      CLog LOG_INFO ''Consumer timeout (SHM).'', CWrite sock (''Timeout'' @ [LF]),
      CLog LOG_INFO (''Consumer client timeout '' @ EN_DASH @ '' closing.'')]"
  using assms unfolding attached_def
  by (simp add: consumer_round_def consumer_def consumer_shm_def sem_wait_on_def sem_post_on_def
      deref_def io_simps log_msg_def EN_DASH_def fun_upd_idem kernel_eq_iff fun_eq_iff)

theorem consumer_timeout_witness:
  "\<exists>w'. consumer_round 5 () (sample_world 8 0 shm_zero [grant, grant, (None, Fail ETIMEDOUT)]) = (Val (Inr ()), w')"
proof -
  let ?w = "sample_world 8 0 shm_zero [grant, grant, (None, Fail ETIMEDOUT)]"
  have o1: "w_oracle ?w = (None, Ret 0) # (None, Ret 0) # (None, Fail ETIMEDOUT) # []"
    by (simp add: sample_world_def grant_def)
  show ?thesis
    using consumer_timeout [OF sample_attached o1, of 5] by (auto simp: sample_world_def sample_kernel_def)
qed

text \<open>
  In the message-queue mode an item given to \<open>producer()\<close> is dropped: the call changes nothing
  but a counter of the process, makes no call at all, and the queue stays as it was, while the
  client is told \<open>Ok\<close>.
\<close>

theorem mq_producer_drops:
  assumes "g_mode (w_priv w) = MODE_MQ" and "w_oracle w = (None, Data (item @ [LF])) # os"
    and "item \<noteq> []" and "set item \<inter> {NUL, CR, LF} = {}" and "length item < MAX_STR - 1"
  shows "\<exists>w'. producer_round sock n w = (Val (Inl (n + 1)), w') \<and> w_kern w' = w_kern w \<and>
    w_calls w' = w_calls w @ [CRead sock (MAX_STR - 1), CWrite sock ok_line]"
proof -
  have "chomp (cstr (item @ [LF])) = item"
    using assms(4) chomp_append_lf [of item "[]"] cstr_id [of "item @ [LF]"] by auto
  then show ?thesis
    using assms by (simp add: producer_round_def producer_def io_simps Let_def)
qed

theorem mq_producer_drops_witness:
  "\<exists>w'. producer_round 5 0 ((sample_world 8 0 shm_zero [(None, Data (''Eva'' @ [LF]))])
      \<lparr>w_priv := sample_srv\<lparr>g_mode := MODE_MQ\<rparr>\<rparr>) = (Val (Inl 1), w')"
proof -
  let ?w = "(sample_world 8 0 shm_zero [(None, Data (''Eva'' @ [LF]))])\<lparr>w_priv := sample_srv\<lparr>g_mode := MODE_MQ\<rparr>\<rparr>"
  have "g_mode (w_priv ?w) = MODE_MQ" "w_oracle ?w = (None, Data (''Eva'' @ [LF])) # []"
    by (simp_all add: sample_world_def)
  from mq_producer_drops [OF this, of 5 0] show ?thesis by auto
qed


section \<open>Limits on the numbers of clients\<close>

text \<open>The kernel objects a process finds when a call returns.\<close>

definition found :: "'m kernel option \<Rightarrow> ('p, 'm) world \<Rightarrow> 'm kernel" where
  "found e w = (case e of None \<Rightarrow> w_kern w | Some k \<Rightarrow> k)"

text \<open>
  C9. A producer is admitted exactly when fewer than \<open>MAX_PRODUCERS\<close> are registered at the moment
  the mutex is taken, whatever other processes did before; then the count grows by one, and
  otherwise nothing shared changes and the client is sent the refusal and its socket closed. The
  mutex is free again in both cases.
\<close>

theorem register_producer_limit:
  assumes "attached (w_priv w) h mu em fu pa" and "w_oracle w = (e, Ret r) # os"
    and "0 < k_sem (found e w) mu" and "m = k_shm (found e w) h"
  shows "\<exists>w'. register_producer sock w = (Val (producer_clients m < MAX_PRODUCERS), w') \<and>
    w_kern w' = (if producer_clients m < MAX_PRODUCERS
      then mem_set h (m\<lparr>producer_clients := producer_clients m + 1\<rparr>) (found e w) else found e w) \<and>
    w_calls w' = w_calls w @ [CSemWait mu, CSemPost mu] @
      (if producer_clients m < MAX_PRODUCERS then []
       else [CWrite sock (''Too many producers'' @ [LF, NUL]), CClose sock])"
  using assms unfolding attached_def found_def
  by (cases "producer_clients m < MAX_PRODUCERS")
    (simp_all add: register_producer_def register_client_def sem_wait_on_def sem_post_on_def deref_def
      io_simps mem_set_def kernel_eq_iff fun_upd_idem)

theorem register_producer_limit_witness:
  "\<exists>w'. register_producer 5 (sample_world 8 0 (shm_zero\<lparr>producer_clients := 2\<rparr>) [grant]) = (Val False, w')"
proof -
  let ?w = "sample_world 8 0 (shm_zero\<lparr>producer_clients := 2\<rparr>) [grant]"
  have o1: "w_oracle ?w = (None, Ret 0) # []" by (simp add: sample_world_def grant_def)
  show ?thesis
    using register_producer_limit [OF sample_attached o1 _ refl, of 5]
    by (auto simp: sample_world_def sample_kernel_def found_def)
qed

section \<open>A producer session\<close>

definition plain_line :: "string \<Rightarrow> bool" where
  "plain_line x \<longleftrightarrow> x \<noteq> [] \<and> set x \<inter> {NUL, CR, LF} = {} \<and> length x < MAX_STR - 1"

lemma chomp_plain: "set x \<inter> {NUL, CR, LF} = {} \<Longrightarrow> chomp (cstr (x @ [LF])) = x"
  using chomp_append_lf [of x "[]"] cstr_id [of "x @ [LF]"] by auto

text \<open>The environment of a session: each line arrives in one read and its waits are granted.\<close>

fun lines_script :: "string list \<Rightarrow> 'm entry list" where
  "lines_script [] = [(None, Data [])]"
| "lines_script (x # xs) = (None, Data (x @ [LF])) # grant # grant # lines_script xs"

definition kern_after :: "nat \<Rightarrow> nat \<Rightarrow> nat \<Rightarrow> string list \<Rightarrow> shm_data kernel \<Rightarrow> shm_data kernel" where
  "kern_after h em fu xs k = sem_add em (- int (length xs)) (sem_add fu (int (length xs))
     (mem_set h (shmq.puts (k_shm k h) xs) k))"

lemma attached_counter: "attached (p\<lparr>mq_counter := c\<rparr>) h mu em fu pa = attached p h mu em fu pa"
  by (simp add: attached_def)

lemma producer_round_line:
  assumes att: "attached (w_priv w) h mu em fu pa"
    and orc: "w_oracle w = (None, Data (x @ [LF])) # grant # grant # os"
    and pl: "plain_line x" and "0 < k_sem (w_kern w) em" "0 < k_sem (w_kern w) mu"
    and "tail (k_shm (w_kern w) h) < length (buffer (k_shm (w_kern w) h))"
  shows "producer_round sock c w = (Val (Inl (c + 1)), w\<lparr>w_oracle := os,
      w_calls := w_calls w @ [CRead sock (MAX_STR - 1), CSemWait em, CSemWait mu, CSemPost mu, CSemPost fu,
        CWrite sock ok_line],
      w_priv := (w_priv w)\<lparr>mq_counter := mq_counter (w_priv w) + 1\<rparr>,
      w_kern := kern_after h em fu [x] (w_kern w)\<rparr>)"
proof -
  have "take (MAX_STR - 1) (x @ [LF]) = x @ [LF]"
    using pl by (intro take_all) (simp add: plain_line_def)
  then have ch: "chomp (cstr (take (MAX_STR - 1) (x @ [LF]))) = x"
    using pl chomp_plain [of x] by (simp only: plain_line_def)
  let ?w = "w\<lparr>w_oracle := grant # grant # os, w_calls := w_calls w @ [CRead sock (MAX_STR - 1)]\<rparr>"
  have rd: "sys_read sock (MAX_STR - 1) w = (Val (int (length x + 1), take (MAX_STR - 1) (x @ [LF])), ?w)"
    using orc pl by (auto simp: io_simps plain_line_def min_def)
  have pr: "producer x ?w = (Val (), ?w\<lparr>w_oracle := os,
      w_calls := w_calls ?w @ [CSemWait em, CSemWait mu, CSemPost mu, CSemPost fu],
      w_priv := (w_priv w)\<lparr>mq_counter := mq_counter (w_priv w) + 1\<rparr>,
      w_kern := kern_after h em fu [x] (w_kern w)\<rparr>)"
    using producer_run [of ?w h mu em fu pa os "k_shm (w_kern w) h" x] assms
    by (simp add: kern_after_def)
  have "x \<noteq> []" using pl by (simp add: plain_line_def)
  then have "producer_round sock c w =
      io_seq (producer x) (io_seq (emit (CWrite sock ok_line)) (io_ret (Inl (c + 1)))) ?w"
    unfolding producer_round_def
    by (subst io_bind_simps(1) [where m = "sys_read sock (MAX_STR - 1)" and w = w, OF rd])
      (simp only: prod.case Let_def ch if_False, simp)
  also have "\<dots> = io_seq (emit (CWrite sock ok_line)) (io_ret (Inl (c + 1))) (snd (producer x ?w))"
    unfolding io_seq_def [of "producer x"] pr
    by (subst io_bind_simps(1) [where m = "producer x" and w = ?w, OF pr]) simp
  finally show ?thesis unfolding pr by (simp add: io_simps)
qed


lemma kern_after_step:
  "distinct [em, fu] \<Longrightarrow> length xs < k_sem k em \<Longrightarrow>
   kern_after h em fu xs (kern_after h em fu [x] k) = kern_after h em fu (x # xs) k"
  by (auto simp: kern_after_def sem_add_def mem_set_def fun_eq_iff algebra_simps)

lemma kern_after_sems:
  assumes "distinct [mu, em, fu]"
  shows "k_sem (kern_after h em fu xs k) mu = k_sem k mu"
    "k_sem (kern_after h em fu xs k) em = k_sem k em - length xs"
    "k_sem (kern_after h em fu xs k) fu = k_sem k fu + length xs"
    "k_shm (kern_after h em fu xs k) h = shmq.puts (k_shm k h) xs"
  using assms by (auto simp: kern_after_def sem_add_def mem_set_def nat_add_distrib)

lemma shm_put_bounds: "tail m < length (buffer m) \<Longrightarrow> length (buffer m) = N \<Longrightarrow>
    tail (shm_put x m) < length (buffer (shm_put x m)) \<and> length (buffer (shm_put x m)) = N"
  by (simp add: shm_put_def Let_def)

text \<open>The whole loop over the lines, to the end of the connection.\<close>

lemma producer_loop_run:
  assumes "attached (w_priv w) h mu em fu pa" and "w_oracle w = lines_script xs @ os"
    and "\<And>x. x \<in> set xs \<Longrightarrow> plain_line x" and "length xs \<le> k_sem (w_kern w) em"
    and "0 < k_sem (w_kern w) mu" and "w_debug w = LOG_INFO"
    and "tail (k_shm (w_kern w) h) < length (buffer (k_shm (w_kern w) h))"
    and "length (buffer (k_shm (w_kern w) h)) = N"
  shows "\<exists>w'. io_while (producer_round sock) c w = (Val (c + int (length xs)), w') \<and>
     attached (w_priv w') h mu em fu pa \<and> w_oracle w' = os \<and> w_debug w' = LOG_INFO \<and>
     w_kern w' = kern_after h em fu xs (w_kern w) \<and>
     sent_to sock (w_calls w') = sent_to sock (w_calls w) @ replicate (length xs) ok_line"
  using assms
proof (induction xs arbitrary: w c)
  case Nil
  then show ?case
    by (subst producer_loop.while_unfold)
      (simp add: producer_round_def io_simps log_msg_def kern_after_def sem_add_def mem_set_def)
next
  case (Cons x xs)
  let ?w = "w\<lparr>w_oracle := lines_script xs @ os,
      w_calls := w_calls w @ [CRead sock (MAX_STR - 1), CSemWait em, CSemWait mu, CSemPost mu, CSemPost fu,
        CWrite sock ok_line],
      w_priv := (w_priv w)\<lparr>mq_counter := mq_counter (w_priv w) + 1\<rparr>,
      w_kern := kern_after h em fu [x] (w_kern w)\<rparr>"
  have d: "distinct [mu, em, fu]" using Cons.prems(1) by (auto simp: attached_def)
  have em: "length xs < k_sem (w_kern w) em" using Cons.prems(4) by simp
  have round: "producer_round sock c w = (Val (Inl (c + 1)), ?w)"
    using Cons.prems em by (intro producer_round_line) auto
  have "\<exists>w'. io_while (producer_round sock) (c + 1) ?w = (Val (c + 1 + int (length xs)), w') \<and>
     attached (w_priv w') h mu em fu pa \<and> w_oracle w' = os \<and> w_debug w' = LOG_INFO \<and>
     w_kern w' = kern_after h em fu xs (w_kern ?w) \<and>
     sent_to sock (w_calls w') = sent_to sock (w_calls ?w) @ replicate (length xs) ok_line"
    using Cons.prems em shm_put_bounds [of "k_shm (w_kern w) h" x]
    by (intro Cons.IH) (auto simp: attached_counter kern_after_sems [OF d])
  then show ?case
    using em d by (subst producer_loop.while_unfold)
      (auto simp: io_bind_simps(1) [where m = "producer_round sock c" and w = w, OF round] kern_after_step)
qed

end
