(* ===== verification/PcServerMain.thy ===== *)
theory PcServerMain
  imports PcServer
begin

text \<open>
  The rest of \<open>DU/DU05_test/socket_srv.cpp\<close>: creating and removing the shared objects, the
  arguments, and \<open>main\<close> with its event loop, one child process per client.
\<close>

section \<open>Shared objects\<close>

definition init_sem :: "(nat option \<Rightarrow> srv \<Rightarrow> srv) \<Rightarrow> string \<Rightarrow> nat \<Rightarrow> string \<Rightarrow> unit pc" where
  "init_sem put_handle nm v msg =
     io_bind (sem_open nm v) (\<lambda>h.
     io_seq (upd_priv (put_handle h))
    (if h = None then io_seq (log_msg LOG_ERROR msg []) (io_exit 1) else io_ret ()))"

definition init_queue :: "unit pc" where
  "init_queue = io_block
     [init_sem (\<lambda>h p. p\<lparr>mutex := h\<rparr>) SEM_MUTEX_NAME 1 ''sem_open(mutex) failed'',
      init_sem (\<lambda>h p. p\<lparr>empty_sem := h\<rparr>) SEM_EMPTY_NAME N ''sem_open(empty) failed'',
      init_sem (\<lambda>h p. p\<lparr>full_sem := h\<rparr>) SEM_FULL_NAME 0 ''sem_open(full) failed'',
      init_sem (\<lambda>h p. p\<lparr>pause_sem := h\<rparr>) SEM_PAUSE_NAME 1 ''sem_open(pause_sem) failed'']"

definition unlink_sems :: "unit pc" where
  "unlink_sems = io_block [sem_unlink SEM_MUTEX_NAME, sem_unlink SEM_EMPTY_NAME,
     sem_unlink SEM_FULL_NAME, sem_unlink SEM_PAUSE_NAME]"

text \<open>Opens the shared memory object, creating it if there is none; whether it was created.\<close>

definition open_shm :: "bool pc" where
  "open_shm =
     io_bind (shm_open SHM_NAME False shm_zero) (\<lambda>fd.
     io_seq (upd_priv (\<lambda>p. p\<lparr>g_shm_fd := fd\<rparr>))
    (if fd < 0 then
       io_seq (log_msg LOG_INFO ''SHM not found, creating new.'' [])
      (io_bind (shm_open SHM_NAME True shm_zero) (\<lambda>fd.
       io_seq (upd_priv (\<lambda>p. p\<lparr>g_shm_fd := fd\<rparr>))
      (if fd < 0 then io_seq (log_msg LOG_ERROR ''shm_open failed'' []) (io_exit 1)
       else
       io_bind (sys_int (CFtruncate fd)) (\<lambda>r.
       if r < 0 then io_seq (log_msg LOG_ERROR ''ftruncate failed'' []) (io_exit 1)
       else io_ret True))))
     else io_ret False))"

definition init_shm :: "unit pc" where
  "init_shm =
     io_bind open_shm (\<lambda>first.
     io_bind (get_priv g_shm_fd) (\<lambda>fd.
     io_bind (sys_mmap fd) (\<lambda>h.
     case h of
       None \<Rightarrow> io_seq (log_msg LOG_ERROR ''mmap failed'' []) (io_exit 1)
     | Some h \<Rightarrow>
         io_seq (upd_priv (\<lambda>p. p\<lparr>g_shm := Some h\<rparr>))
        (if first then
           io_block [unlink_sems, mem_upd h (\<lambda>_. shm_zero),
             log_msg LOG_INFO ''SHM initialized (first process).'' []]
         else log_msg LOG_INFO ''SHM attached (existing).'' []))))"

definition init_mq :: "unit pc" where
  "init_mq =
     io_bind (mq_open MQ_NAME False) (\<lambda>q.
     io_seq (upd_priv (\<lambda>p. p\<lparr>g_mq := q\<rparr>))
    (if q = -1 then
       io_seq (log_msg LOG_INFO ''MQ not found, creating new.'' [])
      (io_bind (mq_open MQ_NAME True) (\<lambda>q.
       io_seq (upd_priv (\<lambda>p. p\<lparr>g_mq := q\<rparr>))
      (if q = -1 then io_seq (log_msg LOG_ERROR ''mq_open failed'' []) (io_exit 1)
       else io_ret ())))
     else log_msg LOG_INFO ''MQ opened (existing).'' []))"

definition init_ipc :: "unit pc" where
  "init_ipc = io_bind (get_priv g_mode) (\<lambda>mode.
     if mode = MODE_MQ then init_mq else io_seq init_shm init_queue)"

definition close_sem :: "(srv \<Rightarrow> nat option) \<Rightarrow> unit pc" where
  "close_sem f = io_bind (get_priv f) (\<lambda>h. case h of None \<Rightarrow> io_ret () | Some h \<Rightarrow> sem_close h)"

definition close_sems :: "unit pc" where
  "close_sems = io_block [close_sem mutex, close_sem empty_sem, close_sem full_sem, close_sem pause_sem]"

definition unmap_shm :: "unit pc" where
  "unmap_shm =
     io_seq (io_bind (get_priv g_shm) (\<lambda>h. case h of None \<Rightarrow> io_ret () | Some h \<Rightarrow> emit (CMunmap h)))
       (io_bind (get_priv g_shm_fd) (\<lambda>fd. io_when (fd \<ge> 0) (emit (CClose fd))))"

definition close_mq :: "unit pc" where
  "close_mq = io_bind (get_priv g_mq) (\<lambda>q. io_when (q \<noteq> -1) (emit (CMqClose (nat q))))"

definition cleanup_ipc :: "unit pc" where
  "cleanup_ipc = io_bind (get_priv g_mode) (\<lambda>mode.
     if mode = MODE_SHM then io_block [close_sems, unlink_sems, unmap_shm, shm_unlink SHM_NAME]
     else io_block [close_mq, mq_unlink MQ_NAME])"

section \<open>Arguments\<close>

text \<open>\<open>help\<close> looks at the first argument only.\<close>

definition pc_help :: "string list \<Rightarrow> unit pc" where
  "pc_help t_args =
     io_seq (io_when (length t_args \<le> 1 \<or> t_args ! 1 = ''-h'')
         (io_seq (emit (CPrint ''usage'')) (io_exit 0)))
    (io_seq (io_when (t_args ! 1 = ''-d'') (set_debug LOG_DEBUG))
    (io_when (t_args ! 1 = ''-r'')
      (io_block [log_msg LOG_INFO ''Cleaning named IPC objects.'' [], unlink_sems,
         shm_unlink SHM_NAME, mq_unlink MQ_NAME, io_exit 0])))"

record options =
  l_port :: int
  log_file :: "string option"

fun parse_args :: "string list \<Rightarrow> string list \<Rightarrow> options \<Rightarrow> options pc" where
  "parse_args t_args [] o1 = io_ret o1"
| "parse_args t_args (a # rest) o1 =
     (if a = ''-d'' then io_seq (set_debug LOG_DEBUG) (parse_args t_args rest o1)
      else if a = ''-h'' then io_seq (pc_help t_args) (parse_args t_args rest o1)
      else if a = ''-r'' then io_seq (pc_help t_args) (parse_args t_args rest o1)
      else if a = ''-shm'' then io_seq (upd_priv (\<lambda>p. p\<lparr>g_mode := MODE_SHM\<rparr>)) (parse_args t_args rest o1)
      else if a = ''-mq'' then io_seq (upd_priv (\<lambda>p. p\<lparr>g_mode := MODE_MQ\<rparr>)) (parse_args t_args rest o1)
      else if a = ''-log'' then
        (case rest of
           [] \<Rightarrow> parse_args t_args [] o1
         | f # rest' \<Rightarrow> parse_args t_args rest' (o1\<lparr>log_file := Some f\<rparr>))
      else if not_option a \<and> l_port o1 = 0 then
        io_bind (atoi_io a) (\<lambda>p. parse_args t_args rest (o1\<lparr>l_port := p\<rparr>))
      else parse_args t_args rest o1)"

definition open_log :: "options \<Rightarrow> unit pc" where
  "open_log o1 = (case log_file o1 of
      None \<Rightarrow> io_ret ()
    | Some f \<Rightarrow> io_bind (sys_int (COpen f)) (\<lambda>r.
        if r < 0 then io_seq (emit (CPrint ''fopen log_file'')) (io_exit 1)
        else upd_priv (\<lambda>p. p\<lparr>g_log := Some r\<rparr>)))"

definition close_log :: "unit pc" where
  "close_log = io_bind (get_priv g_log) (\<lambda>f. case f of None \<Rightarrow> io_ret () | Some fd \<Rightarrow> emit (CClose fd))"

text \<open>\<open>main\<close> up to the creation of the socket.\<close>

definition start_up :: "string list \<Rightarrow> int pc" where
  "start_up t_args =
     io_seq (io_when (length t_args \<le> 1) (pc_help t_args))
    (io_bind (parse_args t_args (tl t_args) \<lparr>l_port = 0, log_file = None\<rparr>) (\<lambda>o1.
     io_seq (open_log o1)
    (io_seq (io_when (l_port o1 \<le> 0)
        (io_seq (log_msg LOG_INFO ''Bad or missing port number %d!'' [AInt (l_port o1)]) (pc_help t_args)))
    (io_seq (log_msg LOG_INFO ''Server will listen on port: %d.'' [AInt (l_port o1)])
    (io_ret (l_port o1))))))"

section \<open>The event loop\<close>

text \<open>A console command: \<open>quit\<close>, \<open>-\<close> (close the pause gate), \<open>+\<close> (open it).\<close>

definition console_command :: "string \<Rightarrow> unit pc" where
  "console_command buf =
     io_bind (get_priv (\<lambda>p. g_mode p = MODE_SHM \<and> pause_sem p \<noteq> None)) (\<lambda>can_pause.
     if buf = ''quit'' then
       io_seq (log_msg LOG_INFO ''Request to 'quit' entered.'' []) (upd_priv (\<lambda>p. p\<lparr>g_running := False\<rparr>))
     else if buf = ''-'' then
       (if can_pause then io_seq (sem_wait_on pause_sem) (log_msg LOG_INFO ''Consumers paused.'' [])
        else log_msg LOG_INFO ''Pause works only in SHM mode.'' [])
     else if buf = ''+'' then
       (if can_pause then io_seq (sem_post_on pause_sem) (log_msg LOG_INFO ''Consumers resumed.'' [])
        else log_msg LOG_INFO ''Resume works only in SHM mode.'' [])
     else io_ret ())"

definition console_input :: "unit pc" where
  "console_input =
     io_bind (sys_read STDIN_FILENO 127) (\<lambda>(l_len, d).
     if l_len \<le> 0 then
       io_seq (log_msg LOG_INFO ''Stdin closed, stopping server.'' []) (upd_priv (\<lambda>p. p\<lparr>g_running := False\<rparr>))
     else console_command (chomp (cstr d)))"

text \<open>The child process of a client ends with the client.\<close>

definition child_process :: "int \<Rightarrow> int \<Rightarrow> unit pc" where
  "child_process l_sock_listen l_sock_client =
     io_block [emit (CClose l_sock_listen), handle_client l_sock_client,
       io_bind (get_priv g_mode) (\<lambda>mode.
         if mode = MODE_SHM then io_block [close_sems, unmap_shm] else close_mq),
       close_log, io_exit 0]"

definition new_client :: "int \<Rightarrow> string \<times> int \<Rightarrow> (string \<times> int) pc" where
  "new_client l_sock_listen l_srv_addr =
     io_bind (sys_int (CAccept l_sock_listen)) (\<lambda>l_sock_client.
     if l_sock_client = -1 then
       io_seq (log_msg LOG_ERROR ''Unable to accept new client.'' []) (io_ret l_srv_addr)
     else
     io_bind (announce l_sock_client l_srv_addr) (\<lambda>a.
     io_bind (sys_int CFork) (\<lambda>pid.
     io_seq (if pid = 0 then child_process l_sock_listen l_sock_client
             else io_when (pid > 0) (emit (CClose l_sock_client)))
    (io_ret a))))"

text \<open>One round; \<open>Inr\<close> leaves the loop.\<close>

definition main_round :: "int \<Rightarrow> string \<times> int \<Rightarrow> (string \<times> int + unit) pc" where
  "main_round l_sock_listen l_srv_addr =
     io_bind (sys_poll [STDIN_FILENO, l_sock_listen]) (\<lambda>(l_poll, in0, in1).
     if l_poll < 0 then
       io_bind get_errno (\<lambda>e.
         if e = EINTR then io_ret (Inl l_srv_addr)
         else io_seq (log_msg LOG_ERROR ''Function poll failed!'' []) (io_ret (Inr ())))
     else
     io_seq (io_when in0 console_input)
    (io_bind (get_priv g_running) (\<lambda>running.
     if \<not> running then io_ret (Inr ())
     else if in1 then io_bind (new_client l_sock_listen l_srv_addr) (\<lambda>a. io_ret (Inl a))
     else io_ret (Inl l_srv_addr))))"

definition pc_main :: "string list \<Rightarrow> int pc" where
  "pc_main t_args =
     io_bind (start_up t_args) (\<lambda>port.
     io_bind (open_listener port 10) (\<lambda>l_sock_listen.
     io_seq init_ipc
    (io_seq (emit CSignal)
    (io_seq (io_while (main_round l_sock_listen) (any_addr port))
    (io_seq (emit (CClose l_sock_listen))
    (io_seq cleanup_ipc
    (io_seq close_log
    (io_ret 0))))))))"

section \<open>Facts\<close>

lemma sane_init_sem [ext_intros]: "sane (init_sem f nm v msg)"
  unfolding init_sem_def by (intro ext_intros)

lemma sane_init_queue [ext_intros]: "sane init_queue"
  unfolding init_queue_def by (intro ext_intros)

lemma sane_unlink_sems [ext_intros]: "sane unlink_sems"
  unfolding unlink_sems_def by (intro ext_intros)

lemma sane_open_shm [ext_intros]: "sane open_shm"
  unfolding open_shm_def by (intro ext_intros)

lemma sane_init_shm [ext_intros]: "sane init_shm"
  unfolding init_shm_def by (intro ext_intros)

lemma sane_init_mq [ext_intros]: "sane init_mq"
  unfolding init_mq_def by (intro ext_intros)

lemma sane_init_ipc [ext_intros]: "sane init_ipc"
  unfolding init_ipc_def by (intro ext_intros)

lemma sane_close_sem [ext_intros]: "sane (close_sem g)"
  unfolding close_sem_def by (intro ext_intros)

lemma sane_close_sems [ext_intros]: "sane close_sems"
  unfolding close_sems_def by (intro ext_intros)

lemma sane_unmap_shm [ext_intros]: "sane unmap_shm"
  unfolding unmap_shm_def by (intro ext_intros)

lemma sane_close_mq [ext_intros]: "sane close_mq"
  unfolding close_mq_def by (intro ext_intros)

lemma sane_cleanup_ipc [ext_intros]: "sane cleanup_ipc"
  unfolding cleanup_ipc_def by (intro ext_intros)

lemma sane_pc_help [ext_intros]: "sane (pc_help ta)"
  unfolding pc_help_def by (intro ext_intros)

lemma sane_parse_args [ext_intros]: "sane (parse_args ta xs o1)"
proof (induction xs arbitrary: o1 rule: length_induct)
  case (1 xs)
  then have IH: "sane (parse_args ta ys o2)" if "length ys < length xs" for ys o2
    using that by blast
  show ?case
  proof (cases xs)
    case Nil
    then show ?thesis by (simp add: sane_ret)
  next
    case (Cons a rest)
    have r: "sane (parse_args ta rest o2)" for o2 by (rule IH) (simp add: Cons)
    have r': "sane (parse_args ta (tl rest) o2)" for o2 by (rule IH) (simp add: Cons less_Suc_eq_le)
    have c: "sane (case rest of [] \<Rightarrow> parse_args ta [] o1
        | f # rest' \<Rightarrow> parse_args ta rest' (o1\<lparr>log_file := Some f\<rparr>))"
      using r' by (cases rest) (auto simp: sane_ret)
    then show ?thesis
      using c unfolding Cons parse_args.simps by - (rule c [unfolded parse_args.simps] r ext_intros)+
  qed
qed

lemma sane_start_up [ext_intros]: "sane (start_up ta)"
  unfolding start_up_def open_log_def by (intro ext_intros)

lemma sane_close_log [ext_intros]: "sane close_log"
  unfolding close_log_def by (intro ext_intros)

lemma sane_console_command [ext_intros]: "sane (console_command b)"
  unfolding console_command_def by (intro ext_intros)

lemma sane_console_input [ext_intros]: "sane console_input"
  unfolding console_input_def by (intro ext_intros)

lemma sane_child_process [ext_intros]: "sane (child_process l c)"
  unfolding child_process_def by (intro ext_intros)

lemma sane_new_client [ext_intros]: "sane (new_client l a)"
  unfolding new_client_def by (intro ext_intros)

interpretation main_loop: event_loop "main_round s"
proof
  show "sane (main_round s a)" for a
    unfolding main_round_def by (intro ext_intros)
  show "uses (main_round s a)" for a
    unfolding main_round_def by (rule uses_bind_first [OF uses_sys(3)]) (intro ext_intros)
qed

lemma sane_pc_main: "sane (pc_main ta)"
  unfolding pc_main_def by (intro ext_intros main_loop.while_sane)

end
