(* ===== verification/PcSafety.thy ===== *)
theory PcSafety
  imports Guarantee PcCodeProps PcServerMain
begin

text \<open>
  Memory safety of \<open>DU/DU05_test/socket_srv.cpp\<close> under interference: whatever the clients send and
  whatever the other processes do to the semaphores and, within the shape of the ring, to the
  shared memory, a process of the server commits no undefined behaviour and keeps the shape.
\<close>

section \<open>The shape of the shared memory\<close>

definition shm_ok :: "shm_data \<Rightarrow> bool" where
  "shm_ok m \<longleftrightarrow> length (buffer m) = N \<and> head m < N \<and> tail m < N"

definition shm_kern :: "nat \<Rightarrow> shm_data kernel \<Rightarrow> bool" where
  "shm_kern h k \<longleftrightarrow> shm_ok (k_shm k h)"

text \<open>The globals after a successful \<open>init_ipc\<close> in \<open>MODE_SHM\<close>: no pointer is null.\<close>

definition bound_to :: "nat \<Rightarrow> srv \<Rightarrow> bool" where
  "bound_to h p \<longleftrightarrow> g_mode p = MODE_SHM \<and> g_shm p = Some h \<and> mutex p \<noteq> None \<and> empty_sem p \<noteq> None \<and>
     full_sem p \<noteq> None \<and> pause_sem p \<noteq> None"

lemma mem_only_shm [keeps_intros]: "mem_only (shm_kern h)"
  by (simp add: mem_only_def shm_kern_def)

lemma shm_ok_ops: "shm_ok m \<Longrightarrow> shm_ok (shm_put x m)" "shm_ok m \<Longrightarrow> shm_ok (snd (shm_get m))"
  by (simp_all add: shm_ok_def shm_put_def shm_get_def Let_def)

lemma shm_ok_clients:
  "shm_ok m \<Longrightarrow> shm_ok (m\<lparr>producer_clients := c\<rparr>)" "shm_ok m \<Longrightarrow> shm_ok (m\<lparr>consumer_clients := c\<rparr>)"
  by (simp_all add: shm_ok_def)

abbreviation safe :: "nat \<Rightarrow> 'a pc \<Rightarrow> bool" where
  "safe h m \<equiv> keeps (bound_to h) (shm_kern h) m"

lemma keeps_shm_upd: "(\<And>m. shm_ok m \<Longrightarrow> shm_ok (f m)) \<Longrightarrow> keeps A (shm_kern h) (mem_upd h f)"
  by (rule keeps_mem_upd) (simp add: shm_kern_def)

section \<open>The operations\<close>

lemma safe_deref:
  assumes "\<And>p. bound_to h p \<Longrightarrow> f p \<noteq> None" and "\<And>x. safe h (k x)"
  shows "safe h (deref f k)"
  unfolding deref_def
  by (rule gives_bind_priv, drule assms(1)) (auto simp: assms(2))

lemma safe_deref_shm: "safe h (k h) \<Longrightarrow> safe h (deref g_shm k)"
  unfolding deref_def
  by (rule gives_bind_priv) (simp add: bound_to_def)

lemma safe_sems [keeps_intros]:
  "safe h (sem_wait_on mutex)" "safe h (sem_wait_on empty_sem)" "safe h (sem_wait_on full_sem)"
  "safe h (sem_wait_on pause_sem)" "safe h (sem_post_on mutex)" "safe h (sem_post_on empty_sem)"
  "safe h (sem_post_on full_sem)" "safe h (sem_post_on pause_sem)"
  unfolding sem_wait_on_def sem_post_on_def
  by (rule safe_deref, simp add: bound_to_def, intro keeps_intros)+

lemma safe_put: "safe h (io_bind (mem_get h id) (\<lambda>m.
    if tail m < length (buffer m) then mem_upd h (shm_put item) else io_ub))"
  by (rule gives_bind_mem) (auto simp: shm_kern_def shm_ok_def intro!: keeps_shm_upd shm_ok_ops [unfolded shm_ok_def])

lemma safe_get: "safe h (io_bind (mem_get h id) (\<lambda>m. if head m < length (buffer m)
    then io_seq (mem_upd h (\<lambda>m. snd (shm_get m))) (io_ret (fst (shm_get m))) else io_ub))"
  by (rule gives_bind_mem)
    (auto simp: shm_kern_def shm_ok_def intro!: keeps_seq keeps_ret keeps_shm_upd shm_ok_ops [unfolded shm_ok_def])

lemma safe_producer: "safe h (producer item)"
  unfolding producer_def
  by (intro keeps_intros safe_deref_shm safe_put keeps_upd_priv)
    (auto simp: bound_to_def gives_get_priv)

lemma safe_logs [keeps_intros]:
  "safe h (log_msg l ''clock_gettime failed'' [])" "safe h (log_msg l ''Consumer timeout (SHM).'' [])"
  "safe h (log_msg l ''sem_timedwait(full) failed'' [])"
  "safe h (log_msg l ''Producer client disconnected'' [])" "safe h (log_msg l ''Consumer client disconnected'' [])"
  "safe h (log_msg l (''Consumer client timeout '' @ EN_DASH @ '' closing.'') [])"
  "safe h (log_msg l (''Consumer internal error '' @ EN_DASH @ '' closing.'') [])"
  by (rule keeps_log, simp add: fits_def EN_DASH_def)+

lemma safe_consumer: "safe h consumer"
proof -
  have shm: "safe h consumer_shm"
    unfolding consumer_shm_def
    by (intro keeps_intros safe_deref_shm safe_get safe_deref) (auto simp: bound_to_def)
  show ?thesis
    unfolding consumer_def by (rule gives_bind_priv) (simp add: shm bound_to_def)
qed

lemma safe_producer_round:
  "gives (bound_to h) (shm_kern h) (\<lambda>r. case r of Inl c' \<Rightarrow> c' = c \<or> c' = c + 1 | Inr a \<Rightarrow> a = c)
     (producer_round sock c)"
  unfolding producer_round_def
  by (rule keeps_bind [OF keeps_read])
    (auto simp: Let_def intro!: keeps_seq keeps_state gives_ret safe_producer safe_logs)

lemma safe_run_producer: "safe h (run_producer_client sock)"
  unfolding run_producer_client_def
  using length_show_int
  by (intro gives_bind [OF keeps_while_count [OF producer_loop.event_loop_axioms safe_producer_round]] keeps_log)
    (fastforce simp: fits_def)

lemma safe_consumer_round: "safe h (consumer_round sock u)"
proof -
  have ack: "safe h (log_msg LOG_INFO (''Consumer sent invalid ACK: '%s'' @ [CHR 0x27]) [AStr (chomp (cstr d))])"
    if "length d \<le> 255" for d
    using length_chomp_le [of "cstr d"] length_cstr_le [of d] that
    by (intro keeps_log) (simp add: fits_def)
  show ?thesis
    unfolding consumer_round_def
    by (intro gives_bind_read keeps_intros safe_consumer) (auto simp: read_ok_def intro: ack [simplified])
qed

lemma safe_run_consumer: "safe h (run_consumer_client sock)"
  unfolding run_consumer_client_def by (rule keeps_while_simple) (rule safe_consumer_round)

lemma safe_register: 
  assumes "\<And>m. shm_ok m \<Longrightarrow> shm_ok (incr m)"
  shows "safe h (register_client f lim incr t sock)"
  unfolding register_client_def
  by (intro keeps_intros safe_deref_shm keeps_shm_upd assms) (simp_all add: gives_get_priv)

lemma safe_unregister: "safe h (unregister_client a b)"
  unfolding unregister_client_def
  by (intro keeps_intros safe_deref_shm keeps_shm_upd) (auto simp: gives_get_priv shm_ok_clients)

lemma safe_registers: "safe h (register_producer sock)" "safe h (register_consumer sock)"
  unfolding register_producer_def register_consumer_def
  by (rule safe_register, erule shm_ok_clients)+

lemma safe_handle_client: "safe h (handle_client sock)"
  unfolding handle_client_def
  by (intro keeps_intros safe_registers safe_run_producer safe_run_consumer safe_unregister)



section \<open>The main loop\<close>

lemma safe_close:
  "safe h (close_sem f)" "safe h close_sems" "safe h unmap_shm" "safe h close_mq" "safe h close_log"
proof -
  show c: "safe h (close_sem f)" for f
    unfolding close_sem_def by (rule gives_bind_priv) (simp add: keeps_intros split: option.split)
  show "safe h close_sems"
    unfolding close_sems_def by (simp add: keeps_seq keeps_ret c)
  show "safe h unmap_shm" "safe h close_mq" "safe h close_log"
    unfolding unmap_shm_def close_mq_def close_log_def
    by (intro keeps_seq gives_bind_priv; simp add: keeps_ret keeps_state keeps_when split: option.split)+
qed

lemma safe_console: "safe h console_input"
proof -
  have "safe h (console_command buf)" for buf
    unfolding console_command_def
    by (rule gives_bind_priv)
      (auto intro!: keeps_intros keeps_upd_priv keeps_log simp: bound_to_def fits_def)
  then show ?thesis
    unfolding console_input_def
    by (intro keeps_intros keeps_log keeps_upd_priv) (auto simp: bound_to_def fits_def)
qed

lemma safe_new_client: "addr_ok a \<Longrightarrow> gives (bound_to h) (shm_kern h) addr_ok (new_client l a)"
  unfolding new_client_def child_process_def
  by (intro gives_bind [OF gives_announce] keeps_intros keeps_log gives_ret safe_handle_client safe_close)
    (auto simp: fits_def gives_get_priv)

lemma safe_main_round:
  assumes "addr_ok a"
  shows "gives (bound_to h) (shm_kern h) (\<lambda>r. case r of Inl a' \<Rightarrow> addr_ok a' | Inr _ \<Rightarrow> True) (main_round l a)"
  unfolding main_round_def
  by (intro keeps_intros gives_ret keeps_log safe_console gives_bind [OF safe_new_client [OF assms]])
    (auto simp: assms fits_def gives_get_priv)



end
