(* ===== verification/PcMainProps.thy ===== *)
theory PcMainProps
  imports PcSafety
begin

text \<open>
  The life of the server \<open>DU/DU05_test/socket_srv.cpp\<close>: its arguments, the creation and removal of
  the shared objects, whole sessions of producers, and the main loop.
\<close>

section \<open>Creating the shared objects\<close>

text \<open>
  C12. A server that finds no shared memory object starts the protocol afresh, whatever semaphores
  an earlier one left behind under the same names: its four semaphores are 1, \<open>N\<close>, 0 and 1, the
  ring is empty and zeroed, and the process is attached to all of them.
\<close>

theorem init_fresh:
  assumes "g_mode (w_priv w) = MODE_SHM" and "w_oracle w = replicate 8 grant @ os" and "w_debug w = LOG_INFO"
    and "k_shm_dir (w_kern w) SHM_NAME = None"
  shows "\<exists>w' h mu em fu pa. init_ipc w = (Val (), w') \<and> w_oracle w' = os \<and>
    attached (w_priv w') h mu em fu pa \<and>
    view (w_priv w') (w_kern w') {#} [] [] = pstart N shm_zero"
proof -
  have o: "w_oracle w = (None, Ret 0) # (None, Ret 0) # (None, Ret 0) # (None, Ret 0) # (None, Ret 0) #
      (None, Ret 0) # (None, Ret 0) # (None, Ret 0) # os"
    using assms(2) by (simp add: grant_def eval_nat_numeral)
  show ?thesis
    using assms(1,3,4) o
    by (simp add: init_ipc_def init_shm_def open_shm_def init_queue_def init_sem_def unlink_sems_def io_simps
        log_msg_def attached_def view_def pstart_def)
qed

definition fresh_kernel :: "shm_data kernel" where
  "fresh_kernel = (sample_kernel 3 4 shm_zero)\<lparr>k_shm_dir := (\<lambda>_. None)\<rparr>"

theorem init_fresh_witness:
  "\<exists>w'. init_ipc \<lparr>w_oracle = replicate 8 grant, w_calls = [], w_errno = 0, w_debug = 1, w_priv = srv_init,
     w_kern = fresh_kernel\<rparr> = (Val (), w') \<and> view (w_priv w') (w_kern w') {#} [] [] = pstart N shm_zero"
  using init_fresh [of "\<lparr>w_oracle = replicate 8 grant, w_calls = [], w_errno = 0, w_debug = 1,
      w_priv = srv_init, w_kern = fresh_kernel\<rparr>" "[]"]
  by (auto simp: srv_init_def fresh_kernel_def simp del: replicate.simps)

lemma init_sem_attach:
  assumes "w_oracle w = grant # os" and "k_sem_dir (w_kern w) nm = Some h"
  shows "init_sem put_handle nm v msg w = (Val (), w\<lparr>w_oracle := os, w_calls := w_calls w @ [CSemOpen nm v],
    w_priv := put_handle (Some h) (w_priv w)\<rparr>)"
  using assms by (simp add: init_sem_def grant_def io_simps)

lemma open_shm_attach:
  assumes "w_oracle w = grant # os" and "k_shm_dir (w_kern w) SHM_NAME = Some h"
  shows "open_shm w = (Val False, w\<lparr>w_oracle := os, w_calls := w_calls w @ [CShmOpen SHM_NAME False],
    w_priv := (w_priv w)\<lparr>g_shm_fd := int h\<rparr>\<rparr>)"
  using assms by (simp add: open_shm_def grant_def io_simps)

lemma init_shm_attach:
  assumes "w_oracle w = grant # grant # os" and "k_shm_dir (w_kern w) SHM_NAME = Some h" and "w_debug w = LOG_INFO"
  shows "\<exists>w'. init_shm w = (Val (), w') \<and> w_oracle w' = os \<and> w_kern w' = w_kern w \<and>
    w_priv w' = (w_priv w)\<lparr>g_shm_fd := int h, g_shm := Some h\<rparr>"
  unfolding init_shm_def io_bind_simps(1) [where m = open_shm, OF open_shm_attach [OF assms(1,2)]]
  using assms by (simp add: grant_def io_simps log_msg_def)

text \<open>
  A server that finds the objects attaches to them and changes none: it shares the queue, as it
  stands, with the processes that have it.
\<close>

theorem init_attach:
  assumes "g_mode (w_priv w) = MODE_SHM" and "w_oracle w = replicate 6 grant @ os" and "w_debug w = LOG_INFO"
    and "k_shm_dir (w_kern w) SHM_NAME = Some h" and "k_sem_dir (w_kern w) SEM_MUTEX_NAME = Some mu"
    and "k_sem_dir (w_kern w) SEM_EMPTY_NAME = Some em" and "k_sem_dir (w_kern w) SEM_FULL_NAME = Some fu"
    and "k_sem_dir (w_kern w) SEM_PAUSE_NAME = Some pa" and "distinct [mu, em, fu, pa]"
  shows "\<exists>w'. init_ipc w = (Val (), w') \<and> w_kern w' = w_kern w \<and> attached (w_priv w') h mu em fu pa"
proof -
  have "w_oracle w = grant # grant # replicate 4 grant @ os"
    using assms(2) by (simp add: eval_nat_numeral)
  then obtain u where u: "init_shm w = (Val (), u)" "w_oracle u = grant # grant # grant # grant # os"
      "w_kern u = w_kern w" "w_priv u = (w_priv w)\<lparr>g_shm_fd := int h, g_shm := Some h\<rparr>"
    using init_shm_attach [OF _ assms(4,3)] by (fastforce simp: eval_nat_numeral)
  then have "\<exists>w'. init_queue u = (Val (), w') \<and> w_kern w' = w_kern w \<and> attached (w_priv w') h mu em fu pa"
    using assms(1,5-9)
    by (simp add: init_queue_def io_seq_def io_ret_def attached_def io_bind_simps(1) [OF init_sem_attach])
  then show ?thesis
    using assms(1) u(1) by (simp add: init_ipc_def io_seq_def get_priv_def io_bind_def)
qed

theorem init_attach_witness:
  "\<exists>w'. init_ipc \<lparr>w_oracle = replicate 6 grant, w_calls = [], w_errno = 0, w_debug = 1, w_priv = srv_init,
     w_kern = sample_kernel 5 3 shm_zero\<rparr> = (Val (), w') \<and> attached (w_priv w') 0 0 1 2 3"
  using init_attach [of "\<lparr>w_oracle = replicate 6 grant, w_calls = [], w_errno = 0, w_debug = 1,
      w_priv = srv_init, w_kern = sample_kernel 5 3 shm_zero\<rparr>" "[]" 0 0 1 2 3]
  by (auto simp: srv_init_def sample_kernel_def simp del: replicate.simps)

section \<open>The end of the server\<close>

lemma only_calls_close: "only_calls (close_sem f)" "only_calls close_sems" "only_calls unmap_shm"
  "only_calls close_mq" "only_calls close_log"
proof -
  have p: "only_calls (io_bind (get_priv g) k)" if "\<And>x. only_calls (k x)" for g and k :: "'a \<Rightarrow> unit pc"
    using that by (simp add: only_calls_def io_bind_def get_priv_def)
  note steps = p only_calls_ret only_calls_emit only_calls_seq
  show c: "only_calls (close_sem f)" for f
    unfolding close_sem_def sem_close_def by (rule p) (simp add: steps split: option.split)
  show "only_calls close_sems" unfolding close_sems_def by (simp add: steps c)
  show "only_calls unmap_shm"
    unfolding unmap_shm_def by (intro only_calls_seq p) (simp_all add: steps io_when_def split: option.split)
  show "only_calls close_mq" "only_calls close_log"
    unfolding close_mq_def close_log_def by (rule p, simp add: steps io_when_def split: option.split)+
qed

text \<open>What the server leaves when it removes the names.\<close>

definition names_removed :: "(srv, shm_data) world \<Rightarrow> bool" where
  "names_removed w \<longleftrightarrow> (if g_mode (w_priv w) = MODE_SHM
     then k_shm_dir (w_kern w) SHM_NAME = None \<and> k_sem_dir (w_kern w) SEM_MUTEX_NAME = None \<and>
       k_sem_dir (w_kern w) SEM_EMPTY_NAME = None \<and> k_sem_dir (w_kern w) SEM_FULL_NAME = None \<and>
       k_sem_dir (w_kern w) SEM_PAUSE_NAME = None
     else k_mq_dir (w_kern w) MQ_NAME = None)"

lemma cleanup_removes:
  assumes "cleanup_ipc w = (r, w')"
  shows "names_removed w'"
proof (cases "g_mode (w_priv w) = MODE_SHM")
  case True
  then have "io_bind close_sems (\<lambda>_. io_block [unlink_sems, unmap_shm, shm_unlink SHM_NAME]) w = (r, w')"
    using assms by (simp add: cleanup_ipc_def get_priv_def io_bind_def io_seq_def)
  then obtain cs where "io_block [unlink_sems, unmap_shm, shm_unlink SHM_NAME] (w\<lparr>w_calls := w_calls w @ cs\<rparr>) = (r, w')"
    using only_calls_bind [OF only_calls_close(2)] by blast
  then obtain u cs where u: "io_bind unmap_shm (\<lambda>_. io_seq (shm_unlink SHM_NAME) (io_ret ())) u = (r, w')"
    and k: "k_sem_dir (w_kern u) SEM_MUTEX_NAME = None" "k_sem_dir (w_kern u) SEM_EMPTY_NAME = None"
      "k_sem_dir (w_kern u) SEM_FULL_NAME = None" "k_sem_dir (w_kern u) SEM_PAUSE_NAME = None"
      "g_mode (w_priv u) = MODE_SHM"
    using True by (simp add: unlink_sems_def io_seq_def [of unmap_shm]) (auto simp: io_simps)
  from only_calls_bind [OF only_calls_close(3) u] k show ?thesis
    by (auto simp: io_simps names_removed_def)
next
  case False
  then have "io_bind close_mq (\<lambda>_. io_seq (mq_unlink MQ_NAME) (io_ret ())) w = (r, w')"
    using assms by (simp add: cleanup_ipc_def get_priv_def io_bind_def io_seq_def)
  from only_calls_bind [OF only_calls_close(4) this] False show ?thesis
    by (auto simp: io_simps names_removed_def)
qed

lemma bind_ValD:
  assumes "io_bind m f w = (Val b, w'')"
  obtains a w' where "m w = (Val a, w')" "f a w' = (Val b, w'')"
  using assms by (auto simp: io_bind_def split: prod.splits res.splits)

lemma close_log_kept: "close_log w = (Val (), w') \<Longrightarrow> names_removed w \<Longrightarrow> names_removed w'"
  using only_calls_close(5) [unfolded only_calls_def, rule_format, of w] by (auto simp: names_removed_def)


text \<open>A run in which the console enters \<open>quit\<close>.\<close>

definition quit_world :: "(srv, shm_data) world" where
  "quit_world = \<lparr>w_oracle = [(None, Ret 3), grant, grant, grant, grant, (None, Ready True False),
       (None, Data (''quit'' @ [LF]))],
     w_calls = [], w_errno = 0, w_debug = 1, w_priv = srv_init,
     w_kern = fresh_kernel\<lparr>k_mq_dir := (\<lambda>_. None)(MQ_NAME := Some 0)\<rparr>\<rparr>"

lemma quit_round: "\<exists>w'. main_round 3 a (quit_world\<lparr>w_oracle := [(None, Ready True False), (None, Data (''quit'' @ [LF]))],
    w_calls := cs, w_priv := p\<rparr>) = (Val (Inr ()), w')"
  by (simp add: main_round_def console_input_def console_command_def quit_world_def io_simps log_msg_def
      chomp_takeWhile cstr_def)

lemma atoi_80: "atoi ''80'' = 80"
  by (simp add: atoi_def is_space_def is_digit_def digit_def)

lemma quit_start: "\<exists>cs p. start_up [''srv'', ''-mq'', ''80''] quit_world = (Val 80, quit_world\<lparr>w_calls := cs, w_priv := p\<rparr>)
    \<and> g_mode p = MODE_MQ \<and> g_running p \<and> g_log p = None"
  by (simp add: start_up_def quit_world_def io_simps log_port open_log_def not_option_def atoi_80 int_range_def
      srv_init_def)

lemma quit_run: "\<exists>w'. pc_main [''srv'', ''-mq'', ''80''] quit_world = (Val 0, w')"
proof -
  obtain cs p where s: "start_up [''srv'', ''-mq'', ''80''] quit_world = (Val 80, quit_world\<lparr>w_calls := cs, w_priv := p\<rparr>)"
    and p: "g_mode p = MODE_MQ" "g_running p" "g_log p = None" using quit_start by blast
  show ?thesis
    unfolding pc_main_def io_bind_simps(1) [where m = "start_up [''srv'', ''-mq'', ''80'']", OF s]
    using p by (subst main_loop.while_unfold) (simp add: quit_world_def io_simps log_msg_def grant_def open_listener_def init_ipc_def init_mq_def
        main_round_def console_input_def console_command_def chomp_takeWhile cstr_def cleanup_ipc_def close_mq_def
        close_log_def)
qed


section \<open>A whole session of a producer\<close>

lemma shm_rep_clients [simp]: "shm_rep (m\<lparr>producer_clients := c\<rparr>) xs = shm_rep m xs"
  by (simp add: shm_rep_def)

lemma puts_clients: "producer_clients (shmq.puts m xs) = producer_clients m"
  by (induction xs arbitrary: m) (simp_all add: shm_put_def Let_def)

lemma register_run:
  assumes "attached (w_priv w) h mu em fu pa" and "w_oracle w = grant # os" and "0 < k_sem (w_kern w) mu"
    and "k_shm (w_kern w) h = m" and "producer_clients m < MAX_PRODUCERS"
  shows "register_producer sock w = (Val True, w\<lparr>w_oracle := os, w_calls := w_calls w @ [CSemWait mu, CSemPost mu],
    w_kern := mem_set h (m\<lparr>producer_clients := producer_clients m + 1\<rparr>) (w_kern w)\<rparr>)"
  using assms unfolding attached_def
  by (simp add: register_producer_def register_client_def sem_wait_on_def sem_post_on_def deref_def grant_def
      io_simps mem_set_def fun_upd_idem)

lemma unregister_run:
  assumes "attached (w_priv w) h mu em fu pa" and "w_oracle w = grant # os" and "0 < k_sem (w_kern w) mu"
    and "k_shm (w_kern w) h = m" and "0 < producer_clients m"
  shows "unregister_client True False w = (Val (), w\<lparr>w_oracle := os, w_calls := w_calls w @ [CSemWait mu, CSemPost mu],
    w_kern := mem_set h (m\<lparr>producer_clients := producer_clients m - 1\<rparr>) (w_kern w)\<rparr>)"
  using assms unfolding attached_def
  by (simp add: unregister_client_def sem_wait_on_def sem_post_on_def deref_def grant_def
      io_simps mem_set_def fun_upd_idem)

lemma mem_set_sems [simp]: "k_sem (mem_set h m k) = k_sem k" "k_shm (mem_set h m k) h = m"
  by (simp_all add: mem_set_def)

text \<open>The run of \<open>run_producer_client\<close> on lines that fit the queue.\<close>

lemma run_producer_run:
  assumes "attached (w_priv w) h mu em fu pa" and "w_oracle w = lines_script xs @ os"
    and "\<And>x. x \<in> set xs \<Longrightarrow> plain_line x" and "length xs \<le> k_sem (w_kern w) em"
    and "0 < k_sem (w_kern w) mu" and "w_debug w = LOG_INFO"
    and "shm_rep (k_shm (w_kern w) h) ys" and "length ys + length xs \<le> N"
  shows "\<exists>w'. run_producer_client sock w = (Val (), w') \<and> attached (w_priv w') h mu em fu pa \<and>
     w_oracle w' = os \<and> w_kern w' = kern_after h em fu xs (w_kern w) \<and>
     shm_rep (k_shm (w_kern w') h) (ys @ xs) \<and>
     sent_to sock (w_calls w') = sent_to sock (w_calls w) @ replicate (length xs) ok_line"
proof -
  have b: "tail (k_shm (w_kern w) h) < length (buffer (k_shm (w_kern w) h))" "length (buffer (k_shm (w_kern w) h)) = N"
    using assms(7) ring_rep_bounds [of N "buffer (k_shm (w_kern w) h)"] unfolding shm_rep_def by auto
  obtain u where u: "io_while (producer_round sock) 0 w = (Val (int (length xs)), u)"
      "attached (w_priv u) h mu em fu pa" "w_oracle u = os" "w_debug u = LOG_INFO"
      "w_kern u = kern_after h em fu xs (w_kern w)"
      "sent_to sock (w_calls u) = sent_to sock (w_calls w) @ replicate (length xs) ok_line"
    using producer_loop_run [OF assms(1-6) b, of sock 0] by auto
  have "length (show_int (int (length xs))) \<le> 11"
    using assms(8) by (intro length_show_int) (simp add: int_range_def)
  then obtain v where v: "run_producer_client sock w = (Val (), u\<lparr>w_calls := w_calls u @ [CLog LOG_INFO v]\<rparr>)"
    using u(4) unfolding run_producer_client_def io_bind_simps(1) [where m = "io_while (producer_round sock) 0", OF u(1)]
    by (simp add: log_msg_def io_simps)
  have "map (take (MAX_STR - 1)) xs = xs"
    using assms(3) by (intro map_idI) (fastforce simp: plain_line_def dest: less_imp_le)
  then have "shm_rep (shmq.puts (k_shm (w_kern w) h) xs) (ys @ xs)"
    using shmq.rep_puts [OF assms(7,8)] by simp
  then have "shm_rep (k_shm (w_kern u) h) (ys @ xs)"
    using u(5) by (simp add: kern_after_def sem_add_def)
  with u v show ?thesis by simp
qed

text \<open>
  C14. A whole session: a producer that is admitted and sends \<open>n\<close> lines, for which there is room, is
  answered \<open>Ok\<close> exactly \<open>n\<close> times; its lines are in the queue, in order, after those that were
  there, the semaphores count them, and at the end it is no longer registered and its socket closed.
\<close>

theorem producer_session:
  assumes "attached (w_priv w) h mu em fu pa"
    and "w_oracle w = (None, Data (''producer'' @ [LF])) # grant # lines_script xs @ grant # os"
    and "\<forall>x \<in> set xs. plain_line x" and "length xs \<le> k_sem (w_kern w) em" and "0 < k_sem (w_kern w) mu"
    and "w_debug w = LOG_INFO" and "k_shm (w_kern w) h = m" and "shm_rep m ys" and "length ys + length xs \<le> N"
    and "0 \<le> producer_clients m" and "producer_clients m < MAX_PRODUCERS"
  shows "\<exists>w'. handle_client sock w = (Val (), w') \<and> w_oracle w' = os \<and>
    shm_rep (k_shm (w_kern w') h) (ys @ xs) \<and> producer_clients (k_shm (w_kern w') h) = producer_clients m \<and>
    k_sem (w_kern w') em = k_sem (w_kern w) em - length xs \<and> k_sem (w_kern w') fu = k_sem (w_kern w) fu + length xs \<and>
    k_sem (w_kern w') mu = k_sem (w_kern w) mu \<and>
    sent_to sock (w_calls w') = sent_to sock (w_calls w) @ (''Task?'' @ [LF]) # replicate (length xs) ok_line \<and>
    last (w_calls w') = CClose sock"
proof -
  have d: "distinct [mu, em, fu]" using assms(1) by (auto simp: attached_def)
  define w1 where "w1 = w\<lparr>w_oracle := grant # lines_script xs @ grant # os,
    w_calls := w_calls w @ [CWrite sock (''Task?'' @ [LF]), CRead sock 255, CPrint (''Client choose: '' @ ''producer'' @ [LF])]\<rparr>"
  define m1 where "m1 = m\<lparr>producer_clients := producer_clients m + 1\<rparr>"
  define w2 where "w2 = w1\<lparr>w_oracle := lines_script xs @ grant # os, w_calls := w_calls w1 @ [CSemWait mu, CSemPost mu],
    w_kern := mem_set h m1 (w_kern w1)\<rparr>"
  have start: "handle_client sock w = io_bind (register_producer sock) (\<lambda>ok. io_when ok
         (io_block [run_producer_client sock, unregister_client True False, emit (CClose sock)])) w1"
    using assms(2) by (simp add: handle_client_def w1_def io_simps chomp_takeWhile cstr_def)
  have reg: "register_producer sock w1 = (Val True, w2)"
    using register_run [of w1 h mu em fu pa "lines_script xs @ grant # os" m sock] assms
    by (simp add: w1_def w2_def m1_def)
  obtain w3 where w3: "run_producer_client sock w2 = (Val (), w3)" "attached (w_priv w3) h mu em fu pa"
      "w_oracle w3 = grant # os" "w_kern w3 = kern_after h em fu xs (w_kern w2)"
      "shm_rep (k_shm (w_kern w3) h) (ys @ xs)"
      "sent_to sock (w_calls w3) = sent_to sock (w_calls w2) @ replicate (length xs) ok_line"
    using run_producer_run [of w2 h mu em fu pa xs "grant # os" ys sock] assms
    by (auto simp: w1_def w2_def m1_def)
  note sems = kern_after_sems [OF d, of h xs "w_kern w2"]
  define m3 where "m3 = k_shm (w_kern w3) h"
  have c3: "producer_clients m3 = producer_clients m + 1"
    unfolding m3_def w3(4) sems puts_clients by (simp add: w2_def m1_def)
  have "unregister_client True False w3 = (Val (), w3\<lparr>w_oracle := os, w_calls := w_calls w3 @ [CSemWait mu, CSemPost mu],
    w_kern := mem_set h (m3\<lparr>producer_clients := producer_clients m3 - 1\<rparr>) (w_kern w3)\<rparr>)"
    using unregister_run [OF w3(2,3) _ m3_def [symmetric]] assms(5,10) c3 w3(4) sems(1)
    by (simp add: w2_def w1_def)
  then have "handle_client sock w = (Val (), w3\<lparr>w_oracle := os,
      w_calls := w_calls w3 @ [CSemWait mu, CSemPost mu, CClose sock],
      w_kern := mem_set h (m3\<lparr>producer_clients := producer_clients m3 - 1\<rparr>) (w_kern w3)\<rparr>)"
    unfolding start using reg w3(1) by (simp add: io_simps)
  then show ?thesis
    using w3(5) [folded m3_def] w3(6) c3 sems(1-3) [folded w3(4)] by (simp add: w1_def w2_def)
qed

theorem producer_session_witness:
  "\<exists>w'. handle_client 5 (sample_world 8 0 shm_zero ((None, Data (''producer'' @ [LF])) # grant #
      lines_script [''Eva'', ''Jan''] @ [grant])) = (Val (), w') \<and> shm_rep (k_shm (w_kern w') 0) [''Eva'', ''Jan'']"
proof -
  let ?os = "(None, Data (''producer'' @ [LF])) # grant # lines_script [''Eva'', ''Jan''] @ grant # []"
  let ?w = "sample_world 8 0 shm_zero ?os"
  have o1: "w_oracle ?w = ?os" by (simp only: sample_world_def world.select_convs)
  have k: "k_sem (w_kern ?w) 1 = 8" "k_sem (w_kern ?w) 0 = 1" "w_debug ?w = LOG_INFO" "k_shm (w_kern ?w) 0 = shm_zero"
    by (simp_all add: sample_world_def sample_kernel_def)
  have "\<forall>x \<in> set [''Eva'', ''Jan'']. plain_line x" by (simp add: plain_line_def)
  moreover have "producer_clients shm_zero = 0" by (simp add: shm_zero_def)
  ultimately show ?thesis
    using producer_session [OF sample_attached o1 _ _ _ k(3,4) shm_rep_zero, where sock = 5] k(1,2) by force
qed

section \<open>Arguments and console\<close>

lemma start_up_one:
  assumes "not_option a" and "int_range (atoi a)" and "w_debug w = LOG_INFO"
  shows "\<exists>cs. start_up [prog, a] w = (Val (atoi a), w\<lparr>w_calls := w_calls w @ cs\<rparr>)"
proof -
  have a: "a \<noteq> ''-d'' \<and> a \<noteq> ''-h'' \<and> a \<noteq> ''-r'' \<and> a \<noteq> ''-shm'' \<and> a \<noteq> ''-mq'' \<and> a \<noteq> ''-log''"
    using assms(1) by (auto simp: not_option_def)
  have p: "parse_args [prog, a] [a] \<lparr>l_port = 0, log_file = None\<rparr> w = (Val \<lparr>l_port = atoi a, log_file = None\<rparr>, w)"
    using a assms(1,2) by (simp add: atoi_io_def io_simps)
  have h: "pc_help [prog, a] u = (Val (), u)" for u
    using a by (simp add: pc_help_def io_simps)
  show ?thesis
    using p assms(2,3) h
    by (cases "atoi a \<le> 0") (simp_all add: start_up_def open_log_def io_simps log_port, (rule exI, rule refl)+)
qed

text \<open>
  The port: with one argument the server listens on the port \<open>atoi\<close> makes of it modulo
  \<open>2 ^ 16\<close>, whatever the argument says. A bad or missing number, a negative one, and one above 65535
  do not end the program.
\<close>

theorem listening_port:
  assumes "not_option a" and "int_range (atoi a)" and "w_debug w = LOG_INFO"
    and "w_oracle w = (None, Ret s) # grant # grant # grant # os" and "0 \<le> s"
  shows "\<exists>w'. io_bind (start_up [prog, a]) (\<lambda>port. open_listener port 10) w = (Val s, w') \<and>
    CBind s (htons (atoi a)) \<in> set (w_calls w') \<and> uint (htons (atoi a)) = atoi a mod 65536"
proof -
  obtain cs where st: "start_up [prog, a] w = (Val (atoi a), w\<lparr>w_calls := w_calls w @ cs\<rparr>)"
    using start_up_one [OF assms(1-3)] by blast
  have "uint (htons (atoi a)) = atoi a mod 65536"
    by (simp add: htons_def uint_word_of_int)
  then show ?thesis
    using assms(3-5) by (simp add: io_bind_simps(1) [where m = "start_up [prog, a]", OF st] open_listener_def
        grant_def io_simps)
qed

theorem listening_port_witness:
  "\<exists>w'. io_bind (start_up [''srv'', ''eighty'']) (\<lambda>port. open_listener port 10)
     (sample_world 8 0 shm_zero [(None, Ret 3), grant, grant, grant]) = (Val 3, w') \<and>
     CBind 3 (htons (atoi ''eighty'')) \<in> set (w_calls w')"
proof -
  have "int_range (atoi ''eighty'')" by (simp add: atoi_def is_space_def is_digit_def int_range_def)
  then show ?thesis
    using listening_port [of "''eighty''" "sample_world 8 0 shm_zero [(None, Ret 3), grant, grant, grant]" 3 "[]" "''srv''"]
    by (auto simp: sample_world_def not_option_def)
qed

text \<open>
  The option \<open>-r\<close> removes the named objects only as the first argument: after a port it is
  ignored, nothing is removed, and the server goes on to listen.
\<close>

theorem late_clean_ignored:
  assumes "not_option a" and "int_range (atoi a)" and "0 < atoi a" and "w_debug w = LOG_INFO"
  shows "\<exists>w'. start_up [prog, a, ''-r''] w = (Val (atoi a), w') \<and> w_kern w' = w_kern w \<and>
    w_calls w' = w_calls w @ [CLog LOG_INFO (''Server will listen on port: '' @ show_int (atoi a) @ ''.'')]"
proof -
  have a: "a \<noteq> ''-d'' \<and> a \<noteq> ''-h'' \<and> a \<noteq> ''-r'' \<and> a \<noteq> ''-shm'' \<and> a \<noteq> ''-mq'' \<and> a \<noteq> ''-log''"
    using assms(1) by (auto simp: not_option_def)
  have "parse_args [prog, a, ''-r''] [a, ''-r''] \<lparr>l_port = 0, log_file = None\<rparr> w =
      (Val \<lparr>l_port = atoi a, log_file = None\<rparr>, w)"
    using a assms(1,2) by (simp add: atoi_io_def pc_help_def io_simps)
  then show ?thesis
    using assms(2-4) by (simp add: start_up_def open_log_def io_simps log_port)
qed

theorem late_clean_ignored_witness:
  "\<exists>w'. start_up [''srv'', ''80'', ''-r''] (sample_world 8 0 shm_zero []) = (Val 80, w') \<and> w_kern w' = sample_kernel 8 0 shm_zero"
  using late_clean_ignored [of "''80''" "sample_world 8 0 shm_zero []" "''srv''"]
  by (auto simp: sample_world_def not_option_def atoi_80 int_range_def)

text \<open>
  The console's \<open>-\<close> waits for the gate itself: entered while the gate is closed it stops the
  whole server in \<open>sem_wait\<close>, and no client is accepted until somebody else opens the gate.
\<close>

theorem second_pause_blocks:
  assumes "attached (w_priv w) h mu em fu pa"
    and "w_oracle w = (None, Ready True b) # (None, Data (''-'' @ [LF])) # grant # os"
    and "k_sem (w_kern w) pa = 0"
  shows "\<exists>w'. main_round l a w = (Blocked, w') \<and>
    w_calls w' = w_calls w @ [CPoll [STDIN_FILENO, l], CRead STDIN_FILENO 127, CSemWait pa]"
  using assms unfolding attached_def
  by (cases b) (simp_all add: main_round_def console_input_def console_command_def sem_wait_on_def deref_def
      grant_def io_simps chomp_takeWhile cstr_def)

theorem second_pause_blocks_witness:
  "\<exists>w'. main_round 3 (any_addr 80) ((sample_world 8 0 shm_zero
      [(None, Ready True True), (None, Data (''-'' @ [LF])), grant])\<lparr>w_kern := (sample_kernel 8 0 shm_zero)\<lparr>k_sem := (\<lambda>_. 0)\<rparr>\<rparr>)
    = (Blocked, w')"
proof -
  let ?w = "(sample_world 8 0 shm_zero [(None, Ready True True), (None, Data (''-'' @ [LF])), grant])
    \<lparr>w_kern := (sample_kernel 8 0 shm_zero)\<lparr>k_sem := (\<lambda>_. 0)\<rparr>\<rparr>"
  have "attached (w_priv ?w) 0 0 1 2 3" using sample_attached by (simp add: sample_world_def)
  from second_pause_blocks [OF this, of True "[]" 3 "any_addr 80"] show ?thesis
    by (auto simp: sample_world_def)
qed

end
