(* ===== verification/Gthreads.thy ===== *)
theory Gthreads
  imports CString "HOL-Library.Word"
begin

text \<open>
  The user-space threads of \<open>osy-gthreads-main/gthr.c\<close> in their preemptive form (\<open>GT_PREEMPTIVE\<close>
  is 1 unless a Makefile says otherwise): the table of threads, the round robin scheduler, the
  timers of sleeping threads, and the context switch of \<open>gtswtch.S\<close>.

  The variants \<open>osy-gthreads-main_test\<close> and \<open>osy-gthreads-main-learn\<close> differ in \<open>gt_yield\<close> and
  \<open>gt_resume\<close>; their versions are at the end. A pointer into the table is an index; \<open>MaxGThreads\<close>
  is the length of the table.
\<close>

section \<open>State\<close>

abbreviation MaxGThreads :: nat where "MaxGThreads \<equiv> 5"
abbreviation StackSize :: "64 word" where "StackSize \<equiv> 0x400000"
abbreviation TimePeriod :: int where "TimePeriod \<equiv> 10"

datatype gt_thread_state = Unused | Running | Ready | Blocked | Suspended

record gt_regs =
  rsp :: "64 word"
  rbp :: "64 word"

record gt_context =
  regs :: gt_regs
  thread_state :: gt_thread_state
  t_id :: int
  delay_ticks :: int
  name :: string

text \<open>Beside the globals, what the context switch works on: the processor and the stacks.\<close>

record gt =
  g_gttbl :: "gt_context list"
  g_gtcur :: nat
  g_gt_yield_status :: int
  cpu :: gt_regs
  rip :: "64 word"
  memory :: "64 word \<Rightarrow> 64 word"

definition state_of :: "'z gt_scheme \<Rightarrow> nat \<Rightarrow> gt_thread_state" where
  "state_of s i = thread_state (g_gttbl s ! i)"

definition upd_thread :: "nat \<Rightarrow> (gt_context \<Rightarrow> gt_context) \<Rightarrow> 'z gt_scheme \<Rightarrow> 'z gt_scheme" where
  "upd_thread i f s = s\<lparr>g_gttbl := (g_gttbl s)[i := f (g_gttbl s ! i)]\<rparr>"

abbreviation set_state :: "nat \<Rightarrow> gt_thread_state \<Rightarrow> 'z gt_scheme \<Rightarrow> 'z gt_scheme" where
  "set_state i st \<equiv> upd_thread i (\<lambda>c. c\<lparr>thread_state := st\<rparr>)"

section \<open>Operations\<close>

definition gt_init :: "'z gt_scheme \<Rightarrow> 'z gt_scheme" where
  "gt_init s = (let tbl = map (\<lambda>i. (g_gttbl s ! i)\<lparr>thread_state := Unused, delay_ticks := 0,
       t_id := int i, name := []\<rparr>) [0..<length (g_gttbl s)] in
     upd_thread 0 (\<lambda>c. c\<lparr>thread_state := Running, delay_ticks := 0, t_id := 0, name := ''Main''\<rparr>)
       (s\<lparr>g_gttbl := tbl, g_gtcur := 0\<rparr>))"

text \<open>
  The call pushes the return address \<open>ra\<close>; the switch saves the stack of the old thread, takes that
  of the new one, and its \<open>ret\<close> goes to the address on top of it.
\<close>

definition gt_pree_swtch :: "64 word \<Rightarrow> nat \<Rightarrow> nat \<Rightarrow> 'z gt_scheme \<Rightarrow> 'z gt_scheme" where
  "gt_pree_swtch ra old new s =
     (let sp = rsp (cpu s) - 8;
          s = s\<lparr>memory := (memory s)(sp := ra)\<rparr>;
          s = upd_thread old (\<lambda>c. c\<lparr>regs := \<lparr>rsp = sp, rbp = rbp (cpu s)\<rparr>\<rparr>) s;
          r = regs (g_gttbl s ! new)
      in s\<lparr>cpu := \<lparr>rsp = rsp r + 8, rbp = rbp r\<rparr>, rip := memory s (rsp r)\<rparr>)"

text \<open>
  The search of \<open>gt_yield\<close>: the number of waiting threads, negated, or the thread found. No pointer
  of the program leaves the table.
\<close>

definition waiting :: "gt_context \<Rightarrow> bool" where
  "waiting c \<longleftrightarrow> thread_state c = Blocked \<or> thread_state c = Suspended"

function scan :: "gt_context list \<Rightarrow> nat \<Rightarrow> nat \<Rightarrow> int \<Rightarrow> int + nat" where
  "scan tbl cur p l_no_ready =
     (if \<not> (cur < length tbl \<and> p < length tbl) then Inl 0
      else if thread_state (tbl ! p) = Ready then Inr p
      else
        (let l_no_ready = (if waiting (tbl ! p) then l_no_ready + 1 else l_no_ready);
             p = (if p + 1 = length tbl then 0 else p + 1)
         in if p = cur then Inl (- l_no_ready) else scan tbl cur p l_no_ready))"
  by auto

termination
  by (relation "measure (\<lambda>(tbl, cur, p, k). if p < cur then cur - p else length tbl - p + cur)")
    (auto split: if_splits)

declare scan.simps [simp del]

text \<open>The switch to a thread that has been found.\<close>

definition switch_to :: "64 word \<Rightarrow> nat \<Rightarrow> 'z gt_scheme \<Rightarrow> 'z gt_scheme" where
  "switch_to ra p s =
     (let old = g_gtcur s;
          s = (if state_of s old = Running then set_state old Ready s else s);
          s = set_state p Running s
      in gt_pree_swtch ra old p (s\<lparr>g_gtcur := p\<rparr>))"

definition gt_yield :: "64 word \<Rightarrow> gt \<Rightarrow> int \<times> gt" where
  "gt_yield ra s = (case scan (g_gttbl s) (g_gtcur s) (g_gtcur s) 0 of
      Inl r \<Rightarrow> (r, s)
    | Inr p \<Rightarrow> (1, switch_to ra p s))"

text \<open>The thread that stops does not come back: the call of \<open>gt_yield\<close> is its last.\<close>

definition gt_stop :: "64 word \<Rightarrow> gt \<Rightarrow> gt" where
  "gt_stop ra s = (if g_gtcur s \<noteq> 0 then snd (gt_yield ra (set_state (g_gtcur s) Unused s)) else s)"

fun find_unused :: "gt_context list \<Rightarrow> nat \<Rightarrow> nat option" where
  "find_unused [] i = None"
| "find_unused (c # cs) i = (if thread_state c = Unused then Some i else find_unused cs (i + 1))"

definition thread_name :: "string option \<Rightarrow> nat \<Rightarrow> string" where
  "thread_name t_name idx = (case t_name of
      Some n \<Rightarrow> strncpy_str 31 n
    | None \<Rightarrow> snprintf_str 32 (CHR ''T'' # show_int (int idx)))"

text \<open>\<open>l_stack\<close> is the result of \<open>malloc\<close>; \<open>stop_addr\<close> is the address of \<open>gt_stop\<close>.\<close>

definition gt_go :: "64 word \<Rightarrow> string option \<Rightarrow> 64 word \<Rightarrow> 64 word option \<Rightarrow> 'z gt_scheme \<Rightarrow> int \<times> 'z gt_scheme" where
  "gt_go stop_addr t_name t_run l_stack s = (case find_unused (g_gttbl s) 0 of
      None \<Rightarrow> (-1, s)
    | Some idx \<Rightarrow> (case l_stack of
        None \<Rightarrow> (-1, s)
      | Some l_stack \<Rightarrow>
          (int idx,
           upd_thread idx (\<lambda>c. c\<lparr>regs := (regs c)\<lparr>rsp := l_stack + StackSize - 16\<rparr>, thread_state := Ready,
               delay_ticks := 0, t_id := int idx, name := thread_name t_name idx\<rparr>)
             (s\<lparr>memory := (memory s)(l_stack + StackSize - 8 := stop_addr, l_stack + StackSize - 16 := t_run)\<rparr>))))"

definition gt_suspend :: "64 word \<Rightarrow> gt \<Rightarrow> gt" where
  "gt_suspend ra s = snd (gt_yield ra (set_state (g_gtcur s) Suspended s))"

definition ticks_of :: "int \<Rightarrow> int" where
  "ticks_of t_ms = (if t_ms div TimePeriod \<le> 0 then 1 else t_ms div TimePeriod)"

definition gt_delay :: "64 word \<Rightarrow> int \<Rightarrow> gt \<Rightarrow> gt" where
  "gt_delay ra t_ms s =
     (if t_ms \<le> 0 then s
      else snd (gt_yield ra (upd_thread (g_gtcur s)
        (\<lambda>c. c\<lparr>delay_ticks := ticks_of t_ms, thread_state := Blocked\<rparr>) s)))"

text \<open>An index outside the table is not checked here, which is undefined (\<open>None\<close>).\<close>

definition gt_resume :: "int \<Rightarrow> gt \<Rightarrow> gt option" where
  "gt_resume i s =
     (if 0 \<le> i \<and> nat i < length (g_gttbl s)
      then Some (if state_of s (nat i) = Suspended then set_state (nat i) Ready s else s)
      else None)"

definition tick :: "gt_context \<Rightarrow> gt_context" where
  "tick c = (if thread_state c = Blocked \<and> delay_ticks c > 0
     then (let c = c\<lparr>delay_ticks := delay_ticks c - 1\<rparr> in
           if delay_ticks c \<le> 0 then c\<lparr>delay_ticks := 0, thread_state := Ready\<rparr> else c)
     else c)"

definition gt_manage_timers :: "gt \<Rightarrow> gt" where
  "gt_manage_timers s = s\<lparr>g_gttbl := map tick (g_gttbl s)\<rparr>"

text \<open>
  The handler of the timer signal, up to the switch. If there is none its result is stored at
  once, else when the interrupted thread is taken up again (\<open>gt_sig_resume\<close>).
\<close>

definition gt_sig_handle :: "64 word \<Rightarrow> gt \<Rightarrow> gt" where
  "gt_sig_handle ra s = (case gt_yield ra (gt_manage_timers s) of
      (r, s') \<Rightarrow> if r = 1 then s' else s'\<lparr>g_gt_yield_status := r\<rparr>)"

definition gt_sig_resume :: "gt \<Rightarrow> gt" where
  "gt_sig_resume s = s\<lparr>g_gt_yield_status := 1\<rparr>"

text \<open>The loop of \<open>gt_start_scheduler\<close> in the main thread goes on while the status is not 0.\<close>

definition scheduler_goes_on :: "gt \<Rightarrow> bool" where
  "scheduler_goes_on s \<longleftrightarrow> g_gt_yield_status s \<noteq> 0"

fun gt_state_str :: "gt_thread_state \<Rightarrow> string" where
  "gt_state_str Unused = ''Unused''"
| "gt_state_str Running = ''Running''"
| "gt_state_str Ready = ''Ready''"
| "gt_state_str Blocked = ''Blocked''"
| "gt_state_str Suspended = ''Suspended''"

text \<open>A line of the list: the mark of the current thread, the number, the state, the name.\<close>

definition pad_left :: "nat \<Rightarrow> string \<Rightarrow> string" where
  "pad_left n s = replicate (n - length s) (CHR '' '') @ s"

definition pad_right :: "nat \<Rightarrow> string \<Rightarrow> string" where
  "pad_right n s = s @ replicate (n - length s) (CHR '' '')"

definition gt_task_list :: "gt \<Rightarrow> string list" where
  "gt_task_list s =
     [''ID  State      Name'' @ [LF], ''---------------------------'' @ [LF]] @
     concat (map (\<lambda>i. let p = g_gttbl s ! i in
         if thread_state p \<noteq> Unused
         then [(if i = g_gtcur s then CHR ''*'' else CHR '' '') # pad_left 2 (show_int (t_id p)) @ '' '' @
               pad_right 9 (gt_state_str (thread_state p)) @ ''  '' @ name p @ [LF]]
         else []) [0..<length (g_gttbl s)])"

section \<open>The variants\<close>

text \<open>
  \<open>osy-gthreads-main-learn\<close>: the search starts behind the current thread; \<open>osy-gthreads-main_test\<close>:
  the main thread is taken only when no other one is ready, and the calls of \<open>gt_yield\<close> are counted,
  for the system and for each thread.
\<close>

record gt_test = gt +
  g_sys_ticks :: "64 word"
  cpu_ticks :: "nat \<Rightarrow> 64 word"

definition succ_thread :: "gt_context list \<Rightarrow> nat \<Rightarrow> nat" where
  "succ_thread tbl p = (if p + 1 = length tbl then 0 else p + 1)"

definition learn_yield :: "64 word \<Rightarrow> gt \<Rightarrow> int \<times> gt" where
  "learn_yield ra s =
     (let cur = g_gtcur s; tbl = g_gttbl s; k = (if waiting (tbl ! cur) then 1 else 0); p = succ_thread tbl cur in
      case (if p = cur then Inl (- k) else scan tbl cur p k) of
        Inl r \<Rightarrow> (r, s)
      | Inr p \<Rightarrow> (1, switch_to ra p s))"

definition checked_resume :: "int \<Rightarrow> gt \<Rightarrow> gt option" where
  "checked_resume i s = (if i < 0 \<or> i \<ge> int (length (g_gttbl s)) then Some s else gt_resume i s)"

definition gt_has_ready_nonidle :: "gt_context list \<Rightarrow> bool" where
  "gt_has_ready_nonidle tbl = list_ex (\<lambda>c. thread_state c = Ready) (drop 1 tbl)"

fun first_ready :: "gt_context list \<Rightarrow> nat \<Rightarrow> nat option" where
  "first_ready [] i = None"
| "first_ready (c # cs) i = (if thread_state c = Ready then Some i else first_ready cs (i + 1))"

definition test_pick :: "gt_context list \<Rightarrow> nat \<Rightarrow> int + nat" where
  "test_pick tbl cur = (case scan tbl cur cur 0 of
      Inl r \<Rightarrow> Inl r
    | Inr p \<Rightarrow> if gt_has_ready_nonidle tbl \<and> p = 0
        then (case first_ready (drop 1 tbl) 1 of Some q \<Rightarrow> Inr q | None \<Rightarrow> Inr p)
        else Inr p)"

definition test_yield :: "64 word \<Rightarrow> gt_test \<Rightarrow> int \<times> gt_test" where
  "test_yield ra s =
     (let cur = g_gtcur s;
          s = (if state_of s cur = Running then s\<lparr>cpu_ticks := (cpu_ticks s)(cur := cpu_ticks s cur + 1)\<rparr> else s);
          s = s\<lparr>g_sys_ticks := g_sys_ticks s + 1\<rparr>
      in case test_pick (g_gttbl s) cur of
        Inl r \<Rightarrow> (r, s)
      | Inr p \<Rightarrow> (1, switch_to ra p (s\<lparr>g_sys_ticks := g_sys_ticks s + 1\<rparr>)))"

end
