(* ===== verification/GthreadProps.thy ===== *)
theory GthreadProps
  imports Gthreads
begin

text \<open>
  The scheduler of the user-space threads: the search of \<open>gt_yield\<close> against the round robin order,
  the invariant of the thread table in every run, fairness, timers, the context switch.
\<close>

section \<open>Round robin\<close>

text \<open>The threads in the order in which they get their turn, the current one first.\<close>

definition order :: "nat \<Rightarrow> nat \<Rightarrow> nat list" where
  "order cur n = map (\<lambda>i. (cur + i) mod n) [0..<n]"

definition next_ready :: "gt_context list \<Rightarrow> nat \<Rightarrow> nat option" where
  "next_ready tbl cur = find (\<lambda>p. thread_state (tbl ! p) = Ready) (order cur (length tbl))"

definition n_waiting :: "gt_context list \<Rightarrow> int" where
  "n_waiting tbl = int (length (filter waiting tbl))"

lemma succ_mod: "p < n \<Longrightarrow> p = (c + i) mod n \<Longrightarrow> (if p + 1 = n then 0 else p + 1) = (c + Suc i) mod n"
  by (auto simp: mod_Suc)

lemma scan_from:
  assumes c: "cur < length tbl" and i: "i < length tbl"
  shows "scan tbl cur ((cur + i) mod length tbl) k =
    (let ps = map (\<lambda>j. (cur + j) mod length tbl) [i..<length tbl] in
     case find (\<lambda>p. thread_state (tbl ! p) = Ready) ps of
       Some p \<Rightarrow> Inr p
     | None \<Rightarrow> Inl (- (k + int (length (filter (\<lambda>p. waiting (tbl ! p)) ps)))))"
  using i
proof (induction "length tbl - i" arbitrary: i k)
  case 0
  then show ?case by simp
next
  case (Suc d)
  let ?n = "length tbl"
  let ?p = "(cur + i) mod ?n"
  have p: "?p < ?n" using c by (intro mod_less_divisor) auto
  have ps: "map (\<lambda>j. (cur + j) mod ?n) [i..<?n] = ?p # map (\<lambda>j. (cur + j) mod ?n) [Suc i..<?n]"
    using Suc.prems by (simp add: upt_conv_Cons)
  have nx: "(if ?p + 1 = ?n then 0 else ?p + 1) = (cur + Suc i) mod ?n"
    using succ_mod [OF p refl] .
  show ?case
  proof (cases "thread_state (tbl ! ?p) = Ready")
    case True
    then show ?thesis using c p by (subst scan.simps) (simp add: ps Let_def)
  next
    case False
    show ?thesis
    proof (cases "Suc i = ?n")
      case True
      then have "(cur + Suc i) mod ?n = cur" using c by simp
      then show ?thesis
        using False True c p nx by (subst scan.simps) (auto simp: ps Let_def)
    next
      case neq: False
      then have si: "Suc i < ?n" using Suc.prems by simp
      have "(cur + Suc i) mod ?n \<noteq> cur"
      proof
        assume "(cur + Suc i) mod ?n = cur"
        then have "(cur + Suc i) mod ?n = (cur + 0) mod ?n" using c by simp
        moreover have "0 < ?n" using c by linarith
        ultimately show False using mod_add_inj [of cur "Suc i" ?n 0] si by blast
      qed
      moreover note Suc.hyps(1) [OF _ si]
      ultimately show ?thesis
        using False c p nx Suc.hyps(2) by (subst scan.simps) (auto simp: ps Let_def split: option.split)
    qed
  qed
qed

lemma scan_order:
  assumes "cur < length tbl"
  shows "scan tbl cur cur 0 = (case next_ready tbl cur of
    Some p \<Rightarrow> Inr p | None \<Rightarrow> Inl (- int (length (filter (\<lambda>p. waiting (tbl ! p)) (order cur (length tbl))))))"
proof -
  have "0 < length tbl" using assms by linarith
  from scan_from [OF assms this, of 0] show ?thesis
    using assms by (simp add: next_ready_def order_def Let_def split: option.split)
qed

lemma order_all:
  assumes "cur < n"
  shows "distinct (order cur n)" "set (order cur n) = {..<n}"
proof -
  show d: "distinct (order cur n)"
    unfolding order_def distinct_map
    by (auto intro!: inj_onI elim!: mod_add_inj)
  have "set (order cur n) \<subseteq> {..<n}" using assms by (auto simp: order_def)
  moreover have "card (set (order cur n)) = n"
    using distinct_card [OF d] by (simp add: order_def)
  ultimately show "set (order cur n) = {..<n}"
    by (metis card_lessThan card_subset_eq finite_lessThan)
qed

lemma filter_order:
  assumes "cur < length tbl"
  shows "length (filter (\<lambda>p. P (tbl ! p)) (order cur (length tbl))) = length (filter P tbl)"
proof -
  have "mset (order cur (length tbl)) = mset [0..<length tbl]"
    using order_all [OF assms] by (metis atLeast_upt distinct_upt set_eq_iff_mset_eq_distinct)
  then have "length (filter (\<lambda>p. P (tbl ! p)) (order cur (length tbl))) = length (filter (\<lambda>p. P (tbl ! p)) [0..<length tbl])"
    by (metis mset_filter size_mset)
  also have "\<dots> = length (filter P (map (\<lambda>p. tbl ! p) [0..<length tbl]))"
    by (simp add: filter_map o_def)
  also have "map (\<lambda>p. tbl ! p) [0..<length tbl] = tbl" by (rule map_nth)
  finally show ?thesis .
qed

lemma yield_eq:
  assumes "g_gtcur s < length (g_gttbl s)"
  shows "gt_yield ra s = (case next_ready (g_gttbl s) (g_gtcur s) of
    Some p \<Rightarrow> (1, switch_to ra p s) | None \<Rightarrow> (- n_waiting (g_gttbl s), s))"
  using scan_order [OF assms] filter_order [OF assms, of waiting]
  by (simp add: gt_yield_def n_waiting_def split: option.split)

text \<open>
  C15. \<open>gt_yield()\<close> is a round robin: it switches to the first ready thread in the cyclic order of the
  table that starts at the current thread; if there is none it returns, negated, how many threads
  are waiting, and changes nothing.
\<close>

theorem yield_round_robin:
  assumes "g_gtcur s < length (g_gttbl s)"
  shows "gt_yield ra s = (case next_ready (g_gttbl s) (g_gtcur s) of
    Some p \<Rightarrow> (1, switch_to ra p s) | None \<Rightarrow> (- n_waiting (g_gttbl s), s))"
  using assms by (rule yield_eq)

definition sample_gt :: gt where
  "sample_gt = snd (gt_go 7 (Some ''Ring'') 9 (Some 0x900000) (snd (gt_go 7 (Some ''Hello'') 8 (Some 0x100000)
     (gt_init \<lparr>g_gttbl = replicate MaxGThreads \<lparr>regs = \<lparr>rsp = 0, rbp = 0\<rparr>, thread_state = Unused, t_id = 0,
        delay_ticks = 0, name = []\<rparr>, g_gtcur = 0, g_gt_yield_status = 1, cpu = \<lparr>rsp = 0x800000, rbp = 0x800010\<rparr>,
        rip = 1, memory = (\<lambda>_. 0)\<rparr>))))"

lemma sample_gt_states: "map thread_state (g_gttbl sample_gt) = [Running, Ready, Ready, Unused, Unused]"
  "g_gtcur sample_gt = 0"
  by (simp_all add: sample_gt_def gt_go_def gt_init_def upd_thread_def eval_nat_numeral)

lemma sample_len: "length (g_gttbl sample_gt) = MaxGThreads"
  using arg_cong [OF sample_gt_states(1), of length] by simp

lemma sample_st: "i < MaxGThreads \<Longrightarrow> thread_state (g_gttbl sample_gt ! i) = [Running, Ready, Ready, Unused, Unused] ! i"
  using sample_gt_states(1) sample_len by (metis nth_map)

lemma sample_cpu: "cpu sample_gt = \<lparr>rsp = 0x800000, rbp = 0x800010\<rparr>"
  by (simp add: sample_gt_def gt_go_def gt_init_def upd_thread_def split: option.split)

lemma sample_regs: "regs (g_gttbl sample_gt ! Suc 0) = \<lparr>rsp = 0x100000 + StackSize - 16, rbp = 0\<rparr>"
  by (simp add: sample_gt_def gt_go_def gt_init_def upd_thread_def eval_nat_numeral)

theorem yield_round_robin_witness: "fst (gt_yield 5 sample_gt) = 1 \<and> g_gtcur (snd (gt_yield 5 sample_gt)) = 1"
proof -
  have "next_ready (g_gttbl sample_gt) 0 = Some 1"
    by (simp add: next_ready_def order_def sample_len sample_st upt_rec)
  then show ?thesis
    using yield_round_robin [of sample_gt 5] sample_len sample_gt_states(2)
    by (simp add: switch_to_def gt_pree_swtch_def upd_thread_def Let_def)
qed

section \<open>Runs\<close>

text \<open>
  A run of the program. The timer signal can come between any two stores of \<open>gt_delay\<close>, \<open>gt_suspend\<close>
  and \<open>gt_stop\<close>, so these are steps of their own; the main thread does none of them. The return
  addresses, names, stacks and run functions are arbitrary.
\<close>

inductive gt_step :: "gt \<Rightarrow> gt \<Rightarrow> bool" where
  go: "gt_step s (snd (gt_go sa nm run st s))"
| yield: "gt_step s (snd (gt_yield ra s))"
| signal: "gt_step s (gt_sig_handle ra s)"
| signal_end: "gt_step s (gt_sig_resume s)"
| timer_set: "g_gtcur s \<noteq> 0 \<Longrightarrow> 0 < n \<Longrightarrow> gt_step s (upd_thread (g_gtcur s) (\<lambda>c. c\<lparr>delay_ticks := n\<rparr>) s)"
| block: "g_gtcur s \<noteq> 0 \<Longrightarrow> 0 < delay_ticks (g_gttbl s ! g_gtcur s) \<Longrightarrow> gt_step s (set_state (g_gtcur s) Blocked s)"
| suspend: "g_gtcur s \<noteq> 0 \<Longrightarrow> gt_step s (set_state (g_gtcur s) Suspended s)"
| stop: "g_gtcur s \<noteq> 0 \<Longrightarrow> gt_step s (set_state (g_gtcur s) Unused s)"
| resume: "gt_resume i s = Some t \<Longrightarrow> gt_step s t"

inductive gt_reach :: "gt \<Rightarrow> bool" where
  boot: "length (g_gttbl s) = MaxGThreads \<Longrightarrow> gt_reach (gt_init s)"
| more: "gt_reach s \<Longrightarrow> gt_step s t \<Longrightarrow> gt_reach t"

definition gt_inv :: "gt \<Rightarrow> bool" where
  "gt_inv s \<longleftrightarrow> length (g_gttbl s) = MaxGThreads \<and> g_gtcur s < MaxGThreads \<and>
     (\<forall>i < MaxGThreads. state_of s i = Running \<longrightarrow> i = g_gtcur s) \<and>
     state_of s 0 = (if g_gtcur s = 0 then Running else Ready) \<and>
     (\<forall>i < MaxGThreads. state_of s i = Blocked \<longrightarrow> 0 < delay_ticks (g_gttbl s ! i)) \<and>
     (\<forall>i < MaxGThreads. t_id (g_gttbl s ! i) = int i)"

lemma upd_simps [simp]:
  "length (g_gttbl (upd_thread i f s)) = length (g_gttbl s)"
  "g_gtcur (upd_thread i f s) = g_gtcur s"
  by (simp_all add: upd_thread_def)

lemma upd_nth: "j < length (g_gttbl s) \<Longrightarrow> g_gttbl (upd_thread i f s) ! j = (if i = j then f (g_gttbl s ! j) else g_gttbl s ! j)"
  by (auto simp: upd_thread_def nth_list_update)

lemma switch_simps [simp]:
  "length (g_gttbl (gt_pree_swtch ra i j s)) = length (g_gttbl s)"
  "g_gtcur (gt_pree_swtch ra i j s) = g_gtcur s"
  by (simp_all add: gt_pree_swtch_def Let_def)

lemma switch_nth:
  assumes "k < length (g_gttbl s)"
  shows "thread_state (g_gttbl (gt_pree_swtch ra i j s) ! k) = thread_state (g_gttbl s ! k)"
    "delay_ticks (g_gttbl (gt_pree_swtch ra i j s) ! k) = delay_ticks (g_gttbl s ! k)"
    "t_id (g_gttbl (gt_pree_swtch ra i j s) ! k) = t_id (g_gttbl s ! k)"
  using assms by (simp_all add: gt_pree_swtch_def Let_def upd_nth)

text \<open>The thread table after a switch.\<close>

lemma switch_to_table:
  assumes "k < length (g_gttbl s)" and "p < length (g_gttbl s)"
  shows "state_of (switch_to ra p s) k =
      (if k = p then Running else if k = g_gtcur s \<and> state_of s k = Running then Ready else state_of s k)"
    "delay_ticks (g_gttbl (switch_to ra p s) ! k) = delay_ticks (g_gttbl s ! k)"
    "t_id (g_gttbl (switch_to ra p s) ! k) = t_id (g_gttbl s ! k)"
    "g_gtcur (switch_to ra p s) = p"
    "length (g_gttbl (switch_to ra p s)) = length (g_gttbl s)"
  using assms by (auto simp: switch_to_def Let_def state_of_def switch_nth upd_nth)

lemma next_readyD: "next_ready tbl cur = Some p \<Longrightarrow> cur < length tbl \<Longrightarrow> p < length tbl \<and> thread_state (tbl ! p) = Ready"
  using order_all(2) by (fastforce simp: next_ready_def find_Some_iff)

lemma next_ready_None: "next_ready tbl cur = None \<Longrightarrow> cur < length tbl \<Longrightarrow> i < length tbl \<Longrightarrow> thread_state (tbl ! i) \<noteq> Ready"
  using order_all(2) [of cur "length tbl"] by (auto simp: next_ready_def find_None_iff)

lemma gt_invD:
  assumes "gt_inv s"
  shows "length (g_gttbl s) = MaxGThreads" "g_gtcur s < MaxGThreads"
    "i < MaxGThreads \<Longrightarrow> state_of s i = Running \<Longrightarrow> i = g_gtcur s"
    "state_of s 0 = (if g_gtcur s = 0 then Running else Ready)"
    "i < MaxGThreads \<Longrightarrow> state_of s i = Blocked \<Longrightarrow> 0 < delay_ticks (g_gttbl s ! i)"
    "i < MaxGThreads \<Longrightarrow> t_id (g_gttbl s ! i) = int i"
  using assms by (simp_all add: gt_inv_def)

lemma gt_invI:
  assumes "length (g_gttbl s) = MaxGThreads" "g_gtcur s < MaxGThreads"
    "\<And>i. i < MaxGThreads \<Longrightarrow> state_of s i = Running \<Longrightarrow> i = g_gtcur s"
    "state_of s 0 = (if g_gtcur s = 0 then Running else Ready)"
    "\<And>i. i < MaxGThreads \<Longrightarrow> state_of s i = Blocked \<Longrightarrow> 0 < delay_ticks (g_gttbl s ! i)"
    "\<And>i. i < MaxGThreads \<Longrightarrow> t_id (g_gttbl s ! i) = int i"
  shows "gt_inv s"
  using assms by (simp add: gt_inv_def)

text \<open>What a step has to show that leaves the current thread and changes the states of others.\<close>

lemma gt_inv_change:
  assumes inv: "gt_inv s" and same: "length (g_gttbl t) = length (g_gttbl s)" "g_gtcur t = g_gtcur s"
    and st: "\<And>i. i < MaxGThreads \<Longrightarrow> state_of t i = Running \<Longrightarrow> state_of s i = Running \<or> i = g_gtcur s"
    and main: "state_of t 0 = state_of s 0"
    and bl: "\<And>i. i < MaxGThreads \<Longrightarrow> state_of t i = Blocked \<Longrightarrow> 0 < delay_ticks (g_gttbl t ! i)"
    and ids: "\<And>i. i < MaxGThreads \<Longrightarrow> t_id (g_gttbl t ! i) = int i"
  shows "gt_inv t"
proof (rule gt_invI)
  show "state_of t i = Running \<Longrightarrow> i = g_gtcur t" if "i < MaxGThreads" for i
    using st [OF that] gt_invD(3) [OF inv that] same(2) by auto
qed (use gt_invD(1,2,4) [OF inv] same main bl ids in simp_all)

lemma gt_inv_switch:
  assumes inv: "gt_inv s" and p: "next_ready (g_gttbl s) (g_gtcur s) = Some p"
  shows "gt_inv (switch_to ra p s)"
proof -
  note b = gt_invD(1,2) [OF inv]
  have q: "p < length (g_gttbl s)" "state_of s p = Ready"
    using next_readyD [OF p] b by (simp_all add: state_of_def)
  note t = switch_to_table [OF _ q(1), of _ ra]
  show ?thesis
  proof (rule gt_invI)
    fix i
    assume i: "i < MaxGThreads"
    then have l: "i < length (g_gttbl s)" by (simp add: b)
    show "state_of (switch_to ra p s) i = Running \<Longrightarrow> i = g_gtcur (switch_to ra p s)"
      using gt_invD(3) [OF inv i] t(1,4) [OF l] by (simp split: if_splits)
    show "state_of (switch_to ra p s) i = Blocked \<Longrightarrow> 0 < delay_ticks (g_gttbl (switch_to ra p s) ! i)"
      using gt_invD(5) [OF inv i] t(1,2) [OF l] by (simp split: if_splits)
    show "t_id (g_gttbl (switch_to ra p s) ! i) = int i"
      using gt_invD(6) [OF inv i] t(3) [OF l] by simp
  next
    show "state_of (switch_to ra p s) 0 = (if g_gtcur (switch_to ra p s) = 0 then Running else Ready)"
      using gt_invD(4) [OF inv] b t(1,4) [of 0] by simp
  qed (use q b t(4,5) [of 0] in simp_all)
qed

lemma gt_inv_yield:
  assumes "gt_inv s"
  shows "gt_inv (snd (gt_yield ra s))"
proof -
  have "g_gtcur s < length (g_gttbl s)" using gt_invD(1,2) [OF assms] by simp
  from yield_eq [OF this, of ra] gt_inv_switch [OF assms] assms show ?thesis
    by (cases "next_ready (g_gttbl s) (g_gtcur s)") simp_all
qed

lemma state_upd: "i < length (g_gttbl s) \<Longrightarrow>
    state_of (upd_thread j f s) i = (if j = i then thread_state (f (g_gttbl s ! i)) else state_of s i)"
  by (simp add: state_of_def upd_nth)

lemma gt_inv_upd:
  assumes inv: "gt_inv s" and j: "0 < j" and ids: "\<And>c. t_id (f c) = t_id c \<or> t_id (f c) = int j"
    and run: "thread_state (f (g_gttbl s ! j)) = Running \<Longrightarrow> state_of s j = Running \<or> j = g_gtcur s"
    and bl: "thread_state (f (g_gttbl s ! j)) = Blocked \<Longrightarrow> 0 < delay_ticks (f (g_gttbl s ! j))"
  shows "gt_inv (upd_thread j f s)"
proof (rule gt_inv_change [OF inv upd_simps])
  note b = gt_invD(1) [OF inv]
  show "state_of (upd_thread j f s) 0 = state_of s 0" using b j by (simp add: state_upd)
  fix i
  assume i: "i < MaxGThreads"
  then have l: "i < length (g_gttbl s)" by (simp add: b)
  show "state_of (upd_thread j f s) i = Running \<Longrightarrow> state_of s i = Running \<or> i = g_gtcur s"
    using run l by (auto simp: state_upd split: if_splits)
  show "state_of (upd_thread j f s) i = Blocked \<Longrightarrow> 0 < delay_ticks (g_gttbl (upd_thread j f s) ! i)"
    using gt_invD(5) [OF inv i] bl l by (auto simp: state_upd upd_nth split: if_splits)
  show "t_id (g_gttbl (upd_thread j f s) ! i) = int i"
    using gt_invD(6) [OF inv i] ids [of "g_gttbl s ! i"] l by (auto simp: upd_nth)
qed

lemma find_unused_Some: "find_unused tbl i = Some j \<Longrightarrow> i \<le> j \<and> j - i < length tbl \<and> thread_state (tbl ! (j - i)) = Unused"
proof (induction tbl arbitrary: i)
  case (Cons c tbl)
  show ?case
  proof (cases "thread_state c = Unused")
    case False
    with Cons.prems have "find_unused tbl (i + 1) = Some j" by simp
    from Cons.IH [OF this] show ?thesis by (auto simp: Suc_diff_le nth_Cons')
  qed (use Cons.prems in simp)
qed simp

lemma gt_inv_memory: "gt_inv (s\<lparr>memory := m\<rparr>) = gt_inv s" "gt_inv (s\<lparr>g_gt_yield_status := r\<rparr>) = gt_inv s"
  by (simp_all add: gt_inv_def state_of_def)

lemma gt_inv_go:
  assumes inv: "gt_inv s"
  shows "gt_inv (snd (gt_go sa nm run st s))"
proof (cases "find_unused (g_gttbl s) 0")
  case (Some j)
  then have "state_of s j = Unused" using find_unused_Some [OF Some] by (simp add: state_of_def)
  then have "0 < j" using gt_invD(4) [OF inv] by (cases j) (auto split: if_splits)
  then show ?thesis
    using inv Some by (cases st) (auto simp: gt_go_def gt_inv_memory intro!: gt_inv_upd)
qed (use inv in \<open>simp add: gt_go_def\<close>)

lemma tick_simps: "t_id (tick c) = t_id c" "thread_state (tick c) = Running \<longleftrightarrow> thread_state c = Running"
  "thread_state (tick c) = Blocked \<Longrightarrow> thread_state c = Blocked \<and> (0 < delay_ticks c \<longrightarrow> 0 < delay_ticks (tick c))"
  "thread_state c \<noteq> Blocked \<Longrightarrow> tick c = c"
  by (auto simp: tick_def Let_def split: if_splits)

lemma gt_inv_timers:
  assumes inv: "gt_inv s"
  shows "gt_inv (gt_manage_timers s)"
proof (rule gt_inv_change [OF inv])
  have t: "g_gttbl (gt_manage_timers s) ! i = tick (g_gttbl s ! i)" if "i < MaxGThreads" for i
    using gt_invD(1) [OF inv] that by (simp add: gt_manage_timers_def)
  show "state_of (gt_manage_timers s) 0 = state_of s 0"
    using gt_invD(4) [OF inv] tick_simps(4) [of "g_gttbl s ! 0"] by (simp add: state_of_def t split: if_splits)
  fix i
  assume i: "i < MaxGThreads"
  show "state_of (gt_manage_timers s) i = Running \<Longrightarrow> state_of s i = Running \<or> i = g_gtcur s"
    by (simp add: state_of_def t i tick_simps(2))
  show "0 < delay_ticks (g_gttbl (gt_manage_timers s) ! i)" if "state_of (gt_manage_timers s) i = Blocked"
  proof -
    from that have "thread_state (tick (g_gttbl s ! i)) = Blocked" unfolding state_of_def t [OF i] .
    note b = tick_simps(3) [OF this]
    then show ?thesis using gt_invD(5) [OF inv i] unfolding state_of_def t [OF i] by blast
  qed
  show "t_id (g_gttbl (gt_manage_timers s) ! i) = int i"
    using gt_invD(6) [OF inv i] by (simp add: t i tick_simps(1))
qed (simp_all add: gt_manage_timers_def)

lemma gt_inv_resume:
  assumes inv: "gt_inv s" and r: "gt_resume i s = Some t"
  shows "gt_inv t"
proof -
  have "0 < j" if "state_of s j = Suspended" for j
    using that gt_invD(4) [OF inv] by (cases j) (auto split: if_splits)
  with inv r show ?thesis by (auto simp: gt_resume_def intro!: gt_inv_upd split: if_splits)
qed

lemma gt_inv_step: "gt_step s t \<Longrightarrow> gt_inv s \<Longrightarrow> gt_inv t"
proof (induction rule: gt_step.induct)
  case (signal s ra)
  then have "gt_inv (snd (gt_yield ra (gt_manage_timers s)))"
    by (intro gt_inv_yield gt_inv_timers)
  then show ?case
    by (cases "gt_yield ra (gt_manage_timers s)") (simp add: gt_sig_handle_def gt_inv_memory)
next
  case (timer_set s n)
  then show ?case by (intro gt_inv_upd) (simp_all add: state_of_def)
next
  case (suspend s)
  then show ?case by (intro gt_inv_upd) simp_all
next
  case (stop s)
  then show ?case by (intro gt_inv_upd) simp_all
qed (simp_all add: gt_inv_go gt_inv_yield gt_inv_upd gt_inv_resume gt_sig_resume_def gt_inv_memory)

lemma gt_inv_init: "length (g_gttbl s) = MaxGThreads \<Longrightarrow> gt_inv (gt_init s)"
  by (rule gt_invI) (auto simp: gt_init_def state_of_def upd_nth nth_list_update split: if_splits)

lemma gt_inv_reach: "gt_reach s \<Longrightarrow> gt_inv s"
  by (induction rule: gt_reach.induct) (blast intro: gt_inv_init gt_inv_step)+


lemma sample_reach: "gt_reach sample_gt"
  unfolding sample_gt_def by (intro more [OF _ go] boot) simp


section \<open>Fairness\<close>

text \<open>How many places the thread \<open>j\<close> is behind the current one in the round.\<close>

definition turn_distance :: "gt \<Rightarrow> nat \<Rightarrow> nat" where
  "turn_distance s j = (j + MaxGThreads - g_gtcur s) mod MaxGThreads"

lemma find_first: "find P xs = Some x \<Longrightarrow> i < length xs \<Longrightarrow> P (xs ! i) \<Longrightarrow> \<exists>k \<le> i. xs ! k = x \<and> P (xs ! k)"
  unfolding find_Some_iff by (metis not_le)

lemma turn_distance_place:
  assumes "g_gtcur s < MaxGThreads" and "j < MaxGThreads"
  shows "(g_gtcur s + turn_distance s j) mod MaxGThreads = j" "turn_distance s j < MaxGThreads"
  using assms by (simp_all add: turn_distance_def mod_add_right_eq)

lemma turn_distance_unique:
  assumes "g_gtcur s < MaxGThreads" and "j < MaxGThreads" and "(g_gtcur s + e) mod MaxGThreads = j" and "e < MaxGThreads"
  shows "turn_distance s j = e"
  using mod_add_inj [of "g_gtcur s" "turn_distance s j" MaxGThreads e] turn_distance_place [OF assms(1,2)] assms(3,4)
  by simp

text \<open>
  C17. Fairness: with every \<open>gt_yield()\<close> of another thread a ready thread either gets the processor
  or comes at least one place nearer to its turn and stays ready, so that it waits for at most
  \<open>MaxGThreads - 1\<close> switches.
\<close>

theorem yield_fair:
  assumes "gt_reach s" and "j < MaxGThreads" and "state_of s j = Ready" and "state_of s (g_gtcur s) \<noteq> Ready"
    and "gt_yield ra s = (r, s')"
  shows "r = 1 \<and> (g_gtcur s' = j \<and> state_of s' j = Running \<or>
    state_of s' j = Ready \<and> turn_distance s' j < turn_distance s j) \<and> turn_distance s j < MaxGThreads"
proof -
  note inv = gt_inv_reach [OF assms(1)]
  note b = gt_invD(1,2) [OF inv]
  let ?c = "g_gtcur s" and ?n = "MaxGThreads" and ?d = "turn_distance s j"
  have len: "?c < length (g_gttbl s)" using b by simp
  note d = turn_distance_place [OF b(2) assms(2)]
  have ord: "order ?c ?n ! k = (?c + k) mod ?n" if "k < ?n" for k
    using that by (simp add: order_def del: upt_Suc)
  have "next_ready (g_gttbl s) ?c \<noteq> None"
    using next_ready_None [of "g_gttbl s" ?c j] len assms(2,3) b by (auto simp: state_of_def)
  then obtain p where p: "next_ready (g_gttbl s) ?c = Some p" by auto
  then obtain k where k: "k \<le> ?d" "order ?c ?n ! k = p" "state_of s p = Ready"
    using find_first [of "\<lambda>p. state_of s p = Ready" "order ?c ?n" p ?d] d assms(3) ord [OF d(2)] b(1)
    by (auto simp: next_ready_def state_of_def order_def simp del: upt_Suc)
  have kn: "k < ?n" using k(1) d(2) by simp
  have pk: "(?c + k) mod ?n = p" using k(2) ord [OF kn] by simp
  have "p \<noteq> ?c" using k(3) assms(4) by auto
  then have k0: "0 < k" using pk b(2) by (cases k) auto
  have pn: "p < ?n" using pk by auto
  have r: "r = 1" "s' = switch_to ra p s" using yield_eq [OF len, of ra] p assms(5) by simp_all
  have t: "g_gtcur s' = p" "state_of s' j = (if j = p then Running else Ready)"
    using switch_to_table [of j s p ra] pn assms(2,3) b(1) r(2) by simp_all
  show ?thesis
  proof (cases "j = p")
    case True
    with r t d show ?thesis by simp
  next
    case False
    have "(p + (?d - k)) mod ?n = (?c + k + (?d - k)) mod ?n"
      using pk by (metis mod_add_left_eq)
    also have "\<dots> = j" using d(1) k(1) by simp
    finally have "turn_distance s' j = ?d - k"
      using turn_distance_unique [of s' j "?d - k"] t(1) pn assms(2) d(2) by simp
    moreover have "?d \<noteq> 0" using k0 k(1) by simp
    ultimately show ?thesis using False r t d k0 by simp
  qed
qed

theorem yield_fair_witness: "turn_distance sample_gt 2 < MaxGThreads"
  using yield_fair [OF sample_reach, of 2 5 "fst (gt_yield 5 sample_gt)" "snd (gt_yield 5 sample_gt)"]
    sample_gt_states(2) by (simp add: sample_st state_of_def)



section \<open>Timers\<close>

lemma timers_nth: "i < length (g_gttbl s) \<Longrightarrow> g_gttbl ((gt_manage_timers ^^ m) s) ! i = (tick ^^ m) (g_gttbl s ! i)"
proof (induction m)
  case (Suc m)
  have t: "g_gttbl (gt_manage_timers u) = map tick (g_gttbl u)" for u by (simp add: gt_manage_timers_def)
  have "length (g_gttbl ((gt_manage_timers ^^ k) s)) = length (g_gttbl s)" for k
    by (induction k) (simp_all add: t)
  with Suc show ?case by (simp add: t)
qed simp

lemma tick_blocked:
  assumes "thread_state c = Blocked" and "0 < delay_ticks c"
  shows "thread_state ((tick ^^ m) c) = (if int m < delay_ticks c then Blocked else Ready)"
proof -
  have "(tick ^^ m) c = (if int m < delay_ticks c then c\<lparr>delay_ticks := delay_ticks c - int m\<rparr>
      else c\<lparr>delay_ticks := 0, thread_state := Ready\<rparr>)"
    using assms by (induction m) (auto simp: tick_def Let_def)
  then show ?thesis using assms(1) by simp
qed

text \<open>
  C19. \<open>gt_delay(t_ms)\<close> called by a thread switches to another one, and the caller becomes ready
  again at exactly the timer signal number \<open>t_ms / TimePeriod\<close>, rounded down but at least the
  first; for a time that is not positive it does nothing.
\<close>

theorem delay_exact:
  assumes "gt_reach s" and "0 < g_gtcur s" and "state_of s (g_gtcur s) = Running"
  shows "if 0 < t_ms then g_gtcur (gt_delay ra t_ms s) \<noteq> g_gtcur s \<and>
      state_of ((gt_manage_timers ^^ m) (gt_delay ra t_ms s)) (g_gtcur s) =
        (if int m < max 1 (t_ms div TimePeriod) then Blocked else Ready)
    else gt_delay ra t_ms s = s"
proof (cases "0 < t_ms")
  case False
  then show ?thesis by (simp add: gt_delay_def)
next
  case ms: True
  let ?c = "g_gtcur s"
  let ?u = "upd_thread ?c (\<lambda>c. c\<lparr>delay_ticks := ticks_of t_ms, thread_state := Blocked\<rparr>) s"
  note inv = gt_inv_reach [OF assms(1)]
  note b = gt_invD(1,2) [OF inv]
  have tk: "ticks_of t_ms = max 1 (t_ms div TimePeriod)" "0 < ticks_of t_ms"
    by (auto simp: ticks_of_def)
  have u: "g_gttbl ?u ! ?c = (g_gttbl s ! ?c)\<lparr>delay_ticks := ticks_of t_ms, thread_state := Blocked\<rparr>"
    using b by (simp add: upd_nth)
  have inv_u: "gt_inv ?u"
    using inv assms(2) tk(2) by (intro gt_inv_upd) simp_all
  have len: "g_gtcur ?u < length (g_gttbl ?u)" using b by simp
  have "state_of ?u 0 = Ready" using gt_invD(4) [OF inv_u] assms(2) by simp
  then obtain p where p: "next_ready (g_gttbl ?u) (g_gtcur ?u) = Some p"
    using next_ready_None [OF _ len, of 0] b by (auto simp: state_of_def)
  have pc: "p \<noteq> ?c" "p < length (g_gttbl ?u)"
    using next_readyD [OF p len] u by auto
  have d: "gt_delay ra t_ms s = switch_to ra p ?u"
    using ms yield_eq [OF len, of ra] p by (simp add: gt_delay_def)
  have c: "?c < length (g_gttbl ?u)" using b by simp
  note t = switch_to_table [OF c pc(2), of ra]
  have "state_of (gt_delay ra t_ms s) ?c = Blocked" "delay_ticks (g_gttbl (gt_delay ra t_ms s) ! ?c) = ticks_of t_ms"
    unfolding d using t(1,2) pc(1) u by (simp_all add: state_of_def)
  moreover have "?c < length (g_gttbl (gt_delay ra t_ms s))" unfolding d using t(5) c by simp
  ultimately have "state_of ((gt_manage_timers ^^ m) (gt_delay ra t_ms s)) ?c =
      (if int m < max 1 (t_ms div TimePeriod) then Blocked else Ready)"
    using tick_blocked [of "g_gttbl (gt_delay ra t_ms s) ! ?c" m] tk
    by (simp add: state_of_def timers_nth)
  moreover have "g_gtcur (gt_delay ra t_ms s) \<noteq> ?c" unfolding d using t(4) pc(1) by simp
  ultimately show ?thesis using ms by simp
qed

lemma sample_yield: "gt_yield 5 sample_gt = (1, switch_to 5 1 sample_gt)"
  using yield_eq [of sample_gt 5] sample_len sample_gt_states(2)
  by (simp add: next_ready_def order_def sample_st upt_rec)

theorem delay_exact_witness:
  "state_of ((gt_manage_timers ^^ 100) (gt_delay 6 1000 (snd (gt_yield 5 sample_gt)))) 1 = Ready \<and>
   state_of ((gt_manage_timers ^^ 99) (gt_delay 6 1000 (snd (gt_yield 5 sample_gt)))) 1 = Blocked"
proof -
  let ?s = "snd (gt_yield 5 sample_gt)"
  have r: "gt_reach ?s" by (rule more [OF sample_reach yield])
  have c: "g_gtcur ?s = 1" "state_of ?s 1 = Running"
    using switch_to_table [of 1 sample_gt 1 5] sample_len by (simp_all add: sample_yield)
  show ?thesis using delay_exact [OF r, of 1000 6 100] delay_exact [OF r, of 1000 6 99] c by simp
qed

section \<open>The context switch\<close>

text \<open>
  C20. A thread that is switched away and later switched back to goes on where it was: its stack
  pointer, its base pointer and the place it returns to are those it had, if its saved registers
  and the return address on its stack are as the first switch left them and the other thread is on
  a stack of its own.
\<close>

theorem switch_roundtrip:
  assumes "i < length (g_gttbl s)" and "i < length (g_gttbl t)" and "k \<noteq> i"
    and "regs (g_gttbl t ! i) = regs (g_gttbl (gt_pree_swtch ra i j s) ! i)"
    and "memory t (rsp (cpu s) - 8) = memory (gt_pree_swtch ra i j s) (rsp (cpu s) - 8)"
    and "rsp (cpu t) \<noteq> rsp (cpu s)"
  shows "cpu (gt_pree_swtch rb k i t) = cpu s \<and> rip (gt_pree_swtch rb k i t) = ra"
proof -
  have "regs (g_gttbl t ! i) = \<lparr>rsp = rsp (cpu s) - 8, rbp = rbp (cpu s)\<rparr>"
    using assms(1,4) by (simp add: gt_pree_swtch_def Let_def upd_nth)
  moreover have "memory t (rsp (cpu s) - 8) = ra"
    using assms(5) by (simp add: gt_pree_swtch_def Let_def upd_thread_def)
  ultimately show ?thesis
    using assms(2,3,6) by (simp add: gt_pree_swtch_def Let_def upd_nth upd_thread_def)
qed

theorem switch_roundtrip_witness:
  "cpu (gt_pree_swtch 6 1 0 (gt_pree_swtch 5 0 1 sample_gt)) = cpu sample_gt \<and>
   rip (gt_pree_swtch 6 1 0 (gt_pree_swtch 5 0 1 sample_gt)) = 5"
  by (rule switch_roundtrip [where j = 1])
    (simp_all add: sample_len, simp add: gt_pree_swtch_def upd_thread_def Let_def sample_regs sample_cpu sample_len)



section \<open>The variants\<close>

text \<open>
  The rewritten \<open>gt_yield()\<close> of \<open>osy-gthreads-main-learn\<close>, whose search starts behind the current
  thread, does the same as the original whenever the current thread is not itself ready.
\<close>

theorem learn_yield_same:
  assumes "g_gtcur s < length (g_gttbl s)" and "state_of s (g_gtcur s) \<noteq> Ready"
  shows "learn_yield ra s = gt_yield ra s"
  using assms unfolding learn_yield_def gt_yield_def state_of_def Let_def succ_thread_def
  by (subst (2) scan.simps) (simp add: Let_def)

theorem learn_yield_same_witness: "learn_yield 5 sample_gt = gt_yield 5 sample_gt"
  by (rule learn_yield_same) (simp_all add: sample_len sample_gt_states(2) state_of_def sample_st)

lemma first_ready_Some: "list_ex (\<lambda>c. thread_state c = Ready) tbl \<Longrightarrow>
    \<exists>j. first_ready tbl k = Some (k + j) \<and> j < length tbl \<and> thread_state (tbl ! j) = Ready"
proof (induction tbl arbitrary: k)
  case (Cons c tbl)
  show ?case
  proof (cases "thread_state c = Ready")
    case False
    with Cons obtain j where "first_ready tbl (k + 1) = Some (k + 1 + j)" "j < length tbl" "thread_state (tbl ! j) = Ready"
      by fastforce
    with False show ?thesis by (intro exI [of _ "Suc j"]) simp
  qed auto
qed simp

text \<open>
  In \<open>osy-gthreads-main_test\<close> the main thread runs only when nothing else can: \<open>gt_yield()\<close> always
  picks a ready thread, finds one whenever the original does, and picks the main thread only if no
  other thread is ready.
\<close>

theorem test_pick_idle:
  assumes "cur < length tbl"
  shows "(\<forall>p. test_pick tbl cur = Inr p \<longrightarrow> p < length tbl \<and> thread_state (tbl ! p) = Ready \<and>
      (p = 0 \<longrightarrow> (\<forall>i. 0 < i \<and> i < length tbl \<longrightarrow> thread_state (tbl ! i) \<noteq> Ready))) \<and>
    (\<forall>r. test_pick tbl cur = Inl r \<longleftrightarrow> scan tbl cur cur 0 = Inl r)"
proof -
  have ex: "gt_has_ready_nonidle tbl \<longleftrightarrow> (\<exists>i. 0 < i \<and> i < length tbl \<and> thread_state (tbl ! i) = Ready)"
    (is "_ \<longleftrightarrow> ?E")
  proof
    assume "gt_has_ready_nonidle tbl"
    then obtain j where "j < length tbl - 1" "thread_state (tbl ! (1 + j)) = Ready"
      by (auto simp: gt_has_ready_nonidle_def list_ex_length)
    then show ?E by (intro exI [of _ "1 + j"]) simp
  next
    assume ?E
    then obtain i where "0 < i" "i < length tbl" "thread_state (tbl ! i) = Ready" by blast
    then show "gt_has_ready_nonidle tbl"
      unfolding gt_has_ready_nonidle_def list_ex_length by (intro exI [of _ "i - 1"]) simp
  qed
  have sc: "p < length tbl \<and> thread_state (tbl ! p) = Ready" if "scan tbl cur cur 0 = Inr p" for p
    using that scan_order [OF assms] next_readyD [OF _ assms] by (auto split: option.splits)
  have fr: "\<exists>q. first_ready (drop 1 tbl) 1 = Some q \<and> 0 < q \<and> q < length tbl \<and> thread_state (tbl ! q) = Ready"
    if nonidle: "gt_has_ready_nonidle tbl"
  proof -
    obtain j where "first_ready (drop 1 tbl) 1 = Some (1 + j)" "j < length (drop 1 tbl)"
        "thread_state (drop 1 tbl ! j) = Ready"
      using first_ready_Some [of "drop 1 tbl" 1] nonidle unfolding gt_has_ready_nonidle_def by blast
    then show ?thesis by (intro exI [of _ "1 + j"]) simp
  qed
  show ?thesis
  proof (cases "scan tbl cur cur 0")
    case (Inl r)
    then show ?thesis by (simp add: test_pick_def)
  next
    case (Inr p)
    show ?thesis
    proof (cases "gt_has_ready_nonidle tbl \<and> p = 0")
      case True
      with fr obtain q where "first_ready (drop 1 tbl) 1 = Some q" "0 < q" "q < length tbl" "thread_state (tbl ! q) = Ready"
        by blast
      with Inr True show ?thesis by (simp add: test_pick_def)
    next
      case False
      then have "test_pick tbl cur = Inr p" using Inr by (auto simp: test_pick_def)
      then show ?thesis using Inr sc [OF Inr] ex False by auto
    qed
  qed
qed

theorem test_pick_idle_witness: "test_pick (g_gttbl sample_gt) 0 = Inr 1"
proof -
  have "scan (g_gttbl sample_gt) 0 0 0 = Inr 1"
    using scan_order [of 0 "g_gttbl sample_gt"] sample_len
    by (simp add: next_ready_def order_def sample_st upt_rec)
  then show ?thesis
    using test_pick_idle [of 0 "g_gttbl sample_gt"] sample_len by (auto simp: test_pick_def)
qed

end
