(* ===== verification/ServerProps.thy ===== *)
theory ServerProps
  imports Guarantee
begin

text \<open>
  The common parts of the servers: the outcome of opening the listening socket on every branch, and
  what a client can do to the single-client server.
\<close>

lemma sys_int_cases:
  obtains "sys_int c w = (Blocked, w)"
  | i w' where "sys_int c w = (Val i, w')" "w_calls w' = w_calls w @ [c]"
proof (cases "w_oracle w")
  case Nil
  then show ?thesis using that(1) by (simp add: sys_int_def pop_def io_bind_def)
next
  case (Cons x os)
  then obtain e r where "w_oracle w = (e, r) # os" by (cases x) auto
  then show ?thesis using that(2) by (cases r) (auto simp: io_simps)
qed

lemma log_error: "length s < 1024 \<Longrightarrow> c_format s [] = Some s \<Longrightarrow>
    log_msg LOG_ERROR s [] w = (Val (), w\<lparr>w_calls := w_calls w @ [CLog LOG_ERROR s]\<rparr>)"
  by (simp add: log_msg_def io_simps)


text \<open>
  Any client can end the single-client server: data that begins with \<open>quit\<close>, in upper or lower
  case, closes the listening socket and the connection and ends the process.
\<close>

theorem client_quits_server:
  assumes "w_oracle w = (e1, Ready False True) # (e2, Data d) # (e3, Ret n) # os"
    and "d \<noteq> []" and "length d \<le> 256" and "0 \<le> n" and "strncasecmp_eq d STR_QUIT 4" and "w_debug w = LOG_INFO"
  shows "\<exists>w'. io_while (comm_body l c) l_buf w = (Exit 0, w') \<and> CClose l \<in> set (w_calls w') \<and> CClose c \<in> set (w_calls w')"
proof -
  have q: "map to_lower (take 4 (cstr d)) = ''quit''"
    using assms(5) by (simp add: strncasecmp_eq_def cstr_def to_lower_def)
  have tl: "length (take 4 (cstr d)) = 4"
    using arg_cong [OF q, of length] by simp
  have pre: "take 4 (cstr (d @ x)) = take 4 (cstr d)" for x
  proof (cases "NUL \<in> set d")
    case True
    then show ?thesis by (simp add: cstr_def takeWhile_append1)
  next
    case False
    then have "cstr d = d" by (rule cstr_id)
    with tl have "4 \<le> length d" by simp
    moreover have "cstr (d @ x) = d @ cstr x" using False by (auto simp: cstr_def intro!: takeWhile_append2)
    ultimately show ?thesis using \<open>cstr d = d\<close> by simp
  qed
  have t: "take 256 d = d" using assms(3) by simp
  have quit: "strncasecmp_eq (buf_fill l_buf d) STR_QUIT (length STR_QUIT)"
    using q pre by (simp add: strncasecmp_eq_def buf_fill_def cstr_def to_lower_def eval_nat_numeral)
  have close: "\<not> strncasecmp_eq (buf_fill l_buf d) STR_CLOSE (length STR_CLOSE)"
  proof
    assume "strncasecmp_eq (buf_fill l_buf d) STR_CLOSE (length STR_CLOSE)"
    then have "map to_lower (take 5 (cstr (buf_fill l_buf d))) = ''close''"
      by (simp add: strncasecmp_eq_def cstr_def to_lower_def eval_nat_numeral)
    then have "take 4 (map to_lower (take 5 (cstr (buf_fill l_buf d)))) = ''clos''" by simp
    then show False using q pre by (simp add: take_map buf_fill_def)
  qed
  have "\<exists>w'. comm_body l c l_buf w = (Exit 0, w') \<and> CClose l \<in> set (w_calls w') \<and> CClose c \<in> set (w_calls w')"
    using assms(1,2,4,6) t quit close
    by (simp add: comm_body_def poll_or_exit_def comm_client_def comm_quit_def io_simps log_msg_def)
  then show ?thesis by (subst comm_loop.while_unfold) (auto simp: io_simps)
qed

theorem client_quits_server_witness:
  "\<exists>w'. io_while (comm_body 3 4) (replicate 256 NUL) \<lparr>w_oracle = [(None, Ready False True), (None, Data ''quit''), (None, Ret 4)],
     w_calls = [], w_errno = 0, w_debug = 1, w_priv = (),
     w_kern = \<lparr>k_sem = (\<lambda>_. 0), k_sem_dir = (\<lambda>_. None), k_sem_next = 0, k_shm = (\<lambda>_. ()), k_shm_dir = (\<lambda>_. None),
       k_shm_next = 0, k_mq = (\<lambda>_. []), k_mq_dir = (\<lambda>_. None), k_mq_next = 0\<rparr>\<rparr> = (Exit 0, w') \<and>
     CClose 3 \<in> set (w_calls w') \<and> CClose 4 \<in> set (w_calls w')"
  by (rule client_quits_server [where os = "[]" and d = "''quit''" and n = 4])
    (simp_all add: strncasecmp_eq_def cstr_def to_lower_def)

end
