(* ===== verification/Client.thy ===== *)
theory Client
  imports Server
begin

text \<open>
  The client program \<open>socket_cl.cpp\<close>, in the form all the demonstration programs have it
  (\<open>cv_skuska/socket-demo/socket_cl.cpp\<close>): arguments, connection, and the loop that relays standard
  input to the server and the server to standard output. The argument and connection parts are
  shared with the client of the producer/consumer server.
\<close>

section \<open>Arguments\<close>

definition client_help :: "string list \<Rightarrow> (unit, 'p, 'm) io" where
  "client_help t_args =
     (if length t_args \<le> 1 \<or> t_args ! 1 = ''-h'' then
        io_seq (emit (CPrint ''usage'')) (io_exit 0)
      else io_when (t_args ! 1 = ''-d'') (set_debug LOG_DEBUG))"

fun client_parse :: "string list \<Rightarrow> string list \<Rightarrow> string option \<Rightarrow> int \<Rightarrow> (string option \<times> int, 'p, 'm) io" where
  "client_parse t_args [] l_host l_port = io_ret (l_host, l_port)"
| "client_parse t_args (a # rest) l_host l_port =
     io_seq (io_when (a = ''-d'') (set_debug LOG_DEBUG))
    (io_seq (io_when (a = ''-h'') (client_help t_args))
    (if not_option a then
       (if l_host = None then client_parse t_args rest (Some a) l_port
        else if l_port = 0 then
          io_bind (atoi_io a) (\<lambda>p. client_parse t_args rest l_host p)
        else client_parse t_args rest l_host l_port)
     else client_parse t_args rest l_host l_port))"

text \<open>The client ends if the host or the port is missing.\<close>

definition client_args :: "string list \<Rightarrow> (string \<times> int, 'p, 'm) io" where
  "client_args t_args =
     io_seq (io_when (length t_args \<le> 2) (client_help t_args))
    (io_bind (client_parse t_args (tl t_args) None 0) (\<lambda>(l_host, l_port).
     case l_host of
       None \<Rightarrow> io_seq (log_msg LOG_INFO ''Host or port is missing!'' [])
                (io_seq (client_help t_args) (io_exit 1))
     | Some h \<Rightarrow> if l_port = 0
         then io_seq (log_msg LOG_INFO ''Host or port is missing!'' [])
                (io_seq (client_help t_args) (io_exit 1))
         else io_ret (h, l_port)))"

section \<open>Connection\<close>

text \<open>\<open>getaddrinfo\<close>: the first address found, as a dotted quad.\<close>

definition resolve :: "string \<Rightarrow> (string, 'p, 'm) io" where
  "resolve l_host = io_bind (pop (CGetaddrinfo l_host)) (\<lambda>r. case r of
      Addr ip _ \<Rightarrow> io_ret (take 15 ip)
    | _ \<Rightarrow> io_seq (log_msg LOG_ERROR ''Unknown host name!'' []) (io_exit 1))"

definition report_addresses :: "int \<Rightarrow> string \<times> int \<Rightarrow> (unit, 'p, 'm) io" where
  "report_addresses s a =
     io_bind (sys_addr (CGetsockname s) a) (\<lambda>(ip, port).
     io_seq (log_msg LOG_INFO ''My IP: '%s'  port: %d'' [AStr ip, AInt port])
    (io_bind (sys_addr (CGetpeername s) (ip, port)) (\<lambda>(ip, port).
     log_msg LOG_INFO ''Server IP: '%s'  port: %d'' [AStr ip, AInt port])))"

definition client_connect :: "string \<Rightarrow> int \<Rightarrow> (int, 'p, 'm) io" where
  "client_connect l_host l_port =
     io_seq (log_msg LOG_INFO ''Connection to '%s':%d.'' [AStr l_host, AInt l_port])
    (io_bind (resolve l_host) (\<lambda>ip.
     io_bind (sys_int CSocket) (\<lambda>l_sock_server.
     if l_sock_server = -1 then io_seq (log_msg LOG_ERROR ''Unable to create socket.'' []) (io_exit 1)
     else
     io_bind (sys_int (CConnect l_sock_server (htons l_port))) (\<lambda>r.
     if r < 0 then io_seq (log_msg LOG_ERROR ''Unable to connect server.'' []) (io_exit 1)
     else
     io_seq (report_addresses l_sock_server (ip, uint (htons l_port)))
    (io_seq (log_msg LOG_INFO ''Enter 'close' to close application.'' [])
    (io_ret l_sock_server))))))"

section \<open>Relaying\<close>

text \<open>
  What is left in \<open>char l_buf[ 128 ]\<close> of an earlier round does not matter to \<open>write\<close>, but it does to
  the comparison with \<open>close\<close>, which looks at five characters whatever the length read.
  \<open>None\<close> leaves the loop.
\<close>

definition relay_stdin :: "int \<Rightarrow> char list \<Rightarrow> (char list option, 'p, 'm) io" where
  "relay_stdin l_sock_server l_buf =
     io_bind (sys_read STDIN_FILENO 128) (\<lambda>(l_len, d).
     if l_len = 0 then io_seq (log_msg LOG_DEBUG ''Stdin closed.'' []) (io_ret None)
     else if l_len < 0 then io_seq (log_msg LOG_ERROR ''Unable to read from stdin.'' []) (io_ret None)
     else
     io_seq (log_msg LOG_DEBUG ''Read %d bytes from stdin.'' [AInt l_len])
    (io_bind (sys_int (CWrite l_sock_server d)) (\<lambda>l_len.
     if l_len < 0 then io_seq (log_msg LOG_ERROR ''Unable to send data to server.'' []) (io_ret None)
     else io_seq (log_msg LOG_DEBUG ''Sent %d bytes to server.'' [AInt l_len])
         (io_ret (Some (buf_fill l_buf d))))))"

definition relay_server :: "int \<Rightarrow> char list \<Rightarrow> (char list option, 'p, 'm) io" where
  "relay_server l_sock_server l_buf =
     io_bind (sys_read l_sock_server 128) (\<lambda>(l_len, d).
     if l_len = 0 then io_seq (log_msg LOG_DEBUG ''Server closed socket.'' []) (io_ret None)
     else if l_len < 0 then io_seq (log_msg LOG_ERROR ''Unable to read data from server.'' []) (io_ret None)
     else
     io_seq (log_msg LOG_DEBUG ''Read %d bytes from server.'' [AInt l_len])
    (io_bind (sys_int (CWrite STDOUT_FILENO d)) (\<lambda>l_len.
     if l_len < 0 then io_seq (log_msg LOG_ERROR ''Unable to write to stdout.'' []) (io_ret None)
     else if strncasecmp_eq (buf_fill l_buf d) STR_CLOSE (length STR_CLOSE) then
       io_seq (log_msg LOG_INFO ''Connection will be closed...'' []) (io_ret None)
     else io_ret (Some (buf_fill l_buf d)))))"

definition client_round :: "int \<Rightarrow> char list \<Rightarrow> (char list + unit, 'p, 'm) io" where
  "client_round l_sock_server l_buf =
     io_bind (sys_poll [STDIN_FILENO, l_sock_server]) (\<lambda>(r, in0, in1).
     if r < 0 then io_ret (Inr ())
     else
     io_bind (if in0 then relay_stdin l_sock_server l_buf else io_ret (Some l_buf)) (\<lambda>b.
     case b of
       None \<Rightarrow> io_ret (Inr ())
     | Some l_buf \<Rightarrow>
         io_bind (if in1 then relay_server l_sock_server l_buf else io_ret (Some l_buf)) (\<lambda>b.
         case b of None \<Rightarrow> io_ret (Inr ()) | Some l_buf \<Rightarrow> io_ret (Inl l_buf))))"

definition client_main :: "string list \<Rightarrow> char list \<Rightarrow> (int, 'p, 'm) io" where
  "client_main t_args l_buf =
     io_bind (client_args t_args) (\<lambda>(l_host, l_port).
     io_bind (client_connect l_host l_port) (\<lambda>l_sock_server.
     io_seq (io_while (client_round l_sock_server) l_buf)
    (io_seq (emit (CClose l_sock_server)) (io_ret 0))))"

section \<open>Facts\<close>

lemma sane_client_help [ext_intros]: "sane (client_help ta)"
  unfolding client_help_def by (intro ext_intros)

lemma sane_client_parse [ext_intros]: "sane (client_parse ta xs h p)"
  by (induction ta xs h p rule: client_parse.induct) (auto intro!: ext_intros)

lemma sane_client_args [ext_intros]: "sane (client_args ta)"
  unfolding client_args_def by (intro ext_intros)

lemma sane_connect [ext_intros]: "sane (resolve h)" "sane (report_addresses s a)" "sane (client_connect h p)"
  unfolding client_connect_def resolve_def report_addresses_def by (intro ext_intros)+

lemma sane_relay [ext_intros]: "sane (relay_stdin s b)" "sane (relay_server s b)"
  unfolding relay_stdin_def relay_server_def by (intro ext_intros)+

interpretation client_loop: event_loop "client_round s"
proof
  show "sane (client_round s b)" for b
    unfolding client_round_def by (intro ext_intros)
  show "uses (client_round s b)" for b
    unfolding client_round_def by (rule uses_bind_first [OF uses_sys(3)]) (intro ext_intros)
qed

lemma sane_client_main: "sane (client_main ta b)"
  unfolding client_main_def by (intro ext_intros client_loop.while_sane)

end
