(* ===== verification/ClientFiles.thy ===== *)
theory ClientFiles
  imports Client
begin

text \<open>
  What the clients of the producer/consumer servers share: reading a text file line by line, and
  the rate of a producer. The rate \<open>g_names_per_min\<close> belongs to two threads; it is the cell 0 of
  the shared memory of the model, so that the other thread can change it at every call.
\<close>

section \<open>Reading a text file\<close>

text \<open>One \<open>fgets(line, n, f)\<close> on what is left of the file: the line and the rest.\<close>

fun line_take :: "nat \<Rightarrow> string \<Rightarrow> string \<times> string" where
  "line_take 0 s = ([], s)"
| "line_take (Suc k) [] = ([], [])"
| "line_take (Suc k) (c # cs) =
     (if c = LF then ([c], cs) else (c # fst (line_take k cs), snd (line_take k cs)))"

definition fgets :: "nat \<Rightarrow> string \<Rightarrow> string \<times> string" where
  "fgets n s = line_take (n - 1) s"

lemma line_take_rest: "length (snd (line_take k s)) \<le> length s"
  by (induction k s rule: line_take.induct) (auto split: if_splits)

lemma fgets_progress: "1 < n \<Longrightarrow> s \<noteq> [] \<Longrightarrow> length (snd (fgets n s)) < length s"
  unfolding fgets_def
  by (cases "n - 1"; cases s) (auto simp: line_take_rest less_Suc_eq_le split: if_splits)

text \<open>The results of \<open>while (fgets(line, n, f))\<close>.\<close>

function file_lines :: "nat \<Rightarrow> string \<Rightarrow> string list" where
  "file_lines n s = (if n \<le> 1 \<or> s = [] then []
     else fst (fgets n s) # file_lines n (snd (fgets n s)))"
  by auto

termination
  by (relation "measure (\<lambda>(n, s). length s)") (use fgets_progress in auto)

declare file_lines.simps [simp del]

lemma fgets_append: "fst (fgets n s) @ snd (fgets n s) = s"
proof -
  have "fst (line_take k s) @ snd (line_take k s) = s" for k
    by (induction k s rule: line_take.induct) auto
  then show ?thesis by (simp add: fgets_def)
qed

lemma fgets_length: "length (fst (fgets n s)) \<le> n - 1"
proof -
  have "length (fst (line_take k s)) \<le> k" for k
    by (induction k s rule: line_take.induct) auto
  then show ?thesis by (simp add: fgets_def)
qed

lemma concat_file_lines: "1 < n \<Longrightarrow> concat (file_lines n s) = s"
proof (induction n s rule: file_lines.induct)
  case (1 n s)
  then show ?case
    by (subst file_lines.simps) (auto simp: fgets_append)
qed

lemma file_lines_length: "l \<in> set (file_lines n s) \<Longrightarrow> length l \<le> n - 1"
proof (induction n s rule: file_lines.induct)
  case (1 n s)
  show ?case
  proof (cases "n \<le> 1 \<or> s = []")
    case True
    with "1.prems" show ?thesis by (subst (asm) file_lines.simps) simp
  next
    case False
    with "1.prems" have "l = fst (fgets n s) \<or> l \<in> set (file_lines n (snd (fgets n s)))"
      by (subst (asm) file_lines.simps) simp
    with "1.IH" [OF False] show ?thesis using fgets_length by blast
  qed
qed

section \<open>The rate\<close>

definition get_rate :: "(int, 'p, int) io" where
  "get_rate = mem_get 0 id"

definition set_rate :: "int \<Rightarrow> (unit, 'p, int) io" where
  "set_rate v = mem_upd 0 (\<lambda>_. v)"

text \<open>\<open>fopen(name, "r")\<close>: the contents of the file, or a null pointer.\<close>

definition fopen_read :: "string \<Rightarrow> (string option, 'p, 'm) io" where
  "fopen_read nm = io_bind (pop (COpen nm)) (\<lambda>r. case r of
      Data s \<Rightarrow> io_ret (Some s)
    | Fail e \<Rightarrow> io_seq (set_errno e) (io_ret None)
    | _ \<Rightarrow> io_ret None)"

text \<open>The pause after an item, in microseconds; the quotient of doubles is cut to an integer.\<close>

definition delay_us :: "int \<Rightarrow> int" where
  "delay_us rate = 60000000 div (if rate \<le> 0 then 1 else rate)"

lemma sane_rate [ext_intros]: "sane get_rate" "sane (set_rate v)" "sane (fopen_read nm)"
  unfolding get_rate_def set_rate_def fopen_read_def by (intro ext_intros)+

end
