(* ===== verification/PcClient.thy ===== *)
theory PcClient
  imports ClientFiles PcServer
begin

text \<open>
  The client of the producer/consumer server, \<open>DU/DU05_test/socket_cl.cpp\<close>. As a producer it sends
  the lines of a file at a rate that the console can change, as a consumer it prints what it
  receives and copies it to a file.

  The rate \<open>g_names_per_min\<close> is shared by two threads; it is the cell 0 of the shared memory of the
  model, so that the other thread can change it at every call.
\<close>

section \<open>Globals\<close>

record cl =
  g_file_name :: "string option"
  g_file_exists :: bool
  g_out_file :: "int option"

type_synonym 'a pcc = "('a, cl, int) io"

section \<open>The producer\<close>

definition default_input :: string where
  "default_input = ''/home/fei/jop0015/osy/osy_prog/DU05_test/podzim.pbm''"

fun producer_lines :: "int \<Rightarrow> string list \<Rightarrow> unit pcc" where
  "producer_lines sock [] = io_ret ()"
| "producer_lines sock (l # ls) =
     (let line = chomp (cstr l) in
      if line = [] then producer_lines sock ls
      else
      io_bind (sys_int (CWrite sock (snprintf_str MAX_STR (line @ [LF])))) (\<lambda>w.
      if w \<le> 0 then log_msg LOG_INFO ''Producer: write to server failed, ending.'' []
      else
      io_bind (sys_read sock 255) (\<lambda>(r, ack).
      if r \<le> 0 then log_msg LOG_INFO ''Producer: server closed connection.'' []
      else
      io_bind get_rate (\<lambda>rate.
      io_seq (emit (CUsleep (delay_us rate))) (producer_lines sock ls)))))"

definition producer_thread :: "int \<Rightarrow> unit pcc" where
  "producer_thread sock =
     io_bind (get_priv (\<lambda>p. case g_file_name p of None \<Rightarrow> default_input | Some f \<Rightarrow> f)) (\<lambda>fname.
     io_bind (fopen_read fname) (\<lambda>f. case f of
       None \<Rightarrow> log_msg LOG_ERROR (''Unable to open input file '%s'' @ [CHR 0x27]) [AStr fname]
     | Some s \<Rightarrow> io_seq (producer_lines sock (file_lines MAX_STR s))
         (log_msg LOG_INFO ''Producer thread finished (EOF in input file).'' [])))"

text \<open>The console of a producer without a file: the new rate.\<close>

definition speed_round :: "unit \<Rightarrow> (unit + unit) pcc" where
  "speed_round = (\<lambda>_.
     io_bind (sys_read STDIN_FILENO 255) (\<lambda>(n, line).
     if n \<le> 0 then io_ret (Inr ())
     else io_bind (atoi_io (cstr line)) (\<lambda>v.
       io_seq (io_when (v > 0)
          (io_seq (set_rate v) (log_msg LOG_INFO ''New speed: %d names/min'' [AInt v])))
        (io_ret (Inl ())))))"

section \<open>The consumer\<close>

text \<open>\<open>write\<close> to standard output is not checked, a short \<open>fwrite\<close> only reported.\<close>

definition consumer_thread_round :: "int \<Rightarrow> unit \<Rightarrow> (unit + unit) pcc" where
  "consumer_thread_round sock = (\<lambda>_.
     io_bind (sys_read sock MAX_STR) (\<lambda>(rr, line).
     if rr \<le> 0 then io_seq (log_msg LOG_INFO ''Consumer: server closed connection.'' []) (io_ret (Inr ()))
     else
     io_seq (emit (CWrite STDOUT_FILENO line))
    (io_seq (io_bind (get_priv g_out_file) (\<lambda>f. case f of
        None \<Rightarrow> io_ret ()
      | Some fd \<Rightarrow> io_bind (sys_int (CWrite fd line)) (\<lambda>w.
          io_when (w < rr) (log_msg LOG_ERROR ''Writing to output file failed'' []))))
    (io_bind (sys_int (CWrite sock (''Ok'' @ [LF]))) (\<lambda>w.
     if w \<le> 0 then io_seq (log_msg LOG_INFO ''Consumer: write Ok failed.'' []) (io_ret (Inr ()))
     else io_ret (Inl ()))))))"

definition consumer_thread :: "int \<Rightarrow> unit pcc" where
  "consumer_thread sock =
     io_seq (io_while (consumer_thread_round sock) ())
       (log_msg LOG_INFO ''Consumer thread finished.'' [])"

section \<open>The main program\<close>

fun pcc_parse :: "string list \<Rightarrow> string list \<Rightarrow> string option \<Rightarrow> int \<Rightarrow> string option
    \<Rightarrow> (string option \<times> int \<times> string option) pcc" where
  "pcc_parse t_args [] l_host l_port file_name = io_ret (l_host, l_port, file_name)"
| "pcc_parse t_args (a # rest) l_host l_port file_name =
     io_seq (io_when (a = ''-d'') (set_debug LOG_DEBUG))
    (io_seq (io_when (a = ''-h'') (client_help t_args))
    (if not_option a then
       (if l_host = None then pcc_parse t_args rest (Some a) l_port file_name
        else if l_port = 0 then
          io_bind (atoi_io a) (\<lambda>p. pcc_parse t_args rest l_host p file_name)
        else pcc_parse t_args rest l_host l_port (Some a))
     else pcc_parse t_args rest l_host l_port file_name))"

text \<open>The file decides the role; \<open>access\<close> says whether it exists.\<close>

definition pcc_file :: "string option \<Rightarrow> unit pcc" where
  "pcc_file file_name =
     io_seq (upd_priv (\<lambda>p. p\<lparr>g_file_name := file_name\<rparr>))
    (case file_name of
       None \<Rightarrow> io_ret ()
     | Some f \<Rightarrow> io_bind (sys_int (CAccess f 0)) (\<lambda>r.
         if r = 0 then
           io_seq (upd_priv (\<lambda>p. p\<lparr>g_file_exists := True\<rparr>))
             (log_msg LOG_INFO ''File '%s' exists, client will send it (producer).'' [AStr f])
         else
           io_seq (upd_priv (\<lambda>p. p\<lparr>g_file_exists := False\<rparr>))
             (log_msg LOG_INFO ''File '%s' not found, client will receive data into it (consumer).'' [AStr f])))"

text \<open>
  The program goes on after \<open>help\<close> when the host or the port is missing. A missing host is then
  printed with \<open>%s\<close>, which is undefined for a null pointer.
\<close>

definition pcc_args :: "string list \<Rightarrow> (string \<times> int) pcc" where
  "pcc_args t_args =
     io_seq (io_when (length t_args \<le> 2) (client_help t_args))
    (io_bind (pcc_parse t_args (tl t_args) None 0 None) (\<lambda>(l_host, l_port, file_name).
     io_seq (io_when (l_host = None \<or> l_port = 0)
       (io_seq (log_msg LOG_INFO ''Host or port is missing!'' []) (client_help t_args)))
    (io_seq (pcc_file file_name)
    (case l_host of None \<Rightarrow> io_ub | Some h \<Rightarrow> io_ret (h, l_port)))))"

text \<open>The answer to \<open>Task?\<close>; the string left in \<open>l_buf\<close>, or the exit code.\<close>

definition choose_role :: "int \<Rightarrow> (int + string) pcc" where
  "choose_role l_sock_server =
     io_bind (get_priv (\<lambda>p. (g_file_name p, g_file_exists p))) (\<lambda>(name, exists).
     if name \<noteq> None then
       (let role = (if exists then ''producer'' else ''consumer'') in
        io_bind (sys_int (CWrite l_sock_server (role @ [LF]))) (\<lambda>w.
        if w \<le> 0 then
          io_seq (log_msg LOG_ERROR ''Write role to server failed.'' [])
         (io_seq (emit (CClose l_sock_server)) (io_ret (Inl 1)))
        else io_ret (Inr role)))
     else
       io_bind (sys_read STDIN_FILENO (MAX_STR - 1)) (\<lambda>(len, d).
       if len \<le> 0 then io_exit 1
       else io_seq (emit (CWrite l_sock_server d)) (io_ret (Inr (chomp (cstr d))))))"

text \<open>
  With a file the producer runs in the main thread; else \<open>producer_thread\<close> runs beside the loop that
  reads the rate.
\<close>

definition producer_mode :: "int \<Rightarrow> unit pcc" where
  "producer_mode l_sock_server =
     io_seq (log_msg LOG_INFO ''Entering PRODUCER mode.'' [])
    (io_bind (get_priv (\<lambda>p. g_file_name p \<noteq> None \<and> g_file_exists p)) (\<lambda>direct.
     if direct then producer_thread l_sock_server
     else io_block [emit (CThread ''producer_thread''), io_while speed_round (),
       emit CThreadCancel, emit CThreadJoin]))"

text \<open>The main thread only waits for \<open>consumer_thread\<close>.\<close>

definition consumer_mode :: "int \<Rightarrow> unit pcc" where
  "consumer_mode l_sock_server =
     io_seq (log_msg LOG_INFO ''Entering CONSUMER mode.'' [])
    (io_bind (get_priv (\<lambda>p. (g_file_name p, g_file_exists p))) (\<lambda>(name, exists).
     io_seq (case name of
        None \<Rightarrow> io_ret ()
      | Some f \<Rightarrow> io_when (\<not> exists) (io_bind (sys_int (COpen f)) (\<lambda>fd.
          if fd < 0 then log_msg LOG_ERROR (''Unable to create output file '%s'' @ [CHR 0x27]) [AStr f]
          else upd_priv (\<lambda>p. p\<lparr>g_out_file := Some fd\<rparr>))))
    (io_block [emit (CThread ''consumer_thread''), consumer_thread l_sock_server, emit CThreadJoin,
       io_bind (get_priv g_out_file) (\<lambda>f. case f of
          None \<Rightarrow> io_ret ()
        | Some fd \<Rightarrow> io_seq (emit (CClose fd)) (upd_priv (\<lambda>p. p\<lparr>g_out_file := None\<rparr>)))])))"

definition pcc_main :: "string list \<Rightarrow> int pcc" where
  "pcc_main t_args =
     io_bind (pcc_args t_args) (\<lambda>(l_host, l_port).
     io_bind (client_connect l_host l_port) (\<lambda>l_sock_server.
     io_bind (sys_read l_sock_server (MAX_STR - 1)) (\<lambda>(r, d).
     if r \<le> 0 then io_seq (log_msg LOG_ERROR ''Server closed.'' []) (io_exit 1)
     else
     io_seq (emit (CWrite STDOUT_FILENO d))
    (io_bind (choose_role l_sock_server) (\<lambda>c. case c of
       Inl code \<Rightarrow> io_ret code
     | Inr role \<Rightarrow>
         io_seq (if role = ''producer'' then producer_mode l_sock_server
           else if role = ''consumer'' then consumer_mode l_sock_server
           else log_msg LOG_INFO ''Unknown mode.'' [])
        (io_seq (emit (CClose l_sock_server)) (io_ret 0)))))))"

section \<open>Facts\<close>

lemma sane_producer_lines [ext_intros]: "sane (producer_lines s ls)"
  by (induction ls) (auto intro!: ext_intros simp: Let_def)

lemma sane_producer_thread [ext_intros]: "sane (producer_thread s)"
  unfolding producer_thread_def by (intro ext_intros)

interpretation speed_loop: event_loop speed_round
proof
  show "sane (speed_round s)" for s
    unfolding speed_round_def by (intro ext_intros)
  show "uses (speed_round s)" for s
    unfolding speed_round_def by (rule uses_bind_first [OF uses_sys(2)]) (intro ext_intros)
qed

interpretation receive_loop: event_loop "consumer_thread_round sock"
proof
  show "sane (consumer_thread_round sock s)" for s
    unfolding consumer_thread_round_def by (intro ext_intros)
  show "uses (consumer_thread_round sock s)" for s
    unfolding consumer_thread_round_def by (rule uses_bind_first [OF uses_sys(2)]) (intro ext_intros)
qed

lemma sane_pcc_parse [ext_intros]: "sane (pcc_parse ta xs h p f)"
  by (induction ta xs h p f rule: pcc_parse.induct) (auto intro!: ext_intros)

lemma sane_pcc_args [ext_intros]: "sane (pcc_args ta)" "sane (pcc_file f)" "sane (choose_role s)"
  unfolding pcc_args_def pcc_file_def choose_role_def by (intro ext_intros)+

lemma sane_modes [ext_intros]: "sane (producer_mode s)" "sane (consumer_mode s)"
  unfolding producer_mode_def consumer_mode_def consumer_thread_def
  by (intro ext_intros speed_loop.while_sane receive_loop.while_sane)+

lemma sane_pcc_main: "sane (pcc_main ta)"
  unfolding pcc_main_def by (intro ext_intros)

end
