(* ===== verification/Du05Client.thy ===== *)
theory Du05Client
  imports ClientFiles
begin

text \<open>
  The clients \<open>DU/DU05/socket_cl.cpp\<close>, \<open>DU/DU04_1/socket_cl.cpp\<close> and \<open>DU/DU05/socket2.cpp\<close>, which
  differ in the file a producer sends and in the way the role is chosen.
\<close>

section \<open>Threads\<close>

text \<open>
  A line is read into 2112 bytes but sent through a buffer of 256: what does not fit is dropped,
  the newline included.
\<close>

definition send_line :: "string \<Rightarrow> string" where
  "send_line line = snprintf_str 256 (line @ [LF])"

fun send_lines :: "int \<Rightarrow> string list \<Rightarrow> (unit, 'p, int) io" where
  "send_lines sock [] = io_ret ()"
| "send_lines sock (l # ls) =
     (let line = chomp (cstr l) in
      if line = [] then send_lines sock ls
      else
      io_bind (sys_int (CWrite sock (send_line line))) (\<lambda>w.
      if w \<le> 0 then log_msg LOG_INFO ''Producer: write to server failed, ending.'' []
      else
      io_bind (sys_read sock 255) (\<lambda>(r, ack).
      if r \<le> 0 then log_msg LOG_INFO ''Producer: server closed connection.'' []
      else
      io_bind get_rate (\<lambda>rate.
      io_seq (emit (CUsleep (delay_us rate))) (send_lines sock ls)))))"

definition send_file :: "string \<Rightarrow> int \<Rightarrow> (unit, 'p, int) io" where
  "send_file fname sock =
     io_bind (fopen_read fname) (\<lambda>f. case f of
       None \<Rightarrow> log_msg LOG_ERROR ''Unable to open jmena.txt'' []
     | Some s \<Rightarrow> io_seq (send_lines sock (file_lines 2112 s))
         (log_msg LOG_INFO ''Producer thread finished (EOF in jmena.txt).'' []))"

definition d5_producer_thread :: "int \<Rightarrow> (unit, 'p, int) io" where
  "d5_producer_thread = send_file ''jmena.txt''"

definition d41_producer_thread :: "int \<Rightarrow> (unit, 'p, int) io" where
  "d41_producer_thread = send_file ''podzim.ppm''"

text \<open>The terminator is written before the result of \<open>read\<close> is looked at.\<close>

definition d5_receive_round :: "int \<Rightarrow> unit \<Rightarrow> (unit + unit, 'p, int) io" where
  "d5_receive_round sock = (\<lambda>_.
     io_bind (sys_read sock 255) (\<lambda>(rr, line).
     if rr < 0 then io_ub
     else if rr = 0 then io_seq (log_msg LOG_INFO ''Consumer: server closed connection.'' []) (io_ret (Inr ()))
     else
     io_seq (emit (CWrite STDOUT_FILENO line))
    (io_bind (sys_int (CWrite sock (''Ok'' @ [LF]))) (\<lambda>w.
     if w \<le> 0 then io_seq (log_msg LOG_INFO ''Consumer: write Ok failed.'' []) (io_ret (Inr ()))
     else io_ret (Inl ())))))"

definition d5_consumer_thread :: "int \<Rightarrow> (unit, 'p, int) io" where
  "d5_consumer_thread sock =
     io_seq (io_while (d5_receive_round sock) ())
       (log_msg LOG_INFO ''Consumer thread finished.'' [])"

section \<open>The console of a producer\<close>

text \<open>
  After \<open>-\<close> the loop waits for \<open>line\<close> to become \<open>+\<close>, but nothing reads into it any more. A second
  is a million microseconds.
\<close>

definition pause_round :: "string \<Rightarrow> unit \<Rightarrow> (unit + unit, 'p, 'm) io" where
  "pause_round line = (\<lambda>_.
     if line = ''+'' then io_ret (Inr ())
     else io_bind (sys_int (CUsleep 1000000)) (\<lambda>_. io_ret (Inl ())))"

definition d5_speed_round :: "unit \<Rightarrow> (unit + unit, 'p, int) io" where
  "d5_speed_round = (\<lambda>_.
     io_bind (sys_read STDIN_FILENO 255) (\<lambda>(n, d).
     if n \<le> 0 then io_ret (Inr ())
     else
     let line = cstr d in
     io_seq (io_when (line = ''-'')
         (io_seq (emit (CPrint (''============ada====='' @ [LF]))) (io_while (pause_round line) ())))
    (io_bind (atoi_io line) (\<lambda>v.
     io_seq (io_when (v > 0)
         (io_seq (set_rate v) (log_msg LOG_INFO ''New speed: %d names/min'' [AInt v])))
       (io_ret (Inl ()))))))"

section \<open>The main programs\<close>

text \<open>
  The programs go on after \<open>help\<close> when the host or the port is missing; \<open>%s\<close> of the null pointer
  is undefined.
\<close>

definition d5_client_args :: "string list \<Rightarrow> (string \<times> int, 'p, 'm) io" where
  "d5_client_args t_args =
     io_seq (io_when (length t_args \<le> 2) (client_help t_args))
    (io_bind (client_parse t_args (tl t_args) None 0) (\<lambda>(l_host, l_port).
     io_seq (io_when (l_host = None \<or> l_port = 0)
       (io_seq (log_msg LOG_INFO ''Host or port is missing!'' []) (client_help t_args)))
    (case l_host of None \<Rightarrow> io_ub | Some h \<Rightarrow> io_ret (h, l_port))))"

definition read_task :: "int \<Rightarrow> (unit, 'p, 'm) io" where
  "read_task l_sock_server =
     io_bind (sys_read l_sock_server 255) (\<lambda>(r, d).
     if r \<le> 0 then io_seq (log_msg LOG_ERROR ''Server closed.'' []) (io_exit 1)
     else emit (CWrite STDOUT_FILENO d))"

definition produce :: "(unit, 'p, int) io" where
  "produce = io_seq (log_msg LOG_INFO ''Entering PRODUCER mode.'' [])
     (io_block [emit (CThread ''producer_thread''), io_while d5_speed_round (), emit CThreadCancel, emit CThreadJoin])"

text \<open>The main thread only waits for \<open>consumer_thread\<close>.\<close>

definition consume :: "int \<Rightarrow> (unit, 'p, int) io" where
  "consume l_sock_server = io_seq (log_msg LOG_INFO ''Entering CONSUMER mode.'' [])
     (io_block [emit (CThread ''consumer_thread''), d5_consumer_thread l_sock_server, emit CThreadJoin])"

definition run_role :: "int \<Rightarrow> string \<Rightarrow> (int, 'p, int) io" where
  "run_role l_sock_server role =
     io_seq (if role = ''producer'' then produce
       else if role = ''consumer'' then consume l_sock_server
       else log_msg LOG_INFO ''Unknown mode.'' [])
    (io_seq (emit (CClose l_sock_server)) (io_ret 0))"

definition d5_client_main :: "string list \<Rightarrow> (int, 'p, int) io" where
  "d5_client_main t_args =
     io_bind (d5_client_args t_args) (\<lambda>(l_host, l_port).
     io_bind (client_connect l_host l_port) (\<lambda>l_sock_server.
     io_seq (read_task l_sock_server)
    (io_bind (sys_read STDIN_FILENO 255) (\<lambda>(len, d).
     if len \<le> 0 then io_exit 1
     else io_seq (emit (CWrite l_sock_server d)) (run_role l_sock_server (chomp (cstr d)))))))"

text \<open>\<open>DU04_1\<close> has the same \<open>main\<close>; its producer thread is \<open>d41_producer_thread\<close>.\<close>

definition d41_client_main :: "string list \<Rightarrow> (int, 'p, int) io" where
  "d41_client_main = d5_client_main"

text \<open>\<open>socket2.cpp\<close>: the role is an argument, the last one given; an argument can be the host too.\<close>

definition role_arg :: "string list \<Rightarrow> string" where
  "role_arg t_args = foldl (\<lambda>r a. if a = ''producer'' \<or> a = ''consumer'' then a else r) ''producer'' (tl t_args)"

definition socket2_main :: "string list \<Rightarrow> (int, 'p, int) io" where
  "socket2_main t_args =
     io_bind (d5_client_args t_args) (\<lambda>(l_host, l_port).
     io_bind (client_connect l_host l_port) (\<lambda>l_sock_server.
     io_seq (read_task l_sock_server)
    (io_bind (sys_int (CWrite l_sock_server (role_arg t_args @ [LF]))) (\<lambda>w.
     if w \<le> 0 then io_seq (log_msg LOG_ERROR ''Cannot send role to server.'' []) (io_exit 1)
     else run_role l_sock_server (role_arg t_args)))))"

section \<open>Facts\<close>

lemma sane_send_lines [ext_intros]: "sane (send_lines s ls)"
  by (induction ls) (auto intro!: ext_intros simp: Let_def)

lemma sane_send_file [ext_intros]: "sane (send_file f s)"
  unfolding send_file_def by (intro ext_intros)

interpretation d5_receive: event_loop "d5_receive_round sock"
proof
  show "sane (d5_receive_round sock s)" for s
    unfolding d5_receive_round_def by (intro ext_intros)
  show "uses (d5_receive_round sock s)" for s
    unfolding d5_receive_round_def by (rule uses_bind_first [OF uses_sys(2)]) (intro ext_intros)
qed

interpretation pause_loop: bounded_loop "pause_round line"
proof
  show "sane (pause_round line s)" for s
    unfolding pause_round_def by (intro ext_intros)
  have "uses (io_bind (sys_int (CUsleep 1000000)) (\<lambda>_. io_ret (Inl ())))"
    by (rule uses_bind_first [OF uses_sys(1)]) (rule sane_ret)
  from usesD [OF this]
  show "pause_round line s w = (Val (Inl s'), w') \<Longrightarrow> length (w_oracle w') < length (w_oracle w)" for s w s' w'
    by (auto simp: pause_round_def io_ret_def split: if_splits)
qed

interpretation d5_speed: event_loop d5_speed_round
proof
  show "sane (d5_speed_round s)" for s
    unfolding d5_speed_round_def by (intro ext_intros pause_loop.while_sane)
  show "uses (d5_speed_round s)" for s
    unfolding d5_speed_round_def
    by (rule uses_bind_first [OF uses_sys(2)]) (intro ext_intros pause_loop.while_sane)
qed

lemma sane_d5_client [ext_intros]: "sane (d5_client_args ta)" "sane (read_task s)" "sane produce" "sane (consume s)"
  unfolding d5_client_args_def read_task_def produce_def consume_def d5_consumer_thread_def
  by (intro ext_intros d5_speed.while_sane d5_receive.while_sane)+

lemma sane_run_role [ext_intros]: "sane (run_role s r)"
  unfolding run_role_def by (intro ext_intros)

lemma sane_d5_client_main: "sane (d5_client_main ta)" "sane (socket2_main ta)"
  unfolding d5_client_main_def socket2_main_def by (intro ext_intros)+

end
