(* ===== verification/ForkServer.thy ===== *)
theory ForkServer
  imports Server
begin

text \<open>
  The servers that start a process for every client share the loop \<open>wait for new client\<close>, which
  in them never ends: the communication loop after it, left from the single-client server, cannot
  be reached. What is done for a new connection is a parameter; \<open>Inl\<close> and the state of the loop
  carry what it keeps from one client to the next.
\<close>

definition accept_round ::
  "int \<Rightarrow> (unit, 'p, 'm) io \<Rightarrow> ('s \<Rightarrow> int \<Rightarrow> ('s, 'p, 'm) io) \<Rightarrow> 's \<Rightarrow> ('s + unit, 'p, 'm) io" where
  "accept_round l_sock_listen console serve s =
     io_bind (poll_or_exit [STDIN_FILENO, l_sock_listen]) (\<lambda>(in0, in1).
     io_seq (io_when in0 console)
    (if in1 then
       io_bind (accept_client l_sock_listen) (\<lambda>l_sock_client.
       io_bind (serve s l_sock_client) (\<lambda>s'. io_ret (Inl s')))
     else io_ret (Inl s)))"

definition sys_usleep :: "int \<Rightarrow> (unit, 'p, 'm) io" where
  "sys_usleep us = io_seq (sys_int (CUsleep us)) (io_ret ())"

text \<open>\<open>dprintf\<close>, its result not used.\<close>

abbreviation dprintf :: "int \<Rightarrow> string \<Rightarrow> (unit, 'p, 'm) io" where
  "dprintf fd s \<equiv> emit (CWrite fd s)"

text \<open>A buffer used as a C string: without a terminating null character it is read past its end.\<close>

definition buf_str :: "char list \<Rightarrow> (string, 'p, 'm) io" where
  "buf_str b = (if NUL \<in> set b then io_ret (cstr b) else io_ub)"

text \<open>A pointer that must not be null.\<close>

definition nonnull :: "'a option \<Rightarrow> ('a, 'p, 'm) io" where
  "nonnull p = (case p of None \<Rightarrow> io_ub | Some a \<Rightarrow> io_ret a)"

text \<open>What \<open>strtok\<close> leaves in the buffer: the delimiter after the token becomes a null character.\<close>

definition strtok_cut :: "char list \<Rightarrow> string \<Rightarrow> char list" where
  "strtok_cut b ds =
     (let s = cstr b; skip = length (takeWhile (\<lambda>c. c \<in> set ds) s);
          p = skip + length (takeWhile (\<lambda>c. c \<notin> set ds) (drop skip s))
      in if p < length s then b[p := NUL] else b)"

section \<open>Facts\<close>

lemma sane_usleep [ext_intros]: "sane (sys_usleep us)"
  unfolding sys_usleep_def by (intro ext_intros)

lemma sane_buf_str [ext_intros]: "sane (buf_str b)" "sane (nonnull p)"
  unfolding buf_str_def nonnull_def by (intro ext_intros)+

lemma accept_loop:
  assumes "sane console" and "\<And>s c. sane (serve s c)"
  shows "bounded_loop (accept_round l console serve)"
proof
  show "sane (accept_round l console serve s)" for s
    unfolding accept_round_def by (intro ext_intros assms)
  have "uses (accept_round l console serve s)" for s
    unfolding accept_round_def by (rule uses_bind_first [OF uses_poll_or_exit]) (intro ext_intros assms)
  then show "accept_round l console serve s w = (Val (Inl s'), w') \<Longrightarrow>
      length (w_oracle w') < length (w_oracle w)" for s w s' w'
    by (auto simp: uses_def)
qed

text \<open>The loop has no other exit than the end of the process.\<close>

lemma accept_round_no_exit: "accept_round l console serve s w \<noteq> (Val (Inr a), w')"
  by (auto simp: accept_round_def io_bind_def io_seq_def io_ret_def split: res.splits prod.splits if_splits)

lemma accept_loop_no_exit:
  assumes "sane console" and "\<And>s c. sane (serve s c)"
  shows "fst (io_while (accept_round l console serve) s w) \<noteq> Val a"
  using bounded_loop.while_invariant [OF accept_loop [OF assms], where I = "\<lambda>_ _. True"
      and Q = "\<lambda>r w. r \<noteq> Val a"]
  by (auto split: prod.splits res.splits sum.splits simp: accept_round_no_exit)

lemma sane_accept_loop:
  assumes "sane console" and "\<And>s c. sane (serve s c)"
  shows "sane (io_while (accept_round l console serve) s)"
  by (rule bounded_loop.while_sane [OF accept_loop [OF assms]])

lemmas [io_simps] = sys_usleep_def buf_str_def nonnull_def

end
