(* ===== verification/Queues.thy ===== *)
theory Queues
  imports ForkServer Ring
begin

text \<open>
  The circular queue of strings as the earlier programs have it, in the memory of one process and
  shared by its threads: \<open>DU/DU05/quee.cpp\<close>, \<open>DU/DU04/sem.cpp\<close>, and the servers with a thread per
  client \<open>DU/DU04_1/socket_srv.cpp\<close> and \<open>DU/DU04/socket_srv.cpp\<close>. The queue is the cell 0 of the
  shared memory; the semaphores \<open>mutex\<close>, \<open>empty\<close> and \<open>full\<close> are the numbers 0, 1 and 2.
\<close>

section \<open>The queue\<close>

record queue =
  q_buffer :: "string list"
  q_head :: nat
  q_tail :: nat
  q_item_num :: int

definition queue_zero :: "nat \<Rightarrow> queue" where
  "queue_zero n = \<lparr>q_buffer = replicate n [], q_head = 0, q_tail = 0, q_item_num = 0\<rparr>"

text \<open>The critical sections, for \<open>n\<close> rows of \<open>m\<close> bytes.\<close>

definition q_put :: "nat \<Rightarrow> nat \<Rightarrow> string \<Rightarrow> ('x queue_scheme) \<Rightarrow> ('x queue_scheme)" where
  "q_put n m item q = q\<lparr>q_buffer := (q_buffer q)[q_tail q := strncpy_str (m - 1) item],
     q_tail := (q_tail q + 1) mod n\<rparr>"

definition q_get :: "nat \<Rightarrow> nat \<Rightarrow> ('x queue_scheme) \<Rightarrow> string \<times> ('x queue_scheme)" where
  "q_get n m q = (strncpy_str (m - 1) (q_buffer q ! q_head q), q\<lparr>q_head := (q_head q + 1) mod n\<rparr>)"

definition q_rep :: "nat \<Rightarrow> nat \<Rightarrow> 'x queue_scheme \<Rightarrow> string list \<Rightarrow> bool" where
  "q_rep n m q xs \<longleftrightarrow> ring_rep n (q_buffer q) (q_head q) (q_tail q) xs \<and> (\<forall>x \<in> set xs. length x < m)"

lemma q_rep_zero: "0 < n \<Longrightarrow> q_rep n m (queue_zero n) []"
  by (simp add: q_rep_def queue_zero_def ring_rep_empty)

lemma q_fifo:
  assumes "0 < n" and "0 < m"
  shows "bounded_fifo (q_put n m) (q_get n m) (take (m - 1)) (q_rep n m) n"
proof
  show "0 < n" by fact
next
  fix q :: "'x queue_scheme" and xs x
  assume "q_rep n m q xs" and "length xs < n"
  then show "q_rep n m (q_put n m x q) (xs @ [take (m - 1) x])"
    using ring_rep_put [of n "q_buffer q" "q_head q" "q_tail q" xs "take (m - 1) x"] assms(2)
    by (auto simp: q_rep_def q_put_def strncpy_str_def)
next
  fix q :: "'x queue_scheme" and x xs
  assume r: "q_rep n m q (x # xs)"
  then have "q_buffer q ! q_head q = x" "ring_rep n (q_buffer q) ((q_head q + 1) mod n) (q_tail q) xs"
    using ring_rep_get [of n "q_buffer q" "q_head q" "q_tail q" x xs] by (auto simp: q_rep_def)
  with r show "fst (q_get n m q) = x \<and> q_rep n m (snd (q_get n m q)) xs"
    by (auto simp: q_rep_def q_get_def strncpy_str_def)
qed

interpretation q256: bounded_fifo "q_put 8 256" "q_get 8 256" "take 255" "q_rep 8 256" 8
  using q_fifo [of 8 256] by simp

interpretation q10: bounded_fifo "q_put 10 10" "q_get 10 10" "take 9" "q_rep 10 10" 10
  using q_fifo [of 10 10] by simp

section \<open>Taking and putting under the semaphores\<close>

definition q_init :: "nat \<Rightarrow> (unit, 'p, 'm) io" where
  "q_init n = io_seq (sem_init 0 1) (io_seq (sem_init 1 n) (sem_init 2 0))"

text \<open>An access to a row outside the array is undefined.\<close>

definition q_put_io :: "nat \<Rightarrow> nat \<Rightarrow> string \<Rightarrow> (unit, 'p, 'x queue_scheme) io" where
  "q_put_io n m item = io_bind (mem_get 0 id) (\<lambda>q.
     if q_tail q < length (q_buffer q) then mem_upd 0 (q_put n m item) else io_ub)"

definition q_get_io :: "nat \<Rightarrow> nat \<Rightarrow> (string, 'p, 'x queue_scheme) io" where
  "q_get_io n m = io_bind (mem_get 0 id) (\<lambda>q.
     if q_head q < length (q_buffer q)
     then io_seq (mem_upd 0 (\<lambda>q. snd (q_get n m q))) (io_ret (fst (q_get n m q))) else io_ub)"

definition down :: "nat \<Rightarrow> (unit, 'p, 'm) io" where
  "down h = io_seq (sem_wait h) (io_ret ())"

lemma sane_q [ext_intros]: "sane (q_init n)" "sane (q_put_io n m x)" "sane (q_get_io n m)" "sane (down h)"
  unfolding q_init_def q_put_io_def q_get_io_def down_def by (intro ext_intros)+

section \<open>DU/DU05/quee.cpp\<close>

text \<open>The bodies of the two loops, of eight rounds each; a second is a million microseconds.\<close>

definition quee_put :: "string \<Rightarrow> (unit, 'p, queue) io" where
  "quee_put item = io_block [down 1, down 0, q_put_io 8 256 item,
     emit (CPrint (''[PROD] '' @ item @ [LF])), sem_post 0, sem_post 2, sys_usleep 1000000]"

definition quee_producer :: "string list \<Rightarrow> (unit, 'p, queue) io" where
  "quee_producer items = io_block (map quee_put (take 8 items))"

definition quee_get :: "(unit, 'p, queue) io" where
  "quee_get = io_seq (down 2) (io_seq (down 0) (io_bind (q_get_io 8 256) (\<lambda>item.
     io_block [emit (CPrint (''[CONS] '' @ item @ [LF])), sem_post 0, sem_post 1, sys_usleep 2000000])))"

definition quee_consumer :: "(unit, 'p, queue) io" where
  "quee_consumer = io_block (replicate 8 quee_get)"

definition quee_items :: "string list" where
  "quee_items = [''Ahoj'', ''David'', ''Katka'', ''Teo'', ''Noemi'', ''Semafory'', ''OSY'',
     ''Producer-Consumer test'']"

definition quee_main :: "(int, 'p, queue) io" where
  "quee_main = io_seq (q_init 8) (io_seq (io_block [emit (CThread ''producer''),
     emit (CThread ''consumer''), emit CThreadJoin, emit CThreadJoin]) (io_ret 0))"

section \<open>DU/DU04/sem.cpp\<close>

definition sem_producer :: "string \<Rightarrow> (unit, 'p, queue) io" where
  "sem_producer item = io_block [down 1, down 0, q_put_io 8 256 item, sem_post 0, sem_post 2]"

definition sem_consumer :: "(string, 'p, queue) io" where
  "sem_consumer = io_seq (down 2) (io_seq (down 0) (io_bind (q_get_io 8 256) (\<lambda>item.
     io_seq (sem_post 0) (io_seq (sem_post 1) (io_ret item)))))"

abbreviation END_MARK :: string where "END_MARK \<equiv> ''<<END>>''"

text \<open>A line of standard input without its newline.\<close>

definition strip_lf :: "string \<Rightarrow> string" where
  "strip_lf s = (if s \<noteq> [] \<and> last s = LF then butlast s else s)"

definition sem_producer_round :: "unit \<Rightarrow> (unit + unit, 'p, queue) io" where
  "sem_producer_round = (\<lambda>_.
     io_seq (emit (CPrint ''> ''))
    (io_bind (sys_read STDIN_FILENO 255) (\<lambda>(n, d).
     if n \<le> 0 then io_ret (Inr ())
     else let line = strip_lf (cstr d) in
       if line = ''exit'' then io_ret (Inr ())
       else io_seq (sem_producer line) (io_ret (Inl ())))))"

definition sem_producer_thread :: "(unit, 'p, queue) io" where
  "sem_producer_thread = io_seq (io_while sem_producer_round ()) (sem_producer END_MARK)"

definition sem_consumer_round :: "unit \<Rightarrow> (unit + unit, 'p, queue) io" where
  "sem_consumer_round = (\<lambda>_. io_bind sem_consumer (\<lambda>out.
     if out = END_MARK then io_ret (Inr ())
     else io_seq (emit (CPrint (''-> '' @ out @ [LF])))
         (io_seq (sys_usleep 400000) (io_ret (Inl ())))))"

definition sem_main :: "(int, 'p, queue) io" where
  "sem_main = io_seq (q_init 8) (io_seq (io_block [emit (CThread ''producer_thread''),
     emit (CThread ''consumer_thread''), emit CThreadJoin, emit CThreadJoin]) (io_ret 0))"

section \<open>DU/DU04\_1/socket\_srv.cpp\<close>

definition d41_producer :: "string \<Rightarrow> (unit, 'p, queue) io" where
  "d41_producer item = io_block [down 1, down 0,
     q_put_io 8 256 item, mem_upd 0 (\<lambda>q. q\<lparr>q_item_num := q_item_num q + 1\<rparr>), sem_post 0, sem_post 2]"

definition d41_consumer :: "(string, 'p, queue) io" where
  "d41_consumer = io_seq (down 2) (io_seq (down 0) (io_bind (q_get_io 8 256) (\<lambda>item.
     io_seq (sem_post 0) (io_seq (sem_post 1) (io_ret item)))))"

definition d41_producer_round :: "int \<Rightarrow> unit \<Rightarrow> (unit + unit, 'p, queue) io" where
  "d41_producer_round sock = (\<lambda>_.
     io_bind (sys_read sock 255) (\<lambda>(r, d).
     if r \<le> 0 then io_seq (log_msg LOG_INFO ''Producer client disconnected'' []) (io_ret (Inr ()))
     else let item = chomp (cstr d) in
       io_seq (log_msg LOG_INFO ''PROD dal: %s'' [AStr item])
      (io_seq (d41_producer item)
      (io_seq (emit (CWrite sock (''Ok'' @ [LF]))) (io_ret (Inl ()))))))"

text \<open>
  The acknowledgement \<open>Ok\<close> without a newline is the one that is reported as invalid: \<open>strcmp\<close>
  returns 0 for equal strings.
\<close>

definition d41_consumer_round :: "int \<Rightarrow> unit \<Rightarrow> (unit + unit, 'p, queue) io" where
  "d41_consumer_round sock = (\<lambda>_.
     io_bind d41_consumer (\<lambda>item.
     io_bind (mem_get 0 q_item_num) (\<lambda>item_num.
     io_seq (emit (CWrite sock (snprintf_str 256 (show_int item_num @ '': '' @ item))))
    (io_seq (emit (CWrite sock [LF]))
    (io_bind (sys_read sock 255) (\<lambda>(r, d).
     if r \<le> 0 then io_seq (log_msg LOG_INFO ''Consumer client disconnected'' []) (io_ret (Inr ()))
     else let ack = cstr d in
       io_seq (io_when (ack = ''Ok'') (log_msg LOG_INFO ''Consumer sent invalid ACK: %s'' [AStr ack]))
         (io_ret (Inl ()))))))))"

text \<open>A failed \<open>read\<close> writes before the buffer, a full one behind it.\<close>

definition d41_handle_client :: "int \<Rightarrow> (unit, 'p, queue) io" where
  "d41_handle_client sock =
     io_seq (emit (CWrite sock (''Task?'' @ [LF])))
    (io_bind (sys_read sock 256) (\<lambda>(r, d).
     if r < 0 \<or> r \<ge> 256 then io_ub
     else let buf = chomp (cstr d) in
     io_seq (emit (CPrint (''Client choose: '' @ buf @ [LF])))
    (io_seq (if buf = ''producer'' then io_while (d41_producer_round sock) ()
             else if buf = ''consumer'' then io_while (d41_consumer_round sock) ()
             else emit (CWrite sock (''Unknown task'' @ [LF])))
    (emit (CClose sock)))))"

text \<open>The thread of a client runs \<open>d41_handle_client\<close>.\<close>

definition d41_serve :: "string \<times> int \<Rightarrow> int \<Rightarrow> (string \<times> int, 'p, queue) io" where
  "d41_serve l_srv_addr l_sock_client =
     io_bind (announce l_sock_client l_srv_addr) (\<lambda>a.
     io_seq (emit (CThread ''handle_client'')) (io_ret a))"

definition d41_main :: "string list \<Rightarrow> char list \<Rightarrow> (unit, 'p, queue) io" where
  "d41_main t_args buf =
     io_bind (server_args t_args) (\<lambda>l_port.
     io_bind (open_listener l_port 1) (\<lambda>l.
     io_seq (log_msg LOG_INFO ''Enter 'quit' to quit server.'' [])
    (io_seq (q_init 8)
    (io_while (accept_round l (wait_stdin l buf) d41_serve) (any_addr l_port)))))"

section \<open>Facts\<close>

lemma sane_d41 [ext_intros]: "sane (d41_producer item)" "sane d41_consumer" "sane (sem_producer i)" "sane sem_consumer"
  "sane (quee_put i)" "sane quee_get"
  unfolding d41_producer_def d41_consumer_def sem_producer_def sem_consumer_def quee_put_def quee_get_def
  by (intro ext_intros)+

lemma uses_down: "uses (down h)"
  unfolding down_def io_seq_def by (rule uses_bind_first [OF uses_sem(1)], rule sane_ret)

interpretation d41_producers: event_loop "d41_producer_round sock"
proof
  show "sane (d41_producer_round sock s)" for s
    unfolding d41_producer_round_def by (intro ext_intros)
  show "uses (d41_producer_round sock s)" for s
    unfolding d41_producer_round_def by (rule uses_bind_first [OF uses_sys(2)]) (intro ext_intros)
qed

lemma uses_d41_consumer: "uses d41_consumer" "uses sem_consumer"
  unfolding d41_consumer_def sem_consumer_def io_seq_def [of "down 2"]
  by (rule uses_bind_first [OF uses_down], intro ext_intros)+

interpretation d41_consumers: event_loop "d41_consumer_round sock"
proof
  show "sane (d41_consumer_round sock s)" for s
    unfolding d41_consumer_round_def by (intro ext_intros)
  show "uses (d41_consumer_round sock s)" for s
    unfolding d41_consumer_round_def by (rule uses_bind_first [OF uses_d41_consumer(1)]) (intro ext_intros)
qed

interpretation sem_consumers: event_loop sem_consumer_round
proof
  show "sane (sem_consumer_round s)" for s
    unfolding sem_consumer_round_def by (intro ext_intros)
  show "uses (sem_consumer_round s)" for s
    unfolding sem_consumer_round_def by (rule uses_bind_first [OF uses_d41_consumer(2)]) (intro ext_intros)
qed

interpretation sem_producers: event_loop sem_producer_round
proof
  show "sane (sem_producer_round s)" for s
    unfolding sem_producer_round_def by (intro ext_intros)
  show "uses (sem_producer_round s)" for s
    unfolding sem_producer_round_def io_seq_def [of "emit (CPrint ''> '')"]
    by (rule uses_bind_second) (rule sane_state, rule uses_bind_first [OF uses_sys(2)], intro ext_intros)
qed

end
