(* ===== verification/Du05.thy ===== *)
theory Du05
  imports Queues
begin

text \<open>
  The server \<open>DU/DU05/socket_srv.cpp\<close>, the predecessor of the one in \<open>DU05_test\<close>: a process per
  client, the queue in shared memory or a message queue, no limits on clients and no removal of the
  named objects at the end.
\<close>

record srv5 =
  m5_mq :: bool
  shm5 :: "nat option"
  shm5_fd :: int
  mutex5 :: "nat option"
  empty5 :: "nat option"
  full5 :: "nat option"
  mqd5 :: int

definition srv5_init :: srv5 where
  "srv5_init = \<lparr>m5_mq = False, shm5 = None, shm5_fd = -1, mutex5 = None, empty5 = None, full5 = None, mqd5 = -1\<rparr>"

type_synonym 'a d5 = "('a, srv5, queue) io"

definition on5 :: "(srv5 \<Rightarrow> nat option) \<Rightarrow> (nat \<Rightarrow> 'a d5) \<Rightarrow> 'a d5" where
  "on5 f k = io_bind (get_priv f) (\<lambda>p. io_bind (nonnull p) k)"

section \<open>Named objects\<close>

definition open5 :: "((nat option \<Rightarrow> nat option) \<Rightarrow> srv5 \<Rightarrow> srv5) \<Rightarrow> string \<Rightarrow> nat \<Rightarrow> unit d5" where
  "open5 upd nm v = io_bind (sem_open nm v) (\<lambda>h. case h of
      None \<Rightarrow> io_seq (log_msg LOG_ERROR ''sem_open failed'' []) (io_exit 1)
    | Some h \<Rightarrow> upd_priv (upd (\<lambda>_. Some h)))"

definition d5_init_queue :: "unit d5" where
  "d5_init_queue = io_block [open5 mutex5_update ''/pc_mutex'' 1, open5 empty5_update ''/pc_empty'' 8,
     open5 full5_update ''/pc_full'' 0]"

definition d5_unlink_sems :: "unit d5" where
  "d5_unlink_sems = io_block [sem_unlink ''/pc_mutex'', sem_unlink ''/pc_empty'', sem_unlink ''/pc_full'']"

definition d5_init_shm :: "unit d5" where
  "d5_init_shm =
     io_bind (shm_open ''/pc_buffer'' False (queue_zero 8)) (\<lambda>fd.
     io_bind (if fd < 0 then
         io_seq (log_msg LOG_INFO (''SHM not found, creating new.'' @ [LF]) [])
        (io_bind (shm_open ''/pc_buffer'' True (queue_zero 8)) (\<lambda>fd.
         if fd < 0 then io_seq (log_msg LOG_ERROR ''shm open failed'' []) (io_exit 1)
         else
         io_bind (sys_int (CFtruncate fd)) (\<lambda>r.
         if r < 0 then io_seq (log_msg LOG_ERROR ''ftruncate failed'' []) (io_exit 1)
         else io_ret (fd, True))))
       else io_ret (fd, False)) (\<lambda>(fd, first).
     io_seq (upd_priv (\<lambda>p. p\<lparr>shm5_fd := fd\<rparr>))
    (io_bind (sys_mmap fd) (\<lambda>h. case h of
       None \<Rightarrow> io_seq (log_msg LOG_ERROR ''mmap failed'' []) (io_exit 1)
     | Some h \<Rightarrow>
         io_seq (upd_priv (\<lambda>p. p\<lparr>shm5 := Some h\<rparr>))
        (if first then io_block [d5_unlink_sems, mem_upd h (\<lambda>_. queue_zero 8),
             log_msg LOG_INFO ''SHM initialized (first process).'' []]
         else log_msg LOG_INFO ''SHM attached (existing).'' [])))))"

definition d5_init_mq :: "unit d5" where
  "d5_init_mq =
     io_bind (mq_open ''/pc_mq'' False) (\<lambda>q.
     if q = -1 then
       io_seq (log_msg LOG_INFO ''MQ not found, creating new.'' [])
      (io_bind (mq_open ''/pc_mq'' True) (\<lambda>q.
       if q = -1 then io_seq (log_msg LOG_ERROR ''mq_open(%s) failed'' [AStr ''/pc_mq'']) (io_exit 1)
       else upd_priv (\<lambda>p. p\<lparr>mqd5 := q\<rparr>)))
     else io_seq (upd_priv (\<lambda>p. p\<lparr>mqd5 := q\<rparr>)) (log_msg LOG_INFO ''MQ opened (existing).'' []))"

definition d5_init_ipc :: "unit d5" where
  "d5_init_ipc = io_bind (get_priv m5_mq) (\<lambda>mq. if mq then d5_init_mq else io_seq d5_init_shm d5_init_queue)"

section \<open>Producer and consumer\<close>

definition down5 :: "(srv5 \<Rightarrow> nat option) \<Rightarrow> unit d5" where
  "down5 f = on5 f down"

definition post5 :: "(srv5 \<Rightarrow> nat option) \<Rightarrow> unit d5" where
  "post5 f = on5 f sem_post"

text \<open>What the critical section does: a row of 256 bytes, and the counter of items.\<close>

definition d5_put :: "string \<Rightarrow> queue \<Rightarrow> queue" where
  "d5_put item q = (q_put 8 256 item q)\<lparr>q_item_num := q_item_num q + 1\<rparr>"

definition d5_producer :: "string \<Rightarrow> unit d5" where
  "d5_producer item =
     io_bind (get_priv m5_mq) (\<lambda>mq.
     if \<not> mq then
       io_block [down5 empty5, down5 mutex5,
         on5 shm5 (\<lambda>h. io_bind (mem_get h id) (\<lambda>q.
           if q_tail q < length (q_buffer q) then mem_upd h (d5_put item) else io_ub)),
         post5 mutex5, post5 full5]
     else
       io_bind (get_priv mqd5) (\<lambda>q. io_bind (mq_send q 8 (take 255 item @ [NUL])) (\<lambda>r.
         io_when (r < 0) (log_msg LOG_ERROR ''mq_send failed'' []))))"

definition d5_consumer :: "string d5" where
  "d5_consumer =
     io_bind (get_priv m5_mq) (\<lambda>mq.
     if \<not> mq then
       io_seq (down5 full5) (io_seq (down5 mutex5)
      (io_bind (on5 shm5 (\<lambda>h. io_bind (mem_get h id) (\<lambda>q.
          if q_head q < length (q_buffer q)
          then io_seq (mem_upd h (\<lambda>q. snd (q_get 8 256 q))) (io_ret (fst (q_get 8 256 q)))
          else io_ub))) (\<lambda>item.
       io_seq (post5 mutex5) (io_seq (post5 empty5) (io_ret item)))))
     else
       io_bind (get_priv mqd5) (\<lambda>q. io_bind (mq_receive q) (\<lambda>(n, msg).
         if n < 0 then io_seq (log_msg LOG_ERROR ''mq_receive failed'' []) (io_ret [])
         else io_ret (cstr (take (nat n - 1) msg)))))"

section \<open>Clients\<close>

definition d5_producer_round :: "int \<Rightarrow> unit \<Rightarrow> (unit + unit) d5" where
  "d5_producer_round sock = (\<lambda>_.
     io_bind (sys_read sock 255) (\<lambda>(r, d).
     if r \<le> 0 then io_seq (log_msg LOG_INFO ''Producer client disconnected'' []) (io_ret (Inr ()))
     else let item = chomp (cstr d) in
       io_seq (log_msg LOG_INFO ''PROD dal: %s'' [AStr item])
      (io_seq (d5_producer item)
      (io_seq (emit (CWrite sock (''Ok'' @ [LF]))) (io_ret (Inl ()))))))"

text \<open>The check of the acknowledgement stands twice in the loop.\<close>

definition d5_check_ack :: "string \<Rightarrow> unit d5" where
  "d5_check_ack ack = io_when (ack = ''Ok'') (log_msg LOG_INFO ''Consumer sent invalid ACK: %s'' [AStr ack])"

definition d5_consumer_round :: "int \<Rightarrow> int \<Rightarrow> (int + unit) d5" where
  "d5_consumer_round sock local_num =
     io_bind d5_consumer (\<lambda>item.
     io_bind (get_priv m5_mq) (\<lambda>mq.
     let local_num = (if mq then local_num + 1 else local_num) in
     io_bind (if \<not> mq then on5 shm5 (\<lambda>h. mem_get h q_item_num) else io_ret local_num) (\<lambda>num.
     io_seq (emit (CWrite sock (snprintf_str 256 (show_int num @ '': '' @ item))))
    (io_seq (emit (CWrite sock [LF]))
    (io_bind (sys_read sock 255) (\<lambda>(r, d).
     if r \<le> 0 then io_seq (log_msg LOG_INFO ''Consumer client disconnected'' []) (io_ret (Inr ()))
     else io_seq (d5_check_ack (cstr d)) (io_seq (d5_check_ack (cstr d)) (io_ret (Inl local_num)))))))))"

definition d5_handle_client :: "int \<Rightarrow> unit d5" where
  "d5_handle_client sock =
     io_seq (emit (CWrite sock (''Task?'' @ [LF])))
    (io_bind (sys_read sock 256) (\<lambda>(r, d).
     if r < 0 \<or> r \<ge> 256 then io_ub
     else let buf = chomp (cstr d) in
     io_seq (emit (CPrint (''Client choose: '' @ buf @ [LF])))
    (io_seq (if buf = ''producer'' then io_while (d5_producer_round sock) ()
             else if buf = ''consumer'' then io_while (d5_consumer_round sock) 0
             else emit (CWrite sock (''Unknown task'' @ [LF])))
    (emit (CClose sock)))))"

section \<open>The main program\<close>

definition d5_help :: "string list \<Rightarrow> unit d5" where
  "d5_help t_args =
     io_seq (io_when (length t_args \<le> 1 \<or> t_args ! 1 = ''-h'')
         (io_seq (emit (CPrint ''usage'')) (io_exit 0)))
    (io_seq (io_when (t_args ! 1 = ''-d'') (set_debug LOG_DEBUG))
    (io_when (t_args ! 1 = ''-r'')
      (io_block [log_msg LOG_INFO ''Cleaning named semaphores.'' [], d5_unlink_sems,
         shm_unlink ''/pc_buffer'', mq_unlink ''/pc_mq'', io_exit 0])))"

text \<open>The first argument that is not an option ends the loop: options after the port are not seen.\<close>

fun d5_parse :: "string list \<Rightarrow> string list \<Rightarrow> int d5" where
  "d5_parse t_args [] = io_ret 0"
| "d5_parse t_args (a # rest) =
     io_seq (io_when (a = ''-d'') (set_debug LOG_DEBUG))
    (io_seq (io_when (a = ''-h'') (d5_help t_args))
    (io_seq (io_when (a = ''-r'') (d5_help t_args))
    (io_seq (io_when (a = ''-shm'') (upd_priv (\<lambda>p. p\<lparr>m5_mq := False\<rparr>)))
    (io_seq (io_when (a = ''-mq'') (upd_priv (\<lambda>p. p\<lparr>m5_mq := True\<rparr>)))
    (if not_option a then atoi_io a else d5_parse t_args rest)))))"

definition d5_start :: "string list \<Rightarrow> int d5" where
  "d5_start t_args =
     io_seq (io_when (length t_args \<le> 1) (d5_help t_args))
    (io_bind (d5_parse t_args (tl t_args)) (\<lambda>l_port.
     io_seq (io_when (l_port \<le> 0)
         (io_seq (log_msg LOG_INFO ''Bad or missing port number %d!'' [AInt l_port]) (d5_help t_args)))
    (io_seq (log_msg LOG_INFO ''Server will listen on port: %d.'' [AInt l_port]) (io_ret l_port))))"

definition d5_child :: "int \<Rightarrow> int \<Rightarrow> unit d5" where
  "d5_child l_sock_listen l_sock_client =
     io_block [emit (CClose l_sock_listen), d5_handle_client l_sock_client,
       io_bind (get_priv id) (\<lambda>p.
         if \<not> m5_mq p then
           io_block [on5 mutex5 sem_close, on5 empty5 sem_close, on5 full5 sem_close,
             (case shm5 p of None \<Rightarrow> io_ret () | Some h \<Rightarrow> emit (CMunmap h)),
             io_when (shm5_fd p \<ge> 0) (emit (CClose (shm5_fd p)))]
         else io_when (mqd5 p \<noteq> -1) (emit (CMqClose (nat (mqd5 p))))),
       io_exit 0]"

definition d5_serve :: "int \<Rightarrow> string \<times> int \<Rightarrow> int \<Rightarrow> (string \<times> int) d5" where
  "d5_serve l_sock_listen l_srv_addr l_sock_client =
     io_bind (announce l_sock_client l_srv_addr) (\<lambda>a.
     io_bind (sys_int CFork) (\<lambda>pid.
     io_seq (if pid = 0 then d5_child l_sock_listen l_sock_client
       else io_when (pid > 0) (emit (CClose l_sock_client)))
    (io_ret a)))"

definition d5_round :: "int \<Rightarrow> char list \<Rightarrow> string \<times> int \<Rightarrow> (string \<times> int + unit) d5" where
  "d5_round l_sock_listen buf l_srv_addr =
     io_bind (sys_poll [STDIN_FILENO, l_sock_listen]) (\<lambda>(l_poll, in0, in1).
     if l_poll < 0 then
       io_bind get_errno (\<lambda>e.
       if e = EINTR then io_ret (Inl l_srv_addr)
       else io_seq (log_msg LOG_ERROR ''Function poll failed!'' []) (io_exit 1))
     else
     io_seq (io_when in0 (wait_stdin l_sock_listen buf))
    (if in1 then
       io_bind (accept_client l_sock_listen) (\<lambda>l_sock_client.
       io_bind (d5_serve l_sock_listen l_srv_addr l_sock_client) (\<lambda>a. io_ret (Inl a)))
     else io_ret (Inl l_srv_addr)))"

definition d5_main :: "string list \<Rightarrow> char list \<Rightarrow> unit d5" where
  "d5_main t_args buf =
     io_bind (d5_start t_args) (\<lambda>l_port.
     io_bind (open_listener l_port 1) (\<lambda>l_sock_listen.
     io_seq (log_msg LOG_INFO ''Enter 'quit' to quit server.'' [])
    (io_seq d5_init_ipc
    (io_seq (emit CSignal)
    (io_while (d5_round l_sock_listen buf) (any_addr l_port))))))"

section \<open>Facts\<close>

lemma sane_on5 [ext_intros]: "(\<And>h. sane (k h)) \<Longrightarrow> sane (on5 f k)"
  unfolding on5_def by (intro ext_intros)

lemma sane_d5 [ext_intros]: "sane (down5 f)" "sane (post5 f)" "sane (d5_producer i)" "sane d5_consumer"
  "sane (d5_check_ack s)" "sane (open5 u nm v)" "sane d5_unlink_sems"
  unfolding down5_def post5_def d5_producer_def d5_consumer_def d5_check_ack_def open5_def d5_unlink_sems_def
  by (intro ext_intros)+

lemma sane_d5_init [ext_intros]: "sane d5_init_queue" "sane d5_init_shm" "sane d5_init_mq" "sane d5_init_ipc"
  unfolding d5_init_queue_def d5_init_shm_def d5_init_mq_def d5_init_ipc_def
  by (intro ext_intros)+

interpretation d5_producers: event_loop "d5_producer_round sock"
proof
  show "sane (d5_producer_round sock s)" for s
    unfolding d5_producer_round_def by (intro ext_intros)
  show "uses (d5_producer_round sock s)" for s
    unfolding d5_producer_round_def by (rule uses_bind_first [OF uses_sys(2)]) (intro ext_intros)
qed

lemma uses_ret_io: "uses (mq_receive q)"
  unfolding mq_receive_def by (rule uses_bind_first [OF uses_pop]) (intro ext_intros sane_mq_receive_body)

lemma uses_d5_consumer: "uses d5_consumer"
proof -
  have d: "uses (down5 f)" for f
    unfolding down5_def on5_def
    by (rule uses_bind_second [OF sane_state(1)])
      (auto simp: nonnull_def io_simps uses_down uses_ub split: option.split)
  show ?thesis
    unfolding d5_consumer_def
    apply (rule uses_bind_second [OF sane_state(1)])
    apply (rule uses_if)
     apply (rule uses_seq_first [OF d])
     apply (intro ext_intros)
    apply (rule uses_bind_second [OF sane_state(1)])
    apply (rule uses_bind_first [OF uses_ret_io])
    apply (intro ext_intros)
    done
qed

interpretation d5_consumers: event_loop "d5_consumer_round sock"
proof
  show "sane (d5_consumer_round sock s)" for s
    unfolding d5_consumer_round_def by (intro ext_intros)
  show "uses (d5_consumer_round sock s)" for s
    unfolding d5_consumer_round_def by (rule uses_bind_first [OF uses_d5_consumer]) (intro ext_intros)
qed

lemma sane_d5_handle [ext_intros]: "sane (d5_handle_client s)" "sane (d5_child l s)" "sane (d5_serve l a c)"
  unfolding d5_serve_def d5_child_def d5_handle_client_def
  by (intro ext_intros d5_producers.while_sane d5_consumers.while_sane)+

interpretation d5_loop: event_loop "d5_round l b"
proof
  show "sane (d5_round l b s)" for s
    unfolding d5_round_def by (intro ext_intros)
  show "uses (d5_round l b s)" for s
    unfolding d5_round_def by (rule uses_bind_first [OF uses_sys(3)]) (intro ext_intros)
qed

end
