(* ===== verification/ClientProps.thy ===== *)
theory ClientProps
  imports PcMainProps PcClient Du05Client Du05
begin

text \<open>
  What the clients of the producer/consumer servers send, and what the servers make of it.
\<close>

section \<open>Lines of a file\<close>

definition join_lines :: "string list \<Rightarrow> string" where
  "join_lines ls = concat (map (\<lambda>l. l @ [LF]) ls)"

lemma fgets_line:
  assumes "LF \<notin> set l" and "length l + 1 < n"
  shows "fgets n (l @ LF # s) = (l @ [LF], s)"
proof -
  have "length l < k \<Longrightarrow> line_take k (l @ LF # s) = (l @ [LF], s)" for k
    using assms(1)
  proof (induction l arbitrary: k)
    case Nil
    then show ?case by (cases k) auto
  next
    case (Cons c l)
    then show ?case by (cases k) auto
  qed
  then show ?thesis using assms(2) by (simp add: fgets_def)
qed

lemma file_lines_join:
  "(\<And>l. l \<in> set ls \<Longrightarrow> LF \<notin> set l \<and> length l + 1 < n) \<Longrightarrow>
   file_lines n (join_lines ls) = map (\<lambda>l. l @ [LF]) ls"
proof (induction ls)
  case Nil
  then show ?case by (subst file_lines.simps) (simp add: join_lines_def)
next
  case (Cons l ls)
  have j: "join_lines (l # ls) = l @ LF # join_lines ls" by (simp add: join_lines_def)
  have l: "LF \<notin> set l" "length l + 1 < n" using Cons.prems [of l] by simp_all
  have ih: "file_lines n (join_lines ls) = map (\<lambda>l. l @ [LF]) ls" using Cons by simp
  show ?case
    using l ih fgets_line [OF l, of "join_lines ls"] unfolding j by (subst file_lines.simps) simp
qed

section \<open>The producer of DU05\_test\<close>

text \<open>The environment of the sending thread: every line is written and answered.\<close>

fun ack_script :: "string list \<Rightarrow> int entry list" where
  "ack_script [] = []"
| "ack_script (l # ls) = (None, Ret (int (length l) + 1)) # (None, Data ok_line) # ack_script ls"

lemma producer_lines_run:
  assumes "w_oracle w = ack_script ls @ os" and "\<And>l. l \<in> set ls \<Longrightarrow> plain_line l"
  shows "\<exists>w'. producer_lines sock (map (\<lambda>l. l @ [LF]) ls) w = (Val (), w') \<and> w_oracle w' = os \<and>
    w_debug w' = w_debug w \<and> sent_to sock (w_calls w') = sent_to sock (w_calls w) @ map (\<lambda>l. l @ [LF]) ls"
  using assms
proof (induction ls arbitrary: w)
  case Nil
  then show ?case by (simp add: io_ret_def)
next
  case (Cons l ls)
  have l: "chomp (cstr (l @ [LF])) = l" "snprintf_str MAX_STR (l @ [LF]) = l @ [LF]" "l \<noteq> []"
    using Cons.prems(2) [of l] chomp_plain [of l] snprintf_str_id [of "l @ [LF]" MAX_STR]
    by (auto simp: plain_line_def)
  let ?u = "w\<lparr>w_oracle := ack_script ls @ os, w_calls := w_calls w @ [CWrite sock (l @ [LF]), CRead sock 255,
    CUsleep (delay_us (k_shm (w_kern w) 0))]\<rparr>"
  have "producer_lines sock (map (\<lambda>l. l @ [LF]) (l # ls)) w = producer_lines sock (map (\<lambda>l. l @ [LF]) ls) ?u"
    using Cons.prems(1) l by (simp add: io_simps get_rate_def ok_line_def)
  with Cons.IH [of ?u] Cons.prems(2) show ?case by simp
qed


definition client_world :: "'p \<Rightarrow> int entry list \<Rightarrow> ('p, int) world" where
  "client_world p os = \<lparr>w_oracle = os, w_calls = [], w_errno = 0, w_debug = 1, w_priv = p,
     w_kern = \<lparr>k_sem = (\<lambda>_. 0), k_sem_dir = (\<lambda>_. None), k_sem_next = 0, k_shm = (\<lambda>_. 60), k_shm_dir = (\<lambda>_. None),
       k_shm_next = 1, k_mq = (\<lambda>_. []), k_mq_dir = (\<lambda>_. None), k_mq_next = 0\<rparr>\<rparr>"


section \<open>The clients of DU05 and DU04\_1\<close>

text \<open>
  What reaches the queue from these clients: the server's item is the first 255 bytes of the
  line. A longer line is cut, and sent without the newline that ends it.
\<close>

theorem send_line_cut:
  assumes "set l \<inter> {NUL, CR, LF} = {}"
  shows "chomp (cstr (take 255 (send_line l))) = take 255 l \<and> (LF \<in> set (send_line l) \<longleftrightarrow> length l < 255)"
proof -
  have no: "NUL \<notin> set l" "CR \<notin> set l" "LF \<notin> set l" using assms by auto
  show ?thesis
  proof (cases "length l < 255")
    case True
    then have "send_line l = l @ [LF]" by (simp add: send_line_def snprintf_str_def)
    then show ?thesis using True chomp_plain [OF assms] by simp
  next
    case False
    then have s: "send_line l = take 255 l" by (simp add: send_line_def snprintf_str_def)
    have "NUL \<notin> set (take 255 l)" "CR \<notin> set (take 255 l)" "LF \<notin> set (take 255 l)"
      using no by (auto dest: in_set_takeD)
    then show ?thesis using False by (simp add: s cstr_id chomp_id)
  qed
qed

theorem send_line_cut_witness: "LF \<notin> set (send_line (replicate 300 (CHR ''a'')))"
  using send_line_cut [of "replicate 300 (CHR ''a'')"] by simp

lemma pause_never: "line \<noteq> ''+'' \<Longrightarrow> fst (io_while (pause_round line) () w) \<noteq> Val a"
  using pause_loop.while_invariant [where I = "\<lambda>_ _. True" and Q = "\<lambda>r w. r \<noteq> Val a" and s = "()" and w = w and line = line]
  by (auto simp: pause_round_def io_bind_def io_ret_def split: prod.splits res.splits sum.splits)

text \<open>
  The pause of the producer's console has no end: once the line \<open>-\<close> has been read, the loop that
  waits for \<open>+\<close> never reads again, and the thread does not return, whatever comes.
\<close>

theorem pause_forever:
  assumes "w_oracle w = (e, Data ''-'') # os"
  shows "fst (d5_speed_round () w) \<noteq> Val r"
proof -
  let ?p = "io_seq (emit (CPrint (''============ada====='' @ [LF]))) (io_while (pause_round ''-'') ())"
  have p: "fst (?p u) \<noteq> Val a" for u a
    using pause_never [of "''-''"] by (simp add: io_seq_def io_bind_def emit_def)
  have seq: "fst (io_seq ?p k u) \<noteq> Val a" for k :: "(unit + unit, 'p, int) io" and u a
    using p [of u] by (cases "?p u") (auto simp: io_seq_def [of _ k] io_bind_def split: res.split)
  have "\<exists>u k. d5_speed_round () w = io_seq ?p k u"
  proof -
    obtain u where u: "sys_read STDIN_FILENO 255 w = (Val (1, ''-''), u)"
      using assms by (simp add: io_simps)
    show ?thesis
      by (simp add: d5_speed_round_def io_bind_simps(1) [where m = "sys_read STDIN_FILENO 255", OF u] cstr_def
          io_when_def Let_def) (intro exI, rule refl)
  qed
  with seq show ?thesis by metis
qed

theorem pause_forever_witness:
  "fst (d5_speed_round () (client_world () [(None, Data ''-''), (None, Ret 0), (None, Data ''+'')])) \<noteq> Val (Inl ())"
  by (rule pause_forever [of _ None "[(None, Ret 0), (None, Data ''+'')]"]) (simp add: client_world_def)

end
