(* ===== verification/Du04.thy ===== *)
theory Du04
  imports Queues
begin

text \<open>
  The server \<open>DU/DU04/socket_srv.cpp\<close>: a thread per client, a queue of ten rows of ten bytes, and a
  counter of producers by which a consumer decides that nothing more will come. The counter is
  guarded by a pthread mutex, here the semaphore 3 with the initial value 1.
\<close>

abbreviation MAX_LINE :: nat where "MAX_LINE \<equiv> 10"
abbreviation BUFFER_SIZE :: nat where "BUFFER_SIZE \<equiv> 10"

record queue4 = queue +
  g_producer_cnt :: int

definition producer_item :: "string \<Rightarrow> (unit, 'p, queue4) io" where
  "producer_item item = io_block [down 1, down 0, q_put_io BUFFER_SIZE MAX_LINE item, sem_post 0, sem_post 2]"

definition consumer_item :: "(string, 'p, queue4) io" where
  "consumer_item = io_seq (down 2) (io_seq (down 0) (io_bind (q_get_io BUFFER_SIZE MAX_LINE) (\<lambda>item.
     io_seq (sem_post 0) (io_seq (sem_post 1) (io_ret item)))))"

section \<open>Lines\<close>

text \<open>
  One round of the loop of \<open>recv_line\<close>: \<open>None\<close> when the connection is over, else the characters
  so far and whether to go on.
\<close>

definition recv_char :: "int \<Rightarrow> nat \<Rightarrow> string \<Rightarrow> (string + string option, 'p, 'm) io" where
  "recv_char fd cap buf =
     (if length buf + 1 < cap then
        io_bind (sys_read fd 1) (\<lambda>(r, d). case d of
          [] \<Rightarrow> io_ret (Inr None)
        | c # _ \<Rightarrow> if c = LF then io_ret (Inr (Some (buf @ [c]))) else io_ret (Inl (buf @ [c])))
      else io_ret (Inr (Some buf)))"

text \<open>The line without its end; an empty result of the loop is the failure value 0 as well.\<close>

definition line_end :: "string \<Rightarrow> string" where
  "line_end b =
     (let i = length b; b1 = (if 0 < i \<and> b ! (i - 1) = LF then b[i - 1 := NUL] else b);
          b2 = (if 1 < i \<and> b1 ! (i - 2) = CR then b1[i - 2 := NUL] else b1) in cstr b2)"

definition recv_line :: "int \<Rightarrow> nat \<Rightarrow> (string option, 'p, 'm) io" where
  "recv_line fd cap = io_bind (io_while (recv_char fd cap) []) (\<lambda>b. case b of
      None \<Rightarrow> io_ret None
    | Some b \<Rightarrow> io_ret (if b = [] then None else Some (line_end b)))"

definition send_str :: "int \<Rightarrow> string \<Rightarrow> (unit, 'p, 'm) io" where
  "send_str fd s = emit (CWrite fd s)"

section \<open>Clients\<close>

definition count_producer :: "int \<Rightarrow> (unit, 'p, queue4) io" where
  "count_producer d = io_seq (down 3)
     (io_seq (mem_upd 0 (\<lambda>q. q\<lparr>g_producer_cnt := g_producer_cnt q + d\<rparr>)) (sem_post 3))"

definition d4_producer_round :: "int \<Rightarrow> unit \<Rightarrow> (unit + unit, 'p, queue4) io" where
  "d4_producer_round sock = (\<lambda>_. io_bind (recv_line sock MAX_LINE) (\<lambda>l. case l of
      None \<Rightarrow> io_ret (Inr ())
    | Some line \<Rightarrow>
        if line = [] then io_seq (send_str sock (''OK'' @ [LF])) (io_ret (Inl ()))
        else io_seq (producer_item line) (io_seq (send_str sock (''OK'' @ [LF])) (io_ret (Inl ())))))"

text \<open>
  The decision that nothing will come is taken before the wait: what it looked at can change in
  between.
\<close>

definition nothing_to_come :: "(bool, 'p, queue4) io" where
  "nothing_to_come =
     io_seq (down 3)
    (io_bind (mem_get 0 g_producer_cnt) (\<lambda>local_cnt.
     io_seq (sem_post 3)
    (io_bind (get_kern (\<lambda>k. k_sem k 1)) (\<lambda>empty_val.
     io_seq (emit (CSemGetvalue 1))
    (io_ret (local_cnt = 0 \<and> empty_val = BUFFER_SIZE))))))"

definition d4_consumer_round :: "int \<Rightarrow> unit \<Rightarrow> (unit + unit, 'p, queue4) io" where
  "d4_consumer_round sock = (\<lambda>_.
     io_bind nothing_to_come (\<lambda>stop.
     if stop then io_ret (Inr ())
     else
     io_bind consumer_item (\<lambda>item.
     io_seq (send_str sock (snprintf_str (MAX_LINE + 4) (item @ [LF])))
    (io_bind (recv_line sock MAX_LINE) (\<lambda>l.
     io_ret (if l = None then Inr () else Inl ()))))))"

definition child_serve :: "int \<Rightarrow> string \<times> int \<Rightarrow> int \<Rightarrow> (unit, 'p, queue4) io" where
  "child_serve l_sock_client l_srv_addr cl_num =
     io_bind (announce l_sock_client l_srv_addr) (\<lambda>_.
     io_seq (send_str l_sock_client (''Task?'' @ [LF]))
    (io_bind (recv_line l_sock_client MAX_LINE) (\<lambda>l. case l of
       None \<Rightarrow> emit (CClose l_sock_client)
     | Some line \<Rightarrow>
         io_seq (if line = ''producer'' then
             io_block [count_producer 1, io_while (d4_producer_round l_sock_client) (), count_producer (-1)]
           else if line = ''consumer'' then io_while (d4_consumer_round l_sock_client) ()
           else io_ret ())
        (io_seq (log_msg LOG_DEBUG ''Client [%d] done.'' [AInt cl_num])
        (emit (CClose l_sock_client))))))"

section \<open>The server\<close>

text \<open>As \<open>open_listener\<close>, but the result of \<open>setsockopt\<close> is not looked at.\<close>

definition d4_listener :: "int \<Rightarrow> (int, 'p, 'm) io" where
  "d4_listener l_port =
     io_bind (sys_int CSocket) (\<lambda>l_sock_listen.
     if l_sock_listen = -1 then io_seq (log_msg LOG_ERROR ''Unable to create socket.'' []) (io_exit 1)
     else
     io_seq (emit (CSetsockopt l_sock_listen))
    (io_bind (sys_int (CBind l_sock_listen (htons l_port))) (\<lambda>r.
     if r < 0 then io_seq (log_msg LOG_ERROR ''Bind failed!'' []) (io_seq (emit (CClose l_sock_listen)) (io_exit 1))
     else
     io_bind (sys_int (CListen l_sock_listen 16)) (\<lambda>r.
     if r < 0 then io_seq (log_msg LOG_ERROR ''Unable to listen on given port!'' [])
         (io_seq (emit (CClose l_sock_listen)) (io_exit 1))
     else io_ret l_sock_listen))))"

text \<open>
  A round of the main loop; \<open>Inr\<close> leaves it. Only \<open>quit\<close> with at least one character read counts.
  A thread started for a client runs \<open>child_serve\<close>.
\<close>

definition d4_round :: "int \<Rightarrow> char list \<Rightarrow> int \<Rightarrow> (int + unit, 'p, 'm) io" where
  "d4_round l_sock_listen buf cl_num =
     io_bind (poll_or_exit [STDIN_FILENO, l_sock_listen]) (\<lambda>(in0, in1).
     io_bind (if in0 then
         io_bind (sys_read STDIN_FILENO 128) (\<lambda>(len, d).
         if len > 0 \<and> strncmp_eq (buf_fill buf d) STR_QUIT (length STR_QUIT) then
           io_seq (log_msg LOG_INFO ''Request to 'quit' entered.'' [])
          (io_seq (emit (CClose l_sock_listen)) (io_ret True))
         else io_ret False)
       else io_ret False) (\<lambda>stop.
     if stop then io_ret (Inr ())
     else if in1 then
       io_bind (sys_int (CAccept l_sock_listen)) (\<lambda>l_sock_client.
       if l_sock_client = -1 then
         io_seq (log_msg LOG_ERROR ''Unable to accept new client.'' []) (io_ret (Inl (cl_num + 1)))
       else io_seq (emit (CThread ''child_serve'')) (io_ret (Inl (cl_num + 1))))
     else io_ret (Inl cl_num)))"

definition d4_main :: "string list \<Rightarrow> char list \<Rightarrow> (int, 'p, 'm) io" where
  "d4_main t_args buf =
     io_bind (server_args t_args) (\<lambda>l_port.
     io_seq (q_init BUFFER_SIZE)
    (io_bind (d4_listener l_port) (\<lambda>l_sock_listen.
     io_seq (log_msg LOG_INFO ''Enter 'quit' to quit server.'' [])
    (io_seq (io_while (d4_round l_sock_listen buf) 0)
    (io_seq (emit (CClose l_sock_listen)) (io_ret 0))))))"

section \<open>Facts\<close>

lemma sane_items [ext_intros]: "sane (producer_item i)" "sane consumer_item" "sane (send_str fd s)"
  "sane (count_producer d)" "sane nothing_to_come" "sane (d4_listener p)"
  unfolding producer_item_def consumer_item_def send_str_def count_producer_def nothing_to_come_def d4_listener_def
  by (intro ext_intros)+

lemma recv_char_spends:
  assumes "recv_char fd cap b w = (Val (Inl s'), w')"
  shows "length (w_oracle w') < length (w_oracle w)"
proof -
  have "uses (io_bind (sys_read fd 1) (\<lambda>(r, d). case d of
          [] \<Rightarrow> io_ret (Inr None)
        | c # _ \<Rightarrow> if c = LF then io_ret (Inr (Some (b @ [c]))) else io_ret (Inl (b @ [c]))))"
    by (rule uses_bind_first [OF uses_sys(2)]) (intro ext_intros)
  from usesD [OF this] assms show ?thesis
    unfolding recv_char_def by (simp add: io_ret_def del: One_nat_def split: if_splits)
qed

interpretation recv_loop: bounded_loop "recv_char fd cap"
proof
  show "sane (recv_char fd cap s)" for s
    unfolding recv_char_def by (intro ext_intros)
qed (rule recv_char_spends)

lemma sane_recv_line [ext_intros]: "sane (recv_line fd cap)"
  unfolding recv_line_def by (intro ext_intros recv_loop.while_sane)

lemma uses_recv_line: "uses (recv_line fd MAX_LINE)"
proof -
  have "uses (recv_char fd MAX_LINE [])"
    unfolding recv_char_def by (simp del: One_nat_def) (rule uses_bind_first [OF uses_sys(2)], intro ext_intros)
  then have "uses (io_while (recv_char fd MAX_LINE) [])"
    unfolding recv_loop.while_unfold [of fd MAX_LINE "[]"]
    by (rule uses_bind_first) (auto intro: recv_loop.while_sane ext_intros split: sum.split)
  then show ?thesis
    unfolding recv_line_def by (rule uses_bind_first) (intro ext_intros)
qed

interpretation d4_producers: event_loop "d4_producer_round sock"
proof
  show "sane (d4_producer_round sock s)" for s
    unfolding d4_producer_round_def by (intro ext_intros)
  show "uses (d4_producer_round sock s)" for s
    unfolding d4_producer_round_def by (rule uses_bind_first [OF uses_recv_line]) (intro ext_intros)
qed

interpretation d4_consumers: event_loop "d4_consumer_round sock"
proof
  show "sane (d4_consumer_round sock s)" for s
    unfolding d4_consumer_round_def by (intro ext_intros)
  have "uses nothing_to_come"
    unfolding nothing_to_come_def io_seq_def [of "down 3"]
    by (rule uses_bind_first [OF uses_down]) (intro ext_intros)
  then show "uses (d4_consumer_round sock s)" for s
    unfolding d4_consumer_round_def by (rule uses_bind_first) (intro ext_intros)
qed

interpretation d4_loop: event_loop "d4_round l b"
proof
  show "sane (d4_round l b s)" for s
    unfolding d4_round_def by (intro ext_intros)
  show "uses (d4_round l b s)" for s
    unfolding d4_round_def by (rule uses_bind_first [OF uses_poll_or_exit]) (intro ext_intros)
qed

lemma sane_d4_main: "sane (d4_main ta b)"
  unfolding d4_main_def by (intro ext_intros d4_loop.while_sane)

end
