(* ===== verification/CircleBuffer.thy ===== *)
theory CircleBuffer
  imports ForkServer Ring
begin

text \<open>
  \<open>cv/cv_thread/circle_buffer.cpp\<close>: a ring of five integers with a counter, guarded by a mutex and
  two condition variables. The variables are the cell 0 of the shared memory, the mutex \<open>m\<close> is the
  semaphore 0 with the initial value 1, \<open>not_empty\<close> and \<open>not_full\<close> are the condition variables 0
  and 1.
\<close>

abbreviation QSIZE :: nat where "QSIZE \<equiv> 5"

record cbuf =
  c_buffer :: "int list"
  c_head :: nat
  c_tail :: nat
  c_count :: int

definition cbuf_zero :: cbuf where
  "cbuf_zero = \<lparr>c_buffer = replicate QSIZE 0, c_head = 0, c_tail = 0, c_count = 0\<rparr>"

definition c_put :: "int \<Rightarrow> cbuf \<Rightarrow> cbuf" where
  "c_put i b = b\<lparr>c_buffer := (c_buffer b)[c_tail b := i], c_tail := (c_tail b + 1) mod QSIZE,
     c_count := c_count b + 1\<rparr>"

definition c_get :: "cbuf \<Rightarrow> int \<times> cbuf" where
  "c_get b = (c_buffer b ! c_head b,
     b\<lparr>c_head := (c_head b + 1) mod QSIZE, c_count := c_count b - 1\<rparr>)"

definition c_rep :: "cbuf \<Rightarrow> int list \<Rightarrow> bool" where
  "c_rep b xs \<longleftrightarrow> ring_rep QSIZE (c_buffer b) (c_head b) (c_tail b) xs \<and> c_count b = int (length xs)"

lemma c_rep_zero: "c_rep cbuf_zero []"
  by (simp add: c_rep_def cbuf_zero_def ring_rep_empty del: replicate.simps)

interpretation cq: bounded_fifo c_put c_get "\<lambda>x. x" c_rep QSIZE
proof
  show "0 < QSIZE" by simp
next
  fix b xs x
  assume "c_rep b xs" and "length xs < QSIZE"
  then show "c_rep (c_put x b) (xs @ [x])"
    using ring_rep_put [of QSIZE "c_buffer b" "c_head b" "c_tail b" xs x] by (auto simp: c_rep_def c_put_def)
next
  fix b x xs
  assume r: "c_rep b (x # xs)"
  then show "fst (c_get b) = x \<and> c_rep (snd (c_get b)) xs"
    using ring_rep_get [of QSIZE "c_buffer b" "c_head b" "c_tail b" x xs] by (auto simp: c_rep_def c_get_def)
qed

section \<open>The threads\<close>

text \<open>\<open>pthread_cond_wait\<close>: the mutex is given up, and taken again when the wait is over.\<close>

definition cond_wait :: "nat \<Rightarrow> (unit, 'p, 'm) io" where
  "cond_wait c = io_seq (sem_post 0) (io_seq (pop (CCondWait c)) (io_seq (sem_wait 0) (io_ret ())))"

definition c_lock :: "(unit, 'p, 'm) io" where
  "c_lock = io_seq (sem_wait 0) (io_ret ())"

definition wait_while :: "('m \<Rightarrow> bool) \<Rightarrow> nat \<Rightarrow> unit \<Rightarrow> (unit + unit, 'p, 'm) io" where
  "wait_while full c = (\<lambda>_. io_bind (mem_get 0 full) (\<lambda>f.
     if f then io_seq (cond_wait c) (io_ret (Inl ())) else io_ret (Inr ())))"

text \<open>One value; an access outside the array is undefined.\<close>

definition c_produce :: "int \<Rightarrow> (unit, 'p, cbuf) io" where
  "c_produce i =
     io_seq c_lock
    (io_seq (io_while (wait_while (\<lambda>b. c_count b = int QSIZE) 1) ())
    (io_bind (mem_get 0 id) (\<lambda>b.
     io_seq (if c_tail b < length (c_buffer b) then mem_upd 0 (c_put i) else io_ub)
    (io_bind (mem_get 0 c_count) (\<lambda>c.
     io_block [emit (CPrint (''[P] vyrobil '' @ show_int i @ '' (count='' @ show_int c @ '')'' @ [LF])),
       emit (CCondSignal 0), sem_post 0, sys_usleep 100000])))))"

definition c_producer :: "(unit, 'p, cbuf) io" where
  "c_producer = io_block (map (\<lambda>i. c_produce (int i)) [1..<16])"

definition c_consume :: "unit \<Rightarrow> (unit + unit, 'p, cbuf) io" where
  "c_consume = (\<lambda>_.
     io_seq c_lock
    (io_seq (io_while (wait_while (\<lambda>b. c_count b = 0) 0) ())
    (io_bind (mem_get 0 id) (\<lambda>b.
     if c_head b < length (c_buffer b) then
       io_seq (mem_upd 0 (\<lambda>b. snd (c_get b)))
      (io_bind (mem_get 0 c_count) (\<lambda>c.
       io_seq (io_block [emit (CPrint (''    [C] spotreboval '' @ show_int (fst (c_get b)) @ '' (count='' @ show_int c @ '')'' @ [LF])),
         emit (CCondSignal 1), sem_post 0, sys_usleep 200000]) (io_ret (Inl ()))))
     else io_ub))))"

definition c_consumer :: "(unit, 'p, cbuf) io" where
  "c_consumer = io_while c_consume ()"

text \<open>The main thread waits for the producer, and two seconds more.\<close>

definition c_main :: "(int, 'p, cbuf) io" where
  "c_main = io_seq (io_block [emit (CThread ''producer''), emit (CThread ''consumer''), emit CThreadJoin,
     sys_usleep 2000000, emit (CPrint (''Hotovo.'' @ [LF]))]) (io_ret 0)"

section \<open>Facts\<close>

lemma sane_cond [ext_intros]: "sane (cond_wait c)" "sane c_lock"
  unfolding cond_wait_def c_lock_def by (intro ext_intros)+

lemma uses_cond: "uses (cond_wait c)" "uses c_lock"
   apply (unfold cond_wait_def io_seq_def)
   apply (rule uses_bind_second [OF sane_sem(7)])
   apply (rule uses_bind_first [OF uses_pop])
   apply (intro ext_intros)
  apply (unfold c_lock_def io_seq_def)
  apply (rule uses_bind_first [OF uses_sem(1)])
  apply (rule sane_ret)
  done

interpretation wait_while_loop: bounded_loop "wait_while f c"
proof
  show "sane (wait_while f c s)" for s
    unfolding wait_while_def by (intro ext_intros)
  have "uses (io_seq (cond_wait c) (io_ret (Inl ())))"
    by (rule uses_seq_first [OF uses_cond(1)]) (rule sane_ret)
  from usesD [OF this]
  show "wait_while f c s w = (Val (Inl s'), w') \<Longrightarrow> length (w_oracle w') < length (w_oracle w)" for s w s' w'
    by (auto simp: wait_while_def io_ret_def io_bind_def mem_get_def get_kern_def split: if_splits)
qed

lemma sane_c_produce [ext_intros]: "sane (c_produce i)"
  unfolding c_produce_def by (intro ext_intros wait_while_loop.while_sane)

interpretation consume_loop: event_loop c_consume
proof
  show "sane (c_consume s)" for s
    unfolding c_consume_def by (intro ext_intros wait_while_loop.while_sane)
  show "uses (c_consume s)" for s
    unfolding c_consume_def
    by (rule uses_seq_first [OF uses_cond(2)]) (intro ext_intros wait_while_loop.while_sane)
qed

end
