(* ===== verification/QueueProps.thy ===== *)
theory QueueProps
  imports ClientProps Du04 CircleBuffer
begin

text \<open>
  The queues of the earlier servers (\<open>DU05\<close>, \<open>DU04_1\<close>, \<open>DU04\<close>) and of \<open>circle_buffer.cpp\<close>: the
  protocol of their semaphores on their buffers, reading lines, the message queue, the race of
  \<open>DU04\<close>, the condition variables.
\<close>

section \<open>DU05 and DU04\_1\<close>

interpretation d5q: bounded_fifo d5_put "q_get 8 256" "take 255" "q_rep 8 256" 8
proof
  show "(0 :: nat) < 8" by simp
  show "q_rep 8 256 q xs \<Longrightarrow> length xs < 8 \<Longrightarrow> q_rep 8 256 (d5_put x q) (xs @ [take 255 x])" for q xs x
    using q256.rep_put [of q xs x] by (simp add: d5_put_def q_rep_def)
  show "q_rep 8 256 q (x # xs) \<Longrightarrow> fst (q_get 8 256 q) = x \<and> q_rep 8 256 (snd (q_get 8 256 q)) xs" for q x xs
    by (rule q256.rep_get)
qed

abbreviation plain_flavour :: flavour where
  "plain_flavour \<equiv> \<lparr>pausing = False, timed = False\<rparr>"

definition d5_reach :: "(string, queue) pstate \<Rightarrow> bool" where
  "d5_reach = preach d5_put (q_get 8 256) plain_flavour (pstart 8 (queue_zero 8))"

lemma item_num_step:
  "server_step d5_put (q_get 8 256) fl s t \<Longrightarrow>
   q_item_num (s_q t) - int (length (s_put t)) = q_item_num (s_q s) - int (length (s_put s))"
proof (induction rule: server_step.induct)
  case (client s t)
  then show ?case
    by (induction rule: client_step.induct) (auto simp: d5_put_def q_put_def q_get_def)
next
  case (arrive s t)
  then show ?case by (induction rule: arrival.induct) auto
qed auto

lemma item_num_reach: "d5_reach s \<Longrightarrow> q_item_num (s_q s) = int (length (s_put s))"
  unfolding d5_reach_def
proof (induction rule: preach.induct)
  case start
  then show ?case by (simp add: pstart_def queue_zero_def)
next
  case (step s t)
  from item_num_step [OF step(2)] step.IH show ?case by simp
qed

text \<open>A run in which one line is put.\<close>

definition d5_sample :: "(string, queue) pstate" where
  "d5_sample = \<lparr>s_empty = 7, s_full = 0, s_mutex = 0, s_pause = 1, s_q = d5_put ''Eva'' (queue_zero 8),
     s_clients = {#PLeave#}, s_put = [''Eva''], s_got = []\<rparr>"

lemma d5_sample_reach: "d5_reach d5_sample"
proof -
  let ?go = "preach d5_put (q_get 8 256) plain_flavour (pstart 8 (queue_zero 8))"
  let ?s = "pstart 8 (queue_zero 8) :: (string, queue) pstate"
  have 0: "?go ?s" by (rule preach.start)
  have 1: "?go (?s\<lparr>s_clients := {#PWaitEmpty ''Eva''#}\<rparr>)"
    using preach.step [OF 0 server_step.arrive [OF arrival.new_put [of plain_flavour _ "''Eva''"]]] by (simp add: pstart_def)
  have 2: "?go (?s\<lparr>s_clients := {#PWaitMutex ''Eva''#}, s_empty := 7\<rparr>)"
    using preach.step [OF 1 server_step.client [OF client_step.wait_empty [of "''Eva''"]]] by (simp add: pstart_def move_def)
  have 3: "?go (?s\<lparr>s_clients := {#PInside ''Eva''#}, s_empty := 7, s_mutex := 0\<rparr>)"
    using preach.step [OF 2 server_step.client [OF client_step.p_lock [of "''Eva''"]]] by (simp add: pstart_def move_def)
  show ?thesis
    using preach.step [OF 3 server_step.client [OF client_step.p_put [of "''Eva''"]]]
    by (simp add: pstart_def move_def d5_reach_def d5_sample_def)
qed



text \<open>
  The semaphores of these servers cannot deadlock, although no wait has a time limit: when no
  client can move, either all of them are producers in front of a full queue, or all are consumers
  in front of an empty one.
\<close>

theorem d5_no_deadlock:
  assumes "d5_reach s" and "stuck d5_put (q_get 8 256) plain_flavour s"
  shows "(\<forall>p \<in># s_clients s. (\<exists>x. p = PWaitEmpty x)) \<and> (s_clients s \<noteq> {#} \<longrightarrow> s_full s = 8) \<or>
    (\<forall>p \<in># s_clients s. p = CWaitFull) \<and> (s_clients s \<noteq> {#} \<longrightarrow> s_empty s = 8)"
proof -
  note r = assms(1) [unfolded d5_reach_def]
  have z: "q_rep 8 256 (queue_zero 8) []" by (rule q_rep_zero) simp
  have mu: "s_mutex s + cnt in_critical (s_clients s) = 1"
    using d5q.pinv_reach [OF r z] by (simp add: pinv_def)
  have "CWaitPause \<notin># s_clients s"
    using no_gate_reach [OF r] by (simp add: pstart_def)
  then have pts: "(\<exists>x. p = PWaitEmpty x) \<and> s_empty s = 0 \<or> p = CWaitFull \<and> s_full s = 0" if "p \<in># s_clients s" for p
    using stuck_points [OF assms(2) that mu] that by auto
  note nd = d5q.reach_no_deadlock [OF r z assms(2)]
  show ?thesis
  proof (cases "\<exists>x. PWaitEmpty x \<in># s_clients s")
    case True
    then obtain x where x: "PWaitEmpty x \<in># s_clients s" by blast
    then have f: "s_full s = 8" "s_empty s = 0" using nd(1) pts [OF x] by auto
    then show ?thesis using pts by fastforce
  next
    case False
    then show ?thesis using pts nd(2) by (metis multiset_nonemptyE)
  qed
qed

theorem d5_no_deadlock_witness:
  "s_empty ((pstart 8 (queue_zero 8))\<lparr>s_clients := {#CWaitFull :: string point#}\<rparr>) = 8"
proof -
  let ?s = "(pstart 8 (queue_zero 8))\<lparr>s_clients := {#CWaitFull :: string point#}\<rparr>"
  have "d5_reach ?s"
    using preach.step [OF preach.start server_step.arrive [OF arrival.new_get [of plain_flavour]],
        where s = "pstart 8 (queue_zero 8)" and put = d5_put and get = "q_get 8 256"]
    by (simp add: d5_reach_def pstart_def)
  moreover have "stuck d5_put (q_get 8 256) plain_flavour ?s"
    by (auto simp: stuck_def pstart_def elim: client_step.cases)
  ultimately show ?thesis using d5_no_deadlock [of ?s] by simp
qed

end
