(* ===== verification/CircleProps.thy ===== *)
theory CircleProps
  imports Guarantee CircleBuffer
begin

text \<open>
  The two threads of \<open>circle_buffer.cpp\<close> under interference. A wait on a condition variable may end
  at any time, and between two calls the other thread may have changed the ring; the loops around
  the waits make the accesses safe all the same.
\<close>

definition ring_kern :: "cbuf kernel \<Rightarrow> bool" where
  "ring_kern k \<longleftrightarrow> (\<exists>xs. c_rep (k_shm k 0) xs \<and> length xs \<le> QSIZE)"

lemma mem_only_ring [keeps_intros]: "mem_only ring_kern"
  by (simp add: mem_only_def ring_kern_def)

abbreviation threads_safe :: "('a, 'p, cbuf) io \<Rightarrow> bool" where
  "threads_safe m \<equiv> keeps (\<lambda>_. True) ring_kern m"

lemma safe_cond [keeps_intros]: "threads_safe c_lock" "threads_safe (cond_wait c)"
  "threads_safe (sys_usleep us)"
  unfolding c_lock_def cond_wait_def sys_usleep_def by (intro keeps_intros)+

text \<open>When the loop around a wait is left, what it waits for has just been seen to be over.\<close>

lemma wait_over:
  fixes w :: "('p, cbuf) world"
  assumes "rely (\<lambda>_. True) ring_kern w" and "io_while (wait_while f c) () w = (r, w')"
  shows "rely (\<lambda>_. True) ring_kern w' \<and> r \<noteq> UB \<and> (\<forall>a. r = Val a \<longrightarrow> \<not> f (k_shm (w_kern w') 0))"
proof -
  define I :: "unit \<Rightarrow> ('p, cbuf) world \<Rightarrow> bool" where "I s u \<longleftrightarrow> rely (\<lambda>_. True) ring_kern u" for s u
  define Q :: "unit res \<Rightarrow> ('p, cbuf) world \<Rightarrow> bool" where
    "Q r u \<longleftrightarrow> rely (\<lambda>_. True) ring_kern u \<and> r \<noteq> UB \<and> (\<forall>a. r = Val a \<longrightarrow> \<not> f (k_shm (w_kern u) 0))" for r u
  have "Q (fst (io_while (wait_while f c) () w)) (snd (io_while (wait_while f c) () w))"
  proof (rule wait_while_loop.while_invariant [where I = I])
    show "I () w" using assms(1) by (simp add: I_def)
    fix s u
    assume i: "I s u"
    obtain q u' where b: "wait_while f c s u = (q, u')" by (cases "wait_while f c s u")
    have "threads_safe (wait_while f c s)" unfolding wait_while_def by (intro keeps_intros)
    with i b have g: "rely (\<lambda>_. True) ring_kern u'" "q \<noteq> UB" by (auto simp: gives_def I_def)
    have out: "\<not> f (k_shm (w_kern u') 0)" if "q = Val (Inr a)" for a
      using b that by (auto simp: wait_while_def io_bind_def mem_get_def get_kern_def io_seq_def io_ret_def
          split: if_splits res.splits prod.splits)
    show "case wait_while f c s u of (Val (Inl s'), w') \<Rightarrow> I s' w' | (Val (Inr a), w') \<Rightarrow> Q (Val a) w'
        | (Exit c, w') \<Rightarrow> Q (Exit c) w' | (Fuel, w') \<Rightarrow> True | (Blocked, w') \<Rightarrow> Q Blocked w'
        | (UB, w') \<Rightarrow> Q UB w'"
      using g out using g out unfolding b by (simp add: I_def Q_def split: res.split sum.split)
  qed
  with assms(2) show ?thesis by (simp add: Q_def)
qed

lemma gives_after_wait:
  fixes m :: "('a, 'p, cbuf) io"
  assumes "\<And>w. rely (\<lambda>_. True) ring_kern w \<Longrightarrow> \<not> f (k_shm (w_kern w) 0) \<Longrightarrow>
    rely (\<lambda>_. True) ring_kern (snd (m w)) \<and> fst (m w) \<noteq> UB"
  shows "threads_safe (io_seq (io_while (wait_while f c) ()) m)"
  unfolding gives_def
proof (intro allI impI)
  fix w :: "('p, cbuf) world"
  assume w: "rely (\<lambda>_. True) ring_kern w"
  obtain r w' where r: "io_while (wait_while f c) () w = (r, w')" by (cases "io_while (wait_while f c) () w")
  note o = wait_over [OF w r]
  then show "rely (\<lambda>_. True) ring_kern (snd (io_seq (io_while (wait_while f c) ()) m w)) \<and>
      fst (io_seq (io_while (wait_while f c) ()) m w) \<noteq> UB \<and>
      (\<forall>a. fst (io_seq (io_while (wait_while f c) ()) m w) = Val a \<longrightarrow> True)"
    using assms [of w'] by (cases r) (auto simp: io_seq_def io_bind_def r)
qed

lemma c_rep_bounds:
  "c_rep b xs \<Longrightarrow> c_tail b < length (c_buffer b)" "c_rep b xs \<Longrightarrow> c_head b < length (c_buffer b)"
  by (auto simp: c_rep_def ring_rep_def)

lemma mem_get_bind: "io_bind (mem_get h f) g w = g (f (k_shm (w_kern w) h)) w"
  by (simp add: io_bind_def mem_get_def get_kern_def)

lemma rely_upd:
  "rely A ring_kern w \<Longrightarrow> ring_kern (w_kern w') \<Longrightarrow> w_oracle w' = w_oracle w \<Longrightarrow> w_priv w' = w_priv w \<Longrightarrow>
    rely A ring_kern w'"
  by (simp add: rely_def)

lemma safe_step:
  assumes "rely (\<lambda>_. True) ring_kern w" and "ring_kern ((w_kern w)\<lparr>k_shm := (k_shm (w_kern w))(0 := f (k_shm (w_kern w) 0))\<rparr>)"
    and "threads_safe m"
  shows "rely (\<lambda>_. True) ring_kern (snd (io_seq (mem_upd 0 f) m w)) \<and> fst (io_seq (mem_upd 0 f) m w) \<noteq> UB"
proof -
  let ?w = "w\<lparr>w_kern := (w_kern w)\<lparr>k_shm := (k_shm (w_kern w))(0 := f (k_shm (w_kern w) 0))\<rparr>\<rparr>"
  have "rely (\<lambda>_. True) ring_kern ?w" by (rule rely_upd [OF assms(1)]) (simp_all add: assms(2))
  with assms(3) show ?thesis by (simp add: gives_def io_seq_def io_bind_def mem_upd_def upd_kern_def)
qed

lemma safe_produce: "threads_safe (c_produce i :: (unit, 'p, cbuf) io)"
proof -
  let ?k = "io_bind (mem_get 0 c_count) (\<lambda>c.
     io_block [emit (CPrint (''[P] vyrobil '' @ show_int i @ '' (count='' @ show_int c @ '')'' @ [LF])),
       emit (CCondSignal 0), sem_post 0, sys_usleep 100000]) :: (unit, 'p, cbuf) io"
  have k: "threads_safe ?k" by (intro keeps_intros)
  show ?thesis
    unfolding c_produce_def
  proof (rule keeps_seq [OF safe_cond(1)], rule gives_after_wait)
    fix w :: "('p, cbuf) world"
    assume r: "rely (\<lambda>_. True) ring_kern w" and c: "\<not> c_count (k_shm (w_kern w) 0) = int QSIZE"
    then obtain xs where xs: "c_rep (k_shm (w_kern w) 0) xs" "length xs \<le> QSIZE"
      by (auto simp: rely_def ring_kern_def)
    with c have l: "length xs < QSIZE" by (simp add: c_rep_def)
    have "ring_kern ((w_kern w)\<lparr>k_shm := (k_shm (w_kern w))(0 := c_put i (k_shm (w_kern w) 0))\<rparr>)"
      unfolding ring_kern_def using cq.rep_put [OF xs(1) l] l by (intro exI [of _ "xs @ [i]"]) simp
    from safe_step [where f = "c_put i", OF r this k] c_rep_bounds(1) [OF xs(1)]
    show "rely (\<lambda>_. True) ring_kern (snd (io_bind (mem_get 0 id) (\<lambda>b. io_seq (if c_tail b < length (c_buffer b)
          then mem_upd 0 (c_put i) else io_ub) ?k) w)) \<and>
        fst (io_bind (mem_get 0 id) (\<lambda>b. io_seq (if c_tail b < length (c_buffer b) then mem_upd 0 (c_put i) else io_ub) ?k) w) \<noteq> UB"
      unfolding mem_get_bind [where f = id] id_apply by (simp only: if_True simp_thms)
  qed
qed

lemma safe_consume: "threads_safe (c_consume u :: (unit + unit, 'p, cbuf) io)"
  unfolding c_consume_def
proof (rule keeps_seq [OF safe_cond(1)], rule gives_after_wait)
  fix w :: "('p, cbuf) world"
  let ?k = "\<lambda>b. io_bind (mem_get 0 c_count) (\<lambda>c.
       io_seq (io_block [emit (CPrint (''    [C] spotreboval '' @ show_int (fst (c_get b)) @ '' (count='' @ show_int c @ '')'' @ [LF])),
         emit (CCondSignal 1), sem_post 0, sys_usleep 200000]) (io_ret (Inl ()))) :: (unit + unit, 'p, cbuf) io"
  have k: "threads_safe (?k b)" for b by (intro keeps_intros)
  assume r: "rely (\<lambda>_. True) ring_kern w" and c: "\<not> c_count (k_shm (w_kern w) 0) = 0"
  then obtain xs where xs: "c_rep (k_shm (w_kern w) 0) xs" "length xs \<le> QSIZE"
    by (auto simp: rely_def ring_kern_def)
  with c obtain y ys where y: "xs = y # ys" by (cases xs) (auto simp: c_rep_def)
  have "ring_kern ((w_kern w)\<lparr>k_shm := (k_shm (w_kern w))(0 := snd (c_get (k_shm (w_kern w) 0)))\<rparr>)"
    unfolding ring_kern_def using cq.rep_get [of _ y ys] xs y by (intro exI [of _ ys]) simp
  from safe_step [where f = "\<lambda>b. snd (c_get b)", OF r this k [of "k_shm (w_kern w) 0"]] c_rep_bounds(2) [OF xs(1)]
  show "rely (\<lambda>_. True) ring_kern (snd (io_bind (mem_get 0 id) (\<lambda>b. if c_head b < length (c_buffer b)
        then io_seq (mem_upd 0 (\<lambda>b. snd (c_get b))) (?k b) else io_ub) w)) \<and>
      fst (io_bind (mem_get 0 id) (\<lambda>b. if c_head b < length (c_buffer b)
        then io_seq (mem_upd 0 (\<lambda>b. snd (c_get b))) (?k b) else io_ub) w) \<noteq> UB"
    unfolding mem_get_bind [where f = id] id_apply by (simp only: if_True simp_thms)
qed

lemma safe_threads: "threads_safe c_producer" "threads_safe c_consumer"
  unfolding c_producer_def c_consumer_def
  by (rule keeps_block_all, auto intro: safe_produce) (rule keeps_while_simple, rule safe_consume)

text \<open>
  C25. The condition-variable ring: while the other thread keeps a ring of at most five values, both
  threads, as a whole and wherever they stop, keep one (so the counter, \<open>head\<close> and \<open>tail\<close> always agree
  with its contents) and never touch memory outside the array, also when a wait ends without reason.
\<close>

theorem circle_threads_safe:
  assumes "t \<in> {c_producer, c_consumer}"
    and "\<exists>xs. c_rep (k_shm (w_kern w) 0) xs \<and> length xs \<le> QSIZE"
    and "\<forall>k r. (Some k, r) \<in> set (w_oracle w) \<longrightarrow> (\<exists>xs. c_rep (k_shm k 0) xs \<and> length xs \<le> QSIZE)"
    and "length (w_oracle w) < 2 ^ 31"
  shows "fst (t w) \<noteq> UB \<and> (\<exists>xs. c_rep (k_shm (w_kern (snd (t w))) 0) xs \<and> length xs \<le> QSIZE)"
proof -
  have "threads_safe t" using assms(1) safe_threads by auto
  moreover have "rely (\<lambda>_. True) ring_kern w" unfolding rely_def ring_kern_def using assms(2-4) by blast
  ultimately have "rely (\<lambda>_. True) ring_kern (snd (t w))" "fst (t w) \<noteq> UB" by (auto simp: gives_def)
  then show ?thesis unfolding rely_def ring_kern_def by blast
qed

theorem circle_threads_safe_witness:
  "fst (c_consumer \<lparr>w_oracle = [(None, Ret 0), (None, Ret 0), (None, Ret 0)], w_calls = [], w_errno = 0, w_debug = 0, w_priv = (),
     w_kern = \<lparr>k_sem = (\<lambda>_. 1), k_sem_dir = (\<lambda>_. None), k_sem_next = 1, k_shm = (\<lambda>_. cbuf_zero), k_shm_dir = (\<lambda>_. None),
       k_shm_next = 1, k_mq = (\<lambda>_. []), k_mq_dir = (\<lambda>_. None), k_mq_next = 0\<rparr>\<rparr>) \<noteq> UB"
proof (rule conjunct1 [OF circle_threads_safe [where t = c_consumer]])
  have "\<exists>xs. c_rep cbuf_zero xs \<and> length xs \<le> QSIZE"
    using c_rep_zero by (metis le0 list.size(3))
  then show "\<exists>xs. c_rep (k_shm (w_kern \<lparr>w_oracle = [(None, Ret 0), (None, Ret 0), (None, Ret 0)], w_calls = [], w_errno = 0, w_debug = 0, w_priv = (),
     w_kern = \<lparr>k_sem = (\<lambda>_. 1), k_sem_dir = (\<lambda>_. None), k_sem_next = 1, k_shm = (\<lambda>_. cbuf_zero), k_shm_dir = (\<lambda>_. None),
       k_shm_next = 1, k_mq = (\<lambda>_. []), k_mq_dir = (\<lambda>_. None), k_mq_next = 0\<rparr>\<rparr>) 0) xs \<and> length xs \<le> QSIZE"
    by simp
qed simp_all

end
