(* ===== verification/Board.thy ===== *)
theory Board
  imports ForkServer
begin

text \<open>
  What the three tic-tac-toe servers (\<open>cv_skuska/piskvorky\<close>, \<open>cv_skuska/piskvorky2\<close>,
  \<open>cv_skuska/skuska_piskvorky\<close>) share: a structure in shared memory with a counter of players, the
  board and a semaphore for each player, here the semaphores 0 and 1.
\<close>

record game =
  count_pl :: int
  field :: "char list list"

type_synonym ('a, 'p) xo = "('a, 'p, game) io"

definition blank :: "nat \<Rightarrow> char list list" where
  "blank n = replicate n (replicate n (CHR ''.''))"

definition game_zero :: "nat \<Rightarrow> game" where
  "game_zero n = \<lparr>count_pl = 0, field = replicate n (replicate n NUL)\<rparr>"

section \<open>Cells\<close>

definition cell_in :: "char list list \<Rightarrow> int \<Rightarrow> int \<Rightarrow> bool" where
  "cell_in f r c \<longleftrightarrow> 0 \<le> r \<and> nat r < length f \<and> 0 \<le> c \<and> nat c < length (f ! nat r)"

definition cell_set :: "int \<Rightarrow> int \<Rightarrow> char \<Rightarrow> char list list \<Rightarrow> char list list" where
  "cell_set r c x f = f[nat r := (f ! nat r)[nat c := x]]"

text \<open>\<open>field[r][c] = x\<close>; outside the array it is undefined.\<close>

definition cell_put :: "nat \<Rightarrow> int \<Rightarrow> int \<Rightarrow> char \<Rightarrow> (unit, 'p) xo" where
  "cell_put h r c x = io_bind (mem_get h field) (\<lambda>f.
     if cell_in f r c then mem_upd h (\<lambda>g. g\<lparr>field := cell_set r c x (field g)\<rparr>) else io_ub)"

text \<open>The letter of a column: its place among the first \<open>n\<close> letters, -1 for another character.\<close>

definition col_of :: "nat \<Rightarrow> char \<Rightarrow> int" where
  "col_of n c = (if 65 \<le> (of_char c :: nat) \<and> of_char c < 65 + n then int (of_char c) - 65 else -1)"

section \<open>Players\<close>

text \<open>\<open>index = count; count++\<close>\<close>

definition join_game :: "nat \<Rightarrow> (int, 'p) xo" where
  "join_game h = io_bind (mem_get h count_pl) (\<lambda>i.
     io_seq (mem_upd h (\<lambda>g. g\<lparr>count_pl := count_pl g + 1\<rparr>)) (io_ret i))"

text \<open>\<open>&players[i]\<close>\<close>

definition player_sem :: "int \<Rightarrow> (nat, 'p) xo" where
  "player_sem i = (if 0 \<le> i \<and> i < 2 then io_ret (nat i) else io_ub)"

definition wait_turn :: "int \<Rightarrow> (unit, 'p) xo" where
  "wait_turn i = io_bind (player_sem i) (\<lambda>s. io_seq (sem_wait s) (io_ret ()))"

definition give_turn :: "int \<Rightarrow> (unit, 'p) xo" where
  "give_turn i = io_bind (player_sem i) sem_post"

definition init_players :: "(unit, 'p) xo" where
  "init_players = io_seq (sem_init 0 1) (sem_init 1 0)"

text \<open>The two tokens of a move such as \<open>A-1\<close>, and the buffer after the two \<open>strtok\<close>.\<close>

definition split_move :: "char list \<Rightarrow> (string option \<times> string option, 'p) xo" where
  "split_move b = io_bind (buf_str b) (\<lambda>s.
     let (col, rest) = strtok s ''-'' in io_ret (col, fst (strtok rest [])))"

section \<open>Facts\<close>

lemma sane_cell [ext_intros]: "sane (cell_put h r c x)" "sane (join_game h)" "sane (player_sem i)"
  "sane (wait_turn i)" "sane (give_turn i)" "sane init_players" "sane (split_move b)"
  unfolding cell_put_def join_game_def player_sem_def wait_turn_def give_turn_def init_players_def split_move_def
  by (intro ext_intros)+

lemma uses_wait_turn: "uses (wait_turn i)"
  unfolding wait_turn_def io_seq_def
  by (rule uses_bind_second [OF sane_cell(3)], rule uses_bind_first [OF uses_sem(1)], rule sane_ret)

lemma cell_set_shape [simp]:
  "length (cell_set r c x f) = length f"
  "length (cell_set r c x f ! i) = length (f ! i)"
   apply (simp add: cell_set_def)
  apply (cases "nat r < length f")
   apply (auto simp: cell_set_def nth_list_update list_update_beyond)
  done

lemma cell_set_get:
  "cell_in f r c \<Longrightarrow> cell_set r c x f ! nat r ! nat c = x"
  by (simp add: cell_set_def cell_in_def)

lemma cell_set_other:
  "cell_in f r c \<Longrightarrow> (i, j) \<noteq> (nat r, nat c) \<Longrightarrow> cell_set r c x f ! i ! j = f ! i ! j"
  by (auto simp: cell_set_def cell_in_def nth_list_update)

lemma col_of_range: "col_of n c = -1 \<or> (0 \<le> col_of n c \<and> col_of n c < int n)"
  by (auto simp: col_of_def)

lemmas [io_simps] = cell_put_def join_game_def player_sem_def wait_turn_def give_turn_def init_players_def

end
