(* ===== verification/Piskvorky.thy ===== *)
theory Piskvorky
  imports Board
begin

text \<open>
  The three tic-tac-toe servers. A server process forks a child for each of the first two clients;
  the children share the board and pass the turn with two semaphores.
\<close>

section \<open>cv_skuska/piskvorky2\<close>

abbreviation BOARD_SIZE :: nat where "BOARD_SIZE \<equiv> 8"

text \<open>The globals; the memory is attached, so its pointer is a number.\<close>

record xo2 =
  g_glb_data :: nat
  move_buf :: "char list"
  row_index :: int
  col_index :: int

definition xo2_init :: xo2 where
  "xo2_init = \<lparr>g_glb_data = 0, move_buf = replicate 128 NUL, row_index = -1, col_index = -1\<rparr>"

type_synonym 'a xo2m = "('a, xo2, game) io"

definition glb :: "(game \<Rightarrow> 'a) \<Rightarrow> 'a xo2m" where
  "glb f = io_bind (get_priv g_glb_data) (\<lambda>h. mem_get h f)"

definition initialize_board :: "unit xo2m" where
  "initialize_board = io_bind (get_priv g_glb_data) (\<lambda>h.
     mem_upd h (\<lambda>g. g\<lparr>field := blank BOARD_SIZE\<rparr>))"

definition board_lines :: "char list list \<Rightarrow> string list" where
  "board_lines f = concat (map (\<lambda>row. map (\<lambda>c. [c]) row @ [[LF]]) f)"

definition show_board :: "int \<Rightarrow> unit xo2m" where
  "show_board scl = io_seq (dprintf scl ''------------------'')
    (io_seq (dprintf scl (''------------------'' @ [LF]))
    (io_bind (glb field) (\<lambda>f. io_block (map (dprintf scl) (board_lines f)))))"

text \<open>
  \<open>parse_input\<close> reads the row without looking at it: a missing row is a null pointer given to
  \<open>atoi\<close>. Only the column is checked.
\<close>

definition parse_input :: "int \<Rightarrow> int xo2m" where
  "parse_input scl =
     io_bind (get_priv move_buf) (\<lambda>b.
     io_bind (split_move b) (\<lambda>(col, row).
     io_seq (upd_priv (\<lambda>p. p\<lparr>move_buf := strtok_cut (move_buf p) ''-''\<rparr>))
    (io_bind (nonnull row) (\<lambda>row.
     io_bind (atoi_io row) (\<lambda>r.
     io_seq (upd_priv (\<lambda>p. p\<lparr>row_index := r\<rparr>))
    (io_bind (nonnull col) (\<lambda>col.
     let i = col_of BOARD_SIZE (hd col) in
     if i \<noteq> -1 then io_seq (upd_priv (\<lambda>p. p\<lparr>col_index := i\<rparr>)) (io_ret 1)
     else io_seq (dprintf scl (''Zadaj spravny tah'' @ [LF])) (io_ret 0))))))))"

definition mark :: "int \<Rightarrow> unit xo2m" where
  "mark index = io_bind (get_priv id) (\<lambda>p.
     cell_put (g_glb_data p) (row_index p) (col_index p) (if index = 0 then CHR ''X'' else CHR ''O''))"

definition wait_players :: "int \<Rightarrow> unit \<Rightarrow> (unit + unit) xo2m" where
  "wait_players scl = (\<lambda>_. io_bind (glb count_pl) (\<lambda>c.
     if c < 2 then io_seq (dprintf scl (''Prosim o strpeni'' @ [LF]))
       (io_seq (sys_usleep 2000000) (io_ret (Inl ())))
     else io_ret (Inr ())))"

text \<open>Input until it can be parsed; the number of bytes read is not looked at.\<close>

definition read_move :: "int \<Rightarrow> unit \<Rightarrow> (unit + unit) xo2m" where
  "read_move scl = (\<lambda>_. io_bind (sys_read scl 128) (\<lambda>(n, d).
     io_seq (upd_priv (\<lambda>p. p\<lparr>move_buf := buf_fill (move_buf p) d\<rparr>))
    (io_bind (parse_input scl) (\<lambda>r. io_ret (if r = 1 then Inr () else Inl ())))))"

definition turn :: "int \<Rightarrow> int \<Rightarrow> unit \<Rightarrow> (unit + unit) xo2m" where
  "turn scl index = (\<lambda>_.
     io_seq (wait_turn index)
    (io_seq (show_board scl)
    (io_seq (dprintf scl (''Zadaj tah'' @ [LF]))
    (io_seq (io_while (read_move scl) ())
    (io_seq (mark index)
    (io_seq (give_turn (1 - index)) (io_ret (Inl ()))))))))"

definition xo2_client_handle :: "int \<Rightarrow> unit xo2m" where
  "xo2_client_handle scl =
     io_bind (get_priv g_glb_data) (\<lambda>h.
     io_bind (join_game h) (\<lambda>index.
     io_bind (glb count_pl) (\<lambda>c.
     io_seq (dprintf scl (''Klient c. '' @ show_int c @ '' pripojeny'' @ [LF]))
    (io_seq (io_while (wait_players scl) ())
    (io_seq initialize_board
    (io_while (turn scl index) ()))))))"

definition xo2_shared :: "unit xo2m" where
  "xo2_shared =
     io_bind (shm_open ''/shm_example'' False (game_zero BOARD_SIZE)) (\<lambda>l_fd.
     io_bind (if l_fd < 0 then
         io_seq (log_msg LOG_ERROR ''Unable to open file for shared memory.'' [])
        (io_bind (shm_open ''/shm_example'' True (game_zero BOARD_SIZE)) (\<lambda>l_fd.
         if l_fd < 0 then io_seq (log_msg LOG_ERROR ''Unable to create file for shared memory.'' []) (io_exit 1)
         else
         io_seq (emit (CFtruncate l_fd))
        (io_seq (log_msg LOG_INFO ''File created, this process is first'' []) (io_ret l_fd))))
       else io_ret l_fd) (\<lambda>l_fd.
     io_bind (sys_mmap l_fd) (\<lambda>h.
     io_seq (log_msg LOG_INFO ''Shared memory attached.'' [])
    (io_bind (nonnull h) (\<lambda>h.
     io_seq (upd_priv (\<lambda>p. p\<lparr>g_glb_data := h\<rparr>))
    (io_seq (mem_upd h (\<lambda>g. g\<lparr>count_pl := 0\<rparr>)) init_players))))))"

text \<open>A third client is turned away; the addresses are asked for after the socket is closed.\<close>

definition xo2_serve :: "int \<Rightarrow> int \<times> string \<times> int \<Rightarrow> int \<Rightarrow> (int \<times> string \<times> int) xo2m" where
  "xo2_serve l_sock_listen s l_sock_client =
     (let (client_num, l_srv_addr) = s in
     io_bind (if client_num < 2 then
         io_seq (log_msg LOG_INFO ''Pripojeny klient c. %d'' [AInt (client_num + 1)])
        (io_bind (sys_int CFork) (\<lambda>p.
         io_seq (if p = 0 then io_block [emit (CClose l_sock_listen), xo2_client_handle l_sock_client,
             emit (CClose l_sock_client), io_exit 0]
           else io_when (p > 0) (emit (CClose l_sock_client)))
         (io_ret (client_num + 1))))
       else io_seq (dprintf l_sock_client (''Plno'' @ [LF]))
           (io_seq (emit (CClose l_sock_client)) (io_ret client_num))) (\<lambda>client_num.
     io_bind (announce l_sock_client l_srv_addr) (\<lambda>a. io_ret (client_num, a))))"

definition xo2_main :: "string list \<Rightarrow> char list \<Rightarrow> unit xo2m" where
  "xo2_main t_args buf =
     io_seq (io_when (length t_args \<le> 1) (show_help t_args))
    (io_seq xo2_shared
    (io_bind (server_port t_args) (\<lambda>l_port.
     io_bind (open_listener l_port 1) (\<lambda>l.
     io_seq (log_msg LOG_INFO ''Enter 'quit' to quit server.'' [])
    (io_while (accept_round l (wait_stdin l buf) (xo2_serve l)) (0, any_addr l_port))))))"

section \<open>cv_skuska/skuska\_piskvorky\<close>

text \<open>Board of five rows; the board is blanked once, before any client can connect.\<close>

record xo3 =
  shmm :: nat
  line_buf :: "char list"

definition xo3_init :: xo3 where
  "xo3_init = \<lparr>shmm = 0, line_buf = replicate 128 NUL\<rparr>"

type_synonym 'a xo3m = "('a, xo3, game) io"

definition send_board :: "int \<Rightarrow> unit xo3m" where
  "send_board scl =
     (let bar = ''------------------'' @ [LF] in
     io_block [dprintf scl bar, dprintf scl bar,
       io_bind (get_priv shmm) (\<lambda>h. io_bind (mem_get h field) (\<lambda>f.
         io_block (map (dprintf scl) (board_lines f)))),
       dprintf scl bar, dprintf scl bar])"

definition xo3_wait :: "int \<Rightarrow> unit \<Rightarrow> (unit + unit) xo3m" where
  "xo3_wait scl = (\<lambda>_. io_bind (get_priv shmm) (\<lambda>h. io_bind (mem_get h count_pl) (\<lambda>c.
     if c < 2 then io_seq (dprintf scl (''Prosim o strpeni kliet c. '' @ show_int c @ [LF]))
       (io_seq (sys_usleep 3000000) (io_ret (Inl ())))
     else io_ret (Inr ()))))"

text \<open>An unknown column leaves \<open>col_i\<close> at -1, and the cell is written all the same.\<close>

definition xo3_turn :: "int \<Rightarrow> int \<Rightarrow> char \<Rightarrow> unit \<Rightarrow> (unit + unit) xo3m" where
  "xo3_turn scl index my = (\<lambda>_.
     io_seq (wait_turn index)
    (io_seq (send_board scl)
    (io_seq (dprintf scl (''Zadaj tah'' @ [LF]))
    (io_bind (sys_read scl 128) (\<lambda>(n, d).
     io_seq (upd_priv (\<lambda>p. p\<lparr>line_buf := buf_fill (line_buf p) d\<rparr>))
    (io_bind (get_priv id) (\<lambda>p.
     io_bind (split_move (line_buf p)) (\<lambda>(col, row).
     io_seq (upd_priv (\<lambda>p. p\<lparr>line_buf := strtok_cut (line_buf p) ''-''\<rparr>))
    (io_bind (nonnull col) (\<lambda>col.
     io_bind (nonnull row) (\<lambda>row.
     io_bind (atoi_io row) (\<lambda>r.
     io_seq (cell_put (shmm p) r (col_of 5 (hd col)) my)
    (io_seq (send_board scl)
    (io_seq (give_turn (1 - index)) (io_ret (Inl ()))))))))))))))))"

definition xo3_client :: "int \<Rightarrow> unit xo3m" where
  "xo3_client scl =
     io_bind (get_priv shmm) (\<lambda>h.
     io_bind (join_game h) (\<lambda>index.
     io_seq (io_while (xo3_wait scl) ())
    (io_seq (dprintf scl ''Hra zacina'')
    (io_seq (emit (CPrint (''Pripojili jsme noveho klienta: '' @ show_int scl @ [LF])))
    (io_while (xo3_turn scl index (if index = 0 then CHR ''X'' else CHR ''O'')) ())))))"

text \<open>\<open>l_num_proc\<close> is -1 from start to end, so the memory is never unlinked.\<close>

definition clean :: "unit xo3m" where
  "clean =
     io_seq (log_msg LOG_INFO ''Final cleaning ...'' [])
    (io_seq (log_msg LOG_INFO ''Shared memory releasing...'' [])
    (io_bind (get_priv shmm) (\<lambda>h.
     io_bind (sys_int (CMunmap h)) (\<lambda>l_ret.
     if l_ret \<noteq> 0 then log_msg LOG_ERROR ''Unable to release shared memory!'' []
     else log_msg LOG_INFO ''Share memory released.'' []))))"

definition xo3_shared :: "unit xo3m" where
  "xo3_shared =
     io_bind (shm_open ''/shm_my'' True (game_zero 5)) (\<lambda>my_sem.
     io_seq (emit (CFtruncate my_sem))
    (io_bind (sys_mmap my_sem) (\<lambda>h.
     io_bind (nonnull h) (\<lambda>h.
     io_seq (upd_priv (\<lambda>p. p\<lparr>shmm := h\<rparr>))
    (io_seq (mem_upd h (\<lambda>g. g\<lparr>count_pl := 0, field := blank 5\<rparr>)) init_players)))))"

text \<open>
  \<open>t_args[3]\<close> is compared with \<open>clean\<close> whatever the number of arguments: with fewer than four
  strings in \<open>argv\<close> it is the null pointer at its end, or lies behind it.
\<close>

definition xo3_args :: "string list \<Rightarrow> int xo3m" where
  "xo3_args t_args =
     io_bind (parse_port t_args (tl t_args)) (\<lambda>l_port.
     if length t_args \<le> 3 then io_ub
     else io_seq (io_when (t_args ! 3 = ''clean'') (io_seq clean (io_exit 0)))
       (check_port t_args l_port))"

definition xo3_serve :: "int \<Rightarrow> int \<times> string \<times> int \<Rightarrow> int \<Rightarrow> (int \<times> string \<times> int) xo3m" where
  "xo3_serve l_sock_listen s l_sock_client =
     (let (counter, l_srv_addr) = s in
     io_bind (if counter < 2 then
         io_bind (sys_int CFork) (\<lambda>p.
         io_seq (io_when (p = 0) (io_block [emit (CClose l_sock_listen), xo3_client l_sock_client, io_exit 0]))
        (io_seq (emit (CClose l_sock_client)) (io_ret (counter + 1))))
       else io_seq (dprintf l_sock_client ''Nie je miesto.'')
           (io_seq (emit (CClose l_sock_client)) (io_ret counter))) (\<lambda>counter.
     io_bind (announce l_sock_client l_srv_addr) (\<lambda>a. io_ret (counter, a))))"

definition xo3_main :: "string list \<Rightarrow> char list \<Rightarrow> unit xo3m" where
  "xo3_main t_args buf =
     io_seq (io_when (length t_args \<le> 1) (show_help t_args))
    (io_seq xo3_shared
    (io_bind (xo3_args t_args) (\<lambda>l_port.
     io_bind (open_listener l_port 1) (\<lambda>l.
     io_seq (log_msg LOG_INFO ''Enter 'quit' to quit server.'' [])
    (io_while (accept_round l (wait_stdin l buf) (xo3_serve l)) (0, any_addr l_port))))))"

section \<open>cv_skuska/piskvorky\<close>

text \<open>
  A System V segment, attached before \<open>main\<close> starts. The cell is indexed column first, and both
  players mark with \<open>X\<close>.
\<close>

record xo1 =
  shared :: "nat option"

type_synonym 'a xo1m = "('a, xo1, game) io"

definition shmget_private :: "int xo1m" where
  "shmget_private = io_bind (pop CShmget) (\<lambda>r. case r of
      Fail e \<Rightarrow> io_seq (set_errno e) (io_ret (-1))
    | _ \<Rightarrow> io_bind (get_kern k_shm_next) (\<lambda>h.
        io_seq (upd_kern (\<lambda>k. k\<lparr>k_shm := (k_shm k)(h := game_zero 5), k_shm_next := Suc h\<rparr>))
          (io_ret (int h))))"

definition shmat :: "int \<Rightarrow> nat option xo1m" where
  "shmat shmid = io_bind (pop (CShmat shmid)) (\<lambda>r. case r of
      Fail e \<Rightarrow> io_seq (set_errno e) (io_ret None)
    | _ \<Rightarrow> io_ret (if shmid < 0 then None else Some (nat shmid)))"

definition with_shared :: "(nat \<Rightarrow> 'a xo1m) \<Rightarrow> 'a xo1m" where
  "with_shared k = io_bind (get_priv shared) (\<lambda>h. io_bind (nonnull h) k)"

definition xo1_wait :: "int \<Rightarrow> unit \<Rightarrow> (unit + unit) xo1m" where
  "xo1_wait l_sock_client = (\<lambda>_. with_shared (\<lambda>h. io_bind (mem_get h count_pl) (\<lambda>c.
     if c < 2 then io_seq (dprintf l_sock_client (''Cekame na pripojeni 2 hrace'' @ [LF]))
       (io_seq (sys_usleep 5000000) (io_ret (Inl ())))
     else io_ret (Inr ()))))"

text \<open>
  The rows have no terminating null character: \<open>%s\<close> prints a row and all rows after it, up to the
  zero bytes between the array and the semaphores.
\<close>

definition row_text :: "char list list \<Rightarrow> nat \<Rightarrow> string" where
  "row_text f i = cstr (concat (drop i f))"

definition print_rows :: "int \<Rightarrow> unit xo1m" where
  "print_rows l_sock_client = io_block (map (\<lambda>i. with_shared (\<lambda>h. io_bind (mem_get h field) (\<lambda>f.
     io_seq (dprintf l_sock_client (row_text f i @ [LF])) (sys_usleep 100000)))) [0..<5])"

definition xo1_move :: "int \<Rightarrow> int \<Rightarrow> char list \<Rightarrow> (char list + char list) xo1m" where
  "xo1_move l_sock_client index l_buf =
     io_bind (split_move l_buf) (\<lambda>(column, row).
     io_bind (nonnull column) (\<lambda>column.
     let l_buf = strtok_cut l_buf ''-''; column_index = col_of 5 (hd column) in
     case row of
       Some row \<Rightarrow>
         if column_index \<noteq> -1 then
           io_bind (atoi_io row) (\<lambda>row_index.
           io_seq (with_shared (\<lambda>h. cell_put h column_index row_index (CHR ''X'')))
          (io_seq (print_rows l_sock_client)
          (io_seq (give_turn (if index = 0 then index + 1 else index - 1)) (io_ret (Inl l_buf)))))
         else
           io_seq (dprintf l_sock_client (''Zadal jste data ve spatnem formatu'' @ [LF]))
          (io_seq (give_turn index) (io_ret (Inl l_buf)))
     | None \<Rightarrow>
         io_seq (dprintf l_sock_client (''Zadal jste data ve spatnem formatu'' @ [LF]))
        (io_seq (give_turn index) (io_ret (Inl l_buf)))))"

definition xo1_turn :: "int \<Rightarrow> int \<Rightarrow> char list \<Rightarrow> (char list + char list) xo1m" where
  "xo1_turn l_sock_client index l_buf =
     io_seq (wait_turn index)
    (io_seq (dprintf l_sock_client (''Zadejte tah ve formatu O-3 | X-0'' @ [LF]))
    (io_bind (sys_read l_sock_client 256) (\<lambda>(l_len, d).
     if l_len > 0 then xo1_move l_sock_client index (buf_fill l_buf d)
     else io_seq (emit (CClose l_sock_client)) (io_ret (Inr l_buf)))))"

definition xo1_child_process :: "int \<Rightarrow> char list \<Rightarrow> unit xo1m" where
  "xo1_child_process l_sock_client l_buf =
     io_bind (with_shared join_game) (\<lambda>index.
     io_seq (emit (CPrint (''Pripojili jsme noveho klienta: '' @ show_int l_sock_client @ [LF])))
    (io_seq (io_while (xo1_wait l_sock_client) ())
    (io_seq (dprintf l_sock_client (''Zaciname hru.'' @ [LF]))
    (io_seq (io_while (xo1_turn l_sock_client index) l_buf)
    (emit (CClose l_sock_client))))))"

text \<open>The end of standard input is not noticed; the debug message has a conversion but no argument.\<close>

definition xo1_console :: "int \<Rightarrow> char list \<Rightarrow> unit xo1m" where
  "xo1_console l_sock_listen buf =
     io_bind (sys_read STDIN_FILENO 128) (\<lambda>(len, d).
     if len < 0 then io_seq (log_msg LOG_DEBUG ''Unable to read from stdin!'' []) (io_exit 1)
     else
     io_seq (log_msg LOG_DEBUG ''Read %d bytes from stdin'' [])
    (io_when (strncmp_eq (buf_fill buf d) STR_QUIT (length STR_QUIT))
       (io_block [log_msg LOG_INFO ''Request to 'quit' entered.'' [],
                  emit (CClose l_sock_listen), io_exit 0])))"

definition xo1_serve :: "int \<Rightarrow> char list \<Rightarrow> string \<times> int \<Rightarrow> int \<Rightarrow> (string \<times> int) xo1m" where
  "xo1_serve l_sock_listen l_buf l_srv_addr l_sock_client =
     io_bind (sys_int CFork) (\<lambda>p.
     io_seq (io_when (p = 0) (io_seq (xo1_child_process l_sock_client l_buf) (io_exit 0)))
    (io_seq (emit (CClose l_sock_client))
    (announce l_sock_client l_srv_addr)))"

definition xo1_static :: "unit xo1m" where
  "xo1_static = io_bind shmget_private (\<lambda>shmid. io_bind (shmat shmid) (\<lambda>h.
     upd_priv (\<lambda>p. p\<lparr>shared := h\<rparr>)))"

definition xo1_main :: "string list \<Rightarrow> char list \<Rightarrow> char list \<Rightarrow> unit xo1m" where
  "xo1_main t_args buf l_buf =
     io_seq xo1_static
    (io_seq (io_when (length t_args \<le> 1) (show_help t_args))
    (io_seq (with_shared (\<lambda>h. mem_upd h (\<lambda>g. g\<lparr>field := blank 5\<rparr>)))
    (io_seq init_players
    (io_bind (server_port t_args) (\<lambda>l_port.
     io_bind (open_listener l_port 1) (\<lambda>l.
     io_seq (log_msg LOG_INFO ''Enter 'quit' to quit server.'' [])
    (io_while (accept_round l (xo1_console l buf) (xo1_serve l l_buf)) (any_addr l_port))))))))"

end
