(* ===== verification/GameProps.thy ===== *)
theory GameProps
  imports Piskvorky
begin

text \<open>
  The tic-tac-toe servers: their loops go round again only with new events, and what one turn of
  \<open>cv_skuska/piskvorky2\<close> does to the board and to the semaphores of the players.
\<close>

section \<open>Loops\<close>

lemma sane_xo2_parts [ext_intros]: "sane (glb f)" "sane (show_board scl)" "sane (parse_input scl)" "sane (mark i)"
proof -
  show g: "sane (glb f)" for f :: "game \<Rightarrow> 'z" unfolding glb_def by (intro ext_intros)
  have "sane (io_block (map (dprintf scl) xs) :: (unit, xo2, game) io)" for xs
    by (induction xs) (auto intro: ext_intros)
  then show "sane (show_board scl)" unfolding show_board_def by (intro ext_intros g)
  show "sane (parse_input scl)" "sane (mark i)"
    unfolding parse_input_def mark_def atoi_io_def by (intro ext_intros)+
qed

interpretation xo2_moves: event_loop "read_move scl"
proof
  show "sane (read_move scl s)" for s
    unfolding read_move_def by (intro ext_intros)
  show "uses (read_move scl s)" for s
    unfolding read_move_def by (rule uses_bind_first [OF uses_sys(2)]) (intro ext_intros)
qed

interpretation xo2_turns: event_loop "turn scl index"
proof
  show "sane (turn scl index s)" for s
    unfolding turn_def by (intro ext_intros xo2_moves.while_sane)
  show "uses (turn scl index s)" for s
    unfolding turn_def by (rule uses_seq_first [OF uses_wait_turn]) (intro ext_intros xo2_moves.while_sane)
qed

section \<open>One turn of piskvorky2\<close>

lemma seq_val: "m w = (Val a, u) \<Longrightarrow> io_seq m k w = k u"
  by (simp add: io_seq_def io_bind_def)

lemma seq_emit: "io_seq (emit c) k w = k (w\<lparr>w_calls := w_calls w @ [c]\<rparr>)"
  by (simp add: io_seq_def io_bind_def emit_def)

lemma show_board_calls: "only_calls (show_board scl)"
proof -
  have "only_calls (io_bind (glb field) (\<lambda>f. io_block (map (dprintf scl) (board_lines f))))"
    unfolding only_calls_def
  proof
    fix w
    have "only_calls (io_block (map (dprintf scl) xs) :: (unit, xo2, game) io)" for xs
      by (rule only_calls_block) (auto intro: only_calls_emit)
    then show "\<exists>cs. io_bind (glb field) (\<lambda>f. io_block (map (dprintf scl) (board_lines f))) w = (Val (), w\<lparr>w_calls := w_calls w @ cs\<rparr>)"
      by (simp add: only_calls_def glb_def io_bind_def get_priv_def mem_get_def get_kern_def)
  qed
  then show ?thesis unfolding show_board_def by (intro only_calls_seq only_calls_emit)
qed

text \<open>The input \<open>A-3\<close> with a newline: column and row are found whatever followed in the buffer.\<close>

lemma split_move_line:
  assumes "c \<noteq> CHR ''-''" and "c \<noteq> NUL" and "NUL \<in> set rest"
  shows "split_move (c # CHR ''-'' # show_nat r @ LF # rest) w = (Val (Some [c], Some (show_nat r @ LF # cstr rest)), w)"
proof -
  have no: "NUL \<notin> set (show_nat r)"
    using show_nat_digits [of NUL r] by (auto simp: is_digit_def)
  have "takeWhile (\<lambda>c. c \<noteq> NUL) (show_nat r @ LF # rest) = show_nat r @ takeWhile (\<lambda>c. c \<noteq> NUL) (LF # rest)"
    by (rule takeWhile_append2) (use no in auto)
  then have s: "cstr (c # CHR ''-'' # show_nat r @ LF # rest) = [c] @ CHR ''-'' # show_nat r @ LF # cstr rest"
    using assms(2) by (simp add: cstr_def)
  have "strtok ([c] @ CHR ''-'' # show_nat r @ LF # cstr rest) ''-'' = (Some [c], show_nat r @ LF # cstr rest)"
    using assms(1) by (intro strtok_split) auto
  with assms(3) show ?thesis
    by (simp add: split_move_def buf_str_def io_simps s strtok_no_delims)
qed

lemma atoi_line: "atoi (show_nat r @ LF # t) = int r"
proof -
  obtain d ds where s: "show_nat r = d # ds"
    using show_nat_nonempty [of r] by (cases "show_nat r") auto
  then have "is_digit d" using show_nat_digits [of d r] by simp
  note dd = digit_not_special [OF this]
  have "digits_val 0 (show_nat r @ LF # t) = digits_val (digits_val 0 (show_nat r)) (LF # t)"
    by (intro digits_val_append_digit show_nat_digits)
  also have "\<dots> = int r" by (simp add: digits_val_show_nat is_digit_def)
  finally show ?thesis using s dd by (simp add: atoi_def)
qed

text \<open>One line of input that names a column: the globals after it.\<close>

lemma read_move_line:
  assumes "w_oracle w = (None, Data (c # CHR ''-'' # show_nat r @ [LF])) # os"
    and "length (show_nat r) \<le> 125" and "NUL \<in> set (drop (3 + length (show_nat r)) (move_buf (w_priv w)))"
    and "col_of BOARD_SIZE c \<noteq> -1"
  shows "if int r < 2 ^ 31 then \<exists>b w'. io_while (read_move scl) () w = (Val (), w') \<and> w_kern w' = w_kern w \<and> w_oracle w' = os \<and>
      w_priv w' = (w_priv w)\<lparr>move_buf := b, row_index := int r, col_index := col_of BOARD_SIZE c\<rparr>
    else fst (io_while (read_move scl) () w) = UB"
proof -
  let ?d = "c # CHR ''-'' # show_nat r @ [LF]"
  let ?rest = "drop (3 + length (show_nat r)) (move_buf (w_priv w))"
  define b where "b = c # CHR ''-'' # show_nat r @ LF # ?rest"
  have c: "c \<noteq> CHR ''-''" "c \<noteq> NUL" using assms(4) by (auto simp: col_of_def)
  have t: "take 128 ?d = ?d" using assms(2) by simp
  have f: "buf_fill (move_buf (w_priv w)) ?d = b" by (simp add: buf_fill_def b_def numeral_3_eq_3)
  have sp: "split_move b u = (Val (Some [c], Some (show_nat r @ LF # cstr ?rest)), u)" for u :: "(xo2, game) world"
    unfolding b_def by (rule split_move_line [OF c assms(3)])
  let ?u = "w\<lparr>w_oracle := os, w_calls := w_calls w @ [CRead scl 128], w_priv := (w_priv w)\<lparr>move_buf := b\<rparr>\<rparr>"
  have run: "read_move scl () w = io_bind (parse_input scl) (\<lambda>r. io_ret (if r = 1 then Inr () else Inl ())) ?u"
    using assms(1) by (simp add: read_move_def io_simps t f del: take_Cons_numeral)
  have p: "parse_input scl ?u = (if int_range (int r) then (Val 1, ?u\<lparr>w_priv := (w_priv w)\<lparr>move_buf := strtok_cut b ''-'',
      row_index := int r, col_index := col_of BOARD_SIZE c\<rparr>\<rparr>) else (UB, ?u\<lparr>w_priv := (w_priv w)\<lparr>move_buf := strtok_cut b ''-''\<rparr>\<rparr>))"
    using assms(4) by (simp add: parse_input_def io_simps sp atoi_line)
  show ?thesis
  proof (cases "int r < 2 ^ 31")
    case True
    then have "int_range (int r)" by (simp add: int_range_def)
    then have "read_move scl () w = (Val (Inr ()), ?u\<lparr>w_priv := (w_priv w)\<lparr>move_buf := strtok_cut b ''-'',
        row_index := int r, col_index := col_of BOARD_SIZE c\<rparr>\<rparr>)"
      unfolding run by (simp add: io_bind_def p io_ret_def)
    with True show ?thesis by (subst xo2_moves.while_unfold) (auto simp: io_bind_def io_ret_def)
  next
    case False
    then have "\<not> int_range (int r)" by (simp add: int_range_def)
    then have "fst (read_move scl () w) = UB" unfolding run by (simp add: io_bind_def p)
    with False show ?thesis
      by (subst xo2_moves.while_unfold) (auto simp: io_bind_def split: prod.split)
  qed
qed

text \<open>
  C26. A turn in piskvorky2: when it is the player's turn and a line like \<open>A-3\<close> arrives, exactly the
  cell of that row and column takes the player's mark, the turn passes to the other player, and
  nothing else shared changes. The row is not checked: a number of 8 or more is an access outside
  the board.
\<close>

theorem xo2_turn_marks:
  fixes w :: "(xo2, game) world" and e :: "game kernel option"
  defines "k \<equiv> (case e of None \<Rightarrow> w_kern w | Some k \<Rightarrow> k)" and "h \<equiv> g_glb_data (w_priv w)"
  assumes "w_oracle w = (e, Ret 0) # (None, Data (c # CHR ''-'' # show_nat r @ [LF])) # os"
    and "index = 0 \<or> index = 1" and "0 < k_sem k (nat index)"
    and "length (show_nat r) \<le> 125" and "NUL \<in> set (drop (3 + length (show_nat r)) (move_buf (w_priv w)))"
    and "col_of BOARD_SIZE c \<noteq> -1" and "length (field (k_shm k h)) = 8" and "\<forall>row \<in> set (field (k_shm k h)). length row = 8"
  shows "if r < 8 then \<exists>w'. turn scl index () w = (Val (Inl ()), w') \<and> w_oracle w' = os \<and>
      w_kern w' = k\<lparr>k_sem := (k_sem k)(nat index := k_sem k (nat index) - 1, nat (1 - index) := Suc (k_sem k (nat (1 - index)))),
        k_shm := (k_shm k)(h := (k_shm k h)\<lparr>field := cell_set (int r) (col_of BOARD_SIZE c)
          (if index = 0 then CHR ''X'' else CHR ''O'') (field (k_shm k h))\<rparr>)\<rparr>
    else fst (turn scl index () w) = UB"
proof -
  let ?k = "k\<lparr>k_sem := (k_sem k)(nat index := k_sem k (nat index) - 1)\<rparr>"
  let ?u = "w\<lparr>w_oracle := (None, Data (c # CHR ''-'' # show_nat r @ [LF])) # os, w_calls := w_calls w @ [CSemWait (nat index)], w_kern := ?k\<rparr>"
  have wt: "wait_turn index w = (Val (), ?u)"
    using assms(3-5) by (auto simp: io_simps k_def)
  obtain v where v: "show_board scl ?u = (Val (), v)" "v = ?u\<lparr>w_calls := w_calls v\<rparr>"
    using show_board_calls [of scl, unfolded only_calls_def, rule_format, of ?u] by auto
  let ?v = "v\<lparr>w_calls := w_calls v @ [CWrite scl (''Zadaj tah'' @ [LF])]\<rparr>"
  have vf: "w_oracle ?v = (None, Data (c # CHR ''-'' # show_nat r @ [LF])) # os" "w_priv ?v = w_priv w" "w_kern ?v = ?k"
    by (simp_all add: arg_cong [OF v(2), of w_oracle] arg_cong [OF v(2), of w_priv] arg_cong [OF v(2), of w_kern])
  have run: "turn scl index () w = io_seq (io_while (read_move scl) ()) (io_seq (mark index) (io_seq (give_turn (1 - index)) (io_ret (Inl ())))) ?v"
    unfolding turn_def by (simp only: seq_val [where m = "wait_turn index", OF wt]
      seq_val [where m = "show_board scl", OF v(1)] seq_emit)
  note rm = read_move_line [OF vf(1) assms(6), of scl, unfolded vf(2,3), OF assms(7,8)]
  show ?thesis
  proof (cases "int r < 2 ^ 31")
    case False
    with rm have "fst (io_while (read_move scl) () ?v) = UB" by simp
    with False show ?thesis unfolding run by (auto simp: io_seq_def io_bind_def split: prod.split)
  next
    case True
    with rm obtain b u' where u': "io_while (read_move scl) () ?v = (Val (), u')" "w_kern u' = ?k" "w_oracle u' = os"
        "w_priv u' = (w_priv w)\<lparr>move_buf := b, row_index := int r, col_index := col_of BOARD_SIZE c\<rparr>" by auto
    have col: "0 \<le> col_of BOARD_SIZE c" "nat (col_of BOARD_SIZE c) < 8" using col_of_range [of BOARD_SIZE c] assms(8) by auto
    have inside: "cell_in (field (k_shm k h)) (int r) (col_of BOARD_SIZE c) \<longleftrightarrow> r < 8"
      using assms(9,10) col by (auto simp: cell_in_def)
    show ?thesis
      using inside assms(4) unfolding run seq_val [where m = "io_while (read_move scl) ()", OF u'(1)]
      by (auto simp: mark_def io_simps u' h_def [symmetric])
  qed
qed

definition game_world :: "game entry list \<Rightarrow> (xo2, game) world" where
  "game_world os = \<lparr>w_oracle = os, w_calls = [], w_errno = 0, w_debug = 0, w_priv = xo2_init,
     w_kern = \<lparr>k_sem = (\<lambda>i. if i = 0 then 1 else 0), k_sem_dir = (\<lambda>_. None), k_sem_next = 2,
       k_shm = (\<lambda>_. \<lparr>count_pl = 2, field = blank 8\<rparr>), k_shm_dir = (\<lambda>_. None),
       k_shm_next = 1, k_mq = (\<lambda>_. []), k_mq_dir = (\<lambda>_. None), k_mq_next = 0\<rparr>\<rparr>"

theorem xo2_turn_marks_witness:
  "\<exists>w'. turn 5 0 () (game_world [(None, Ret 0), (None, Data (''B-'' @ show_nat 3 @ [LF]))]) = (Val (Inl ()), w') \<and>
    field (k_shm (w_kern w') 0) ! 3 ! 1 = CHR ''X'' \<and> k_sem (w_kern w') 0 = 0 \<and> k_sem (w_kern w') 1 = 1"
proof -
  have n: "show_nat 3 = ''3''" by code_simp
  have len: "NUL \<in> set (drop (3 + length (show_nat 3)) (replicate 128 NUL))"
    unfolding n by (simp add: drop_replicate del: replicate.simps)
  let ?w = "game_world [(None, Ret 0), (None, Data (CHR ''B'' # CHR ''-'' # show_nat 3 @ [LF]))]"
  have "cell_in (blank 8) 3 1" by (simp add: cell_in_def blank_def)
  from cell_set_get [OF this, of "CHR ''X''"] have x: "cell_set 3 1 (CHR ''X'') (blank 8) ! 3 ! 1 = CHR ''X''" by simp
  have "col_of BOARD_SIZE (CHR ''B'') = 1" by (simp add: col_of_def)
  with x xo2_turn_marks [of ?w None "CHR ''B''" 3 "[]" 0 5] len show ?thesis
    by (auto simp: game_world_def xo2_init_def n blank_def simp del: replicate.simps)
qed

end
