(* ===== verification/HttpServers.thy ===== *)
theory HttpServers
  imports ForkServer
begin

text \<open>
  The three servers that run the command named in the URL of a request such as
  \<open>GET /ls*-la HTTP/1.1\<close>: \<open>cv_skuska/http\<close>, \<open>cv_skuska/03_http\<close> and
  \<open>cv_skuska/Fork - execvp command from URL/HttpServerExecvp.cpp\<close>.

  \<open>printf\<close> of a null pointer with \<open>%s\<close> prints \<open>(null)\<close>, as glibc does; \<open>sprintf\<close> of a null
  pointer into a buffer is left undefined.
\<close>

section \<open>Common parts\<close>

definition pstr :: "string option \<Rightarrow> string" where
  "pstr p = (case p of None \<Rightarrow> ''(null)'' | Some s \<Rightarrow> s)"

text \<open>\<open>strtok(p, ds)\<close> for a pointer that may be null, when \<open>saved\<close> is the saved position.\<close>

definition strtok_at :: "string option \<Rightarrow> string \<Rightarrow> string \<Rightarrow> string option \<times> string" where
  "strtok_at p saved ds = strtok (case p of None \<Rightarrow> saved | Some s \<Rightarrow> s) ds"

text \<open>\<open>sprintf(buf, "%s", p)\<close> into a buffer of \<open>n\<close> characters.\<close>

definition sprintf_str :: "nat \<Rightarrow> string option \<Rightarrow> (string, 'p, 'm) io" where
  "sprintf_str n p = io_bind (nonnull p) (\<lambda>s. if length s < n then io_ret s else io_ub)"

text \<open>
  \<open>exec\<close> returns only if it fails; else the run goes on as the new program, which ends with the
  exit code that the environment gives.
\<close>

definition sys_exec :: "string \<Rightarrow> string list \<Rightarrow> (int, 'p, 'm) io" where
  "sys_exec name argv = io_bind (pop (CExec name argv)) (\<lambda>r. case r of
      Fail e \<Rightarrow> io_seq (set_errno e) (io_ret (-1))
    | Ret code \<Rightarrow> io_exit code
    | _ \<Rightarrow> io_exit 0)"

definition wait_child :: "int \<Rightarrow> (unit, 'p, 'm) io" where
  "wait_child p = io_seq (sys_int (CWaitpid p)) (io_ret ())"

lemma sane_http_common [ext_intros]: "sane (sprintf_str n p)" "sane (sys_exec f a)" "sane (wait_child c)"
  unfolding sprintf_str_def sys_exec_def wait_child_def by (intro ext_intros)+

section \<open>cv_skuska/http\<close>

definition http_head :: string where
  "http_head = ''HTTP/1.1 200 OK'' @ [CR, LF] @ ''Content-Type: text/plain; charset=utf-8'' @ [CR, LF]
     @ ''Connection: close'' @ [CR, LF, CR, LF]"

text \<open>An earlier version of the handler, which \<open>main\<close> does not call.\<close>

definition client_handle2 :: "int \<Rightarrow> (unit, 'p, 'm) io" where
  "client_handle2 scl =
     io_bind (sys_read scl 4068) (\<lambda>(n, d).
     if n \<le> 0 then io_ret ()
     else
     io_bind (sys_int CFork) (\<lambda>p.
     if p = 0 then
       io_seq (dprintf scl http_head)
      (io_seq (emit (CDup2 scl STDOUT_FILENO))
      (io_seq (emit (CDup2 scl STDERR_FILENO))
      (io_bind (sys_exec ''ls'' [''ls'', ''-la'']) (\<lambda>_.
       io_seq (emit (CPrint ''execlp'')) (io_exit 1)))))
     else io_when (p > 0) (wait_child p)))"

text \<open>The two parts of the command; the request is in \<open>buf\<close>.\<close>

definition parse_command :: "string \<Rightarrow> (string \<times> string, 'p, 'm) io" where
  "parse_command buf =
     (let (firstLine, sv) = strtok buf [LF] in
     io_seq (emit (CPrint (''Riadok: '' @ pstr firstLine @ [LF])))
    (let (firstWord, sv) = strtok_at firstLine sv ''/'' in
     io_seq (emit (CPrint (''Prvy string: '' @ pstr firstWord @ [LF])))
    (let (secondString, sv) = strtok sv [];
         (secondString, sv) = strtok_at secondString sv '' '' in
     io_seq (emit (CPrint (''command: '' @ pstr secondString @ [LF])))
    (let (first, sv) = strtok_at secondString sv ''*'' in
     io_bind (sprintf_str 128 first) (\<lambda>firstcmd.
     io_bind (sprintf_str 128 (fst (strtok sv []))) (\<lambda>secondcmd.
     io_seq (emit (CPrint (''CMD:'' @ firstcmd @ '' '' @ secondcmd @ [LF])))
    (io_ret (firstcmd, secondcmd))))))))"

definition http_client_handle :: "int \<Rightarrow> (unit, 'p, 'm) io" where
  "http_client_handle scl =
     io_bind (sys_read scl 4069) (\<lambda>(n, d).
     if n < 0 \<or> n \<ge> 4069 then io_ub
     else
     io_bind (parse_command (cstr d)) (\<lambda>(firstcmd, secondcmd).
     io_bind (sys_int CFork) (\<lambda>p.
     if p = 0 then
       io_seq (emit (CDup2 scl STDOUT_FILENO))
      (io_bind (sys_exec firstcmd [firstcmd, secondcmd]) (\<lambda>_.
       io_seq (emit (CPrint ''execlp'')) (io_exit 1)))
     else io_when (p > 0) (wait_child p))))"

definition http_serve :: "int \<Rightarrow> string \<times> int \<Rightarrow> int \<Rightarrow> (string \<times> int, 'p, 'm) io" where
  "http_serve l_sock_listen l_srv_addr l_sock_client =
     io_bind (announce l_sock_client l_srv_addr) (\<lambda>a.
     io_bind (sys_int CFork) (\<lambda>p.
     io_seq (io_when (p = 0) (io_block [emit (CClose l_sock_listen), http_client_handle l_sock_client,
         emit (CClose l_sock_client), io_exit 0]))
    (io_seq (emit (CClose l_sock_client)) (io_ret a))))"

definition http_main :: "string list \<Rightarrow> char list \<Rightarrow> (unit, 'p, 'm) io" where
  "http_main t_args buf =
     io_bind (server_args t_args) (\<lambda>l_port.
     io_bind (open_listener l_port 1) (\<lambda>l.
     io_seq (log_msg LOG_INFO ''Enter 'quit' to quit server.'' [])
    (io_while (accept_round l (wait_stdin l buf) (http_serve l)) (any_addr l_port))))"

section \<open>cv_skuska/03\_http\<close>

record h03 =
  req_buf :: "char list"
  first_arg :: string
  second_arg :: string

definition h03_init :: h03 where
  "h03_init = \<lparr>req_buf = replicate 4096 NUL, first_arg = [], second_arg = []\<rparr>"

text \<open>The buffer is cut at each \<open>strtok\<close>; what the calls leave in it is not used again.\<close>

definition parse_string :: "(unit, h03, 'm) io" where
  "parse_string =
     io_bind (get_priv req_buf) (\<lambda>b. io_bind (buf_str b) (\<lambda>s.
     let (line, sv) = strtok s [LF]; (get, sv) = strtok_at line sv ''/'';
         (cmd, sv) = strtok sv '' ''; (a, sv) = strtok_at cmd sv ''*'' in
     io_bind (sprintf_str 128 a) (\<lambda>a.
     io_seq (upd_priv (\<lambda>p. p\<lparr>first_arg := a\<rparr>))
    (io_bind (sprintf_str 128 (fst (strtok sv []))) (\<lambda>b.
     upd_priv (\<lambda>p. p\<lparr>second_arg := b\<rparr>))))))"

definition run_exec :: "int \<Rightarrow> (unit, h03, 'm) io" where
  "run_exec scl =
     io_bind (sys_int CFork) (\<lambda>p.
     if p = 0 then
       io_seq (emit (CDup2 scl STDOUT_FILENO))
      (io_bind (get_priv (\<lambda>p. (first_arg p, second_arg p))) (\<lambda>(a, b).
       io_bind (sys_exec a [a, b]) (\<lambda>_. io_exit 0)))
     else io_when (p > 0) (wait_child p))"

text \<open>A failed \<open>read\<close> is reported, and what the buffer holds is parsed.\<close>

definition h03_client_handle :: "int \<Rightarrow> (unit, h03, 'm) io" where
  "h03_client_handle scl =
     io_bind (sys_read scl 4096) (\<lambda>(n, d).
     io_seq (upd_priv (\<lambda>p. p\<lparr>req_buf := buf_fill (req_buf p) d\<rparr>))
    (io_seq (io_when (n < 0) (emit (CPrint ''read'')))
    (io_seq parse_string
    (io_bind (get_priv (\<lambda>p. (first_arg p, second_arg p))) (\<lambda>(a, b).
     io_seq (emit (CPrint (''CMD: '' @ a @ '' '' @ b)))
    (run_exec scl))))))"

text \<open>The child of a client does not end: it goes on with the loop of the parent.\<close>

definition h03_serve :: "int \<Rightarrow> string \<times> int \<Rightarrow> int \<Rightarrow> (string \<times> int, h03, 'm) io" where
  "h03_serve l_sock_listen l_srv_addr l_sock_client =
     io_bind (announce l_sock_client l_srv_addr) (\<lambda>a.
     io_bind (sys_int CFork) (\<lambda>p.
     io_seq (if p = 0 then io_block [emit (CClose l_sock_listen), h03_client_handle l_sock_client,
         emit (CClose l_sock_client)]
       else if p > 0 then emit (CClose l_sock_client)
       else emit (CPrint ''fork''))
    (io_ret a)))"

text \<open>\<open>sem_open\<close> is called without an initial value; \<open>v0\<close> stands for what it finds.\<close>

definition h03_main :: "string list \<Rightarrow> char list \<Rightarrow> nat \<Rightarrow> (unit, h03, 'm) io" where
  "h03_main t_args buf v0 =
     io_bind (sem_open ''/mysem'' v0) (\<lambda>_.
     io_bind (server_args t_args) (\<lambda>l_port.
     io_bind (open_listener l_port 1) (\<lambda>l.
     io_seq (log_msg LOG_INFO ''Enter 'quit' to quit server.'' [])
    (io_while (accept_round l (wait_stdin l buf) (h03_serve l)) (any_addr l_port)))))"

section \<open>HttpServerExecvp.cpp\<close>

lemma strtok_shrinks:
  assumes "strtok s ds = (Some t, sv)"
  shows "length sv < length s"
proof -
  let ?u = "dropWhile (\<lambda>c. c \<in> set ds) s"
  have u: "?u \<noteq> []" and sv: "sv = drop 1 (dropWhile (\<lambda>c. c \<notin> set ds) ?u)"
    using assms by (auto simp: strtok_def Let_def split: if_splits)
  have "length (dropWhile (\<lambda>c. c \<notin> set ds) ?u) \<le> length ?u" "length ?u \<le> length s"
    by (rule length_dropWhile_le)+
  moreover have "0 < length ?u" using u by (metis length_greater_0_conv)
  ultimately show ?thesis unfolding sv length_drop by linarith
qed

text \<open>All tokens of a string.\<close>

function tokens :: "string \<Rightarrow> string \<Rightarrow> string list" where
  "tokens s ds = (case strtok s ds of (None, _) \<Rightarrow> [] | (Some t, sv) \<Rightarrow> t # tokens sv ds)"
  by auto

termination
  by (relation "measure (\<lambda>(s, ds). length s)") (auto dest: strtok_shrinks [OF sym])

declare tokens.simps [simp del]

text \<open>
  The request: whether \<open>HTTP\<close> and \<open>GET\<close> were found, and the command. \<open>strtok\<close> cuts \<open>tmp\<close> after
  the first word. \<open>array\<close> has room for 50 words.
\<close>

definition parse_url :: "string \<Rightarrow> (int \<times> int \<times> string option \<times> string list, 'p, 'm) io" where
  "parse_url s =
     (let findHTTP = str_find s ''HTTP''; findGET = str_find s ''GET'';
          (firstLine, sv) = strtok s [LF]; (firstWord, sv) = strtok_at firstLine sv ''/'';
          (afterFirstWord, sv) = strtok sv []; (tmp, sv) = strtok_at afterFirstWord sv '' '';
          words = (case tmp of None \<Rightarrow> [] | Some t \<Rightarrow> tokens t ''*'') in
      io_seq (emit (CPrint (''tmp1: '' @ pstr tmp @ [LF])))
     (if length words > 50 then io_ub
      else io_ret (findHTTP, findGET, map_option (\<lambda>t. cstr (strtok_cut t ''*'')) tmp, words)))"

definition run_command :: "int \<Rightarrow> nat \<Rightarrow> string option \<Rightarrow> string list \<Rightarrow> string \<Rightarrow> (unit, 'p, 'm) io" where
  "run_command sock sem tmp array footer =
     io_seq (sem_wait sem)
    (io_bind (sys_int CFork) (\<lambda>child.
     io_seq (if child = 0 then
         io_bind (sys_int (CDup2 sock STDOUT_FILENO)) (\<lambda>r.
         if r = -1 then io_seq (log_msg LOG_ERROR ''didnt workout'' []) (io_exit 1)
         else
         io_bind (nonnull tmp) (\<lambda>tmp.
         if length array \<ge> 50 then io_ub
         else io_bind (sys_exec tmp array) (\<lambda>r.
           io_when (r = 1) (io_seq (log_msg LOG_ERROR ''exec didnt wourkout'' []) (io_exit 1)))))
       else io_seq (wait_child child) (emit (CWrite sock footer)))
    (sem_post sem)))"

text \<open>
  Without a request the two results of \<open>find\<close> and \<open>tmp\<close> are not initialised: \<open>u1\<close> and \<open>u2\<close>
  stand for what the first two hold.
\<close>

definition clientFunc :: "int \<Rightarrow> nat \<Rightarrow> string \<Rightarrow> string \<Rightarrow> int \<Rightarrow> int \<Rightarrow> (unit, 'p, 'm) io" where
  "clientFunc sock sem header footer u1 u2 =
     io_bind (sys_read sock 2056) (\<lambda>(l_read, d).
     io_bind (if l_read \<le> 0 then
         io_seq (log_msg LOG_INFO ''client disconnected'' [])
        (io_seq (emit (CClose sock)) (io_ret (u1, u2, None)))
       else io_bind (buf_str (buf_fill (replicate 2056 NUL) d)) (\<lambda>s.
         io_bind (parse_url s) (\<lambda>(h, g, t, ws). io_ret (h, g, Some (t, ws))))) (\<lambda>(findHTTP, findGET, cmd).
     if findHTTP = -1 \<or> findGET = -1 then
       io_seq (log_msg LOG_INFO ''bad request, no GET or HTTP found, exiting'' [])
      (io_seq (emit (CClose sock)) (io_exit 1))
     else
     io_bind (nonnull cmd) (\<lambda>(tmp, array).
     io_seq (emit (CPrint (''tmp: '' @ pstr tmp @ [LF])))
    (io_seq (io_block (map (\<lambda>i. emit (CPrint (''arr: '' @
         pstr (if i < length array then Some (array ! i) else None) @ [LF]))) [0..<10]))
    (io_seq (emit (CWrite sock header))
    (run_command sock sem tmp array footer))))))"

definition page_head :: string where
  "page_head = ''HTTP/1.1 200 OK'' @ [LF] @ ''Server: OSY/1.1.1 (Ubuntu)'' @ [LF] @ ''Accept-Ranges: bytes'' @ [LF]
     @ ''Vary: Accept-Encoding'' @ [LF] @ ''Content-Type: text/html'' @ [LF, LF] @ ''<!DOCTYPE html>'' @ [LF]
     @ ''<html>'' @ [LF] @ ''<head>'' @ [LF]
     @ ''<meta http-equiv='' @ [CHR 0x22] @ ''Content-type'' @ [CHR 0x22] @ '' content='' @ [CHR 0x22]
     @ ''text/html; charset=utf-8'' @ [CHR 0x22] @ '' /></head>'' @ [LF] @ ''<body><h2>CMD:</h2><pre>'' @ [LF]"

definition page_footer :: string where
  "page_footer = ''</pre>---</body></html>'' @ [LF]"

text \<open>A failed \<open>accept\<close> is reported, and a child is started for it all the same.\<close>

definition execvp_round :: "int \<Rightarrow> nat \<Rightarrow> int \<Rightarrow> int \<Rightarrow> unit \<Rightarrow> (unit + unit, 'p, 'm) io" where
  "execvp_round l_sock_listen sem u1 u2 = (\<lambda>_.
     io_bind (sys_int (CAccept l_sock_listen)) (\<lambda>newSocket.
     io_seq (io_when (newSocket < 0)
         (io_seq (log_msg LOG_INFO ''client disconnected'' []) (emit (CClose newSocket))))
    (io_bind (sys_int CFork) (\<lambda>p.
     io_seq (if p = 0 then io_block [emit (CClose l_sock_listen),
           clientFunc newSocket sem page_head page_footer u1 u2, emit (CClose newSocket), io_exit 0]
         else emit (CClose newSocket))
       (io_ret (Inl ()))))))"

definition execvp_main :: "string list \<Rightarrow> nat \<Rightarrow> int \<Rightarrow> int \<Rightarrow> (unit, 'p, 'm) io" where
  "execvp_main t_args v0 u1 u2 =
     io_bind (server_args t_args) (\<lambda>l_port.
     io_bind (open_listener l_port 1) (\<lambda>l.
     io_seq (log_msg LOG_INFO ''Enter 'quit' to quit server.'' [])
    (io_bind (sem_open ''/semaphore1'' v0) (\<lambda>sem.
     io_bind (nonnull sem) (\<lambda>sem.
     io_seq (sem_init sem 1)
    (io_while (execvp_round l sem u1 u2) ()))))))"

end
