(* ===== verification/AnimalServer.thy ===== *)
theory AnimalServer
  imports HttpServers
begin

text \<open>
  The compile server \<open>cv_skuska/animal_done/socket_srv.cpp\<close>: a request \<open>COMPILE CAT\<close> compiles
  \<open>animal.cpp\<close> with \<open>-DCAT\<close> and sends the program back slowly. The compiler and the sending are one
  critical section of all children, guarded by a named semaphore.
\<close>

section \<open>Reading a request\<close>

text \<open>
  The result of \<open>read\<close> is not looked at: at the end of the input the last character is taken
  again, before the first one whatever \<open>c\<close> holds.
\<close>

definition read_char :: "int \<Rightarrow> nat \<Rightarrow> string \<times> char \<Rightarrow> (string \<times> char + string, 'p, 'm) io" where
  "read_char lsc t_max = (\<lambda>(t_line, c).
     if length t_line < t_max - 1 then
       io_bind (sys_read lsc 1) (\<lambda>(n, d).
       let c = (case d of [] \<Rightarrow> c | x # _ \<Rightarrow> x) in
       io_ret (if c = LF then Inr t_line else Inl (t_line @ [c], c)))
     else io_ret (Inr t_line))"

text \<open>The characters before the newline; the result of the function is their number.\<close>

definition read_line_socket :: "int \<Rightarrow> nat \<Rightarrow> char \<Rightarrow> (string, 'p, 'm) io" where
  "read_line_socket lsc t_max c = io_while (read_char lsc t_max) ([], c)"

definition is_animal_ok :: "string \<Rightarrow> bool" where
  "is_animal_ok a = (a = ''CAT'' \<or> a = ''DOG'' \<or> a = ''LION'' \<or> a = ''SNAKE'')"

text \<open>\<open>sscanf(s, "%63s %63s", a, b)\<close> on two empty strings.\<close>

definition scan_word :: "string \<Rightarrow> string \<times> string" where
  "scan_word s = (let t = dropWhile is_space s; w = take 63 (takeWhile (\<lambda>c. \<not> is_space c) t)
     in (w, drop (length w) t))"

definition scan_two :: "string \<Rightarrow> string \<times> string" where
  "scan_two s = (let (a, r) = scan_word s in (a, if a = [] then [] else fst (scan_word r)))"

section \<open>Compiling and sending\<close>

text \<open>\<open>WEXITSTATUS\<close>; of a compiler killed by a signal it is 0.\<close>

definition WEXITSTATUS :: "int \<Rightarrow> int" where
  "WEXITSTATUS status = (status div 256) mod 256"

text \<open>The child becomes the compiler; \<open>st0\<close> is what \<open>status\<close> holds if \<open>waitpid\<close> fails.\<close>

definition compile_child :: "string \<Rightarrow> (unit, 'p, 'm) io" where
  "compile_child t_animal =
     io_bind (sys_int (COpen ''compile.log'')) (\<lambda>fd.
     io_seq (emit (CDup2 fd 1))
    (io_seq (emit (CDup2 fd 2))
    (io_seq (emit (CClose fd))
    (io_bind (sys_exec ''g++'' [''g++'', snprintf_str 64 (''-D'' @ t_animal), ''animal.cpp'', ''-o'', ''animal'']) (\<lambda>_.
     io_exit 1)))))"

definition compile_animal :: "string \<Rightarrow> int \<Rightarrow> (int, 'p, 'm) io" where
  "compile_animal t_animal st0 =
     io_bind (sys_int CFork) (\<lambda>pid.
     io_seq (io_when (pid = 0) (compile_child t_animal))
    (io_bind (pop (CWaitpid pid)) (\<lambda>r.
     io_ret (WEXITSTATUS (case r of Ret st \<Rightarrow> st | _ \<Rightarrow> st0)))))"

definition SEND_BUF :: nat where "SEND_BUF = 4096"

definition chunk_count :: "int \<Rightarrow> int" where
  "chunk_count sz = max 1 ((sz + int SEND_BUF - 1) div int SEND_BUF)"

definition send_chunk :: "int \<Rightarrow> int \<Rightarrow> int \<Rightarrow> unit \<Rightarrow> (unit + unit, 'p, 'm) io" where
  "send_chunk fd lsc tout = (\<lambda>_.
     io_bind (sys_read fd SEND_BUF) (\<lambda>(r, d).
     if r > 0 then io_seq (emit (CWrite lsc d)) (io_seq (sys_usleep tout) (io_ret (Inl ())))
     else io_ret (Inr ())))"

text \<open>\<open>sz0\<close> is what \<open>st.st_size\<close> holds if \<open>fstat\<close> fails. The result is 0 whatever happens.\<close>

definition send_file_slow :: "int \<Rightarrow> string \<Rightarrow> int \<Rightarrow> int \<Rightarrow> (int, 'p, 'm) io" where
  "send_file_slow lsc t_fname t_total_time_us sz0 =
     io_bind (sys_int (COpen t_fname)) (\<lambda>fd.
     io_bind (pop (CStat t_fname)) (\<lambda>r.
     let st_size = (case r of Ret n \<Rightarrow> n | _ \<Rightarrow> sz0); tout = t_total_time_us div chunk_count st_size in
     io_seq (io_while (send_chunk fd lsc tout) ())
    (io_seq (emit (CClose fd)) (io_ret 0))))"

section \<open>A client\<close>

record stack =
  s_c :: char
  s_status :: int
  s_size :: int

definition animal_job :: "int \<Rightarrow> nat \<Rightarrow> string \<Rightarrow> stack \<Rightarrow> (unit, 'p, 'm) io" where
  "animal_job lsc t_sem l_animal st =
     io_seq (log_msg LOG_INFO ''Sem DOWN, compiling '%s'...'' [AStr l_animal])
    (io_bind (compile_animal l_animal (s_status st)) (\<lambda>l_comp.
     if l_comp \<noteq> 0 then
       io_block [log_msg LOG_INFO ''Compilation failed.'' [],
         emit (CWrite lsc (''COMPILATION_FAILED'' @ [LF])), sem_post t_sem, emit (CClose lsc)]
     else
     io_seq (log_msg LOG_INFO ''Compilation OK, sending file 'animal'...'' [])
    (io_bind (send_file_slow lsc ''animal'' 5000000 (s_size st)) (\<lambda>r.
     if r \<noteq> 0 then io_block [log_msg LOG_INFO ''Sending failed.'' [], sem_post t_sem, emit (CClose lsc)]
     else io_block [sem_post t_sem, log_msg LOG_INFO ''Sem UP, done.'' [], emit (CClose lsc)]))))"

definition animal_client :: "int \<Rightarrow> nat \<Rightarrow> stack \<Rightarrow> (unit, 'p, 'm) io" where
  "animal_client lsc t_sem st =
     io_bind (read_line_socket lsc 1024 (s_c st)) (\<lambda>l_line.
     if length l_line \<le> 0 then
       io_seq (log_msg LOG_DEBUG ''Client closed or read error.'' []) (emit (CClose lsc))
     else
     let l_line = cstr l_line in
     io_seq (log_msg LOG_INFO (''Request: '%s'' @ [CHR 0x27]) [AStr l_line])
    (let (l_cmd, l_animal) = scan_two l_line in
     if l_cmd \<noteq> ''COMPILE'' \<or> \<not> is_animal_ok l_animal then
       io_seq (emit (CWrite lsc (''ERR'' @ [LF]))) (emit (CClose lsc))
     else
     io_bind (sem_wait t_sem) (\<lambda>r.
     if r < 0 then io_seq (log_msg LOG_ERROR ''sem_wait failed'' []) (emit (CClose lsc))
     else animal_job lsc t_sem l_animal st)))"

section \<open>The server\<close>

definition animal_round :: "int \<Rightarrow> nat \<Rightarrow> stack \<Rightarrow> string \<times> int \<Rightarrow> (string \<times> int + unit, 'p, 'm) io" where
  "animal_round l_sock_listen l_sem st l_srv_addr =
     io_bind (accept_client l_sock_listen) (\<lambda>l_sock_client.
     io_bind (announce l_sock_client l_srv_addr) (\<lambda>a.
     io_bind (sys_int CFork) (\<lambda>l_pid.
     io_seq (if l_pid > 0 then emit (CClose l_sock_client)
       else if l_pid = 0 then io_block [emit CSignal, emit (CClose l_sock_listen),
         animal_client l_sock_client l_sem st, io_exit 0]
       else io_seq (log_msg LOG_ERROR ''fork failed'' []) (emit (CClose l_sock_client)))
    (io_ret (Inl a)))))"

definition animal_main :: "string list \<Rightarrow> stack \<Rightarrow> (unit, 'p, 'm) io" where
  "animal_main t_args st =
     io_bind (server_args t_args) (\<lambda>l_port.
     io_seq (emit CSignal)
    (io_bind (sem_open ''/osy_compile_sem'' 1) (\<lambda>l_sem.
     case l_sem of
       None \<Rightarrow> io_seq (log_msg LOG_ERROR ''sem_open failed'' []) (io_exit 1)
     | Some l_sem \<Rightarrow>
         io_bind (open_listener l_port 1) (\<lambda>l.
         io_while (animal_round l l_sem st) (any_addr l_port)))))"

section \<open>Facts\<close>

lemma read_char_spends:
  assumes "read_char lsc t_max (t, c) w = (Val (Inl s'), w')"
  shows "length (w_oracle w') < length (w_oracle w)"
proof -
  have "uses (io_bind (sys_read lsc 1) (\<lambda>(n, d). let c = (case d of [] \<Rightarrow> c | x # _ \<Rightarrow> x) in
      io_ret (if c = LF then Inr t else Inl (t @ [c], c))))"
    by (rule uses_bind_first [OF uses_sys(2)]) (intro ext_intros)
  from usesD [OF this] assms show ?thesis
    unfolding read_char_def by (simp only: prod.case) (simp add: io_ret_def del: One_nat_def split: if_splits)
qed

interpretation line_loop: bounded_loop "read_char lsc t_max"
proof
  show "sane (read_char lsc t_max s)" for s
    unfolding read_char_def by (intro ext_intros)
  show "length (w_oracle w') < length (w_oracle w)" if "read_char lsc t_max s w = (Val (Inl s'), w')" for s w s' w'
    using that by (cases s) (auto intro: read_char_spends)
qed

interpretation send_loop: event_loop "send_chunk fd lsc tout"
proof
  show "sane (send_chunk fd lsc tout s)" for s
    unfolding send_chunk_def by (intro ext_intros)
  show "uses (send_chunk fd lsc tout s)" for s
    unfolding send_chunk_def by (rule uses_bind_first [OF uses_sys(2)]) (intro ext_intros)
qed

lemma sane_animal [ext_intros]:
  "sane (read_line_socket l m c)" "sane (compile_child a)" "sane (compile_animal a s)" "sane (send_file_slow l f t z)"
  unfolding read_line_socket_def compile_child_def compile_animal_def send_file_slow_def
  by (intro ext_intros line_loop.while_sane send_loop.while_sane)+

lemma sane_animal_client [ext_intros]: "sane (animal_job l s a st)" "sane (animal_client l s st)"
  unfolding animal_client_def animal_job_def by (intro ext_intros)+

end
