(* ===== verification/JobProps.thy ===== *)
theory JobProps
  imports AnimalServer
begin

text \<open>
  The servers that run a program for a request: which command the HTTP servers find in a request,
  and what the compile server sends.
\<close>

section \<open>Requests\<close>

lemma takeWhile_cut: "d \<notin> set s \<Longrightarrow> takeWhile (\<lambda>c. c \<noteq> d) (s @ d # t) = s"
  by (rule takeWhile_stop) auto

lemma strtok_cut_at: "s \<noteq> [] \<Longrightarrow> d \<notin> set s \<Longrightarrow> strtok (s @ d # t) [d] = (Some s, t)"
  by (rule strtok_split) auto

text \<open>The first line of a request for the path \<open>p\<close>, cut at its first line feed, slash and blank.\<close>

definition request :: "string \<Rightarrow> string \<Rightarrow> string" where
  "request p rest = ''GET /'' @ p @ '' HTTP/1.1'' @ [CR, LF] @ rest"

lemma cstr_append: "NUL \<notin> set s \<Longrightarrow> cstr (s @ t) = s @ cstr t"
  by (auto simp: cstr_def intro: takeWhile_append2)

lemma cstr_request: "NUL \<notin> set p \<Longrightarrow> cstr (request p rest) = request p (cstr rest)"
  using cstr_append [of "''GET /'' @ p @ '' HTTP/1.1'' @ [CR, LF]" rest] by (simp add: request_def)

lemma request_tokens:
  assumes "p \<noteq> []" and "set p \<inter> {NUL, LF, CHR '' ''} = {}"
  shows "strtok (request p rest) [LF] = (Some (''GET /'' @ p @ '' HTTP/1.1'' @ [CR]), rest)"
    and "strtok (''GET /'' @ p @ '' HTTP/1.1'' @ [CR]) ''/'' = (Some ''GET '', p @ '' HTTP/1.1'' @ [CR])"
    and "strtok (p @ '' HTTP/1.1'' @ [CR]) [] = (Some (p @ '' HTTP/1.1'' @ [CR]), [])"
    and "strtok (p @ '' HTTP/1.1'' @ [CR]) '' '' = (Some p, ''HTTP/1.1'' @ [CR])"
proof -
  show "strtok (request p rest) [LF] = (Some (''GET /'' @ p @ '' HTTP/1.1'' @ [CR]), rest)"
    using strtok_cut_at [of "''GET /'' @ p @ '' HTTP/1.1'' @ [CR]" LF rest] assms(2) by (simp add: request_def)
  show "strtok (''GET /'' @ p @ '' HTTP/1.1'' @ [CR]) ''/'' = (Some ''GET '', p @ '' HTTP/1.1'' @ [CR])"
    using strtok_cut_at [of "''GET ''" "CHR ''/''" "p @ '' HTTP/1.1'' @ [CR]"] by simp
  show "strtok (p @ '' HTTP/1.1'' @ [CR]) [] = (Some (p @ '' HTTP/1.1'' @ [CR]), [])"
    using assms(1) by (simp add: strtok_no_delims)
  show "strtok (p @ '' HTTP/1.1'' @ [CR]) '' '' = (Some p, ''HTTP/1.1'' @ [CR])"
    using strtok_cut_at [of p "CHR '' ''" "''HTTP/1.1'' @ [CR]"] assms by simp
qed

section \<open>cv\_skuska/http\<close>

lemma parse_command_run:
  assumes "cmd \<noteq> []" "arg \<noteq> []" and "set (cmd @ arg) \<inter> {NUL, LF, CHR '' ''} = {}" and "CHR ''*'' \<notin> set cmd"
  shows "\<exists>ps qs. parse_command (request (cmd @ ''*'' @ arg) rest) w = (if length cmd < 128 \<and> length arg < 128
    then (Val (cmd, arg), w\<lparr>w_calls := w_calls w @ ps\<rparr>) else (UB, w\<lparr>w_calls := w_calls w @ qs\<rparr>))"
proof -
  let ?p = "cmd @ CHR ''*'' # arg"
  have p: "?p \<noteq> []" "set ?p \<inter> {NUL, LF, CHR '' ''} = {}" using assms(1,3) by auto
  have star: "strtok ?p ''*'' = (Some cmd, arg)" by (rule strtok_cut_at [OF assms(1,4)])
  have last: "strtok arg [] = (Some arg, [])" using assms(2) by (simp add: strtok_no_delims)
  show ?thesis
    unfolding parse_command_def append.simps
    by (simp add: request_tokens [OF p, simplified] star last strtok_at_def Let_def pstr_def sprintf_str_def io_simps) auto
qed

text \<open>
  C27. The command of a request: for \<open>GET /cmd*arg HTTP/1.1\<close> the child of \<open>client_handle\<close> sends its
  standard output to the client and becomes the program \<open>cmd\<close> with the argument \<open>arg\<close>, whatever
  follows the first line; a part of 128 characters or more is written past the end of its array.
\<close>

theorem http_request_command:
  assumes "w_oracle w = (e1, Data (request (cmd @ ''*'' @ arg) rest)) # (e2, Ret 0) # (e3, Ret code) # os"
    and "cmd \<noteq> []" and "arg \<noteq> []" and "set (cmd @ arg) \<inter> {NUL, LF, CHR '' ''} = {}" and "CHR ''*'' \<notin> set cmd"
    and "length (request (cmd @ ''*'' @ arg) rest) < 4069"
  shows "if length cmd < 128 \<and> length arg < 128 then \<exists>ps w'. http_client_handle scl w = (Exit code, w') \<and> w_oracle w' = os \<and>
      w_calls w' = w_calls w @ CRead scl 4069 # ps @ [CFork, CDup2 scl STDOUT_FILENO, CExec cmd [cmd, arg]]
    else fst (http_client_handle scl w) = UB"
proof -
  let ?r = "request (cmd @ ''*'' @ arg) rest"
  let ?u = "w\<lparr>w_oracle := (e2, Ret 0) # (e3, Ret code) # os, w_calls := w_calls w @ [CRead scl 4069],
      w_kern := (case e1 of None \<Rightarrow> w_kern w | Some k \<Rightarrow> k)\<rparr>"
  have rd: "sys_read scl 4069 w = (Val (int (length ?r), ?r), ?u)"
    using assms(1,6) by (simp add: io_simps)
  have c: "cstr ?r = request (cmd @ ''*'' @ arg) (cstr rest)"
    using assms(4) by (intro cstr_request) auto
  obtain ps qs where p: "parse_command (cstr ?r) ?u = (if length cmd < 128 \<and> length arg < 128
      then (Val (cmd, arg), ?u\<lparr>w_calls := w_calls ?u @ ps\<rparr>) else (UB, ?u\<lparr>w_calls := w_calls ?u @ qs\<rparr>))"
    using parse_command_run [OF assms(2-5)] unfolding c by blast
  have run: "http_client_handle scl w = io_bind (parse_command (cstr ?r)) (\<lambda>(firstcmd, secondcmd).
     io_bind (sys_int CFork) (\<lambda>p.
     if p = 0 then
       io_seq (emit (CDup2 scl STDOUT_FILENO))
      (io_bind (sys_exec firstcmd [firstcmd, secondcmd]) (\<lambda>_.
       io_seq (emit (CPrint ''execlp'')) (io_exit 1)))
     else io_when (p > 0) (wait_child p))) ?u"
    using assms(6) unfolding http_client_handle_def
    by (simp add: io_bind_simps(1) [where m = "sys_read scl 4069", OF rd])
  show ?thesis
  proof (cases "length cmd < 128 \<and> length arg < 128")
    case True
    with p show ?thesis
      unfolding run by (simp add: io_bind_def [of "parse_command x" for x]) (simp add: io_simps sys_exec_def)
  next
    case False
    with p show ?thesis unfolding run by (simp add: io_bind_def [of "parse_command x" for x])
  qed
qed

definition job_world :: "'m entry list \<Rightarrow> 'm \<Rightarrow> (unit, 'm) world" where
  "job_world os z = \<lparr>w_oracle = os, w_calls = [], w_errno = 0, w_debug = 1, w_priv = (),
     w_kern = \<lparr>k_sem = (\<lambda>_. 1), k_sem_dir = (\<lambda>_. None), k_sem_next = 1, k_shm = (\<lambda>_. z), k_shm_dir = (\<lambda>_. None),
       k_shm_next = 0, k_mq = (\<lambda>_. []), k_mq_dir = (\<lambda>_. None), k_mq_next = 0\<rparr>\<rparr>"

theorem http_request_command_witness:
  "\<exists>w'. http_client_handle 4 (job_world [(None, Data (request ''ls*-la'' [])), (None, Ret 0), (None, Ret 0)] ()) = (Exit 0, w')
    \<and> last (w_calls w') = CExec ''ls'' [''ls'', ''-la'']"
  using http_request_command [of "job_world [(None, Data (request ''ls*-la'' [])), (None, Ret 0), (None, Ret 0)] ()"
      None "''ls''" "''-la''" "[]" None None 0 "[]" 4]
  by (auto simp: job_world_def request_def)

section \<open>HttpServerExecvp.cpp\<close>

text \<open>The words of a command as the URL has them.\<close>

fun url_of :: "string list \<Rightarrow> string" where
  "url_of [] = []"
| "url_of [x] = x"
| "url_of (x # y # xs) = x @ ''*'' @ url_of (y # xs)"

lemma tokens_url: "\<forall>x \<in> set ws. x \<noteq> [] \<and> CHR ''*'' \<notin> set x \<Longrightarrow> tokens (url_of ws) ''*'' = ws"
proof (induction ws rule: url_of.induct)
  case 1
  then show ?case by (simp add: tokens.simps strtok_def)
next
  case (2 x)
  then have "strtok x ''*'' = (Some x, [])" by (intro strtok_whole) auto
  then show ?case by (simp add: tokens.simps [of x] tokens.simps [of "[]"] strtok_def [of "[]"])
next
  case (3 x y xs)
  then have "strtok (x @ CHR ''*'' # url_of (y # xs)) ''*'' = (Some x, url_of (y # xs))"
    by (intro strtok_cut_at) auto
  with 3 show ?case by (subst tokens.simps) simp
qed

lemma url_of_set: "ws \<noteq> [] \<Longrightarrow> set (url_of ws) \<subseteq> insert (CHR ''*'') (\<Union>(set ` set ws))"
  by (induction ws rule: url_of.induct) auto

lemma first_word:
  assumes "ws \<noteq> []" and "\<forall>x \<in> set ws. x \<noteq> [] \<and> set x \<inter> {NUL, CHR ''*''} = {}"
  shows "cstr (strtok_cut (url_of ws) ''*'') = hd ws"
proof (cases ws rule: url_of.cases)
  case (2 x)
  with assms(2) have x: "x \<noteq> []" "NUL \<notin> set x" "CHR ''*'' \<notin> set x" by auto
  then have "takeWhile (\<lambda>c. c = CHR ''*'') x = []" "takeWhile (\<lambda>c. c \<noteq> CHR ''*'') x = x"
    by (cases x, auto intro: takeWhile_id)
  with x 2 show ?thesis by (simp add: strtok_cut_def cstr_id Let_def del: takeWhile_eq_all_conv)
next
  case (3 x y xs)
  with assms(2) have x: "x \<noteq> []" "NUL \<notin> set x" "CHR ''*'' \<notin> set x" by auto
  let ?u = "x @ CHR ''*'' # url_of (y # xs)"
  have "NUL \<notin> set (url_of (y # xs))"
    using url_of_set [of "y # xs"] assms(2) 3 by auto
  then have c: "cstr ?u = ?u" using x by (simp add: cstr_id)
  have "takeWhile (\<lambda>c. c = CHR ''*'') ?u = []" "takeWhile (\<lambda>c. c \<noteq> CHR ''*'') ?u = x"
    using x by (cases x, auto intro!: takeWhile_stop)
  then have "strtok_cut ?u ''*'' = x @ NUL # url_of (y # xs)"
    by (simp add: strtok_cut_def c Let_def)
  with x 3 show ?thesis by (simp add: cstr_append_nul)
qed (use assms in simp)

lemma parse_url_run:
  assumes "ws \<noteq> []" and "\<forall>x \<in> set ws. x \<noteq> [] \<and> set x \<inter> {NUL, LF, CHR '' '', CHR ''*''} = {}"
  shows "\<exists>h g c. h \<noteq> -1 \<and> g \<noteq> -1 \<and> parse_url (request (url_of ws) rest) w =
    (if length ws \<le> 50 then (Val (h, g, Some (hd ws), ws), w\<lparr>w_calls := w_calls w @ [c]\<rparr>) else (UB, w\<lparr>w_calls := w_calls w @ [c]\<rparr>))"
proof -
  let ?p = "url_of ws"
  have "?p \<noteq> []" using assms by (cases ws rule: url_of.cases) auto
  moreover have "set ?p \<inter> {NUL, LF, CHR '' ''} = {}" using url_of_set [OF assms(1)] assms(2) by auto
  ultimately have p: "?p \<noteq> []" "set ?p \<inter> {NUL, LF, CHR '' ''} = {}" by blast+
  let ?s = "request ?p rest"
  have tk: "tokens ?p ''*'' = ws" using assms(2) by (intro tokens_url) auto
  have fw: "cstr (strtok_cut ?p ''*'') = hd ws" using assms(2) by (intro first_word [OF assms(1)]) auto
  have "str_find ?s ''HTTP'' \<noteq> -1" unfolding str_find_iff
    by (intro exI [of _ "''GET /'' @ ?p @ '' ''"] exI [of _ "''/1.1'' @ [CR, LF] @ rest"]) (simp add: request_def)
  moreover have "str_find ?s ''GET'' \<noteq> -1" unfolding str_find_iff
    by (intro exI [of _ "[]"] exI [of _ "'' /'' @ ?p @ '' HTTP/1.1'' @ [CR, LF] @ rest"]) (simp add: request_def)
  moreover have "parse_url ?s w = (if length ws \<le> 50
      then (Val (str_find ?s ''HTTP'', str_find ?s ''GET'', Some (hd ws), ws), w\<lparr>w_calls := w_calls w @ [CPrint (''tmp1: '' @ ?p @ [LF])]\<rparr>)
      else (UB, w\<lparr>w_calls := w_calls w @ [CPrint (''tmp1: '' @ ?p @ [LF])]\<rparr>))"
    unfolding parse_url_def
    by (simp add: request_tokens [OF p, simplified] strtok_at_def Let_def pstr_def io_simps tk fw)
  ultimately show ?thesis by blast
qed

lemma run_command_child:
  assumes "w_oracle w = (e2, Ret 0) # (e3, Ret 0) # (e4, Ret 1) # (e5, Ret code) # os"
    and "0 < k_sem (case e2 of None \<Rightarrow> w_kern w | Some k \<Rightarrow> k) sem"
  shows "if length ws < 50 then \<exists>w'. run_command sock sem (Some t) ws footer w = (Exit code, w') \<and> w_oracle w' = os \<and>
      w_calls w' = w_calls w @ [CSemWait sem, CFork, CDup2 sock STDOUT_FILENO, CExec t ws]
    else fst (run_command sock sem (Some t) ws footer w) = UB"
  using assms by (simp add: run_command_def io_simps sys_exec_def nonnull_def)

lemma calls_then:
  assumes "only_calls m"
  obtains cs where "io_seq m k w = k (w\<lparr>w_calls := w_calls w @ cs\<rparr>)"
proof -
  obtain cs where "m w = (Val (), w\<lparr>w_calls := w_calls w @ cs\<rparr>)" using assms by (auto simp: only_calls_def)
  then show thesis by (intro that) (simp add: io_seq_def io_bind_def)
qed

text \<open>
  C28. The words of a URL: the child that \<open>clientFunc\<close> starts for \<open>GET /w1*w2*...*wn HTTP/1.1\<close> runs
  \<open>w1\<close> with the argument vector \<open>w1 ... wn\<close>, with the header sent before and its output going to the
  client, for fewer than 50 words; 50 words or more are written past the end of the array.
\<close>

theorem url_words_executed:
  assumes "w_oracle w = (e1, Data (request (url_of ws) rest)) # (e2, Ret 0) # (e3, Ret 0) # (e4, Ret 1) # (e5, Ret code) # os"
    and "0 < k_sem (case e2 of None \<Rightarrow> (case e1 of None \<Rightarrow> w_kern w | Some k \<Rightarrow> k) | Some k \<Rightarrow> k) sem"
    and "ws \<noteq> []" and "\<forall>x \<in> set ws. x \<noteq> [] \<and> set x \<inter> {NUL, LF, CHR '' '', CHR ''*''} = {}"
    and "length (request (url_of ws) rest) < 2056"
  shows "if length ws < 50 then \<exists>ps w'. clientFunc sock sem header footer u1 u2 w = (Exit code, w') \<and> w_oracle w' = os \<and>
      w_calls w' = w_calls w @ CRead sock 2056 # ps @
        [CWrite sock header, CSemWait sem, CFork, CDup2 sock STDOUT_FILENO, CExec (hd ws) ws]
    else fst (clientFunc sock sem header footer u1 u2 w) = UB"
proof -
  let ?r = "request (url_of ws) rest"
  define u where "u = w\<lparr>w_oracle := (e2, Ret 0) # (e3, Ret 0) # (e4, Ret 1) # (e5, Ret code) # os, w_calls := w_calls w @ [CRead sock 2056],
      w_kern := (case e1 of None \<Rightarrow> w_kern w | Some k \<Rightarrow> k)\<rparr>"
  have rd: "sys_read sock 2056 w = (Val (int (length ?r), ?r), u)"
    using assms(1,5) by (simp add: io_simps u_def)
  have pos: "\<not> int (length ?r) \<le> 0" by (simp add: request_def)
  have no: "NUL \<notin> set (url_of ws)" using url_of_set [OF assms(3)] assms(4) by auto
  define rest' where "rest' = cstr (rest @ drop (length ?r) (replicate 2056 NUL))"
  have "NUL \<in> set (drop (length ?r) (replicate 2056 NUL))" using assms(5) by (simp add: drop_replicate del: replicate.simps)
  then have "NUL \<in> set (buf_fill (replicate 2056 NUL) ?r)" by (simp add: buf_fill_def)
  moreover have "cstr (buf_fill (replicate 2056 NUL) ?r) = request (url_of ws) rest'"
    using cstr_request [OF no, of "rest @ drop (length ?r) (replicate 2056 NUL)"]
    by (simp add: buf_fill_def rest'_def request_def del: replicate.simps drop_replicate)
  ultimately have bs: "buf_str (buf_fill (replicate 2056 NUL) ?r) = io_ret (request (url_of ws) rest')"
    by (simp add: buf_str_def del: replicate.simps)
  obtain h g c where p: "h \<noteq> -1" "g \<noteq> -1" "parse_url (request (url_of ws) rest') u =
    (if length ws \<le> 50 then (Val (h, g, Some (hd ws), ws), u\<lparr>w_calls := w_calls u @ [c]\<rparr>) else (UB, u\<lparr>w_calls := w_calls u @ [c]\<rparr>))"
    using parse_url_run [OF assms(3,4), of rest' u] by (elim exE conjE) (rule that)
  note bind_read = io_bind_simps(1) [where m = "sys_read sock 2056", OF rd]
  show ?thesis
  proof (cases "length ws \<le> 50")
    case False
    with p have e: "parse_url (request (url_of ws) rest') u = (UB, u\<lparr>w_calls := w_calls u @ [c]\<rparr>)" by simp
    have "fst (clientFunc sock sem header footer u1 u2 w) = UB"
      using pos unfolding clientFunc_def bind_read
      by (simp add: bs io_basic_simps(1) io_bind_assoc io_bind_simps(5) [where m = "parse_url x" for x, OF e] del: replicate.simps)
    with False show ?thesis by simp
  next
    case True
    let ?arr = "io_block (map (\<lambda>i. emit (CPrint (''arr: '' @
         pstr (if i < length ws then Some (ws ! i) else None) @ [LF]))) [0..<10])"
    let ?m = "io_seq (emit (CPrint (''tmp: '' @ pstr (Some (hd ws)) @ [LF]))) ?arr"
    define v where "v = u\<lparr>w_calls := w_calls u @ [c]\<rparr>"
    from True p have e: "parse_url (request (url_of ws) rest') u = (Val (h, g, Some (hd ws), ws), v)" by (simp add: v_def)
    have run: "clientFunc sock sem header footer u1 u2 w =
        io_seq ?m (io_seq (emit (CWrite sock header)) (run_command sock sem (Some (hd ws)) ws footer)) v"
      using pos p(1,2) unfolding clientFunc_def bind_read
      by (simp add: bs io_basic_simps(1) io_bind_assoc io_bind_simps(1) [where m = "parse_url x" for x, OF e] nonnull_def io_seq_def
        del: replicate.simps upt_rec_numeral io_block.simps)
    have "only_calls ?m"
      by (intro only_calls_seq only_calls_block only_calls_emit) (auto intro: only_calls_emit)
    then obtain cs where "io_seq ?m (io_seq (emit (CWrite sock header)) (run_command sock sem (Some (hd ws)) ws footer)) v =
        io_seq (emit (CWrite sock header)) (run_command sock sem (Some (hd ws)) ws footer) (v\<lparr>w_calls := w_calls v @ cs\<rparr>)"
      by (rule calls_then)
    then have r2: "clientFunc sock sem header footer u1 u2 w = run_command sock sem (Some (hd ws)) ws footer
        (v\<lparr>w_calls := w_calls v @ cs @ [CWrite sock header]\<rparr>)"
      unfolding run by (simp add: io_seq_def io_bind_def emit_def)
    let ?x = "v\<lparr>w_calls := w_calls v @ cs @ [CWrite sock header]\<rparr>"
    have "w_oracle ?x = (e2, Ret 0) # (e3, Ret 0) # (e4, Ret 1) # (e5, Ret code) # os"
      "0 < k_sem (case e2 of None \<Rightarrow> w_kern ?x | Some k \<Rightarrow> k) sem"
      using assms(2) by (cases e2; simp add: v_def u_def)+
    from run_command_child [OF this, of ws sock "hd ws" footer] show ?thesis
      unfolding r2 by (auto simp: v_def u_def split: if_splits)
  qed
qed

theorem url_words_executed_witness:
  "\<exists>w'. clientFunc 4 0 page_head page_footer 0 0 (job_world [(None, Data (request ''ls*-l*-a'' [])), (None, Ret 0), (None, Ret 0),
      (None, Ret 1), (None, Ret 0)] ()) = (Exit 0, w') \<and> last (w_calls w') = CExec ''ls'' [''ls'', ''-l'', ''-a'']"
  using url_words_executed [of "job_world [(None, Data (request ''ls*-l*-a'' [])), (None, Ret 0), (None, Ret 0),
      (None, Ret 1), (None, Ret 0)] ()" None "[''ls'', ''-l'', ''-a'']" "[]" None None None None 0 "[]" 0 4 page_head page_footer 0 0]
  by (auto simp: job_world_def request_def)

section \<open>The compile server\<close>

text \<open>A file in the pieces that \<open>read\<close> with the buffer of the server gives of a regular file.\<close>

function chop :: "string \<Rightarrow> string list" where
  "chop d = (if d = [] then [] else take SEND_BUF d # chop (drop SEND_BUF d))"
  by auto

termination
  by (relation "measure length") (auto simp: SEND_BUF_def)

declare chop.simps [simp del]

lemma concat_chop: "concat (chop d) = d"
  by (induction d rule: chop.induct) (simp add: chop.simps [of "_ :: string"])

lemma length_chop: "int (length (chop d)) = (int (length d) + int SEND_BUF - 1) div int SEND_BUF"
proof (induction d rule: chop.induct)
  case (1 d)
  show ?case
  proof (cases "d = []")
    case True
    then show ?thesis by (simp add: chop.simps SEND_BUF_def)
  next
    case False
    then have l: "int (length (chop d)) = 1 + (int (length d - SEND_BUF) + int SEND_BUF - 1) div int SEND_BUF"
      using 1 by (simp add: chop.simps [of d])
    show ?thesis
    proof (cases "length d \<le> SEND_BUF")
      case True
      with False l show ?thesis by (cases d) (simp_all add: SEND_BUF_def div_pos_pos_trivial)
    next
      case False
      then have e: "int (length d) + int SEND_BUF - 1 = int (length d - SEND_BUF) + int SEND_BUF - 1 + 1 * int SEND_BUF" by simp
      have "int SEND_BUF \<noteq> 0" by (simp add: SEND_BUF_def)
      then show ?thesis unfolding l e by (rule div_mult_self1 [symmetric])
    qed
  qed
qed

definition file_script :: "('m kernel option \<times> 'm kernel option) list \<Rightarrow> string list \<Rightarrow> 'm entry list" where
  "file_script es cs = concat (map2 (\<lambda>(e, e') c. [(e, Data c), (e', Ret 0)]) es cs)"

lemma send_chunks:
  assumes "w_oracle w = file_script es cs @ (e, Data []) # os" and "length es = length cs"
    and "\<forall>c \<in> set cs. c \<noteq> [] \<and> length c \<le> SEND_BUF"
  shows "\<exists>w'. io_while (send_chunk fd lsc tout) () w = (Val (), w') \<and> w_oracle w' = os \<and>
    w_calls w' = w_calls w @ concat (map (\<lambda>c. [CRead fd SEND_BUF, CWrite lsc c, CUsleep tout]) cs) @ [CRead fd SEND_BUF]"
  using assms
proof (induction cs arbitrary: es w)
  case Nil
  then show ?case by (subst send_loop.while_unfold) (auto simp: file_script_def send_chunk_def io_simps)
next
  case (Cons c cs)
  then obtain a b es' where es: "es = (a, b) # es'" by (cases es) auto
  have c: "take SEND_BUF c = c" "c \<noteq> []" using Cons.prems(3) by auto
  have o: "w_oracle w = (a, Data c) # (b, Ret 0) # file_script es' cs @ (e, Data []) # os"
    using Cons.prems(1) by (simp add: file_script_def es)
  define v where "v = snd (send_chunk fd lsc tout () w)"
  have st: "send_chunk fd lsc tout () w = (Val (Inl ()), v)" "w_oracle v = file_script es' cs @ (e, Data []) # os"
      "w_calls v = w_calls w @ [CRead fd SEND_BUF, CWrite lsc c, CUsleep tout]"
    using o c by (simp_all add: v_def send_chunk_def io_simps sys_usleep_def)
  from Cons.IH [OF st(2)] Cons.prems(2,3) es obtain w' where
    "io_while (send_chunk fd lsc tout) () v = (Val (), w')" "w_oracle w' = os"
    "w_calls w' = w_calls v @ concat (map (\<lambda>c. [CRead fd SEND_BUF, CWrite lsc c, CUsleep tout]) cs) @ [CRead fd SEND_BUF]" by auto
  then show ?case using st by (subst send_loop.while_unfold) (simp add: io_bind_def)
qed

lemma chop_pieces: "c \<in> set (chop d) \<Longrightarrow> c \<noteq> [] \<and> length c \<le> SEND_BUF"
proof (induction d rule: chop.induct)
  case (1 d)
  then show ?case by (cases "d = []") (auto simp: chop.simps [of d] chop.simps [of "[]"] SEND_BUF_def)
qed

text \<open>
  C29. Slow sending: a file that can be opened and read is sent whole and in order, with one pause
  after each piece, and the pauses together take at most the time given (five seconds).
\<close>

theorem slow_sending:
  assumes "w_oracle w = (e1, Ret fd) # (e2, Ret (int (length d))) # file_script es (chop d) @ (e3, Data []) # os"
    and "length es = length (chop d)" and "0 \<le> t_total"
  shows "\<exists>w' t. send_file_slow lsc f t_total sz0 w = (Val 0, w') \<and> w_oracle w' = os \<and>
    w_calls w' = w_calls w @ [COpen f, CStat f] @
      concat (map (\<lambda>c. [CRead fd SEND_BUF, CWrite lsc c, CUsleep t]) (chop d)) @ [CRead fd SEND_BUF, CClose fd] \<and>
    concat (chop d) = d \<and> 0 \<le> t \<and> int (length (chop d)) * t \<le> t_total"
proof -
  define t where "t = t_total div chunk_count (int (length d))"
  define u where "u = snd (pop (CStat f) (snd (sys_int (COpen f) w)))"
  have u: "w_oracle u = file_script es (chop d) @ (e3, Data []) # os" "w_calls u = w_calls w @ [COpen f, CStat f]"
    using assms(1) by (simp_all add: u_def io_simps)
  have run: "send_file_slow lsc f t_total sz0 w =
      io_seq (io_while (send_chunk fd lsc t) ()) (io_seq (emit (CClose fd)) (io_ret 0)) u"
    using assms(1) by (simp add: send_file_slow_def io_bind_def [of "sys_int x" for x] io_bind_def [of "pop x" for x] t_def u_def)
      (simp add: io_simps)
  have "\<forall>c \<in> set (chop d). c \<noteq> [] \<and> length c \<le> SEND_BUF" using chop_pieces by blast
  from send_chunks [OF u(1) assms(2) this, of fd lsc t] obtain w' where w':
    "io_while (send_chunk fd lsc t) () u = (Val (), w')" "w_oracle w' = os"
    "w_calls w' = w_calls u @ concat (map (\<lambda>c. [CRead fd SEND_BUF, CWrite lsc c, CUsleep t]) (chop d)) @ [CRead fd SEND_BUF]" by auto
  have k: "0 < chunk_count (int (length d))" "int (length (chop d)) \<le> chunk_count (int (length d))"
    by (simp_all add: chunk_count_def length_chop)
  have t0: "0 \<le> t" using assms(3) k(1) by (simp add: t_def pos_imp_zdiv_nonneg_iff)
  have "int (length (chop d)) * t \<le> chunk_count (int (length d)) * t"
    using k(2) t0 by (rule mult_right_mono)
  also have "\<dots> \<le> t_total"
    using mult_div_mod_eq [of "chunk_count (int (length d))" t_total] pos_mod_sign [OF k(1), of t_total]
    unfolding t_def by linarith
  finally show ?thesis
    using t0 u(2) w' concat_chop [of d] unfolding run by (auto simp: io_seq_def io_bind_def emit_def io_ret_def)
qed

theorem slow_sending_witness:
  "\<exists>w'. send_file_slow 4 ''animal'' 5000000 0 (job_world [(None, Ret 7), (None, Ret 2), (None, Data ''ab''), (None, Ret 0), (None, Data [])] ())
    = (Val 0, w') \<and> CWrite 4 ''ab'' \<in> set (w_calls w')"
proof -
  let ?w = "job_world [(None, Ret 7), (None, Ret 2), (None, Data ''ab''), (None, Ret 0), (None, Data [])] ()"
  have c: "chop ''ab'' = [''ab'']" by (simp add: chop.simps [of "''ab''"] chop.simps [of "[]"] SEND_BUF_def)
  show ?thesis
    using slow_sending [of ?w None 7 None "''ab''" "[(None, None)]" None "[]" 5000000 4 "''animal''" 0]
    by (auto simp: c file_script_def job_world_def)
qed

end
