(* ===== verification/LineServers.thy ===== *)
theory LineServers
  imports AnimalServer
begin

text \<open>
  Exam servers that accept without \<open>poll\<close> and work on lines and numbers: \<open>cv_skuska/basic\<close> (prints the
  lines of the clients), \<open>cv_skuska/file_edit\<close> (stores a file), \<open>cv_skuska/05_riadky\<close> (numbers the lines
  of a text) and \<open>cv_skuska/02_simultan\<close> (three clients calculate in turn).
\<close>

section \<open>The accept loop\<close>

definition fork_round ::
  "int \<Rightarrow> (int \<Rightarrow> (unit, 'p, 'm) io) \<Rightarrow> (int \<Rightarrow> (unit, 'p, 'm) io) \<Rightarrow> string \<times> int \<Rightarrow> (string \<times> int + unit, 'p, 'm) io" where
  "fork_round l_sock_listen child parent l_srv_addr =
     io_bind (accept_client l_sock_listen) (\<lambda>l_sock_client.
     io_bind (announce l_sock_client l_srv_addr) (\<lambda>a.
     io_bind (sys_int CFork) (\<lambda>p.
     io_seq (if p = 0 then child l_sock_client else io_when (p > 0) (parent l_sock_client))
    (io_ret (Inl a)))))"

definition exam_main ::
  "string list \<Rightarrow> (int \<Rightarrow> int \<Rightarrow> (int, 'p, 'm) io) \<Rightarrow> (int, 'p, 'm) io" where
  "exam_main t_args run =
     io_bind (server_args t_args) (\<lambda>l_port.
     io_bind (open_listener l_port 1) (\<lambda>l.
     io_seq (log_msg LOG_INFO ''Enter 'quit' to quit server.'' []) (run l l_port)))"

definition forever :: "(string \<times> int \<Rightarrow> (string \<times> int + unit, 'p, 'm) io) \<Rightarrow> int \<Rightarrow> (int, 'p, 'm) io" where
  "forever round l_port = io_seq (io_while round (any_addr l_port)) (io_ret 0)"

section \<open>cv\_skuska/basic\<close>

text \<open>
  The characters of one \<open>read\<close>; \<open>line\<close> is the unfinished line. An array of 1024 characters holds it, and
  both a further character and the null character at a line feed need a place in it.
\<close>

fun print_chars :: "string \<Rightarrow> string \<Rightarrow> (string, 'p, 'm) io" where
  "print_chars [] line = io_ret line"
| "print_chars (c # cs) line =
     (if length line \<ge> 1024 then io_ub
      else if c = LF then
        io_seq (emit (CWrite STDOUT_FILENO (cstr line)))
       (io_seq (emit (CWrite STDOUT_FILENO [LF])) (print_chars cs []))
      else print_chars cs (line @ [c]))"

text \<open>A full buffer is overrun by \<open>buf[n] = 0\<close>; the end of the connection is not noticed.\<close>

definition basic_read :: "int \<Rightarrow> string \<Rightarrow> (string + unit, 'p, 'm) io" where
  "basic_read scl line =
     io_bind (sys_read scl 256) (\<lambda>(n, d).
     if n \<ge> 256 then io_ub
     else io_bind (print_chars d line) (\<lambda>line. io_ret (Inl line)))"

definition basic_client_handle :: "int \<Rightarrow> (unit, 'p, 'm) io" where
  "basic_client_handle scl = io_while (basic_read scl) []"

definition basic_child :: "int \<Rightarrow> int \<Rightarrow> (unit, 'p, 'm) io" where
  "basic_child l scl = io_block [emit (CClose l), basic_client_handle scl, emit (CClose scl), io_exit 0]"

definition basic_main :: "string list \<Rightarrow> (int, 'p, 'm) io" where
  "basic_main t_args = exam_main t_args (\<lambda>l. forever (fork_round l (basic_child l) (\<lambda>c. emit (CClose c))))"

section \<open>cv\_skuska/file\_edit\<close>

text \<open>
  The global \<open>out_name\<close>. A count of -1 is refused by \<open>write\<close>; the calls are made all the same.
\<close>

definition read_mame :: "int \<Rightarrow> (unit, char list, 'm) io" where
  "read_mame scl =
     io_bind (sys_read scl 256) (\<lambda>(n, d).
     io_block [upd_priv (\<lambda>b. buf_fill b d), emit (CWrite STDOUT_FILENO ''Out name is: ''),
       emit (CWrite STDOUT_FILENO d), emit (CWrite STDOUT_FILENO [LF])])"

definition save_data_to_file :: "int \<Rightarrow> (unit, char list, 'm) io" where
  "save_data_to_file scl =
     io_bind (get_priv id) (\<lambda>b.
     io_bind (buf_str b) (\<lambda>out_name.
     io_bind (sys_int (COpen out_name)) (\<lambda>f.
     io_bind (sys_read scl 4092) (\<lambda>(n, d).
     io_seq (emit (CWrite f d)) (emit (CClose f))))))"

definition edit_child :: "int \<Rightarrow> int \<Rightarrow> (unit, char list, 'm) io" where
  "edit_child l scl = io_block [emit (CClose l), read_mame scl, save_data_to_file scl, emit (CClose scl), io_exit 0]"

definition edit_main :: "string list \<Rightarrow> (int, char list, 'm) io" where
  "edit_main t_args = exam_main t_args (\<lambda>l. forever (fork_round l (edit_child l) (\<lambda>c. emit (CClose c))))"

section \<open>cv\_skuska/05\_riadky\<close>

text \<open>The text in pieces, until \<open>sz\<close> bytes are there or the connection ends.\<close>

definition recv_piece :: "int \<Rightarrow> nat \<Rightarrow> string \<Rightarrow> (string + string, 'p, 'm) io" where
  "recv_piece scl sz sofar =
     (if length sofar < sz then
        io_bind (sys_read scl (sz - length sofar)) (\<lambda>(n, d).
        io_ret (if n \<le> 0 then Inr sofar else Inl (sofar @ d)))
      else io_ret (Inr sofar))"

text \<open>
  A line is also used as a format: \<open>%%\<close> prints one percent sign, any other conversion has no argument
  of its type.
\<close>

fun as_format :: "string \<Rightarrow> string option" where
  "as_format [] = Some []"
| "as_format [c] = (if c = CHR ''%'' then None else Some [c])"
| "as_format (c # d # cs) =
     (if c = CHR ''%'' then (if d = CHR ''%'' then map_option (\<lambda>t. CHR ''%'' # t) (as_format cs) else None)
      else map_option (\<lambda>t. c # t) (as_format (d # cs)))"

fun number_lines :: "int \<Rightarrow> int \<Rightarrow> string list \<Rightarrow> (unit, 'p, 'm) io" where
  "number_lines scl line [] = io_ret ()"
| "number_lines scl line (p # ps) =
     (let out = snprintf_str 4096 (show_int line @ '': '' @ p @ [LF]) in
      io_seq (emit (CWrite scl out))
     (io_bind (nonnull (as_format out)) (\<lambda>s.
      io_seq (emit (CWrite scl s)) (number_lines scl (line + 1) ps))))"

text \<open>
  \<open>mem\<close> says whether \<open>malloc\<close> succeeds, \<open>heap\<close> what the new block holds: bytes the client did not send
  are used as they are. A negative size makes the write of the null character undefined.
\<close>

definition riadky_client_handle :: "bool \<Rightarrow> (nat \<Rightarrow> char) \<Rightarrow> int \<Rightarrow> (unit, 'p, 'm) io" where
  "riadky_client_handle mem heap scl =
     io_bind (sys_read scl 63) (\<lambda>(n, msg).
     if n < 0 then io_ub
     else
     io_bind (atoi_io (cstr msg)) (\<lambda>sz.
     io_seq (emit (CWrite scl (''OK'' @ [LF])))
    (if \<not> int_range (sz + 1) \<or> sz < 0 \<or> \<not> mem then io_ub
     else
     io_bind (io_while (recv_piece scl (nat sz)) []) (\<lambda>d.
     number_lines scl 1 (tokens (cstr (d @ map heap [length d..<nat sz])) [LF])))))"

text \<open>The child does not end: it goes on with the loop of the parent.\<close>

definition riadky_child :: "bool \<Rightarrow> (nat \<Rightarrow> char) \<Rightarrow> int \<Rightarrow> int \<Rightarrow> (unit, 'p, 'm) io" where
  "riadky_child mem heap l scl = io_block [emit (CClose l), riadky_client_handle mem heap scl, emit (CClose scl)]"

definition riadky_main :: "bool \<Rightarrow> (nat \<Rightarrow> char) \<Rightarrow> string list \<Rightarrow> (int, 'p, 'm) io" where
  "riadky_main mem heap t_args = exam_main t_args (\<lambda>l. forever (fork_round l (riadky_child mem heap l) (\<lambda>c. emit (CClose c))))"

section \<open>cv\_skuska/02\_simultan\<close>

text \<open>The counter is the shared memory, the semaphores of the three clients are 0, 1 and 2.\<close>

record sim =
  shared :: nat
  msg :: "char list"
  res :: int
  first :: int
  second :: int
  operand :: char
  res_msg :: "char list"

definition sim_init :: sim where
  "sim_init = \<lparr>shared = 0, msg = replicate 128 NUL, res = 0, first = 0, second = 0, operand = NUL,
     res_msg = replicate 128 NUL\<rparr>"

text \<open>\<open>sscanf\<close> with \<open>%d\<close>: the number and the rest of the text, if there is a number.\<close>

definition scan_int :: "string \<Rightarrow> (int \<times> string) option" where
  "scan_int s =
     (let t = dropWhile is_space s;
          neg = (t \<noteq> [] \<and> hd t = CHR ''-'');
          u = (if t \<noteq> [] \<and> hd t \<in> {CHR ''-'', CHR ''+''} then tl t else t);
          ds = takeWhile is_digit u
      in if ds = [] then None
         else Some (if neg then - digits_val 0 ds else digits_val 0 ds, drop (length ds) u))"

text \<open>\<open>sscanf(msg, "%d%c%d", ...)\<close> stops at the first item it cannot read; the variables keep their values.\<close>

definition scan_sum :: "string \<Rightarrow> sim \<Rightarrow> sim" where
  "scan_sum s p = (case scan_int s of
      None \<Rightarrow> p
    | Some (a, r) \<Rightarrow> (case r of
        [] \<Rightarrow> p\<lparr>first := a\<rparr>
      | c # r' \<Rightarrow> (case scan_int r' of
          None \<Rightarrow> p\<lparr>first := a, operand := c\<rparr>
        | Some (b, _) \<Rightarrow> p\<lparr>first := a, operand := c, second := b\<rparr>)))"

definition calculate :: "sim \<Rightarrow> int" where
  "calculate p =
     (if operand p = CHR ''+'' then first p + second p
      else if operand p = CHR ''-'' then first p - second p
      else if operand p = CHR ''*'' then first p * second p
      else res p)"

text \<open>\<open>%c\<close> is written as \<open>%s\<close> of one character. A result outside \<open>int\<close> is undefined.\<close>

definition count_number :: "(unit, sim, int) io" where
  "count_number =
     io_bind (get_priv msg) (\<lambda>b.
     io_bind (buf_str b) (\<lambda>s.
     io_seq (upd_priv (scan_sum s))
    (io_bind (get_priv id) (\<lambda>p.
     if \<not> int_range (first p) \<or> \<not> int_range (second p) then io_ub
     else
     io_seq (log_msg LOG_INFO (''First: %d'' @ [LF]) [AInt (first p)])
    (io_seq (log_msg LOG_INFO (''Second: %d'' @ [LF]) [AInt (second p)])
    (io_seq (log_msg LOG_INFO ''Operand: %s'' [AStr (cstr [operand p])])
    (if \<not> int_range (calculate p) then io_ub
     else upd_priv (\<lambda>p. p\<lparr>res := calculate p,
       res_msg := buf_fill (res_msg p) (''Vysledok: '' @ show_int (calculate p) @ [LF, NUL])\<rparr>))))))))"

text \<open>The whole buffer of 128 bytes is sent.\<close>

definition sim_answer :: "int \<Rightarrow> (unit, sim, int) io" where
  "sim_answer scl =
     io_bind (sys_read scl 128) (\<lambda>(n, d).
     io_seq (upd_priv (\<lambda>p. p\<lparr>msg := buf_fill (msg p) d\<rparr>))
    (io_seq count_number
    (io_bind (get_priv res_msg) (\<lambda>b. emit (CWrite scl b)))))"

definition sim_wait :: "int \<Rightarrow> unit \<Rightarrow> (unit + unit, sim, int) io" where
  "sim_wait scl = (\<lambda>_. io_bind (get_priv shared) (\<lambda>h. io_bind (mem_get h id) (\<lambda>c.
     if c < 3 then io_seq (dprintf scl (''Cakam na dalsich klientov'' @ [LF]))
       (io_seq (sys_usleep 2000000) (io_ret (Inl ())))
     else io_ret (Inr ()))))"

definition sim_turn :: "int \<Rightarrow> int \<Rightarrow> unit \<Rightarrow> (unit + unit, sim, int) io" where
  "sim_turn scl index = (\<lambda>_.
     if \<not> (0 \<le> index \<and> index < 3) then io_ub
     else
     io_seq (sem_wait (nat index))
    (io_seq (io_block (replicate 10 (sim_answer scl)))
    (io_seq (sem_post (nat ((index + 1) mod 3))) (io_ret (Inl ())))))"

definition sim_client_handle :: "int \<Rightarrow> (unit, sim, int) io" where
  "sim_client_handle scl =
     io_bind (get_priv shared) (\<lambda>h.
     io_bind (mem_get h id) (\<lambda>index.
     io_seq (mem_upd h (\<lambda>c. c + 1))
    (io_seq (io_while (sim_wait scl) ())
    (io_seq (dprintf scl (''Mozes zacat'' @ [LF]))
    (io_while (sim_turn scl index) ())))))"

text \<open>A fourth client is told that the server is full and keeps its connection; no child ends.\<close>

definition sim_round :: "int \<Rightarrow> int \<times> string \<times> int \<Rightarrow> (int \<times> string \<times> int + unit, sim, int) io" where
  "sim_round l s =
     (let (c, l_srv_addr) = s in
     io_bind (accept_client l) (\<lambda>l_sock_client.
     io_bind (announce l_sock_client l_srv_addr) (\<lambda>a.
     if c < 3 then
       io_bind (sys_int CFork) (\<lambda>p.
       io_seq (if p = 0 then io_block [emit (CClose l), sim_client_handle l_sock_client, emit (CClose l_sock_client)]
         else io_when (p > 0) (emit (CClose l_sock_client)))
       (io_ret (Inl (c + 1, a))))
     else io_seq (dprintf l_sock_client (''Plno'' @ [LF])) (io_ret (Inl (c, a))))))"

definition sim_shared :: "(unit, sim, int) io" where
  "sim_shared =
     io_bind (shm_open ''/mysem'' True 0) (\<lambda>my_sem.
     io_seq (emit (CFtruncate my_sem))
    (io_bind (sys_mmap my_sem) (\<lambda>h.
     io_bind (nonnull h) (\<lambda>h.
     io_block [upd_priv (\<lambda>p. p\<lparr>shared := h\<rparr>), mem_upd h (\<lambda>_. 0), sem_init 0 1, sem_init 1 0, sem_init 2 0]))))"

definition sim_main :: "string list \<Rightarrow> (int, sim, int) io" where
  "sim_main t_args =
     io_seq sim_shared
    (exam_main t_args (\<lambda>l l_port. io_seq (io_while (sim_round l) (0, any_addr l_port)) (io_ret 0)))"

section \<open>Loops\<close>

lemma fork_loop:
  assumes "\<And>c. sane (child c)" and "\<And>c. sane (parent c)"
  shows "event_loop (fork_round l child parent)"
proof
  show "sane (fork_round l child parent s)" for s
    unfolding fork_round_def by (intro ext_intros assms)
  show "uses (fork_round l child parent s)" for s
    unfolding fork_round_def accept_client_def
    by (rule uses_bind_first [OF uses_bind_first [OF uses_sys(1)]]) (intro ext_intros assms)+
qed

lemma sane_print_chars [ext_intros]: "sane (print_chars cs line)"
  by (induction cs line rule: print_chars.induct) (auto intro!: ext_intros)

interpretation basic_loop: event_loop "basic_read scl"
proof
  show "sane (basic_read scl s)" for s
    unfolding basic_read_def by (intro ext_intros)
  show "uses (basic_read scl s)" for s
    unfolding basic_read_def by (rule uses_bind_first [OF uses_sys(2)]) (intro ext_intros)
qed

interpretation piece_loop: bounded_loop "recv_piece scl sz"
proof
  show "sane (recv_piece scl sz s)" for s
    unfolding recv_piece_def by (intro ext_intros)
  fix s w s' w'
  have "uses (io_bind (sys_read scl (sz - length s)) (\<lambda>(n, d). io_ret (if n \<le> 0 then Inr s else Inl (s @ d))))"
    by (rule uses_bind_first [OF uses_sys(2)]) (intro ext_intros)
  from usesD [OF this] show "recv_piece scl sz s w = (Val (Inl s'), w') \<Longrightarrow> length (w_oracle w') < length (w_oracle w)"
    by (auto simp: recv_piece_def io_ret_def split: if_splits)
qed

lemma sane_number_lines [ext_intros]: "sane (number_lines scl n ps)"
  by (induction ps arbitrary: n) (auto intro!: ext_intros simp: Let_def)

lemma sane_sim [ext_intros]: "sane count_number" "sane (sim_answer scl)" "sane (sim_wait scl u)"
  unfolding count_number_def sim_answer_def sim_wait_def by (intro ext_intros)+

interpretation sim_wait_loop: bounded_loop "sim_wait scl"
proof
  show "sane (sim_wait scl s)" for s by (rule sane_sim)
  fix s w s' w'
  have "uses (io_seq (sys_usleep 2000000) (io_ret (Inl ()) :: (unit + unit, sim, int) io))"
    unfolding sys_usleep_def
    by (rule uses_seq_first [OF uses_seq_first [OF uses_sys(1)]]) (intro ext_intros)+
  from usesD [OF this] show "sim_wait scl s w = (Val (Inl s'), w') \<Longrightarrow> length (w_oracle w') < length (w_oracle w)"
    by (fastforce simp: sim_wait_def io_bind_def get_priv_def mem_get_def get_kern_def io_ret_def io_seq_def [of "dprintf x y" for x y]
        emit_def split: if_splits)
qed

interpretation sim_turns: event_loop "sim_turn scl index"
proof
  have a: "sane (io_block (replicate n (sim_answer scl)))" for n scl
    by (induction n) (auto intro: ext_intros)
  show "sane (sim_turn scl index s)" for s
    unfolding sim_turn_def by (intro ext_intros a)
  have "uses (io_seq (sem_wait (nat index)) (io_seq (io_block (replicate 10 (sim_answer scl)))
      (io_seq (sem_post (nat ((index + 1) mod 3))) (io_ret (Inl () :: unit + unit)))))"
    by (rule uses_seq_first [OF uses_sem(1)]) (intro ext_intros a)
  then show "uses (sim_turn scl index s)" for s
    unfolding sim_turn_def by (simp add: uses_ub)
qed

lemma sane_handles [ext_intros]: "sane (basic_child l c)" "sane (edit_child l c)" "sane (riadky_child mem heap l c)"
  "sane (sim_client_handle c)"
  unfolding basic_child_def basic_client_handle_def edit_child_def read_mame_def save_data_to_file_def
    riadky_child_def riadky_client_handle_def sim_client_handle_def
  by (intro ext_intros basic_loop.while_sane piece_loop.while_sane sim_wait_loop.while_sane sim_turns.while_sane)+

interpretation basic_clients: event_loop "fork_round l (basic_child l) (\<lambda>c. emit (CClose c))"
  by (intro fork_loop ext_intros)

interpretation edit_clients: event_loop "fork_round l (edit_child l) (\<lambda>c. emit (CClose c))"
  by (intro fork_loop ext_intros)

interpretation riadky_clients: event_loop "fork_round l (riadky_child mem heap l) (\<lambda>c. emit (CClose c))"
  by (intro fork_loop ext_intros)

interpretation sim_clients: event_loop "sim_round l"
proof
  show "sane (sim_round l s)" for s
    unfolding sim_round_def by (intro ext_intros)
  show "uses (sim_round l s)" for s
    unfolding sim_round_def Let_def accept_client_def
    by (cases s) (auto intro!: uses_bind_first [OF uses_bind_first [OF uses_sys(1)]] ext_intros)
qed

end
