(* ===== verification/FileServers.thy ===== *)
theory FileServers
  imports LineServers "HOL-Library.Word"
begin

text \<open>
  Exam servers that compile a program or send a file: \<open>cv_skuska/animal\<close>, \<open>animal2\<close>, \<open>animal3\<close>, \<open>uloha4\<close>,
  \<open>uloha6\<close> and \<open>skuska_04\<close>. The first three guard the compiler with a named semaphore.

  What a buffer on the stack holds before the first \<open>read\<close> is the argument \<open>b0\<close>.
\<close>

section \<open>Common parts\<close>

text \<open>
  \<open>total / (sz / sizeof(buf))\<close>: \<open>sz\<close> is converted to the unsigned type of \<open>sizeof\<close>; a file smaller
  than the buffer is a division by zero.
\<close>

definition pause_of :: "nat \<Rightarrow> int \<Rightarrow> nat \<Rightarrow> (int, 'p, 'm) io" where
  "pause_of t sz n =
     (let pieces = (word_of_int sz :: 64 word) div of_nat n in
      if pieces = 0 then io_ub else io_ret (uint ((of_nat t :: 64 word) div pieces)))"

text \<open>\<open>lseek(f, 0, SEEK_END); lseek(f, 0, SEEK_SET)\<close>\<close>

definition file_size :: "int \<Rightarrow> (int, 'p, 'm) io" where
  "file_size f = io_bind (sys_int (CLseek f 0)) (\<lambda>sz. io_seq (emit (CLseek f 0)) (io_ret sz))"

text \<open>A text that starts at the ninth character of a buffer; it must end in the buffer.\<close>

definition from_ninth :: "char list \<Rightarrow> (string, 'p, 'm) io" where
  "from_ninth b = buf_str (drop 8 b)"

definition the_sem :: "nat option \<Rightarrow> (nat \<Rightarrow> (unit, 'p, 'm) io) \<Rightarrow> (unit, 'p, 'm) io" where
  "the_sem sem k = io_bind (nonnull sem) k"

definition down_sem :: "nat \<Rightarrow> (unit, 'p, 'm) io" where
  "down_sem h = io_seq (sem_wait h) (io_ret ())"

section \<open>cv\_skuska/animal\<close>

text \<open>The parent does not wait for the compiler.\<close>

definition animal1_client_handle :: "char list \<Rightarrow> int \<Rightarrow> (unit, 'p, 'm) io" where
  "animal1_client_handle b0 scl =
     io_bind (sys_read scl 256) (\<lambda>(n, d).
     let buf = buf_fill b0 d; animal = cstr (take 9 (drop 8 buf)) in
     io_bind (buf_str buf) (\<lambda>s.
     io_seq (emit (CWrite STDOUT_FILENO s))
    (io_seq (emit (CWrite STDOUT_FILENO [LF]))
    (io_when (strncmp_eq buf ''COMPILE'' 7)
       (io_seq (emit (CPrint (animal @ [LF])))
       (io_bind (sys_int CFork) (\<lambda>p.
        io_when (p = 0)
          (io_bind (sys_exec ''g++'' [''g++'', ''-D'', animal, ''animal.cpp'', ''-o'', ''animal'']) (\<lambda>_. io_exit 1)))))))))"

definition animal1_child :: "char list \<Rightarrow> nat option \<Rightarrow> int \<Rightarrow> int \<Rightarrow> (unit, 'p, 'm) io" where
  "animal1_child b0 g_sem l scl = io_block [emit (CClose l), the_sem g_sem down_sem, animal1_client_handle b0 scl,
     the_sem g_sem sem_post, emit (CClose scl), io_exit 0]"

definition animal1_main :: "char list \<Rightarrow> string list \<Rightarrow> (int, 'p, 'm) io" where
  "animal1_main b0 t_args = exam_main t_args (\<lambda>l l_port.
     io_bind (sem_open ''/animal_sem'' 1) (\<lambda>g_sem.
     forever (fork_round l (animal1_child b0 g_sem l) (\<lambda>c. emit (CClose c))) l_port))"

section \<open>cv\_skuska/animal2\<close>

definition animal2_piece :: "int \<Rightarrow> int \<Rightarrow> int \<Rightarrow> int \<Rightarrow> (int + unit, 'p, 'm) io" where
  "animal2_piece f scl tout i =
     io_bind (sys_read f 4096) (\<lambda>(n, d).
     if n \<le> 0 then io_ret (Inr ())
     else
     io_seq (emit (CWrite scl d))
    (io_seq (emit (CPrint (''Posielam data...('' @ show_int i @ '')'' @ [LF])))
    (io_seq (sys_usleep (tout * 1000)) (io_ret (Inl (i + 1))))))"

definition animal2_send_data :: "int \<Rightarrow> (unit, 'p, 'm) io" where
  "animal2_send_data scl =
     io_bind (sys_int (COpen ''animal'')) (\<lambda>f.
     io_seq (log_msg LOG_INFO ''Som tu'' [])
    (io_bind (file_size f) (\<lambda>sz.
     io_bind (pause_of 5000 sz 4096) (\<lambda>tout.
     io_seq (io_while (animal2_piece f scl tout) 1) (emit (CClose f))))))"

text \<open>
  A full buffer is overrun by \<open>buf[n] = 0\<close>, a failed \<open>read\<close> writes in front of it. The compiler is always
  called with \<open>-D DOG\<close>. When it reports a failure the child ends without giving the semaphore back.
\<close>

definition animal2_compile :: "int \<Rightarrow> (unit, 'p, 'm) io" where
  "animal2_compile st0 =
     io_bind (sys_int CFork) (\<lambda>p.
     if p = 0 then
       io_seq (log_msg LOG_INFO ''exec'' [])
      (io_bind (sys_exec ''g++'' [''g++'', ''-D DOG'', ''animal.cpp'', ''-o'', ''animal'']) (\<lambda>_. io_exit 1))
     else io_when (p > 0)
       (io_bind (pop (CWaitpid p)) (\<lambda>r.
        io_when (WEXITSTATUS (case r of Ret st \<Rightarrow> st | _ \<Rightarrow> st0) \<noteq> 0)
          (io_seq (log_msg LOG_ERROR ''wait status'' []) (io_exit 0)))))"

definition animal2_client_handle :: "char list \<Rightarrow> int \<Rightarrow> nat option \<Rightarrow> int \<Rightarrow> (unit, 'p, 'm) io" where
  "animal2_client_handle b0 st0 sem scl =
     io_bind (sys_read scl 256) (\<lambda>(n, d).
     if n < 0 \<or> n \<ge> 256 then io_ub
     else
     let buf = (buf_fill b0 d)[nat n := NUL] in
     if strncmp_eq buf ''COMPILE'' 7 then
       io_bind (from_ninth buf) (\<lambda>animal.
       io_block [the_sem sem down_sem, animal2_compile st0, animal2_send_data scl,
         emit (CPrint (''Data poslane.'' @ [LF])), the_sem sem sem_post])
     else emit (CWrite STDOUT_FILENO d))"

definition animal2_clean :: "nat option \<Rightarrow> (unit, 'p, 'm) io" where
  "animal2_clean sem = io_block [the_sem sem sem_close, sem_unlink ''my_sem'', log_msg LOG_INFO ''semaphores cleaned.'' []]"

definition animal2_child :: "char list \<Rightarrow> int \<Rightarrow> nat option \<Rightarrow> int \<Rightarrow> int \<Rightarrow> (unit, 'p, 'm) io" where
  "animal2_child b0 st0 sem l scl = io_block [emit CSignal, emit (CClose l), animal2_client_handle b0 st0 sem scl,
     emit (CClose scl), animal2_clean sem, io_exit 0]"

text \<open>Without an argument a null pointer is compared with \<open>clean\<close>.\<close>

definition clean_first :: "(unit, 'p, 'm) io \<Rightarrow> string list \<Rightarrow> (unit, 'p, 'm) io" where
  "clean_first cleaning t_args =
     (if length t_args \<le> 1 then io_ub
      else io_when (t_args ! 1 = ''clean'') (io_seq cleaning (io_exit 0)))"

definition animal2_main :: "char list \<Rightarrow> int \<Rightarrow> string list \<Rightarrow> (int, 'p, 'm) io" where
  "animal2_main b0 st0 t_args =
     io_bind (sem_open ''/my_sem'' 1) (\<lambda>sem.
     io_seq (clean_first (animal2_clean sem) t_args)
    (exam_main t_args (\<lambda>l. forever (fork_round l (animal2_child b0 st0 sem l) (\<lambda>c. emit (CClose c))))))"

section \<open>cv\_skuska/animal3\<close>

definition sem_clean :: "nat option \<Rightarrow> (unit, 'p, 'm) io" where
  "sem_clean sem = io_block [the_sem sem sem_close, sem_unlink ''/animal'', log_msg LOG_INFO ''Semaphores cleaned'' []]"

text \<open>A child that cannot start the compiler goes on like the parent. The status is not looked at.\<close>

definition compile_file :: "string \<Rightarrow> (unit, 'p, 'm) io" where
  "compile_file animal_name =
     io_bind (sys_int CFork) (\<lambda>p.
     if p = 0 then
       io_seq (sys_exec ''g++'' [''g++'', ''-D'', animal_name, ''animal.cpp'', ''-o'', ''animal'']) (io_ret ())
     else io_when (p > 0) (wait_child p))"

text \<open>The end of the file is sent as a piece of no bytes, and paused after, before it is noticed.\<close>

definition animal3_piece :: "int \<Rightarrow> int \<Rightarrow> int \<Rightarrow> int \<Rightarrow> (int + unit, 'p, 'm) io" where
  "animal3_piece f scl tout i =
     io_bind (sys_read f 80096) (\<lambda>(r, d).
     io_seq (emit (CWrite scl d))
    (io_seq (log_msg LOG_INFO ''Posielam data(%d)'' [AInt i])
    (io_seq (sys_usleep (tout * 1000))
    (io_ret (if r \<le> 0 then Inr () else Inl (i + 1))))))"

definition animal3_send_data :: "int \<Rightarrow> (unit, 'p, 'm) io" where
  "animal3_send_data scl =
     io_bind (sys_int (COpen ''animal'')) (\<lambda>f.
     io_bind (file_size f) (\<lambda>sz.
     io_bind (pause_of 5000 sz 80096) (\<lambda>tout.
     io_seq (log_msg LOG_INFO ''Som tu'' [])
    (io_seq (io_while (animal3_piece f scl tout) 1) (emit (CClose f))))))"

definition animal3_client_handle :: "char list \<Rightarrow> nat option \<Rightarrow> int \<Rightarrow> (unit, 'p, 'm) io" where
  "animal3_client_handle b0 sem_animal scl =
     io_bind (sys_read scl 256) (\<lambda>(n, d).
     io_bind (from_ninth (buf_fill b0 d)) (\<lambda>animal_name.
     io_block [the_sem sem_animal down_sem, compile_file animal_name, animal3_send_data scl,
       log_msg LOG_INFO ''Data poslane.'' [], the_sem sem_animal sem_post]))"

definition animal3_child :: "char list \<Rightarrow> nat option \<Rightarrow> int \<Rightarrow> int \<Rightarrow> (unit, 'p, 'm) io" where
  "animal3_child b0 sem l scl = io_block [emit (CClose l), animal3_client_handle b0 sem scl,
     emit (CClose scl), sem_clean sem, io_exit 0]"

definition animal3_main :: "char list \<Rightarrow> string list \<Rightarrow> (int, 'p, 'm) io" where
  "animal3_main b0 t_args =
     io_bind (sem_open ''/animal'' 1) (\<lambda>sem.
     io_seq (clean_first (sem_clean sem) t_args)
    (exam_main t_args (\<lambda>l. forever (fork_round l (animal3_child b0 sem l) (\<lambda>c. emit (CClose c))))))"

section \<open>cv\_skuska/uloha4\<close>

text \<open>The day and the month of a text such as \<open>DAY 24.12\<close>: two characters each at fixed places.\<close>

record u4 =
  date :: "char list"
  season :: string

definition number_at :: "nat \<Rightarrow> char list \<Rightarrow> int" where
  "number_at i b = atoi (cstr (take 2 (drop i b)))"

definition is_day :: "u4 \<Rightarrow> int" where
  "is_day p = number_at 4 (date p)"

definition is_month :: "u4 \<Rightarrow> int" where
  "is_month p = number_at 7 (date p)"

text \<open>The 31st is not accepted; the picture is the same for every date, and sent also for a bad one.\<close>

definition valid_day :: "(unit, u4, 'm) io" where
  "valid_day =
     io_bind (get_priv id) (\<lambda>p.
     if 0 < is_day p \<and> is_day p < 31 \<and> 0 < is_month p \<and> is_month p < 13 then
       io_seq (upd_priv (\<lambda>p. p\<lparr>season := ''02''\<rparr>)) (log_msg LOG_INFO ''obrazok: %s'' [AStr ''02''])
     else log_msg LOG_ERROR ''Nie je validny den'' [])"

definition u4_piece :: "int \<Rightarrow> int \<Rightarrow> unit \<Rightarrow> (unit + unit, 'p, 'm) io" where
  "u4_piece f scl = (\<lambda>_.
     io_bind (sys_read f 4096) (\<lambda>(n, d).
     io_seq (emit (CWrite scl d))
    (io_seq (log_msg LOG_INFO ''Posielam data...'' [])
    (io_ret (if n \<le> 0 then Inr () else Inl ())))))"

definition u4_send_data :: "int \<Rightarrow> (unit, 'p, 'm) io" where
  "u4_send_data scl =
     io_bind (sys_int (COpen ''02.png'')) (\<lambda>f.
     io_seq (io_while (u4_piece f scl) ()) (emit (CClose f)))"

definition u4_client_handle :: "int \<Rightarrow> (unit, u4, 'm) io" where
  "u4_client_handle scl =
     io_bind (sys_read scl 128) (\<lambda>(dr, d).
     io_seq (upd_priv (\<lambda>p. p\<lparr>date := buf_fill (replicate 128 NUL) d\<rparr>))
    (io_bind (get_priv date) (\<lambda>b.
     io_bind (buf_str b) (\<lambda>s.
     io_block [log_msg LOG_INFO (''%s'' @ [LF]) [AStr s], valid_day, u4_send_data scl, emit (CClose scl)]))))"

text \<open>
  One client in a thread, for which the main thread waits; then the server ends. The thread runs
  while the main thread waits, so its code stands in the place of the wait.
\<close>

definition u4_main :: "string list \<Rightarrow> (int, u4, 'm) io" where
  "u4_main t_args = exam_main t_args (\<lambda>l l_port.
     io_bind (accept_client l) (\<lambda>l_sock_client.
     io_bind (announce l_sock_client (any_addr l_port)) (\<lambda>_.
     io_seq (io_block [emit (CThread ''client_handle''), u4_client_handle l_sock_client, emit CThreadJoin])
    (io_ret 0))))"

section \<open>cv\_skuska/uloha6\<close>

text \<open>
  The buffer has room for one byte, and \<open>buf[r] = 0\<close> follows each \<open>read\<close>: with one byte read it writes
  behind it, with an error in front of it. Only the end of the connection is left: the empty text
  is written, and the loop ends.
\<close>

definition recieve_data :: "int \<Rightarrow> (unit, 'p, 'm) io" where
  "recieve_data scl =
     io_bind (sys_int (COpen ''clock.cpp'')) (\<lambda>f.
     io_bind (sys_read scl 1) (\<lambda>(r, d).
     if r \<noteq> 0 then io_ub
     else io_block [emit (CWrite STDOUT_FILENO [NUL]), emit (CWrite f [NUL]), sys_usleep 10000, emit (CClose f)]))"

text \<open>Run a program in a child and wait for it; its status is not looked at.\<close>

definition run_and_wait :: "(unit, 'p, 'm) io \<Rightarrow> string \<Rightarrow> string list \<Rightarrow> (unit, 'p, 'm) io" where
  "run_and_wait before name argv =
     io_bind (sys_int CFork) (\<lambda>p.
     if p = 0 then io_seq before (io_bind (sys_exec name argv) (\<lambda>_. io_exit 0))
     else io_when (p > 0) (wait_child p))"

definition u6_client_handle :: "nat option \<Rightarrow> int \<Rightarrow> (unit, 'p, 'm) io" where
  "u6_client_handle mysem scl = io_block [emit (CWrite scl ''READY''), sys_usleep 200000, recieve_data scl,
     the_sem mysem down_sem,
     run_and_wait (io_ret ()) ''g++'' [''g++'', ''clock.cpp'', ''-o'', ''clock''],
     run_and_wait (emit (CDup2 scl STDOUT_FILENO)) ''./clock'' [''clock''],
     the_sem mysem sem_post]"

text \<open>The child of a client leaves the loops and removes the semaphore; the parent ends after it.\<close>

definition u6_round :: "nat option \<Rightarrow> int \<Rightarrow> string \<times> int \<Rightarrow> (string \<times> int + unit, 'p, 'm) io" where
  "u6_round mysem l l_srv_addr =
     io_bind (accept_client l) (\<lambda>l_sock_client.
     io_bind (announce l_sock_client l_srv_addr) (\<lambda>a.
     io_bind (sys_int CFork) (\<lambda>p.
     if p = 0 then
       io_seq (io_block [emit (CClose l), u6_client_handle mysem l_sock_client, emit (CClose l_sock_client)]) (io_ret (Inr ()))
     else io_seq (io_when (p > 0) (io_block [emit (CClose l_sock_client), wait_child p, io_exit 0])) (io_ret (Inl a)))))"

definition u6_main :: "string list \<Rightarrow> (int, 'p, 'm) io" where
  "u6_main t_args =
     io_bind (sem_open ''/my_sem'' 1) (\<lambda>mysem.
     exam_main t_args (\<lambda>l l_port.
     io_seq (io_while (u6_round mysem l) (any_addr l_port))
    (io_seq (io_block [the_sem mysem sem_close, sem_unlink ''/my_sem'']) (io_ret 0))))"

section \<open>cv\_skuska/skuska\_04\<close>

text \<open>The picture of a quarter; the month 0, which is accepted, leaves the number as it was.\<close>

record s04 =
  s04_buf :: "char list"
  pic_i :: int
  file_name :: string
  day :: int
  month :: int

definition s04_init :: s04 where
  "s04_init = \<lparr>s04_buf = replicate 256 NUL, pic_i = 0, file_name = [], day = 0, month = 0\<rparr>"

text \<open>The array has four semaphores, and the numbers 1 to 4 are used: the last is behind its end.\<close>

definition sem_at :: "int \<Rightarrow> (nat \<Rightarrow> (unit, 'p, 'm) io) \<Rightarrow> (unit, 'p, 'm) io" where
  "sem_at k f = (if 0 \<le> k \<and> k < 4 then f (nat k) else io_ub)"

definition init_sem :: "(unit, 'p, 'm) io" where
  "init_sem = io_block (map (\<lambda>k. sem_at (int k) (\<lambda>h. sem_init h 1)) [1..<5])"

definition pic_map :: "s04 \<Rightarrow> s04" where
  "pic_map p =
     (let m = month p;
          n = (if 0 < m \<and> m < 4 then 1 else if 3 < m \<and> m < 7 then 2
               else if 6 < m \<and> m < 10 then 3 else if 9 < m \<and> m < 13 then 4 else pic_i p)
      in p\<lparr>pic_i := n, file_name := CHR ''0'' # show_int n @ ''.png''\<rparr>)"

definition s04_piece :: "int \<Rightarrow> int \<Rightarrow> int \<Rightarrow> unit \<Rightarrow> (unit + unit, 'p, 'm) io" where
  "s04_piece f scl tout = (\<lambda>_.
     io_bind (sys_read f 4096) (\<lambda>(fr, d).
     io_seq (emit (CWrite scl d))
    (io_seq (sys_usleep tout)
    (io_ret (if fr \<le> 0 then Inr () else Inl ())))))"

definition sen_data :: "int \<Rightarrow> (unit, s04, 'm) io" where
  "sen_data scl =
     io_bind (get_priv file_name) (\<lambda>file_name.
     io_bind (sys_int (COpen file_name)) (\<lambda>f.
     io_bind (file_size f) (\<lambda>f_size.
     io_bind (pause_of 3000000 f_size 4096) (\<lambda>tout.
     io_seq (log_msg LOG_INFO ''Posielam data...'' [])
    (io_seq (io_while (s04_piece f scl tout) ())
    (io_seq (log_msg LOG_INFO ''END...'' []) (emit (CClose f))))))))"

text \<open>\<open>sscanf(buf, "DAY %d.%d", &day, &month)\<close>: what is not read keeps its value.\<close>

definition scan_day :: "string \<Rightarrow> s04 \<Rightarrow> s04" where
  "scan_day s p =
     (if \<not> is_prefix ''DAY'' s then p
      else (case scan_int (drop 3 s) of
          None \<Rightarrow> p
        | Some (d, r) \<Rightarrow>
            (if r = [] \<or> hd r \<noteq> CHR ''.'' then p\<lparr>day := d\<rparr>
             else (case scan_int (tl r) of None \<Rightarrow> p\<lparr>day := d\<rparr> | Some (m, _) \<Rightarrow> p\<lparr>day := d, month := m\<rparr>))))"

definition s04_client_handle :: "int \<Rightarrow> (unit, s04, 'm) io" where
  "s04_client_handle scl =
     io_bind (sys_read scl 256) (\<lambda>(n, d).
     io_seq (upd_priv (\<lambda>p. p\<lparr>s04_buf := buf_fill (s04_buf p) d\<rparr>))
    (io_bind (get_priv s04_buf) (\<lambda>b.
     io_bind (buf_str b) (\<lambda>s.
     io_seq (upd_priv (scan_day s))
    (io_bind (get_priv id) (\<lambda>p.
     if \<not> int_range (day p) \<or> \<not> int_range (month p) then io_ub
     else if day p > 31 \<or> day p < 0 then io_block [log_msg LOG_INFO ''zly den'' [], emit (CClose scl), io_exit 0]
     else if month p > 12 \<or> month p < 0 then io_block [log_msg LOG_INFO ''zly mesiac'' [], emit (CClose scl), io_exit 0]
     else
     io_seq (upd_priv pic_map)
    (io_bind (get_priv id) (\<lambda>p.
     io_block [log_msg LOG_INFO (''Den a mesiac: %d, %d'' @ [LF]) [AInt (day p), AInt (month p)],
       log_msg LOG_INFO (''Obrazok: %s'' @ [LF]) [AStr (file_name p)],
       sem_at (pic_i p) down_sem, sen_data scl, sem_at (pic_i p) sem_post]))))))))"

text \<open>As in \<open>uloha4\<close>, but the semaphores are set up for each client, and the process ends after it.
  \<open>destroy()\<close> is left out: nothing uses the semaphores after it.\<close>

definition s04_main :: "string list \<Rightarrow> (int, s04, 'm) io" where
  "s04_main t_args = exam_main t_args (\<lambda>l l_port.
     io_bind (accept_client l) (\<lambda>l_sock_client.
     io_bind (announce l_sock_client (any_addr l_port)) (\<lambda>_.
     io_seq (io_block [init_sem, emit (CThread ''client_handle''), s04_client_handle l_sock_client, emit CThreadJoin,
       log_msg LOG_INFO ''Cleaned'' [], io_exit 0])
    (io_ret 0))))"

section \<open>Loops\<close>

lemma sane_file_parts [ext_intros]: "sane (pause_of t z n)" "sane (file_size f)" "sane (from_ninth b)" "sane (down_sem h)"
  "sane (clean_first m ta)" if "sane m"
  unfolding pause_of_def file_size_def from_ninth_def down_sem_def clean_first_def Let_def
  by (intro ext_intros that)+

lemma sane_the_sem [ext_intros]: "(\<And>h. sane (k h)) \<Longrightarrow> sane (the_sem s k)" "(\<And>h. sane (k h)) \<Longrightarrow> sane (sem_at j k)"
  unfolding the_sem_def sem_at_def by (intro ext_intros; simp)+

interpretation animal2_pieces: event_loop "animal2_piece f scl tout"
proof
  show "sane (animal2_piece f scl tout s)" for s
    unfolding animal2_piece_def by (intro ext_intros)
  show "uses (animal2_piece f scl tout s)" for s
    unfolding animal2_piece_def by (rule uses_bind_first [OF uses_sys(2)]) (intro ext_intros)
qed

interpretation animal3_pieces: event_loop "animal3_piece f scl tout"
proof
  show "sane (animal3_piece f scl tout s)" for s
    unfolding animal3_piece_def by (intro ext_intros)
  show "uses (animal3_piece f scl tout s)" for s
    unfolding animal3_piece_def by (rule uses_bind_first [OF uses_sys(2)]) (intro ext_intros)
qed

interpretation u4_pieces: event_loop "u4_piece f scl"
proof
  show "sane (u4_piece f scl s)" for s
    unfolding u4_piece_def by (intro ext_intros)
  show "uses (u4_piece f scl s)" for s
    unfolding u4_piece_def by (rule uses_bind_first [OF uses_sys(2)]) (intro ext_intros)
qed

interpretation s04_pieces: event_loop "s04_piece f scl tout"
proof
  show "sane (s04_piece f scl tout s)" for s
    unfolding s04_piece_def by (intro ext_intros)
  show "uses (s04_piece f scl tout s)" for s
    unfolding s04_piece_def by (rule uses_bind_first [OF uses_sys(2)]) (intro ext_intros)
qed

end
