(* ===== verification/LineProps.thy ===== *)
theory LineProps
  imports FileServers Guarantee
begin

text \<open>
  The exam servers of \<open>LineServers\<close> and \<open>FileServers\<close>: lines are put together independently of how
  they arrive, the calculator answers the sum it is sent, and what is left undone on error paths.
\<close>

section \<open>Lines from pieces\<close>

definition written :: "string list \<Rightarrow> string list" where
  "written ls = concat (map (\<lambda>l. [cstr l, [LF]]) ls)"

lemma print_chars_append: "print_chars (a @ b) l = io_bind (print_chars a l) (print_chars b)"
  by (induction a l rule: print_chars.induct) (simp_all add: io_seq_def io_bind_assoc io_basic_simps(1,3))

text \<open>All characters of a text, as if they came in one piece.\<close>

lemma print_part:
  assumes "LF \<notin> set r" and "length l + length r \<le> 1024"
  shows "print_chars r l = io_ret (l @ r)"
  using assms by (induction r arbitrary: l) auto

lemma print_line:
  assumes "LF \<notin> set r" and "length l + length r < 1024"
  shows "print_chars (r @ [LF]) l w = (Val [], w\<lparr>w_calls := w_calls w @ [CWrite STDOUT_FILENO (cstr (l @ r)), CWrite STDOUT_FILENO [LF]]\<rparr>)"
  using assms by (simp add: print_chars_append print_part io_simps)

lemma print_text:
  assumes "\<forall>l \<in> set ls. LF \<notin> set l \<and> length l < 1024" and "LF \<notin> set rest" and "length rest \<le> 1024"
  shows "print_chars (concat (map (\<lambda>l. l @ [LF]) ls) @ rest) [] w =
    (Val rest, w\<lparr>w_calls := w_calls w @ map (CWrite STDOUT_FILENO) (written ls)\<rparr>)"
  using assms(1)
proof (induction ls arbitrary: w)
  case Nil
  then show ?case using assms(2,3) by (simp add: written_def print_part io_simps)
next
  case (Cons l ls)
  then have l: "LF \<notin> set l" "length l < 1024" by auto
  have "print_chars ((l @ [LF]) @ (concat (map (\<lambda>l. l @ [LF]) ls) @ rest)) [] w =
      print_chars (concat (map (\<lambda>l. l @ [LF]) ls) @ rest) []
        (w\<lparr>w_calls := w_calls w @ [CWrite STDOUT_FILENO (cstr l), CWrite STDOUT_FILENO [LF]]\<rparr>)"
    unfolding print_chars_append [of "l @ [LF]"] using print_line [of l "[]" w] l by (simp add: io_bind_def)
  with Cons show ?case by (simp add: written_def)
qed

text \<open>Only calls and values matter: \<open>print_chars\<close> does not look at the rest of the world.\<close>

lemma print_chars_calls:
  fixes w :: "('p, 'm) world"
  assumes "print_chars s l w = (Val r, w')"
  shows "\<exists>cs. w' = w\<lparr>w_calls := w_calls w @ cs\<rparr> \<and> (\<forall>v :: ('p, 'm) world. print_chars s l v = (Val r, v\<lparr>w_calls := w_calls v @ cs\<rparr>))"
  using assms
proof (induction s l arbitrary: w rule: print_chars.induct)
  case (1 line)
  then show ?case by (auto simp: io_ret_def intro!: exI [of _ "[]"])
next
  case (2 c cs line)
  show ?case
  proof (cases "c = LF")
    case True
    let ?u = "w\<lparr>w_calls := w_calls w @ [CWrite STDOUT_FILENO (cstr line), CWrite STDOUT_FILENO [LF]]\<rparr>"
    have len: "length line < 1024" and p: "print_chars cs [] ?u = (Val r, w')"
      using 2(3) True by (auto simp: io_simps split: if_splits)
    have "\<not> length line \<ge> 1024" using len by simp
    from 2(1) [OF this True p] obtain ds where "w' = ?u\<lparr>w_calls := w_calls ?u @ ds\<rparr>"
      "\<forall>v :: ('p, 'm) world. print_chars cs [] v = (Val r, v\<lparr>w_calls := w_calls v @ ds\<rparr>)"
      by (elim exE conjE) (rule that)
    then show ?thesis using True len
      by (intro exI [of _ "[CWrite STDOUT_FILENO (cstr line), CWrite STDOUT_FILENO [LF]] @ ds"]) (simp add: io_simps)
  next
    case False
    then show ?thesis using 2(2) 2(3) by (auto split: if_splits simp: io_ub_def)
  qed
qed

definition arrivals :: "('m kernel option \<times> string) list \<Rightarrow> 'm entry list" where
  "arrivals ds = map (\<lambda>(e, d). (e, Data d)) ds"

lemma basic_pieces:
  fixes v w :: "('p, 'm) world"
  assumes "w_oracle w = arrivals ds" and "\<forall>d \<in> set (map snd ds). length d < 256"
    and "print_chars (concat (map snd ds)) l v = (Val r, v')"
  shows "\<exists>w'. io_while (basic_read scl) l w = (Blocked, w') \<and> w_oracle w' = [] \<and>
    sent_to STDOUT_FILENO (w_calls w') = sent_to STDOUT_FILENO (w_calls w) @ drop (length (sent_to STDOUT_FILENO (w_calls v))) (sent_to STDOUT_FILENO (w_calls v'))"
  using assms
proof (induction ds arbitrary: l w v)
  case Nil
  then show ?case
    by (subst basic_loop.while_unfold) (simp add: arrivals_def basic_read_def io_simps)
next
  case (Cons x ds)
  obtain e d where x: "x = (e, d)" by (cases x)
  have d: "length d < 256" "take 256 d = d" using Cons.prems(2) x by auto
  have s: "print_chars (d @ concat (map snd ds)) l v = (Val r, v')" using Cons.prems(3) x by simp
  then obtain q u where q: "print_chars d l v = (Val q, u)" "print_chars (concat (map snd ds)) q u = (Val r, v')"
    by (auto simp: print_chars_append io_bind_def split: prod.splits res.splits)
  from print_chars_calls [OF q(1)] obtain cs where
    cs: "u = v\<lparr>w_calls := w_calls v @ cs\<rparr>" "\<And>y :: ('p, 'm) world. print_chars d l y = (Val q, y\<lparr>w_calls := w_calls y @ cs\<rparr>)" by auto
  from print_chars_calls [OF q(2)] obtain es where es: "v' = u\<lparr>w_calls := w_calls u @ es\<rparr>" by auto
  define w1 where "w1 = w\<lparr>w_oracle := arrivals ds, w_calls := w_calls w @ CRead scl 256 # cs,
      w_kern := (case e of None \<Rightarrow> w_kern w | Some k \<Rightarrow> k)\<rparr>"
  have r1: "basic_read scl l w = (Val (Inl q), w1)"
    using Cons.prems(1) d by (simp add: basic_read_def io_simps io_bind_def [of "print_chars d l"] cs(2) arrivals_def x w1_def)
  obtain w' where w': "io_while (basic_read scl) q w1 = (Blocked, w')" "w_oracle w' = []"
    "sent_to STDOUT_FILENO (w_calls w') = sent_to STDOUT_FILENO (w_calls w1) @ drop (length (sent_to STDOUT_FILENO (w_calls u))) (sent_to STDOUT_FILENO (w_calls v'))"
    using Cons.IH [OF _ _ q(2), of w1] Cons.prems(2) by (auto simp: w1_def)
  have "io_while (basic_read scl) l w = (Blocked, w')"
    by (subst basic_loop.while_unfold) (simp add: io_bind_def r1 w'(1))
  with w' show ?case by (intro exI [of _ w']) (simp add: w1_def cs(1) es)
qed



section \<open>The calculator\<close>

lemma scan_int_show:
  assumes "\<not> is_digit c"
  shows "scan_int (show_int a @ c # r) = Some (a, c # r)"
proof -
  have tw: "takeWhile is_digit (show_nat n @ c # r) = show_nat n" for n
    using assms show_nat_digits [of _ n] by (auto intro!: takeWhile_stop)
  show ?thesis
  proof (cases "a < 0")
    case True
    then show ?thesis
      by (simp add: scan_int_def show_int_def tw is_space_def show_nat_nonempty digits_val_show_nat Let_def)
  next
    case False
    obtain d ds where n: "show_nat (nat a) = d # ds" using show_nat_nonempty [of "nat a"] by (cases "show_nat (nat a)") auto
    then have "is_digit d" using show_nat_digits [of d "nat a"] by simp
    note dd = digit_not_special [OF this]
    have "takeWhile is_digit (d # ds @ c # r) = d # ds" using tw [of "nat a"] n by simp
    moreover have "digits_val 0 (d # ds) = a" using digits_val_show_nat [of "nat a"] n False by simp
    ultimately show ?thesis using False n dd by (simp add: scan_int_def show_int_def Let_def)
  qed
qed

lemma log_run: "c_format f xs = Some s \<Longrightarrow> length s < 1024 \<Longrightarrow> log_msg l f xs w =
    (Val (), w\<lparr>w_calls := w_calls w @ (if l \<noteq> 0 \<and> l > w_debug w then [] else [CLog l s])\<rparr>)"
  by (simp add: log_msg_def io_simps)

definition op_val :: "char \<Rightarrow> int \<Rightarrow> int \<Rightarrow> int" where
  "op_val c a b = (if c = CHR ''+'' then a + b else if c = CHR ''-'' then a - b else a * b)"

lemma scan_sum_show:
  assumes "c \<in> {CHR ''+'', CHR ''-'', CHR ''*''}"
  shows "scan_sum (show_int a @ c # show_int b @ LF # r) p = p\<lparr>first := a, operand := c, second := b\<rparr>"
proof -
  have "\<not> is_digit c" "\<not> is_digit LF" using assms by (auto simp: is_digit_def)
  then show ?thesis by (simp add: scan_sum_def scan_int_show)
qed

text \<open>
  C31. A calculation: the message \<open>a op b\<close> with a newline is answered with the result of the operation,
  whatever an earlier, longer message left in the buffer; a result outside \<open>int\<close> is undefined.
\<close>

theorem calculator_answers:
  fixes w :: "(sim, int) world" and a b :: int and c :: char
  defines "d \<equiv> show_int a @ c # show_int b @ [LF]"
  assumes "w_oracle w = (e, Data d) # os" and "c \<in> {CHR ''+'', CHR ''-'', CHR ''*''}"
    and "int_range a" and "int_range b" and "NUL \<in> set (drop (length d) (msg (w_priv w)))"
  shows "if int_range (op_val c a b) then \<exists>w' m. sim_answer scl w = (Val (), w') \<and> w_oracle w' = os \<and>
      sent_to scl (w_calls w') = sent_to scl (w_calls w) @ [m] \<and> cstr m = ''Vysledok: '' @ show_int (op_val c a b) @ [LF]
    else fst (sim_answer scl w) = UB"
proof -
  let ?rest = "drop (length d) (msg (w_priv w))"
  have len: "length (show_int a) \<le> 11" "length (show_int b) \<le> 11" using assms(4,5) by (simp_all add: length_show_int)
  have t: "take 128 d = d" using len by (simp add: d_def)
  have digits: "is_digit x \<or> x = CHR ''-''" if "x \<in> set (show_int i)" for x i
    using that show_nat_digits [of x] by (auto simp: show_int_def split: if_splits)
  have nn: "NUL \<notin> set (show_int i)" for i
    using digits [of NUL i] by (auto simp: is_digit_def)
  have "NUL \<notin> set d" using nn assms(3) by (auto simp: d_def)
  then have cs: "cstr (d @ ?rest) = d @ cstr ?rest"
    unfolding cstr_def by (auto intro: takeWhile_append2)
  define k where "k = (case e of None \<Rightarrow> w_kern w | Some k \<Rightarrow> k)"
  define p where "p = (w_priv w)\<lparr>msg := d @ ?rest\<rparr>"
  define u where "u = w\<lparr>w_oracle := os, w_calls := w_calls w @ [CRead scl 128], w_kern := k, w_priv := p\<rparr>"
  have run: "sim_answer scl w = io_seq count_number (io_bind (get_priv res_msg) (\<lambda>b. emit (CWrite scl b))) u"
    using assms(2) by (simp add: sim_answer_def io_simps t buf_fill_def u_def p_def k_def)
  have sc: "scan_sum (d @ cstr ?rest) q = q\<lparr>first := a, operand := c, second := b\<rparr>" for q
    using scan_sum_show [OF assms(3), of a b] by (simp add: d_def)
  have co: "cstr [c] = [c]" "c \<noteq> CHR ''%''" using assms(3) by (auto simp: cstr_def)
  have calc: "calculate (p\<lparr>first := a, operand := c, second := b\<rparr>) = op_val c a b"
    using assms(3) by (auto simp: calculate_def op_val_def)
  have bs: "NUL \<in> set (msg p)" "cstr (msg p) = d @ cstr ?rest" using assms(6) cs by (simp_all add: p_def)
  define lg where "lg = (\<lambda>s. if 1 > w_debug w then [] else [CLog LOG_INFO s])"
  have logs: "io_seq (log_msg LOG_INFO (''First: %d'' @ [LF]) [AInt a]) k v = k (v\<lparr>w_calls := w_calls v @ lg (''First: '' @ show_int a @ [LF])\<rparr>)"
    "io_seq (log_msg LOG_INFO (''Second: %d'' @ [LF]) [AInt b]) k v = k (v\<lparr>w_calls := w_calls v @ lg (''Second: '' @ show_int b @ [LF])\<rparr>)"
    "io_seq (log_msg LOG_INFO ''Operand: %s'' [AStr [c]]) k v = k (v\<lparr>w_calls := w_calls v @ lg (''Operand: '' @ [c])\<rparr>)"
    if "w_debug v = w_debug w" for k :: "('z, sim, int) io" and v
    using len that by (simp_all add: io_seq_def io_bind_def log_run lg_def)
  have cn: "\<exists>cs. sent_to scl cs = [] \<and> count_number u = (if int_range (op_val c a b)
      then (Val (), u\<lparr>w_calls := w_calls u @ cs, w_priv := p\<lparr>first := a, operand := c, second := b, res := op_val c a b,
         res_msg := buf_fill (res_msg p) (''Vysledok: '' @ show_int (op_val c a b) @ [LF, NUL])\<rparr>\<rparr>)
      else (UB, u\<lparr>w_calls := w_calls u @ cs, w_priv := p\<lparr>first := a, operand := c, second := b\<rparr>\<rparr>))"
    unfolding count_number_def using bs assms(4,5)
    by (intro exI [of _ "lg (''First: '' @ show_int a @ [LF]) @ lg (''Second: '' @ show_int b @ [LF]) @ lg (''Operand: '' @ [c])"])
      (simp add: io_bind_def [of "get_priv f" for f] get_priv_def buf_str_def io_basic_simps(1) io_seq_def [of "upd_priv f" for f]
        io_bind_def [of "upd_priv f" for f] upd_priv_def u_def sc logs [simplified] co calc io_ub_def, simp add: lg_def)
  show ?thesis
  proof (cases "int_range (op_val c a b)")
    case True
    have "NUL \<notin> set (''Vysledok: '' @ show_int (op_val c a b) @ [LF])" using nn by auto
    then have m: "cstr (buf_fill x (''Vysledok: '' @ show_int (op_val c a b) @ [LF, NUL])) = ''Vysledok: '' @ show_int (op_val c a b) @ [LF]" for x
      using cstr_append_nul [of "''Vysledok: '' @ show_int (op_val c a b) @ [LF]"] by (simp add: buf_fill_def)
    show ?thesis using cn True m unfolding run by (auto simp: io_seq_def io_bind_def get_priv_def emit_def u_def)
  next
    case False
    show ?thesis using cn False unfolding run by (auto simp: io_seq_def io_bind_def)
  qed
qed

definition sim_world :: "int entry list \<Rightarrow> (sim, int) world" where
  "sim_world os = \<lparr>w_oracle = os, w_calls = [], w_errno = 0, w_debug = 1, w_priv = sim_init,
     w_kern = \<lparr>k_sem = (\<lambda>_. 1), k_sem_dir = (\<lambda>_. None), k_sem_next = 3, k_shm = (\<lambda>_. 3), k_shm_dir = (\<lambda>_. None),
       k_shm_next = 1, k_mq = (\<lambda>_. []), k_mq_dir = (\<lambda>_. None), k_mq_next = 0\<rparr>\<rparr>"

theorem calculator_answers_witness:
  "\<exists>w' m. sim_answer 4 (sim_world [(None, Data (show_int 6 @ CHR ''*'' # show_int (-7) @ [LF]))]) = (Val (), w') \<and>
    sent_to 4 (w_calls w') = [m] \<and> cstr m = ''Vysledok: '' @ show_int (-42) @ [LF]"
proof -
  have l: "length (show_int 6) = 1" "length (show_int (-7)) = 2" by code_simp+
  have "NUL \<in> set (drop (length (show_int 6 @ CHR ''*'' # show_int (-7) @ [LF])) (msg (w_priv (sim_world os))))" for os
    by (simp add: l sim_world_def sim_init_def drop_replicate del: replicate.simps)
  from calculator_answers [OF _ _ _ _ this, of "[(None, Data (show_int 6 @ CHR ''*'' # show_int (-7) @ [LF]))]" None "[]" 4]
  show ?thesis by (auto simp: sim_world_def int_range_def op_val_def)
qed

section \<open>A failed compiler\<close>

text \<open>
  In \<open>animal2\<close> a compiler that fails locks the server: the child that waited for it ends without
  giving the semaphore back, and after the first such request the next one waits for ever.
\<close>

theorem failed_compile_keeps_lock:
  fixes w :: "('p, 'm) world" and x :: string
  defines "d \<equiv> ''COMPILE '' @ x"
  assumes "w_oracle w = (e1, Data d) # (e2, Ret 0) # (None, Ret pid) # (None, Ret status) # os"
    and "length d < 256" and "length b0 = 256" and "0 < pid" and "WEXITSTATUS status \<noteq> 0"
    and "k_sem (case e2 of None \<Rightarrow> (case e1 of None \<Rightarrow> w_kern w | Some k \<Rightarrow> k) | Some k \<Rightarrow> k) sem = 1"
  shows "\<exists>w' cs. animal2_client_handle b0 st0 (Some sem) scl w = (Exit 0, w') \<and> w_calls w' = w_calls w @ cs \<and>
    CSemPost sem \<notin> set cs \<and> k_sem (w_kern w') sem = 0 \<and> fst (sem_wait sem (w'\<lparr>w_oracle := (None, Ret 0) # os'\<rparr>)) = Blocked"
proof -
  define buf where "buf = (buf_fill b0 d)[length d := NUL]"
  have bl: "length (buf_fill b0 d) = 256" using assms(3,4) by simp
  have pre: "buf = ''COMPILE '' @ drop 8 buf"
  proof -
    have "take 8 buf = take 8 (buf_fill b0 d)" unfolding buf_def by (rule take_update_cancel) (simp add: d_def)
    also have "\<dots> = ''COMPILE ''" by (simp add: buf_fill_def d_def)
    finally have "take 8 buf = ''COMPILE ''" .
    then show ?thesis by (metis append_take_drop_id)
  qed
  have l8: "8 \<le> length d" by (simp add: d_def)
  have "drop 8 buf ! (length d - 8) = NUL" "length d - 8 < length (drop 8 buf)"
    using l8 assms(3) bl by (simp_all add: buf_def)
  then have nul: "NUL \<in> set (drop 8 buf)" by (metis nth_mem)
  have eq: "strncmp_eq buf ''COMPILE'' 7"
    unfolding strncmp_eq_def by (subst pre) (simp add: cstr_def eval_nat_numeral)
  have t: "take 256 d = d" using assms(3) by simp
  define k where "k = (case e2 of None \<Rightarrow> (case e1 of None \<Rightarrow> w_kern w | Some k \<Rightarrow> k) | Some k \<Rightarrow> k)"
  define u1 where "u1 = w\<lparr>w_oracle := (e2, Ret 0) # (None, Ret pid) # (None, Ret status) # os, w_calls := w_calls w @ [CRead scl 256],
      w_kern := (case e1 of None \<Rightarrow> w_kern w | Some k \<Rightarrow> k)\<rparr>"
  define u2 where "u2 = u1\<lparr>w_oracle := (None, Ret pid) # (None, Ret status) # os, w_calls := w_calls u1 @ [CSemWait sem],
      w_kern := k\<lparr>k_sem := (k_sem k)(sem := 0)\<rparr>\<rparr>"
  have rd: "sys_read scl 256 w = (Val (int (length d), d), u1)"
    using assms(2) by (simp add: io_simps t u1_def)
  have k: "(case e2 of None \<Rightarrow> w_kern u1 | Some k \<Rightarrow> k) = k" "w_oracle u1 = (e2, Ret 0) # (None, Ret pid) # (None, Ret status) # os"
    by (simp_all add: u1_def k_def split: option.split)
  have "k_sem k sem = 1" using assms(7) by (simp add: k_def)
  then have "sem_wait sem u1 = (Val 0, u2)"
    by (simp add: sem_wait_def io_bind_def pop_def k sem_down_def u2_def)
  then have dn: "the_sem (Some sem) down_sem u1 = (Val (), u2)"
    by (simp add: the_sem_def down_sem_def nonnull_def io_basic_simps(1) io_seq_def io_bind_def io_ret_def)
  have cp: "animal2_compile st0 u2 = (Exit 0, u2\<lparr>w_oracle := os, w_calls := w_calls u2 @ [CFork, CWaitpid pid, CLog LOG_ERROR ''wait status'']\<rparr>)"
    using assms(5,6) by (simp add: animal2_compile_def io_simps log_run u2_def)
  have run: "animal2_client_handle b0 st0 (Some sem) scl w = (Exit 0, u2\<lparr>w_oracle := os, w_calls := w_calls u2 @ [CFork, CWaitpid pid, CLog LOG_ERROR ''wait status'']\<rparr>)"
    using assms(3) eq nul
    by (simp add: animal2_client_handle_def io_bind_simps(1) [where m = "sys_read scl 256", OF rd] buf_def [symmetric] from_ninth_def
        buf_str_def io_basic_simps(1) io_seq_def io_bind_simps(1) [where m = "the_sem (Some sem) down_sem", OF dn]
        io_bind_simps(2) [where m = "animal2_compile st0", OF cp])
  show ?thesis
    unfolding run by (simp add: u2_def u1_def sem_wait_def io_simps)
qed

theorem failed_compile_keeps_lock_witness:
  "\<exists>w'. animal2_client_handle (replicate 256 NUL) 0 (Some 0) 4 (sim_world [(None, Data (''COMPILE '' @ ''CAT'')), (None, Ret 0),
      (None, Ret 77), (None, Ret 256)]) = (Exit 0, w') \<and> k_sem (w_kern w') 0 = 0"
  using failed_compile_keeps_lock [of "sim_world [(None, Data (''COMPILE '' @ ''CAT'')), (None, Ret 0), (None, Ret 77), (None, Ret 256)]"
      None "''CAT''" None 77 256 "[]" "replicate 256 NUL" 0 0 4 "[]"]
  by (auto simp: sim_world_def WEXITSTATUS_def simp del: replicate.simps)

end
