(* ===== verification/ExamClients.thy ===== *)
theory ExamClients
  imports FileServers Client
begin

text \<open>
  The clients of the exam directories under \<open>cv_skuska/\<close>: \<open>basic\<close>, \<open>animal\<close>, \<open>animal2\<close>, \<open>animal3\<close>,
  \<open>file_edit\<close>, \<open>uloha4\<close>, \<open>uloha6\<close>, \<open>skuska_04\<close>, \<open>05_riadky\<close>, \<open>piskvorky\<close> and \<open>animal_done\<close>. All but the last
  two share the arguments and the connection; then each talks to its own server.

  What an array on the stack holds before it is written is an argument. The results of \<open>write\<close> are
  not looked at by any of them but \<open>piskvorky\<close> and \<open>animal_done\<close>; a count of -1, which the call
  refuses, is written as an empty text.
\<close>

section \<open>Common parts\<close>

text \<open>The arguments after host and port, as far as the program has variables for them.\<close>

fun exam_parse :: "(unit, 'p, 'm) io \<Rightarrow> nat \<Rightarrow> string list \<Rightarrow> string option \<Rightarrow> int \<Rightarrow> string list \<Rightarrow>
    (string option \<times> int \<times> string list, 'p, 'm) io" where
  "exam_parse hlp k [] l_host l_port l_more = io_ret (l_host, l_port, l_more)"
| "exam_parse hlp k (a # rest) l_host l_port l_more =
     io_seq (io_when (a = ''-d'') (set_debug LOG_DEBUG))
    (io_seq (io_when (a = ''-h'') hlp)
    (if not_option a then
       (if l_host = None then exam_parse hlp k rest (Some a) l_port l_more
        else if l_port = 0 then io_bind (atoi_io a) (\<lambda>p. exam_parse hlp k rest l_host p l_more)
        else if length l_more < k then exam_parse hlp k rest l_host l_port (l_more @ [a])
        else exam_parse hlp k rest l_host l_port l_more)
     else exam_parse hlp k rest l_host l_port l_more))"

text \<open>\<open>mid\<close> runs between the parsing and the test of host and port.\<close>

definition exam_args :: "nat \<Rightarrow> (unit, 'p, 'm) io \<Rightarrow> string list \<Rightarrow> (string \<times> int \<times> string list, 'p, 'm) io" where
  "exam_args k mid t_args =
     io_seq (io_when (length t_args \<le> 2) (client_help t_args))
    (io_bind (exam_parse (client_help t_args) k (tl t_args) None 0 []) (\<lambda>(l_host, l_port, l_more).
     io_seq mid
    (case l_host of
       Some h \<Rightarrow> if l_port \<noteq> 0 then io_ret (h, l_port, l_more)
         else io_seq (log_msg LOG_INFO ''Host or port is missing!'' []) (io_seq (client_help t_args) (io_exit 1))
     | None \<Rightarrow> io_seq (log_msg LOG_INFO ''Host or port is missing!'' []) (io_seq (client_help t_args) (io_exit 1)))))"

definition exam_client :: "nat \<Rightarrow> (unit, 'p, 'm) io \<Rightarrow> string list \<Rightarrow> (int \<Rightarrow> string list \<Rightarrow> (unit, 'p, 'm) io) \<Rightarrow> (int, 'p, 'm) io" where
  "exam_client k mid t_args run =
     io_bind (exam_args k mid t_args) (\<lambda>(l_host, l_port, l_more).
     io_bind (client_connect l_host l_port) (\<lambda>l_sock_server.
     io_seq (run l_sock_server l_more) (io_ret 0)))"

text \<open>The text of the error that \<open>perror\<close> adds is left out.\<close>

definition perror :: "string \<Rightarrow> (unit, 'p, 'm) io" where
  "perror s = emit (CWrite STDERR_FILENO s)"

text \<open>An argument that must be there; the programs do not test it.\<close>

definition arg_at :: "nat \<Rightarrow> string list \<Rightarrow> (string, 'p, 'm) io" where
  "arg_at n xs = (if n < length xs then io_ret (xs ! n) else io_ub)"

text \<open>A text printed into an array of \<open>n\<close> bytes, and the array after it.\<close>

definition print_into :: "char list \<Rightarrow> string \<Rightarrow> (char list, 'p, 'm) io" where
  "print_into b s = (if length s < length b then io_ret (buf_fill b (s @ [NUL])) else io_ub)"

text \<open>The copying loop; the end of the input is passed on as a piece of no bytes.\<close>

definition copy_piece :: "int \<Rightarrow> int \<Rightarrow> unit \<Rightarrow> (unit + unit, 'p, 'm) io" where
  "copy_piece src dst = (\<lambda>_.
     io_bind (sys_read src 4096) (\<lambda>(n, d).
     io_seq (emit (CWrite dst d)) (io_ret (if n \<le> 0 then Inr () else Inl ()))))"

definition copy_all :: "int \<Rightarrow> int \<Rightarrow> (unit, 'p, 'm) io" where
  "copy_all src dst = io_while (copy_piece src dst) ()"

section \<open>cv\_skuska/basic\<close>

text \<open>Neither loop looks at the end of its input.\<close>

definition basic_copy :: "int \<Rightarrow> int \<Rightarrow> unit \<Rightarrow> (unit + unit, 'p, 'm) io" where
  "basic_copy src dst = (\<lambda>_.
     io_bind (sys_read src 256) (\<lambda>(n, d). io_seq (emit (CWrite dst d)) (io_ret (Inl ()))))"

definition basic_cl_main :: "string list \<Rightarrow> (int, 'p, 'm) io" where
  "basic_cl_main t_args = exam_client 0 (io_ret ()) t_args (\<lambda>s _.
     io_bind (sys_int CFork) (\<lambda>t.
     if t = 0 then io_seq (io_while (basic_copy STDIN_FILENO s) ()) (io_seq (emit (CClose s)) (io_exit 0))
     else io_when (t > 0) (io_seq (io_while (basic_copy s STDOUT_FILENO) ()) (emit (CClose s)))))"

section \<open>cv\_skuska/animal\<close>

text \<open>\<open>strncpy\<close> fills the array up; a message that fills it leaves no null character for \<open>strcat\<close>.\<close>

definition animal_cl_main :: "string list \<Rightarrow> (int, 'p, 'm) io" where
  "animal_cl_main t_args = exam_client 2 (io_ret ()) t_args (\<lambda>s l_more.
     io_bind (arg_at 0 l_more) (\<lambda>msg.
     io_bind (arg_at 1 l_more) (\<lambda>animal.
     io_bind (print_into (replicate 256 NUL) (msg @ '' '' @ animal)) (\<lambda>b.
     emit (CWrite s b)))))"

section \<open>cv\_skuska/animal2\<close>

text \<open>\<open>strcpy\<close> of the fourth argument, wherever it stands, into ten bytes.\<close>

definition animal2_arg :: "string list \<Rightarrow> (string, 'p, 'm) io" where
  "animal2_arg t_args = io_bind (arg_at 3 t_args) (\<lambda>a. if length a < 10 then io_ret a else io_ub)"

text \<open>The last character of the line, or of what the array held, is cut off.\<close>

definition animal2_ask :: "char list \<Rightarrow> string \<Rightarrow> int \<Rightarrow> (unit, 'p, 'm) io" where
  "animal2_ask b0 animal s =
     io_bind (sys_read STDIN_FILENO 256) (\<lambda>(n, d).
     io_bind (buf_str (buf_fill b0 d)) (\<lambda>t.
     if t = [] then io_ub
     else io_when (n > 0 \<and> butlast t = ''COMPILE ANIMAL'') (emit (CWrite s (''COMPILE '' @ animal)))))"

text \<open>Store the program, make it executable and run it.\<close>

definition store_to :: "string \<Rightarrow> int \<Rightarrow> (unit, 'p, 'm) io" where
  "store_to name s = io_bind (sys_int (COpen name)) (\<lambda>f. io_seq (copy_all s f) (emit (CClose f)))"

definition animal2_cl_main :: "char list \<Rightarrow> string list \<Rightarrow> (int, 'p, 'm) io" where
  "animal2_cl_main b0 t_args = exam_client 0 (io_bind (animal2_arg t_args) (\<lambda>_. io_ret ())) t_args (\<lambda>s _.
     io_bind (animal2_arg t_args) (\<lambda>animal.
     io_block [animal2_ask b0 animal s, store_to ''PID.bin'' s, emit (CClose s), emit (CChmod ''PID.bin'' 493),
       io_bind (sys_int CFork) (\<lambda>tp.
         if tp = 0 then io_bind (sys_exec ''./PID.bin'' [''PID.bin'']) (\<lambda>_. io_exit 0)
         else wait_child tp)]))"

section \<open>cv\_skuska/animal3\<close>

text \<open>Whatever was read, the whole array is written, also after the end of the connection.\<close>

definition store_block :: "int \<Rightarrow> int \<Rightarrow> char list \<Rightarrow> (char list + unit, 'p, 'm) io" where
  "store_block s f b =
     io_bind (sys_read s 4096) (\<lambda>(n, d).
     let b = buf_fill b d in
     io_seq (emit (CWrite f b)) (io_ret (if n \<le> 0 then Inr () else Inl b)))"

text \<open>The argument list of \<open>execlp\<close> has no null pointer at its end.\<close>

definition animal3_cl_main :: "char list \<Rightarrow> char list \<Rightarrow> string list \<Rightarrow> (int, 'p, 'm) io" where
  "animal3_cl_main m0 b0 t_args = exam_client 1 (io_ret ()) t_args (\<lambda>s l_more.
     io_bind (arg_at 0 l_more) (\<lambda>animal.
     io_bind (print_into m0 (''COMPILE '' @ animal)) (\<lambda>m.
     io_seq (emit (CWrite s m))
    (io_bind (sys_int (COpen ''PID.bin'')) (\<lambda>f.
     io_block [io_while (store_block s f) b0, emit (CClose f), emit (CChmod ''PID.bin'' 493),
       io_bind (sys_int CFork) (\<lambda>p. if p = 0 then io_ub else io_when (p > 0) (wait_child p)),
       emit (CClose s)])))))"

section \<open>cv\_skuska/file\_edit\<close>

definition edit_cl_main :: "string list \<Rightarrow> (int, 'p, 'm) io" where
  "edit_cl_main t_args = exam_client 2 (io_ret ()) t_args (\<lambda>s l_more.
     io_bind (arg_at 0 l_more) (\<lambda>in_file.
     io_bind (sys_int (COpen in_file)) (\<lambda>f.
     io_bind (arg_at 1 l_more) (\<lambda>out_name.
     io_block [emit (CWrite s (buf_fill (replicate 256 NUL) (take 256 out_name))), copy_all f s, emit (CClose f), emit (CClose s)]))))"

section \<open>cv\_skuska/uloha4\<close>

definition u4_cl_main :: "char list \<Rightarrow> string list \<Rightarrow> (int, 'p, 'm) io" where
  "u4_cl_main b0 t_args = exam_client 2 (io_ret ()) t_args (\<lambda>s l_more.
     io_bind (arg_at 0 l_more) (\<lambda>day.
     io_bind (print_into b0 (''DAY '' @ day)) (\<lambda>b.
     io_block [emit (CWrite s b), store_to ''result.png'' s, emit (CClose s)])))"

section \<open>cv\_skuska/uloha6\<close>

text \<open>
  The text is compared with what the array holds: a \<open>READY\<close> that comes without a null character is
  followed by what was there before.
\<close>

definition await_ready :: "int \<Rightarrow> char list \<Rightarrow> (char list + unit, 'p, 'm) io" where
  "await_ready s b =
     io_bind (sys_read s 256) (\<lambda>(n, d).
     let b = buf_fill b d in io_ret (if cstr b = ''READY'' then Inr () else Inl b))"

definition u6_send_source :: "int \<Rightarrow> char list \<Rightarrow> (unit, 'p, 'm) io" where
  "u6_send_source s b0 =
     io_bind (sys_int (COpen ''je_prave.cpp'')) (\<lambda>f.
     io_bind (sys_read f 4096) (\<lambda>(r, d).
     if r < 1 then io_ub else emit (CWrite s ((buf_fill b0 d)[nat r - 1 := NUL]))))"

definition u6_show :: "int \<Rightarrow> char list \<Rightarrow> (char list + unit, 'p, 'm) io" where
  "u6_show s b =
     io_bind (sys_read s 1) (\<lambda>(c, d).
     let b = buf_fill b d in
     io_seq (emit (CWrite STDOUT_FILENO b)) (io_ret (if c \<le> 0 then Inr () else Inl b)))"

definition u6_cl_main :: "char list \<Rightarrow> char list \<Rightarrow> char list \<Rightarrow> string list \<Rightarrow> (int, 'p, 'm) io" where
  "u6_cl_main m0 b0 c0 t_args = exam_client 0 (io_ret ()) t_args (\<lambda>s _.
     io_block [io_while (await_ready s) m0, log_msg LOG_INFO ''Posielam zdrojovy kod'' [], u6_send_source s b0,
       log_msg LOG_INFO ''Data poslane'' [], io_while (u6_show s) c0, emit (CClose s)])"

section \<open>cv\_skuska/skuska\_04\<close>

text \<open>The picture is shown by a child nobody waits for; the socket is closed twice.\<close>

definition s04_cl_main :: "string list \<Rightarrow> (int, 'p, 'm) io" where
  "s04_cl_main t_args = exam_client 2 (io_ret ()) t_args (\<lambda>s l_more.
     io_bind (arg_at 0 l_more) (\<lambda>day.
     io_bind (print_into (replicate 256 NUL) (''DAY '' @ day)) (\<lambda>b.
     io_bind (print_into (replicate 128 NUL) (day @ ''.png'')) (\<lambda>f_name.
     io_seq (io_block [log_msg LOG_INFO (''Tu som'' @ [LF]) [], emit (CWrite s (cstr b)), store_to (cstr f_name) s])
    (io_bind (arg_at 1 l_more) (\<lambda>pic_size.
     io_block [log_msg LOG_INFO (''Sirka je: %s'' @ [LF]) [AStr pic_size],
       log_msg LOG_INFO (''Nazov: %s'' @ [LF]) [AStr (cstr f_name)],
       io_bind (sys_int CFork) (\<lambda>p.
         if p = 0 then io_bind (sys_exec ''display'' [''display'', ''-resize'', pic_size, cstr f_name])
             (\<lambda>_. io_seq (emit (CClose s)) (io_exit 0))
         else emit (CClose s)),
       emit (CClose s)]))))))"

section \<open>cv\_skuska/05\_riadky\<close>

text \<open>The answer to the size is read once and not looked at.\<close>

definition riadky_cl_main :: "string list \<Rightarrow> (int, 'p, 'm) io" where
  "riadky_cl_main t_args = exam_client 0 (io_ret ()) t_args (\<lambda>s _.
     io_bind (sys_int (COpen ''animal.cpp'')) (\<lambda>f.
     io_bind (file_size f) (\<lambda>sz.
     let t = show_int (sint (word_of_int sz :: 32 word)) in
     io_seq (emit (CPrint t))
    (io_seq (emit (CWrite s t))
    (io_bind (sys_read s 128) (\<lambda>_.
     io_block [copy_all f s, emit (CClose f), copy_all s STDOUT_FILENO, emit (CClose s)]))))))"

section \<open>cv\_skuska/piskvorky\<close>

text \<open>
  The relay of the first game does not stop at the end of the standard input, nor when a write to it
  fails: it goes on with a count of 0 or -1.
\<close>

definition xo_stdin :: "int \<Rightarrow> char list \<Rightarrow> (char list, 'p, 'm) io" where
  "xo_stdin l_sock_server l_buf =
     io_bind (sys_read STDIN_FILENO 128) (\<lambda>(l_len, d).
     io_seq (if l_len < 0 then log_msg LOG_ERROR ''Unable to read from stdin.'' []
       else log_msg LOG_DEBUG ''Read %d bytes from stdin.'' [AInt l_len])
    (io_bind (sys_int (CWrite l_sock_server d)) (\<lambda>l_len.
     io_seq (if l_len < 0 then log_msg LOG_ERROR ''Unable to send data to server.'' []
       else log_msg LOG_DEBUG ''Sent %d bytes to server.'' [AInt l_len])
    (io_ret (buf_fill l_buf d)))))"

definition xo_server :: "int \<Rightarrow> char list \<Rightarrow> (char list + unit, 'p, 'm) io" where
  "xo_server l_sock_server l_buf =
     io_bind (sys_read l_sock_server 128) (\<lambda>(l_len, d).
     if l_len = 0 then io_seq (log_msg LOG_DEBUG ''Server closed socket.'' []) (io_ret (Inr ()))
     else if l_len < 0 then io_seq (log_msg LOG_ERROR ''Unable to read data from server.'' []) (io_ret (Inr ()))
     else
     io_seq (log_msg LOG_DEBUG ''Read %d bytes from server.'' [AInt l_len])
    (io_bind (sys_int (CWrite STDOUT_FILENO d)) (\<lambda>l_len.
     io_seq (io_when (l_len < 0) (log_msg LOG_ERROR ''Unable to write to stdout.'' []))
    (if strncasecmp_eq (buf_fill l_buf d) STR_CLOSE (length STR_CLOSE) then
       io_seq (log_msg LOG_INFO ''Connection will be closed...'' []) (io_ret (Inr ()))
     else io_ret (Inl (buf_fill l_buf d))))))"

definition xo_round :: "int \<Rightarrow> char list \<Rightarrow> (char list + unit, 'p, 'm) io" where
  "xo_round l_sock_server l_buf =
     io_bind (sys_poll [STDIN_FILENO, l_sock_server]) (\<lambda>(r, in0, in1).
     if r < 0 then io_ret (Inr ())
     else
     io_bind (if in0 then xo_stdin l_sock_server l_buf else io_ret l_buf) (\<lambda>l_buf.
     if in1 then xo_server l_sock_server l_buf else io_ret (Inl l_buf)))"

definition xo_cl_main :: "char list \<Rightarrow> string list \<Rightarrow> (int, 'p, 'm) io" where
  "xo_cl_main b0 t_args = exam_client 0 (io_ret ()) t_args (\<lambda>s _.
     io_seq (io_while (xo_round s) b0) (emit (CClose s)))"

section \<open>cv\_skuska/animal\_done\<close>

text \<open>This client checks its arguments and every call. The usage text needs an animal too.\<close>

definition done_help :: "string list \<Rightarrow> (unit, 'p, 'm) io" where
  "done_help t_args =
     (if length t_args \<le> 3 \<or> t_args ! 1 = ''-h'' then io_seq (emit (CPrint ''usage'')) (io_exit 0)
      else io_when (t_args ! 1 = ''-d'') (set_debug LOG_DEBUG))"

definition done_args :: "string list \<Rightarrow> (string \<times> int \<times> string, 'p, 'm) io" where
  "done_args t_args =
     io_seq (io_when (length t_args \<le> 3) (done_help t_args))
    (io_bind (exam_parse (done_help t_args) 1 (tl t_args) None 0 []) (\<lambda>(l_host, l_port, l_more).
     case l_host of
       Some h \<Rightarrow> if l_port \<noteq> 0 \<and> l_more \<noteq> [] then
           (if is_animal_ok (hd l_more) then io_ret (h, l_port, hd l_more)
            else io_seq (log_msg LOG_INFO (''Bad ANIMAL '' @ [CHR 0x27] @ ''%s'' @ [CHR 0x27] @ ''!'') [AStr (hd l_more)])
                (io_seq (done_help t_args) (io_exit 1)))
         else io_seq (log_msg LOG_INFO ''Host, port or ANIMAL is missing!'' []) (io_seq (done_help t_args) (io_exit 1))
     | None \<Rightarrow> io_seq (log_msg LOG_INFO ''Host, port or ANIMAL is missing!'' []) (io_seq (done_help t_args) (io_exit 1))))"

text \<open>Every error after the connection was made closes it and ends the program.\<close>

definition give_up :: "string \<Rightarrow> int list \<Rightarrow> ('a, 'p, 'm) io" where
  "give_up text fds = io_seq (log_msg LOG_ERROR text []) (io_seq (io_block (map (\<lambda>f. emit (CClose f)) fds)) (io_exit 1))"

definition done_connect :: "string \<Rightarrow> int \<Rightarrow> string \<Rightarrow> (int, 'p, 'm) io" where
  "done_connect l_host l_port l_animal =
     io_seq (log_msg LOG_INFO (''Connection to '' @ [CHR 0x27] @ ''%s'' @ [CHR 0x27] @ '':%d. ANIMAL=%s'') [AStr l_host, AInt l_port, AStr l_animal])
    (io_bind (resolve l_host) (\<lambda>ip.
     io_bind (sys_int CSocket) (\<lambda>l_sock_server.
     if l_sock_server = -1 then give_up ''Unable to create socket.'' []
     else
     io_bind (sys_int (CConnect l_sock_server (htons l_port))) (\<lambda>r.
     if r < 0 then give_up ''Unable to connect server.'' [l_sock_server]
     else io_seq (report_addresses l_sock_server (ip, uint (htons l_port))) (io_ret l_sock_server)))))"

definition done_request :: "string \<Rightarrow> string" where
  "done_request l_animal = snprintf_str 128 (''COMPILE '' @ l_animal @ [LF])"

text \<open>A block is written until all of it is stored.\<close>

definition done_write :: "int \<Rightarrow> int \<Rightarrow> string \<Rightarrow> nat \<Rightarrow> (nat + unit, 'p, 'm) io" where
  "done_write l_fd s d off =
     (if off < length d then
        io_bind (sys_int (CWrite l_fd (drop off d))) (\<lambda>ww.
        if ww \<le> 0 then give_up ''Unable to write to file.'' [l_fd, s]
        else io_ret (Inl (off + nat ww)))
      else io_ret (Inr ()))"

text \<open>The first block tells whether the compilation failed. \<open>False\<close>: nothing was stored.\<close>

definition done_block :: "int \<Rightarrow> int \<Rightarrow> string \<Rightarrow> bool \<Rightarrow> (bool + bool, 'p, 'm) io" where
  "done_block l_fd s l_out_name is_first =
     io_bind (sys_read s 4096) (\<lambda>(n, d).
     if n = 0 then io_ret (Inr True)
     else if n < 0 then give_up ''Unable to read from server.'' [l_fd, s]
     else if is_first \<and> n \<ge> 18 \<and> strncmp_eq d ''COMPILATION_FAILED'' 18 then
       io_seq (io_block [log_msg LOG_INFO ''Server: compilation failed.'' [], emit (CClose l_fd), emit (CClose s),
         emit (CUnlink l_out_name)]) (io_ret (Inr False))
     else io_seq (io_while (done_write l_fd s d) 0) (io_ret (Inl False)))"

text \<open>Run what was stored.\<close>

definition done_run :: "string \<Rightarrow> (int, 'p, 'm) io" where
  "done_run l_out_name =
     io_seq (emit (CChmod l_out_name 493))
    (io_seq (log_msg LOG_INFO (''Saved to '' @ [CHR 0x27] @ ''%s'' @ [CHR 0x27] @ ''. Running...'') [AStr l_out_name])
    (io_bind (sys_int CFork) (\<lambda>l_pid.
     if l_pid < 0 then give_up ''fork failed'' []
     else if l_pid = 0 then
       let l_path = snprintf_str 256 (''./'' @ l_out_name) in
       io_bind (sys_exec l_path [l_path]) (\<lambda>_. io_seq (perror ''execl failed'') (io_exit 127))
     else io_seq (wait_child l_pid) (io_seq (log_msg LOG_INFO ''Done.'' []) (io_ret 0)))))"

definition done_session :: "int \<Rightarrow> string \<Rightarrow> (int, 'p, 'm) io" where
  "done_session s l_animal =
     io_bind (sys_int (CWrite s (done_request l_animal))) (\<lambda>w.
     if w < 0 then give_up ''Unable to send request.'' [s]
     else
     io_bind (sys_int CGetpid) (\<lambda>pid.
     let l_out_name = snprintf_str 128 (show_int pid @ ''.bin'') in
     io_bind (sys_int (COpen l_out_name)) (\<lambda>l_fd.
     if l_fd < 0 then give_up ''Unable to create output file.'' [s]
     else
     io_bind (io_while (done_block l_fd s l_out_name) True) (\<lambda>stored.
     if \<not> stored then io_ret 1
     else io_seq (emit (CClose l_fd)) (io_seq (emit (CClose s)) (done_run l_out_name))))))"

definition done_cl_main :: "string list \<Rightarrow> (int, 'p, 'm) io" where
  "done_cl_main t_args =
     io_bind (done_args t_args) (\<lambda>(l_host, l_port, l_animal).
     io_bind (done_connect l_host l_port l_animal) (\<lambda>s. done_session s l_animal))"

section \<open>Loops\<close>

interpretation copy_pieces: event_loop "copy_piece src dst"
proof
  show "sane (copy_piece src dst s)" for s
    unfolding copy_piece_def by (intro ext_intros)
  show "uses (copy_piece src dst s)" for s
    unfolding copy_piece_def by (rule uses_bind_first [OF uses_sys(2)]) (intro ext_intros)
qed

interpretation basic_copies: event_loop "basic_copy src dst"
proof
  show "sane (basic_copy src dst s)" for s
    unfolding basic_copy_def by (intro ext_intros)
  show "uses (basic_copy src dst s)" for s
    unfolding basic_copy_def by (rule uses_bind_first [OF uses_sys(2)]) (intro ext_intros)
qed

interpretation store_blocks: event_loop "store_block s f"
proof
  show "sane (store_block s f b)" for b
    unfolding store_block_def by (intro ext_intros)
  show "uses (store_block s f b)" for b
    unfolding store_block_def by (rule uses_bind_first [OF uses_sys(2)]) (intro ext_intros)
qed

interpretation ready_loop: event_loop "await_ready s"
proof
  show "sane (await_ready s b)" for b
    unfolding await_ready_def by (intro ext_intros)
  show "uses (await_ready s b)" for b
    unfolding await_ready_def by (rule uses_bind_first [OF uses_sys(2)]) (intro ext_intros)
qed

interpretation show_loop: event_loop "u6_show s"
proof
  show "sane (u6_show s b)" for b
    unfolding u6_show_def by (intro ext_intros)
  show "uses (u6_show s b)" for b
    unfolding u6_show_def by (rule uses_bind_first [OF uses_sys(2)]) (intro ext_intros)
qed

lemma sane_xo_relay [ext_intros]: "sane (xo_stdin s b)" "sane (xo_server s b)"
  unfolding xo_stdin_def xo_server_def by (intro ext_intros)+

interpretation xo_relay: event_loop "xo_round s"
proof
  show "sane (xo_round s b)" for b
    unfolding xo_round_def by (intro ext_intros)
  show "uses (xo_round s b)" for b
    unfolding xo_round_def by (rule uses_bind_first [OF uses_sys(3)]) (intro ext_intros)
qed

lemma sane_give_up [ext_intros]: "sane (give_up t fds)"
  unfolding give_up_def by (intro ext_intros) (induction fds; auto intro!: ext_intros)

interpretation done_writes: bounded_loop "done_write f s d"
proof
  show "sane (done_write f s d off)" for off
    unfolding done_write_def by (intro ext_intros)
  fix off off' w w'
  have "uses (io_bind (sys_int (CWrite f (drop off d))) (\<lambda>ww. if ww \<le> 0 then give_up ''Unable to write to file.'' [f, s]
      else io_ret (Inl (off + nat ww) :: nat + unit)))"
    by (rule uses_bind_first [OF uses_sys(1)]) (intro ext_intros)
  from usesD [OF this] show "done_write f s d off w = (Val (Inl off'), w') \<Longrightarrow> length (w_oracle w') < length (w_oracle w)"
    by (auto simp: done_write_def io_ret_def split: if_splits)
qed

interpretation done_blocks: event_loop "done_block f s nm"
proof
  show "sane (done_block f s nm b)" for b
    unfolding done_block_def by (intro ext_intros done_writes.while_sane)
  show "uses (done_block f s nm b)" for b
    unfolding done_block_def
    by (rule uses_bind_first [OF uses_sys(2)]) (intro ext_intros done_writes.while_sane; auto intro: ext_intros)
qed

end
