(* ===== verification/Du04Client.thy ===== *)
theory Du04Client
  imports Du04 ClientFiles ExamClients
begin

text \<open>
  The client \<open>DU/DU04/socket_cl.cpp\<close> of the threaded server of \<open>Du04\<close>: a producer sends the lines of a
  file, a consumer prints what it gets, and both wait for the other side after each line. The functions
  \<open>recv_line\<close> and \<open>send_str\<close> are those of the server, with lines of 256 bytes instead of ten.
\<close>

abbreviation CL_LINE :: nat where "CL_LINE \<equiv> 256"

section \<open>Threads\<close>

text \<open>All carriage returns and line feeds at the end of a line are cut off.\<close>

definition strip_eol :: "string \<Rightarrow> string" where
  "strip_eol s = rev (dropWhile (\<lambda>c. c = LF \<or> c = CR) (rev s))"

text \<open>The rate is read under a mutex that is held for this one access only.\<close>

definition pause_rate :: "(unit, 'p, int) io" where
  "pause_rate = io_bind get_rate (\<lambda>rate. emit (CUsleep (delay_us rate)))"

fun d4_send_lines :: "int \<Rightarrow> string list \<Rightarrow> (unit, 'p, int) io" where
  "d4_send_lines g_sock [] = io_ret ()"
| "d4_send_lines g_sock (l # ls) =
     (let line = strip_eol (cstr l) in
      if line = [] then d4_send_lines g_sock ls
      else
      io_seq (emit (CPrint (''SEND: '' @ line @ [LF])))
     (io_seq (send_str g_sock (snprintf_str (CL_LINE + 4) (line @ [LF])))
     (io_bind (recv_line g_sock CL_LINE) (\<lambda>ack.
      if ack = None then io_ret ()
      else io_seq pause_rate (d4_send_lines g_sock ls)))))"

definition d4_producer_thread :: "int \<Rightarrow> (unit, 'p, int) io" where
  "d4_producer_thread g_sock =
     io_bind (fopen_read ''jmena.txt'') (\<lambda>f. case f of
       None \<Rightarrow> perror ''jmena.txt''
     | Some s \<Rightarrow> d4_send_lines g_sock (file_lines CL_LINE s))"

definition d4_receive_round :: "int \<Rightarrow> unit \<Rightarrow> (unit + unit, 'p, int) io" where
  "d4_receive_round g_sock = (\<lambda>_.
     io_bind (recv_line g_sock CL_LINE) (\<lambda>l. case l of
       None \<Rightarrow> io_ret (Inr ())
     | Some line \<Rightarrow>
         io_seq (io_block [emit (CPrint (''RECV: '' @ line @ [LF])), send_str g_sock (''OK'' @ [LF]), pause_rate])
           (io_ret (Inl ()))))"

definition d4_consumer_thread :: "int \<Rightarrow> (unit, 'p, int) io" where
  "d4_consumer_thread g_sock = io_while (d4_receive_round g_sock) ()"

text \<open>The console of a producer: \<open>fgets\<close> on the standard input is a read of at most 63 characters.\<close>

definition d4_speed_round :: "unit \<Rightarrow> (unit + unit, 'p, int) io" where
  "d4_speed_round = (\<lambda>_.
     io_bind (sys_read STDIN_FILENO 63) (\<lambda>(n, d).
     if n \<le> 0 then io_ret (Inr ())
     else
     io_bind (atoi_io (cstr d)) (\<lambda>x.
     io_seq (io_when (x > 0)
         (io_seq (set_rate x) (emit (CPrint (''Rate set to '' @ show_int x @ '' per minute'' @ [LF])))))
       (io_ret (Inl ())))))"

section \<open>The main program\<close>

definition d4_help :: "string list \<Rightarrow> (unit, 'p, 'm) io" where
  "d4_help t_args =
     (if length t_args \<le> 2 \<or> t_args ! 1 = ''-h'' then io_seq (emit (CPrint ''usage'')) (io_exit 0)
      else io_when (t_args ! 1 = ''-d'') (set_debug LOG_DEBUG))"

definition d4_client_args :: "string list \<Rightarrow> (string \<times> int \<times> string, 'p, 'm) io" where
  "d4_client_args t_args =
     io_seq (io_when (length t_args \<le> 2) (d4_help t_args))
    (io_bind (exam_parse (d4_help t_args) 1 (tl t_args) None 0 []) (\<lambda>(l_host, l_port, l_more).
     if l_host = None \<or> l_port = 0 \<or> l_more = [] then
       io_seq (log_msg LOG_INFO ''Host, port or role is missing!'' []) (io_seq (d4_help t_args) (io_exit 1))
     else io_ret (the l_host, l_port, hd l_more)))"

definition d4_connect :: "string \<Rightarrow> int \<Rightarrow> string \<Rightarrow> (int, 'p, 'm) io" where
  "d4_connect l_host l_port l_role =
     io_seq (log_msg LOG_INFO ''Connection to '%s':%d. Role: %s'' [AStr l_host, AInt l_port, AStr l_role])
    (io_bind (resolve l_host) (\<lambda>ip.
     io_bind (sys_int CSocket) (\<lambda>g_sock.
     if g_sock = -1 then give_up ''Unable to create socket.'' []
     else
     io_bind (sys_int (CConnect g_sock (htons l_port))) (\<lambda>r.
     if r < 0 then give_up ''Unable to connect server.'' []
     else io_seq (report_addresses g_sock (ip, uint (htons l_port))) (io_ret g_sock)))))"

text \<open>The main thread of a consumer only waits for its thread, whose code stands in the place of the wait.\<close>

definition d4_run_role :: "int \<Rightarrow> string \<Rightarrow> (unit, 'p, int) io" where
  "d4_run_role g_sock l_role =
     (if l_role = ''producer'' then io_block [emit (CThread ''producer_thread''), io_while d4_speed_round (), emit CThreadJoin]
      else if l_role = ''consumer'' then io_block [emit (CThread ''consumer_thread''), d4_consumer_thread g_sock, emit CThreadJoin]
      else log_msg LOG_INFO ''Unknown role.'' [])"

text \<open>
  The question of the server is not looked at, but printed in the place of the answer. If it does not
  come, an array is printed that was not set.
\<close>

definition d4_client_main :: "string list \<Rightarrow> (int, 'p, int) io" where
  "d4_client_main t_args =
     io_bind (d4_client_args t_args) (\<lambda>(l_host, l_port, l_role).
     io_bind (d4_connect l_host l_port l_role) (\<lambda>g_sock.
     io_bind (recv_line g_sock CL_LINE) (\<lambda>q. case q of
       None \<Rightarrow> io_ub
     | Some line \<Rightarrow>
         io_seq (io_block [emit (CPrint (''SEND: '' @ line @ [LF])), send_str g_sock (snprintf_str CL_LINE (l_role @ [LF])),
           d4_run_role g_sock l_role, emit (CClose g_sock)]) (io_ret 0))))"

section \<open>Facts\<close>

lemma sane_d4_client [ext_intros]: "sane (pause_rate :: (unit, 'p, int) io)" "sane (perror s)" "sane (d4_help ta)"
  unfolding pause_rate_def perror_def d4_help_def by (intro ext_intros)+

lemma sane_d4_send_lines [ext_intros]: "sane (d4_send_lines s ls)"
  by (induction s ls rule: d4_send_lines.induct) (auto simp: Let_def intro!: ext_intros)

lemma uses_recv_first: "1 < cap \<Longrightarrow> (\<And>l. sane (f l)) \<Longrightarrow> uses (io_bind (recv_line fd cap) f)"
proof (rule uses_bind_first)
  assume cap: "1 < cap"
  have "uses (recv_char fd cap [])"
    unfolding recv_char_def using cap by (auto intro!: uses_bind_first [OF uses_sys(2)] ext_intros)
  then have "uses (io_while (recv_char fd cap) [])"
    unfolding recv_loop.while_unfold [of _ _ "[]"]
    by (rule uses_bind_first) (auto intro: recv_loop.while_sane ext_intros split: sum.split)
  then show "uses (recv_line fd cap)"
    unfolding recv_line_def by (rule uses_bind_first) (intro ext_intros)
qed

interpretation d4_receive: event_loop "d4_receive_round s"
proof
  show "sane (d4_receive_round s u)" for u
    unfolding d4_receive_round_def by (intro ext_intros)
  show "uses (d4_receive_round s u)" for u
    unfolding d4_receive_round_def by (rule uses_recv_first) (simp, intro ext_intros)
qed

interpretation d4_speed: event_loop d4_speed_round
proof
  show "sane (d4_speed_round u :: (unit + unit, 'p, int) io)" for u
    unfolding d4_speed_round_def by (intro ext_intros)
  show "uses (d4_speed_round u :: (unit + unit, 'p, int) io)" for u
    unfolding d4_speed_round_def by (rule uses_bind_first [OF uses_sys(2)]) (intro ext_intros)
qed

section \<open>Client and server\<close>

text \<open>
  The server takes a line of nine characters or more apart: the first nine characters, without a line
  feed, are a line of their own, which it stores and answers.
\<close>

lemma server_splits:
  assumes "w_oracle w = map (\<lambda>c. (None, Data [c])) t @ os" and "LF \<notin> set t" and "length l + length t = 9"
  shows "\<exists>w'. io_while (recv_char fd MAX_LINE) l w = (Val (Some (l @ t)), w') \<and> w_oracle w' = os"
  using assms
proof (induction t arbitrary: l w)
  case Nil
  then show ?case by (subst recv_loop.while_unfold) (simp add: recv_char_def io_simps)
next
  case (Cons x t)
  define v where "v = snd (recv_char fd MAX_LINE l w)"
  have v: "recv_char fd MAX_LINE l w = (Val (Inl (l @ [x])), v)" "w_oracle v = map (\<lambda>c. (None, Data [c])) t @ os"
    using Cons.prems by (auto simp: v_def recv_char_def io_simps)
  from Cons.IH [OF v(2), of "l @ [x]"] Cons.prems(2,3) show ?case
    by (subst recv_loop.while_unfold) (auto simp: io_bind_def v(1))
qed

end
