(* ===== verification/ExamClientProps.thy ===== *)
theory ExamClientProps
  imports ExamClients JobProps LineProps
begin

text \<open>
  The client and the server of \<open>animal_done\<close> against each other: the request is understood, a program
  is stored as it was sent, a failed compilation is reported. The client of \<open>uloha6\<close> waits for a
  text its server does not send.
\<close>

section \<open>Storing the answer\<close>

text \<open>The bytes a sequence of calls, with their results, puts into a file.\<close>

definition taken :: "int \<Rightarrow> call \<times> sysret \<Rightarrow> string" where
  "taken f x = (case x of (CWrite g d, Ret k) \<Rightarrow> (if g = f then take (nat k) d else []) | _ \<Rightarrow> [])"

definition stored :: "int \<Rightarrow> (call \<times> sysret) list \<Rightarrow> string" where
  "stored f xs = concat (map (taken f) xs)"

lemma stored_simps [simp]:
  "stored f [] = []"
  "stored f ((CWrite g d, Ret k) # xs) = (if g = f then take (nat k) d else []) @ stored f xs"
  "stored f ((CRead g n, r) # xs) = stored f xs"
  by (simp_all add: stored_def taken_def)

lemma stored_append: "stored f (xs @ ys) = stored f xs @ stored f ys"
  by (simp add: stored_def)

lemma write_all:
  assumes "w_oracle w = used @ rest" and "map snd used = map (\<lambda>k. Ret (int k)) ks"
    and "\<forall>k \<in> set ks. 0 < k" and "off + sum_list ks = length d"
  shows "\<exists>w' cs. io_while (done_write f s d) off w = (Val (), w') \<and> w_oracle w' = rest \<and>
    w_calls w' = w_calls w @ cs \<and> length cs = length used \<and> stored f (zip cs (map snd used)) = drop off d"
  using assms
proof (induction ks arbitrary: used off w)
  case Nil
  then show ?case by (subst done_writes.while_unfold) (simp add: done_write_def io_simps)
next
  case (Cons k ks)
  then obtain e us where u: "used = (e, Ret (int k)) # us" and us: "map snd us = map (\<lambda>k. Ret (int k)) ks" by (cases used) auto
  have k: "0 < k" "off + k + sum_list ks = length d" "off < length d" using Cons.prems(3,4) by auto
  define v where "v = snd (done_write f s d off w)"
  have v: "done_write f s d off w = (Val (Inl (off + k)), v)" "w_oracle v = us @ rest" "w_calls v = w_calls w @ [CWrite f (drop off d)]"
    using k Cons.prems(1) by (simp_all add: v_def u done_write_def io_simps)
  from Cons.IH [OF v(2) us _ k(2)] Cons.prems(3) obtain w' cs where
    w': "io_while (done_write f s d) (off + k) v = (Val (), w')" "w_oracle w' = rest" "w_calls w' = w_calls v @ cs"
      "length cs = length us" "stored f (zip cs (map snd us)) = drop (off + k) d" by auto
  have "take k (drop off d) @ drop (off + k) d = drop off d"
    by (metis add.commute append_take_drop_id drop_drop)
  then show ?case using w' v
    by (intro exI [of _ w'] exI [of _ "CWrite f (drop off d) # cs"])
      (subst done_writes.while_unfold, simp add: io_bind_def u)
qed

text \<open>A block as it arrives, and how many bytes each \<open>write\<close> of it takes.\<close>

definition answers :: "string \<times> nat list \<Rightarrow> sysret list" where
  "answers = (\<lambda>(d, ks). Data d # map (\<lambda>k. Ret (int k)) ks)"

definition block_ok :: "string \<times> nat list \<Rightarrow> bool" where
  "block_ok = (\<lambda>(d, ks). d \<noteq> [] \<and> length d \<le> 4096 \<and> (\<forall>k \<in> set ks. 0 < k) \<and> sum_list ks = length d)"

definition failure :: "string \<Rightarrow> bool" where
  "failure d \<longleftrightarrow> 18 \<le> length d \<and> strncmp_eq d ''COMPILATION_FAILED'' 18"

lemma map_snd_append:
  assumes "map snd us = as @ bs"
  obtains vs ws where "us = vs @ ws" "map snd vs = as" "map snd ws = bs"
  using assms by (auto simp: map_eq_append_conv)

lemma store_all:
  assumes "w_oracle w = used @ (e, Data []) # rest" and "map snd used = concat (map answers blocks)"
    and "\<forall>b \<in> set blocks. block_ok b" and "is_first \<longrightarrow> blocks \<noteq> [] \<longrightarrow> \<not> failure (fst (hd blocks))"
  shows "\<exists>w' cs. io_while (done_block f s nm) is_first w = (Val True, w') \<and> w_oracle w' = rest \<and>
    w_calls w' = w_calls w @ cs \<and> stored f (zip cs (map snd used @ [Data []])) = concat (map fst blocks)"
  using assms
proof (induction blocks arbitrary: used is_first w)
  case Nil
  then show ?case by (subst done_blocks.while_unfold) (simp add: done_block_def io_simps)
next
  case (Cons b blocks)
  obtain d ks where b: "b = (d, ks)" by (cases b)
  from Cons.prems(2) b obtain e0 us where u: "used = (e0, Data d) # us"
    and mu: "map snd us = map (\<lambda>k. Ret (int k)) ks @ concat (map answers blocks)" by (cases used) (auto simp: answers_def)
  from mu obtain vs ws where us: "us = vs @ ws" "map snd vs = map (\<lambda>k. Ret (int k)) ks" "map snd ws = concat (map answers blocks)"
    by (rule map_snd_append)
  have d: "d \<noteq> []" "take 4096 d = d" "\<forall>k \<in> set ks. 0 < k" "0 + sum_list ks = length d"
    using Cons.prems(3) b by (auto simp: block_ok_def)
  have nf: "(is_first \<and> 18 \<le> length d \<and> strncmp_eq d ''COMPILATION_FAILED'' 18) = False"
    using Cons.prems(4) b by (auto simp: failure_def)
  define v where "v = snd (sys_read s 4096 w)"
  have rd: "sys_read s 4096 w = (Val (int (length d), d), v)" "w_oracle v = vs @ ws @ (e, Data []) # rest"
      "w_calls v = w_calls w @ [CRead s 4096]"
    using Cons.prems(1) u us(1) d by (simp_all add: v_def io_simps)
  from write_all [OF rd(2) us(2) d(3,4), of f s] obtain x cs where
    x: "io_while (done_write f s d) 0 v = (Val (), x)" "w_oracle x = ws @ (e, Data []) # rest" "w_calls x = w_calls v @ cs"
      "length cs = length vs" "stored f (zip cs (map snd vs)) = d" by auto
  have one: "done_block f s nm is_first w = (Val (Inl False), x)"
    using d(1) unfolding done_block_def
    by (simp add: nf io_bind_simps(1) [where m = "sys_read s 4096", OF rd(1)] io_seq_def io_bind_simps(1) [where m = "io_while (done_write f s d) 0", OF x(1)] io_ret_def)
  from Cons.IH [OF x(2) us(3), of False] Cons.prems(3) obtain w' ds where
    w': "io_while (done_block f s nm) False x = (Val True, w')" "w_oracle w' = rest" "w_calls w' = w_calls x @ ds"
      "stored f (zip ds (map snd ws @ [Data []])) = concat (map fst blocks)" by auto
  have "zip (CRead s 4096 # cs @ ds) (map snd used @ [Data []]) =
      (CRead s 4096, Data d) # zip cs (map snd vs) @ zip ds (map snd ws @ [Data []])"
    using x(4) by (simp add: u us(1))
  then show ?case using w' x rd(3) b
    by (intro exI [of _ w'] exI [of _ "CRead s 4096 # cs @ ds"])
      (subst done_blocks.while_unfold, simp add: io_bind_def one stored_append)
qed

text \<open>
  C32. A program is stored as it was sent: however the server's answer is cut into blocks and however few
  bytes each \<open>write\<close> takes, the file that is then made executable and run holds the bytes of the
  blocks in order, unless the first block is the message of a failed compilation.
\<close>

theorem program_stored:
  assumes "w_oracle w = (e1, Ret n) # (e2, Ret pid) # (e3, Ret fd) # used @ (e4, Data []) # rest"
    and "0 \<le> n" and "0 \<le> fd" and "map snd used = concat (map answers blocks)"
    and "\<forall>b \<in> set blocks. block_ok b" and "blocks \<noteq> [] \<longrightarrow> \<not> failure (fst (hd blocks))"
  shows "\<exists>u cs. done_session s a w = done_run (snprintf_str 128 (show_int pid @ ''.bin'')) u \<and> w_oracle u = rest \<and>
    w_calls u = w_calls w @ [CWrite s (done_request a), CGetpid, COpen (snprintf_str 128 (show_int pid @ ''.bin''))] @ cs @ [CClose fd, CClose s] \<and>
    stored fd (zip cs (map snd used @ [Data []])) = concat (map fst blocks)"
proof -
  let ?nm = "snprintf_str 128 (show_int pid @ ''.bin'')"
  define v1 where "v1 = snd (sys_int (CWrite s (done_request a)) w)"
  define v2 where "v2 = snd (sys_int CGetpid v1)"
  define v where "v = snd (sys_int (COpen ?nm) v2)"
  have r1: "sys_int (CWrite s (done_request a)) w = (Val n, v1)" "w_oracle v1 = (e2, Ret pid) # (e3, Ret fd) # used @ (e4, Data []) # rest"
      "w_calls v1 = w_calls w @ [CWrite s (done_request a)]"
    using assms(1) by (simp_all add: v1_def io_simps)
  have r2: "sys_int CGetpid v1 = (Val pid, v2)" "w_oracle v2 = (e3, Ret fd) # used @ (e4, Data []) # rest" "w_calls v2 = w_calls v1 @ [CGetpid]"
    using r1(2) by (simp_all add: v2_def io_simps)
  have r3: "sys_int (COpen ?nm) v2 = (Val fd, v)"
    and v: "w_oracle v = used @ (e4, Data []) # rest" "w_calls v = w_calls w @ [CWrite s (done_request a), CGetpid, COpen ?nm]"
    using r1(3) r2(2,3) by (simp_all add: v_def io_simps)
  from store_all [OF v(1) assms(4,5), of True fd s ?nm] assms(6) obtain x cs where
    x: "io_while (done_block fd s ?nm) True v = (Val True, x)" "w_oracle x = rest" "w_calls x = w_calls v @ cs"
      "stored fd (zip cs (map snd used @ [Data []])) = concat (map fst blocks)" by auto
  have "done_session s a w = done_run ?nm (x\<lparr>w_calls := w_calls x @ [CClose fd, CClose s]\<rparr>)"
    using assms(2,3) unfolding done_session_def
    by (simp add: io_bind_simps(1) [where m = "sys_int c" for c, OF r1(1)] io_bind_simps(1) [where m = "sys_int c" for c, OF r2(1)]
        io_bind_simps(1) [where m = "sys_int c" for c, OF r3] Let_def io_bind_simps(1) [where m = "io_while b i" for b i, OF x(1)])
      (simp add: io_seq_def io_bind_def emit_def)
  then show ?thesis using x v(2) by (intro exI [of _ "x\<lparr>w_calls := w_calls x @ [CClose fd, CClose s]\<rparr>"] exI [of _ cs]) simp
qed

text \<open>The message of a failed compilation that arrives in two pieces is stored and run.\<close>

theorem program_stored_witness:
  "\<exists>u cs. done_session 4 ''CAT'' (job_world [(None, Ret 12), (None, Ret 7), (None, Ret 5), (None, Data ''COMPILATION''), (None, Ret 11),
      (None, Data (''_FAILED'' @ [LF])), (None, Ret 3), (None, Ret 5), (None, Data [])] ()) = done_run (snprintf_str 128 (show_int 7 @ ''.bin'')) u \<and>
    stored 5 (zip cs [Data ''COMPILATION'', Ret 11, Data (''_FAILED'' @ [LF]), Ret 3, Ret 5, Data []]) = ''COMPILATION_FAILED'' @ [LF]"
  using program_stored [of "job_world [(None, Ret 12), (None, Ret 7), (None, Ret 5), (None, Data ''COMPILATION''), (None, Ret 11),
      (None, Data (''_FAILED'' @ [LF])), (None, Ret 3), (None, Ret 5), (None, Data [])] ()" None 12 None 7 None 5
      "[(None, Data ''COMPILATION''), (None, Ret 11), (None, Data (''_FAILED'' @ [LF])), (None, Ret 3), (None, Ret 5)]" None "[]"
      "[(''COMPILATION'', [11]), (''_FAILED'' @ [LF], [3, 5])]" 4 "''CAT''"]
  by (auto simp: job_world_def answers_def block_ok_def failure_def)

section \<open>The request\<close>

lemma read_request:
  assumes "w_oracle w = map (\<lambda>c. (None, Data [c])) t @ (None, Data [LF]) # os" and "LF \<notin> set t" and "length l + length t < m - 1"
  shows "\<exists>w'. io_while (read_char lsc m) (l, c0) w = (Val (l @ t), w') \<and> w_oracle w' = os \<and> w_debug w' = w_debug w \<and> w_priv w' = w_priv w \<and>
    w_kern w' = w_kern w \<and> w_calls w' = w_calls w @ replicate (length t + 1) (CRead lsc 1)"
  using assms
proof (induction t arbitrary: l c0 w)
  case Nil
  then show ?case by (subst line_loop.while_unfold) (simp add: read_char_def io_simps)
next
  case (Cons x t)
  define v where "v = snd (read_char lsc m (l, c0) w)"
  have v: "read_char lsc m (l, c0) w = (Val (Inl (l @ [x], x)), v)" "w_oracle v = map (\<lambda>c. (None, Data [c])) t @ (None, Data [LF]) # os"
    "w_debug v = w_debug w" "w_priv v = w_priv w" "w_kern v = w_kern w" "w_calls v = w_calls w @ [CRead lsc 1]"
    using Cons.prems by (auto simp: v_def read_char_def io_simps)
  from Cons.IH [OF v(2), of "l @ [x]" x] Cons.prems(2,3) v(3-6) show ?case
    by (subst line_loop.while_unfold) (auto simp: io_bind_def v(1))
qed

text \<open>
  C33. The compile server understands its client: from the bytes of a request for one of the four animals it
  reads the command and the animal, answers nothing, and waits for the compiler's semaphore.
\<close>

theorem request_understood:
  assumes "w_oracle w = map (\<lambda>c. (None, Data [c])) (done_request a) @ os" and "is_animal_ok a"
  shows "\<exists>v. animal_client lsc sem st w = io_bind (sem_wait sem) (\<lambda>r.
      if r < 0 then io_seq (log_msg LOG_ERROR ''sem_wait failed'' []) (emit (CClose lsc)) else animal_job lsc sem a st) v \<and>
    w_oracle v = os \<and> w_kern v = w_kern w \<and> sent_to lsc (w_calls v) = sent_to lsc (w_calls w)"
proof -
  have a: "a \<in> {''CAT'', ''DOG'', ''LION'', ''SNAKE''}" using assms(2) by (auto simp: is_animal_ok_def)
  define r where "r = ''COMPILE '' @ a"
  have req: "done_request a = r @ [LF]" and lf: "LF \<notin> set r" and nul: "cstr r = r" and two: "scan_two r = (''COMPILE'', a)"
    and len: "length r \<le> 13" and ne: "r \<noteq> []"
    using a by (auto simp: r_def done_request_def snprintf_str_def cstr_def scan_two_def scan_word_def is_space_def)
  from assms(1) have o: "w_oracle w = map (\<lambda>c. (None, Data [c])) r @ (None, Data [LF]) # os" unfolding req by simp
  have "length ([] :: string) + length r < 1024 - 1" using len by simp
  from read_request [OF o lf this, of lsc "s_c st"] obtain x where
    x: "read_line_socket lsc 1024 (s_c st) w = (Val r, x)" "w_oracle x = os" "w_kern x = w_kern w"
      "w_calls x = w_calls w @ replicate (length r + 1) (CRead lsc 1)"
    unfolding read_line_socket_def by auto
  define v where "v = x\<lparr>w_calls := w_calls x @ (if LOG_INFO \<noteq> 0 \<and> LOG_INFO > w_debug x then [] else [CLog LOG_INFO (''Request: '' @ CHR 0x27 # r @ [CHR 0x27])])\<rparr>"
  have lg: "log_msg LOG_INFO (''Request: '%s'' @ [CHR 0x27]) [AStr r] x = (Val (), v)"
    unfolding v_def by (rule log_run) (use len in simp_all)
  have sent: "sent_to lsc (replicate n (CRead lsc (Suc 0))) = []" for n by (induction n) simp_all
  have "animal_client lsc sem st w = io_bind (sem_wait sem) (\<lambda>r.
      if r < 0 then io_seq (log_msg LOG_ERROR ''sem_wait failed'' []) (emit (CClose lsc)) else animal_job lsc sem a st) v"
    unfolding animal_client_def io_bind_simps(1) [where m = "read_line_socket lsc 1024 (s_c st)", OF x(1)]
    using ne by (simp add: nul two assms(2) io_seq_def io_bind_simps(1) [where m = "log_msg l f xs" for l f xs, OF lg [simplified]])
  then show ?thesis using x(2-4) by (intro exI [of _ v]) (simp add: v_def sent)
qed

theorem request_understood_witness:
  "\<exists>v. animal_client 4 0 \<lparr>s_c = NUL, s_status = 0, s_size = 0\<rparr> (job_world (map (\<lambda>c. (None, Data [c])) (done_request ''DOG'') @ [(None, Ret 0)]) ()) =
      io_bind (sem_wait 0) (\<lambda>r. if r < 0 then io_seq (log_msg LOG_ERROR ''sem_wait failed'' []) (emit (CClose 4))
        else animal_job 4 0 ''DOG'' \<lparr>s_c = NUL, s_status = 0, s_size = 0\<rparr>) v \<and> w_oracle v = [(None, Ret 0)]"
  using request_understood [of "job_world (map (\<lambda>c. (None, Data [c])) (done_request ''DOG'') @ [(None, Ret 0)]) ()" "''DOG''" "[(None, Ret 0)]" 4 0
      "\<lparr>s_c = NUL, s_status = 0, s_size = 0\<rparr>"]
  by (auto simp: job_world_def is_animal_ok_def)

section \<open>A failed compilation\<close>

lemma job_failed:
  assumes "w_oracle w = (None, Ret pid) # (None, Ret status) # os" and "0 < pid" and "WEXITSTATUS status \<noteq> 0" and "is_animal_ok a"
  shows "\<exists>w'. animal_job lsc sem a st w = (Val (), w') \<and> k_sem (w_kern w') sem = Suc (k_sem (w_kern w) sem) \<and>
    sent_to lsc (w_calls w') = sent_to lsc (w_calls w) @ [''COMPILATION_FAILED'' @ [LF]]"
proof -
  have "length a \<le> 5" using assms(4) by (auto simp: is_animal_ok_def)
  then have "c_format ''Sem DOWN, compiling '%s'...'' [AStr a] = Some (''Sem DOWN, compiling '' @ CHR 0x27 # a @ CHR 0x27 # ''...'')"
    and "length (''Sem DOWN, compiling '' @ CHR 0x27 # a @ CHR 0x27 # ''...'') < 1024" by simp_all
  from log_run [OF this, of LOG_INFO w] obtain cs v where
    v: "log_msg LOG_INFO ''Sem DOWN, compiling '%s'...'' [AStr a] w = (Val (), v)" "v = w\<lparr>w_calls := w_calls w @ cs\<rparr>" "sent_to lsc cs = []"
    by (auto split: if_splits)
  define u where "u = snd (compile_animal a (s_status st) v)"
  have u: "compile_animal a (s_status st) v = (Val (WEXITSTATUS status), u)" "w_kern u = w_kern w" "w_calls u = w_calls w @ cs @ [CFork, CWaitpid pid]"
    using assms(1,2) v(2) by (simp_all add: u_def compile_animal_def io_simps)
  show ?thesis
    using assms(3) v(3) u(2,3)
    by (simp add: animal_job_def io_seq_def io_bind_simps(1) [where m = "log_msg l f xs" for l f xs, OF v(1)] io_bind_assoc
        io_bind_simps(1) [where m = "compile_animal x y" for x y, OF u(1)])
      (simp add: io_simps log_run sent_to_def)
qed

text \<open>
  C34. A failed compilation: the server sends one message and gives the semaphore back, and a client
  that gets this message in one piece removes its output file and ends with 1 without running anything.
\<close>

theorem failure_reported:
  fixes w :: "('p, 'm) world"
  assumes "w_oracle w = (None, Ret pid) # (None, Ret status) # os" and "0 < pid" and "WEXITSTATUS status \<noteq> 0" and "is_animal_ok a"
  shows "\<exists>w' d. animal_job lsc sem a st w = (Val (), w') \<and> k_sem (w_kern w') sem = Suc (k_sem (w_kern w) sem) \<and>
    sent_to lsc (w_calls w') = sent_to lsc (w_calls w) @ [d] \<and>
    (\<forall>(c :: ('q, 'n) world) n self fd rest. w_oracle c = (None, Ret n) # (None, Ret self) # (None, Ret fd) # (None, Data d) # rest \<longrightarrow> 0 \<le> n \<longrightarrow> 0 \<le> fd \<longrightarrow>
      (\<exists>c' ls. done_session s a c = (Val 1, c') \<and> w_oracle c' = rest \<and> w_calls c' = w_calls c @
        [CWrite s (done_request a), CGetpid, COpen (snprintf_str 128 (show_int self @ ''.bin'')), CRead s 4096] @ ls @
        [CClose fd, CClose s, CUnlink (snprintf_str 128 (show_int self @ ''.bin''))] \<and> set ls \<subseteq> {CLog LOG_INFO ''Server: compilation failed.''}))"
proof -
  let ?d = "''COMPILATION_FAILED'' @ [LF]"
  obtain w' where job: "animal_job lsc sem a st w = (Val (), w')" "k_sem (w_kern w') sem = Suc (k_sem (w_kern w) sem)"
    "sent_to lsc (w_calls w') = sent_to lsc (w_calls w) @ [?d]"
    using job_failed [OF assms] by blast
  have eq: "strncmp_eq ?d ''COMPILATION_FAILED'' 18" by (simp add: strncmp_eq_def cstr_def eval_nat_numeral)
  have "\<exists>c' ls. done_session s a c = (Val 1, c') \<and> w_oracle c' = rest \<and> w_calls c' = w_calls c @
      [CWrite s (done_request a), CGetpid, COpen (snprintf_str 128 (show_int self @ ''.bin'')), CRead s 4096] @ ls @
      [CClose fd, CClose s, CUnlink (snprintf_str 128 (show_int self @ ''.bin''))] \<and> set ls \<subseteq> {CLog LOG_INFO ''Server: compilation failed.''}"
    if o: "w_oracle c = (None, Ret n) # (None, Ret self) # (None, Ret fd) # (None, Data ?d) # rest" "0 \<le> n" "0 \<le> fd"
    for c :: "('q, 'n) world" and n self fd rest
  proof -
    let ?nm = "snprintf_str 128 (show_int self @ ''.bin'')"
    define v1 where "v1 = snd (sys_int (CWrite s (done_request a)) c)"
    define v2 where "v2 = snd (sys_int CGetpid v1)"
    define v where "v = snd (sys_int (COpen ?nm) v2)"
    have r1: "sys_int (CWrite s (done_request a)) c = (Val n, v1)" "w_oracle v1 = (None, Ret self) # (None, Ret fd) # (None, Data ?d) # rest"
        "w_calls v1 = w_calls c @ [CWrite s (done_request a)]"
      using o(1) by (simp_all add: v1_def io_simps)
    have r2: "sys_int CGetpid v1 = (Val self, v2)" "w_oracle v2 = (None, Ret fd) # (None, Data ?d) # rest" "w_calls v2 = w_calls v1 @ [CGetpid]"
      using r1(2) by (simp_all add: v2_def io_simps)
    have r3: "sys_int (COpen ?nm) v2 = (Val fd, v)"
      and v: "w_oracle v = (None, Data ?d) # rest" "w_calls v = w_calls c @ [CWrite s (done_request a), CGetpid, COpen ?nm]"
      using r1(3) r2(2,3) by (simp_all add: v_def io_simps)
    define y where "y = snd (done_block fd s ?nm True v)"
    have blk: "done_block fd s ?nm True v = (Val (Inr False), y)" "w_oracle y = rest"
      "\<exists>ls. w_calls y = w_calls v @ CRead s 4096 # ls @ [CClose fd, CClose s, CUnlink ?nm] \<and> set ls \<subseteq> {CLog LOG_INFO ''Server: compilation failed.''}"
      using v(1) eq by (simp_all add: y_def done_block_def io_simps log_run)
    have "io_while (done_block fd s ?nm) True v = (Val False, y)"
      by (subst done_blocks.while_unfold) (simp add: io_bind_def blk(1) io_ret_def)
    then have "done_session s a c = (Val 1, y)"
      using o(2,3) unfolding done_session_def
      by (simp add: io_bind_simps(1) [where m = "sys_int c" for c, OF r1(1)] io_bind_simps(1) [where m = "sys_int c" for c, OF r2(1)]
          io_bind_simps(1) [where m = "sys_int c" for c, OF r3] Let_def io_bind_def [of "io_while b i" for b i] io_ret_def)
    with blk(2,3) v(2) show ?thesis by auto
  qed
  with job show ?thesis by blast
qed

theorem failure_reported_witness:
  "\<exists>w' d c'. animal_job 4 0 ''CAT'' \<lparr>s_c = NUL, s_status = 0, s_size = 0\<rparr> (job_world [(None, Ret 9), (None, Ret 256)] ()) = (Val (), w') \<and>
    sent_to 4 (w_calls w') = [d] \<and>
    done_session 3 ''CAT'' (job_world [(None, Ret 12), (None, Ret 7), (None, Ret 5), (None, Data d)] ()) = (Val 1, c')"
proof -
  let ?st = "\<lparr>s_c = NUL, s_status = 0, s_size = 0\<rparr>"
  let ?w = "job_world [(None, Ret 9), (None, Ret 256)] () :: (unit, unit) world"
  have h: "w_oracle ?w = (None, Ret 9) # (None, Ret 256) # []" "0 < (9 :: int)" "WEXITSTATUS 256 \<noteq> 0" "is_animal_ok ''CAT''"
    and c: "sent_to 4 (w_calls ?w) = []"
    by (simp_all add: job_world_def WEXITSTATUS_def is_animal_ok_def)
  from failure_reported [OF h, where lsc = 4 and sem = 0 and st = ?st and s = 3 and 'q = unit and 'n = unit]
  obtain w' d where d: "animal_job 4 0 ''CAT'' ?st ?w = (Val (), w')" "sent_to 4 (w_calls w') = sent_to 4 (w_calls ?w) @ [d]"
    and all: "\<forall>(c :: (unit, unit) world) n self fd rest. w_oracle c = (None, Ret n) # (None, Ret self) # (None, Ret fd) # (None, Data d) # rest \<longrightarrow>
      0 \<le> n \<longrightarrow> 0 \<le> fd \<longrightarrow> (\<exists>c' ls. done_session 3 ''CAT'' c = (Val 1, c') \<and> w_oracle c' = rest \<and> w_calls c' = w_calls c @
        [CWrite 3 (done_request ''CAT''), CGetpid, COpen (snprintf_str 128 (show_int self @ ''.bin'')), CRead 3 4096] @ ls @
        [CClose fd, CClose 3, CUnlink (snprintf_str 128 (show_int self @ ''.bin''))] \<and> set ls \<subseteq> {CLog LOG_INFO ''Server: compilation failed.''})"
    by (elim exE conjE) (rule that)
  let ?c = "job_world [(None, Ret 12), (None, Ret 7), (None, Ret 5), (None, Data d)] ()"
  have "\<exists>c'. done_session 3 ''CAT'' ?c = (Val 1, c')"
    using all [rule_format, of ?c 12 7 5 "[]"] by (auto simp: job_world_def)
  with d c show ?thesis by auto
qed

section \<open>Waiting for the server\<close>

lemma ready_blocks:
  assumes "\<forall>x \<in> set (w_oracle w). snd x = Data [] \<or> (\<exists>k. snd x = Fail k)" and "cstr b \<noteq> ''READY''"
  shows "fst (io_while (await_ready s) b w) = Blocked"
  using assms(1)
proof (induction "w_oracle w" arbitrary: w)
  case Nil
  then show ?case by (subst ready_loop.while_unfold) (simp add: await_ready_def io_simps)
next
  case (Cons x xs)
  define v where "v = snd (await_ready s b w)"
  have "await_ready s b w = (Val (Inl b), v)" "w_oracle v = xs"
    using Cons.hyps(2) [symmetric] Cons.prems assms(2) by (cases x; auto simp: v_def await_ready_def io_simps buf_fill_def)+
  with Cons.hyps(1) [of v] Cons.hyps(2) [symmetric] Cons.prems show ?case
    by (subst ready_loop.while_unfold) (simp add: io_bind_def)
qed

text \<open>
  The client of \<open>uloha6\<close> does not get past the greeting of its server: if the sixth byte of the
  array was not zero before, the five characters sent without a null character leave it in the loop,
  whatever number of reads then report the end of the connection or an error.
\<close>

theorem ready_not_seen:
  assumes "w_oracle w = (e, Data ''READY'') # os" and "\<forall>x \<in> set os. snd x = Data [] \<or> (\<exists>k. snd x = Fail k)"
    and "length m0 = 256" and "m0 ! 5 \<noteq> NUL"
  shows "fst (io_while (await_ready s) m0 w) = Blocked"
proof -
  define b where "b = buf_fill m0 ''READY''"
  define v where "v = snd (await_ready s m0 w)"
  have "drop 5 m0 = m0 ! 5 # drop 6 m0" using assms(3) by (simp add: Cons_nth_drop_Suc [symmetric])
  then have "cstr b \<noteq> ''READY''" using assms(4) by (simp add: b_def buf_fill_def cstr_def eval_nat_numeral)
  moreover from this have "await_ready s m0 w = (Val (Inl b), v)" "w_oracle v = os"
    using assms(1) by (simp_all add: v_def await_ready_def io_simps b_def)
  ultimately show ?thesis
    using ready_blocks [of v b s] assms(2) by (subst ready_loop.while_unfold) (simp add: io_bind_def)
qed

theorem ready_not_seen_witness:
  "fst (io_while (await_ready 4) (replicate 256 (CHR ''x'')) (job_world [(None, Data ''READY''), (None, Data [])] ())) = Blocked"
  using ready_not_seen [of "job_world [(None, Data ''READY''), (None, Data [])] ()" None "[(None, Data [])]" "replicate 256 (CHR ''x'')" 4]
  by (simp add: job_world_def del: replicate.simps)

end
