(* ===== verification/DemoServers.thy ===== *)
theory DemoServers
  imports ExamClients
begin

text \<open>
  The two socket exercises \<open>cv/cv_socket/socket-demo-0\<close> (a picture is resized and compressed by a pipe of
  two programs) and \<open>socket-demo-1\<close> (a program is compiled with the client's name in it, compressed and
  sent), each with its client.
\<close>

section \<open>socket-demo-0: the server\<close>

text \<open>\<open>pipe\<close>: the read and the write end.\<close>

definition sys_pipe :: "((int \<times> int) option, 'p, 'm) io" where
  "sys_pipe = io_bind (pop CPipe) (\<lambda>r. case r of
      Fds a b \<Rightarrow> io_ret (Some (a, b))
    | Fail e \<Rightarrow> io_seq (set_errno e) (io_ret None)
    | _ \<Rightarrow> io_ret None)"

text \<open>The resolution: the characters up to a line feed, or up to the end of the connection.\<close>

definition read_res :: "int \<Rightarrow> string \<Rightarrow> (string + string, 'p, 'm) io" where
  "read_res client_sock l_res =
     (if length l_res < 127 then
        io_bind (sys_read client_sock 1) (\<lambda>(n, d). case d of
          [] \<Rightarrow> io_ret (Inr l_res)
        | c # _ \<Rightarrow> io_ret (if c = LF then Inr l_res else Inl (l_res @ [c])))
      else io_ret (Inr l_res))"

definition perror_exit :: "string \<Rightarrow> int \<Rightarrow> ('a, 'p, 'm) io" where
  "perror_exit t client_sock = io_seq (perror t) (io_seq (emit (CClose client_sock)) (io_exit 1))"

definition convert_child :: "int \<Rightarrow> int \<Rightarrow> string \<Rightarrow> (unit, 'p, 'm) io" where
  "convert_child rd wr l_res = io_seq (io_block [emit (CClose rd), emit (CDup2 wr STDOUT_FILENO), emit (CClose wr)])
     (io_bind (sys_exec ''convert'' [''convert'', ''-resize'', l_res, ''image.png'', ''-'']) (\<lambda>_.
      io_seq (perror ''execlp convert'') (io_exit 1)))"

definition xz_child :: "int \<Rightarrow> int \<Rightarrow> int \<Rightarrow> (unit, 'p, 'm) io" where
  "xz_child rd wr client_sock = io_seq (io_block [emit (CClose wr), emit (CDup2 rd STDIN_FILENO), emit (CClose rd),
       emit (CDup2 client_sock STDOUT_FILENO), emit (CClose client_sock)])
     (io_bind (sys_exec ''xz'' [''xz'', ''-z'', ''--stdout'']) (\<lambda>_. io_seq (perror ''execlp xz'') (io_exit 1)))"

definition convert_for :: "int \<Rightarrow> string \<Rightarrow> (unit, 'p, 'm) io" where
  "convert_for client_sock l_res =
     io_bind sys_pipe (\<lambda>p. case p of
       None \<Rightarrow> perror_exit ''pipe'' client_sock
     | Some (rd, wr) \<Rightarrow>
     io_bind (sys_int CFork) (\<lambda>pid_convert.
     if pid_convert < 0 then perror_exit ''fork convert'' client_sock
     else if pid_convert = 0 then convert_child rd wr l_res
     else
     io_bind (sys_int CFork) (\<lambda>pid_xz.
     if pid_xz < 0 then perror_exit ''fork xz'' client_sock
     else if pid_xz = 0 then xz_child rd wr client_sock
     else io_block [emit (CClose rd), emit (CClose wr), emit (CClose client_sock), wait_child pid_convert, wait_child pid_xz,
       log_msg LOG_INFO ''Conversion and compression finished.'' [], io_exit 0])))"

definition serve_client :: "int \<Rightarrow> int \<Rightarrow> (unit, 'p, 'm) io" where
  "serve_client client_sock listen_sock =
     io_seq (io_when (listen_sock \<ge> 0) (emit (CClose listen_sock)))
    (io_bind (io_while (read_res client_sock) []) (\<lambda>l_res.
     if l_res = [] then io_seq (emit (CClose client_sock)) (io_exit 0)
     else io_seq (log_msg LOG_INFO ''Client requested resize: %s'' [AStr (cstr l_res)]) (convert_for client_sock (cstr l_res))))"

definition demo0_args :: "string list \<Rightarrow> (int, 'p, 'm) io" where
  "demo0_args t_args =
     io_seq (io_when (length t_args \<le> 1) (show_help t_args))
    (io_bind (parse_port t_args (tl t_args)) (\<lambda>l_port.
     io_seq (io_when (l_port \<le> 0)
         (io_seq (log_msg LOG_INFO ''Bad or missing port number %d!'' [AInt l_port]) (show_help t_args)))
    (io_seq (emit CSignal)
    (io_seq (log_msg LOG_INFO ''Server will listen on port: %d.'' [AInt l_port]) (io_ret l_port)))))"

text \<open>\<open>peer\<close> is the address \<open>accept\<close> stores for a new descriptor.\<close>

definition demo0_round :: "(int \<Rightarrow> string \<times> int) \<Rightarrow> int \<Rightarrow> unit \<Rightarrow> (unit + unit, 'p, 'm) io" where
  "demo0_round peer l_sock_listen = (\<lambda>_.
     io_bind (sys_int (CAccept l_sock_listen)) (\<lambda>l_sock_client.
     if l_sock_client < 0 then io_seq (log_msg LOG_ERROR ''Unable to accept new client.'' []) (io_ret (Inl ()))
     else
     io_seq (log_msg LOG_INFO ''Accepted connection from %s:%d'' [AStr (take 15 (fst (peer l_sock_client))), AInt (snd (peer l_sock_client))])
    (io_bind (sys_int CFork) (\<lambda>pid.
     io_seq (if pid < 0 then io_seq (perror ''fork'') (emit (CClose l_sock_client))
       else if pid = 0 then serve_client l_sock_client l_sock_listen
       else emit (CClose l_sock_client)) (io_ret (Inl ()))))))"

definition demo0_main :: "(int \<Rightarrow> string \<times> int) \<Rightarrow> string list \<Rightarrow> (int, 'p, 'm) io" where
  "demo0_main peer t_args =
     io_bind (demo0_args t_args) (\<lambda>l_port.
     io_bind (open_listener l_port 5) (\<lambda>l.
     io_seq (log_msg LOG_INFO ''Enter 'quit' to quit server.'' [])
    (io_seq (io_while (demo0_round peer l) ()) (io_seq (emit (CClose l)) (io_ret 0)))))"

section \<open>socket-demo-0: the client\<close>

definition demo0_help :: "('a, 'p, 'm) io" where
  "demo0_help = io_seq (emit (CPrint ''usage'')) (io_exit 0)"

text \<open>Anything but the two options is taken as the next argument, also with a minus in front of it.\<close>

fun demo0_parse :: "string list \<Rightarrow> string option \<Rightarrow> int \<Rightarrow> string option \<Rightarrow> (string option \<times> int \<times> string option, 'p, 'm) io" where
  "demo0_parse [] l_host l_port l_res = io_ret (l_host, l_port, l_res)"
| "demo0_parse (a # rest) l_host l_port l_res =
     (if a = ''-d'' then io_seq (set_debug LOG_DEBUG) (demo0_parse rest l_host l_port l_res)
      else if a = ''-h'' then demo0_help
      else if l_host = None then demo0_parse rest (Some a) l_port l_res
      else if l_port = 0 then io_bind (atoi_io a) (\<lambda>p. demo0_parse rest l_host p l_res)
      else if l_res = None then demo0_parse rest l_host l_port (Some a)
      else demo0_parse rest l_host l_port l_res)"

text \<open>As \<open>client_connect\<close>, without the line about \<open>close\<close>.\<close>

definition demo0_connect :: "string \<Rightarrow> int \<Rightarrow> (int, 'p, 'm) io" where
  "demo0_connect l_host l_port =
     io_seq (log_msg LOG_INFO ''Connection to '%s':%d.'' [AStr l_host, AInt l_port])
    (io_bind (resolve l_host) (\<lambda>ip.
     io_bind (sys_int CSocket) (\<lambda>l_sock_server.
     if l_sock_server = -1 then give_up ''Unable to create socket.'' []
     else
     io_bind (sys_int (CConnect l_sock_server (htons l_port))) (\<lambda>r.
     if r < 0 then give_up ''Unable to connect server.'' []
     else io_seq (report_addresses l_sock_server (ip, uint (htons l_port))) (io_ret l_sock_server)))))"

text \<open>The result is that of the last \<open>read\<close>.\<close>

definition picture_piece :: "int \<Rightarrow> unit \<Rightarrow> (unit + int, 'p, 'm) io" where
  "picture_piece s = (\<lambda>_.
     io_bind (sys_read s 4096) (\<lambda>(l_len, d).
     if l_len > 0 then
       io_bind (sys_int (CWrite STDOUT_FILENO d)) (\<lambda>w.
       if w \<noteq> l_len then give_up ''Unable to write image data to stdout.'' [s] else io_ret (Inl ()))
     else io_ret (Inr l_len)))"

definition demo0_cl_main :: "string list \<Rightarrow> (int, 'p, 'm) io" where
  "demo0_cl_main t_args =
     io_seq (io_when (length t_args < 4) demo0_help)
    (io_bind (demo0_parse (tl t_args) None 0 None) (\<lambda>(l_host, l_port, l_res).
     if l_host = None \<or> l_port = 0 \<or> l_res = None then io_seq (log_msg LOG_INFO ''Missing arguments!'' []) demo0_help
     else
     io_bind (demo0_connect (the l_host) l_port) (\<lambda>s.
     io_seq (log_msg LOG_INFO ''Sending resolution: %s'' [AStr (the l_res)])
    (let m = snprintf_str 256 (the l_res @ [LF]) in
     io_bind (sys_int (CWrite s m)) (\<lambda>w.
     if w \<noteq> int (length m) then give_up ''Unable to send data to server.'' [s]
     else
     io_bind (io_while (picture_piece s) ()) (\<lambda>l_len.
     io_seq (io_block [io_when (l_len < 0) (log_msg LOG_ERROR ''Error while reading image data from socket.'' []),
       emit (CClose s), log_msg LOG_INFO ''Transfer finished. Connection closed.'' []]) (io_ret 0)))))))"

section \<open>socket-demo-1: the server\<close>

text \<open>
  What is compiled is a definition of \<open>NAME\<close> by the bytes of the buffer up to the first null character,
  the line feed of the client and older bytes included.
\<close>

definition wait_any :: "(unit, 'p, 'm) io" where
  "wait_any = wait_child (-1)"

definition define_arg :: "string \<Rightarrow> string" where
  "define_arg name = snprintf_str 256 (''-DNAME=\"'' @ name @ ''\"'')"

definition build_and_send :: "int \<Rightarrow> char list \<Rightarrow> (unit, 'p, 'm) io" where
  "build_and_send l_sock_client l_buf = io_block [
     io_bind (sys_int CFork) (\<lambda>p1. io_when (p1 = 0)
       (io_bind (buf_str l_buf) (\<lambda>name.
        io_bind (sys_exec ''g++'' [''g++'', define_arg name, ''pozdrav.cpp'', ''-o'', ''out.bin'']) (\<lambda>_. io_exit 0)))),
     wait_any,
     io_bind (sys_int CFork) (\<lambda>p2. io_when (p2 = 0)
       (io_seq (emit (CDup2 l_sock_client STDOUT_FILENO))
       (io_bind (sys_exec ''xz'' [''xz'', ''out.bin'', ''--stdout'']) (\<lambda>_. io_exit 1)))),
     wait_any, emit (CClose l_sock_client), io_exit 0]"

text \<open>Data of the client; \<open>None\<close> leaves \<open>child_serve\<close>.\<close>

definition demo1_client :: "int \<Rightarrow> int \<Rightarrow> char list \<Rightarrow> (char list option, 'p, 'm) io" where
  "demo1_client l_sock_client cl_num l_buf =
     io_bind (sys_read l_sock_client 254) (\<lambda>(l_len, d).
     if l_len = 0 then io_seq (log_msg LOG_DEBUG ''Client closed socket!'' []) (io_seq (emit (CClose l_sock_client)) (io_ret None))
     else if l_len < 0 then
       io_seq (log_msg LOG_ERROR ''Unable to read data from client.'' []) (io_seq (emit (CClose l_sock_client)) (io_ret None))
     else
     io_seq (io_block [log_msg LOG_DEBUG ''Read %d bytes from client.'' [AInt l_len], emit (CPrint [LF]),
       emit (CPrint (''['' @ show_int cl_num @ ''] ''))])
    (io_bind (sys_int (CWrite STDOUT_FILENO d)) (\<lambda>l_len.
     io_seq (io_when (l_len < 0) (log_msg LOG_ERROR ''Unable to write data to stdout.'' []))
    (if strncasecmp_eq (buf_fill l_buf d) ''close'' (length STR_CLOSE) then
       io_seq (io_block [log_msg LOG_INFO ''Client sent 'close' request to close connection.'' [], emit (CClose l_sock_client),
         log_msg LOG_INFO ''Connection closed. Waiting for new client.'' []]) (io_ret None)
     else io_ret (Some (buf_fill l_buf d))))))"

text \<open>
  The loop \<open>communication\<close> is left in its first round. The standard input is watched but not read: when
  there is something on it, the unset array is looked at and compiled.
\<close>

definition demo1_child_serve :: "char list \<Rightarrow> int \<Rightarrow> int \<Rightarrow> string \<times> int \<Rightarrow> int \<Rightarrow> (unit, 'p, 'm) io" where
  "demo1_child_serve b0 l_sock_listen l_sock_client l_srv_addr cl_num =
     io_seq (emit (CClose l_sock_listen))
    (io_bind (announce l_sock_client l_srv_addr) (\<lambda>_.
     io_bind (poll_or_exit [STDIN_FILENO, l_sock_client]) (\<lambda>(in0, in1).
     io_bind (if in1 then demo1_client l_sock_client cl_num b0 else io_ret (Some b0)) (\<lambda>b. case b of
       None \<Rightarrow> io_ret ()
     | Some l_buf \<Rightarrow> io_seq (comm_quit l_sock_listen l_sock_client l_buf) (build_and_send l_sock_client l_buf)))))"

text \<open>The format has a conversion without an argument; the end of the input is not noticed.\<close>

definition demo1_stdin :: "int \<Rightarrow> char list \<Rightarrow> (unit, 'p, 'm) io" where
  "demo1_stdin l_sock_listen buf =
     io_bind (sys_read STDIN_FILENO 128) (\<lambda>(len, d).
     if len < 0 then io_seq (log_msg LOG_DEBUG ''Unable to read from stdin!'' []) (io_exit 1)
     else
     io_seq (log_msg LOG_DEBUG ''Read %d bytes from stdin'' [])
    (io_when (strncmp_eq (buf_fill buf d) STR_QUIT (length STR_QUIT))
       (io_block [log_msg LOG_INFO ''Request to 'quit' entered.'' [], emit (CClose l_sock_listen), io_exit 0])))"

text \<open>
  The state is the number of clients and the second descriptor that is watched. A child whose client
  went away comes back to this loop and watches the closed socket of that client.
\<close>

definition demo1_round :: "char list \<Rightarrow> char list \<Rightarrow> string \<times> int \<Rightarrow> int \<Rightarrow> int \<times> int \<Rightarrow> ((int \<times> int) + unit, 'p, 'm) io" where
  "demo1_round b0 buf l_srv_addr l_sock_listen = (\<lambda>(cl_num, fd).
     io_bind (poll_or_exit [STDIN_FILENO, fd]) (\<lambda>(in0, in1).
     io_seq (io_when in0 (demo1_stdin l_sock_listen buf))
    (if in1 then
       io_bind (accept_client l_sock_listen) (\<lambda>l_sock_client.
       io_bind (sys_int CFork) (\<lambda>p.
       if p > 0 then io_seq (emit (CClose l_sock_client)) (io_ret (Inl (cl_num + 1, fd)))
       else if p = 0 then
         io_seq (demo1_child_serve b0 l_sock_listen l_sock_client l_srv_addr (cl_num + 1)) (io_ret (Inl (cl_num + 1, l_sock_client)))
       else io_ret (Inl (cl_num + 1, fd))))
     else io_ret (Inl (cl_num, fd)))))"

definition demo1_main :: "char list \<Rightarrow> char list \<Rightarrow> string list \<Rightarrow> (unit, 'p, 'm) io" where
  "demo1_main b0 buf t_args =
     io_bind (server_args t_args) (\<lambda>l_port.
     io_bind (open_listener l_port 1) (\<lambda>l.
     io_seq (log_msg LOG_INFO ''Enter 'quit' to quit server.'' [])
    (io_while (demo1_round b0 buf (any_addr l_port) l) (0, l))))"

section \<open>socket-demo-1: the client\<close>

text \<open>
  A loop that writes until all is written. A failed \<open>write\<close> moves the position back; in front of the
  text it would be undefined, and further back in the text the bytes are written again.
\<close>

definition push_on :: "int \<Rightarrow> string \<Rightarrow> int \<Rightarrow> (int + unit, 'p, 'm) io" where
  "push_on fd t off =
     (if off < 0 then io_ub
      else if off < int (length t) then io_bind (sys_int (CWrite fd (drop (nat off) t))) (\<lambda>w. io_ret (Inl (off + w)))
      else io_ret (Inr ()))"

text \<open>
  The number of bytes sent is what \<open>snprintf\<close> would have written, which for a long name is more than
  the array has.
\<close>

definition name_line :: "string \<Rightarrow> (string, 'p, 'm) io" where
  "name_line l_name =
     (let n = length l_name + 1 in
      if n < 128 then io_ret (l_name @ [LF])
      else if n = 128 then io_ret (l_name @ [NUL])
      else io_ub)"

text \<open>An error of \<open>read\<close> is not the end: only the loop that writes is skipped.\<close>

definition fetch_piece :: "int \<Rightarrow> int \<Rightarrow> unit \<Rightarrow> (unit + unit, 'p, 'm) io" where
  "fetch_piece s out_fd = (\<lambda>_.
     io_bind (sys_read s 4096) (\<lambda>(r, d).
     if r = 0 then io_ret (Inr ()) else io_seq (io_while (push_on out_fd d) 0) (io_ret (Inl ()))))"

text \<open>
  The last child sets the permissions and ends; the program becomes the one it was sent, or ends with 0.
\<close>

definition unpack_and_run :: "int \<Rightarrow> (int, 'p, 'm) io" where
  "unpack_and_run s = io_seq (io_block [
       io_bind (sys_int CFork) (\<lambda>p1. io_when (p1 = 0)
         (io_bind (sys_exec ''xz'' [''xz'', ''-d'', ''runme.xz'']) (\<lambda>_. io_exit 1))),
       wait_any,
       io_bind (sys_int CFork) (\<lambda>p2. io_when (p2 = 0)
         (io_block [emit (CChmod ''runme'' 493), emit (CClose s), io_exit 1])),
       wait_any])
     (io_bind (sys_exec ''./runme'' [''runme'']) (\<lambda>_. io_ret 0))"

definition demo1_cl_args :: "string list \<Rightarrow> (string \<times> int \<times> string list, 'p, 'm) io" where
  "demo1_cl_args = exam_args 2 (io_ret ())"

text \<open>The resolution is printed before the connection, the name is sent after it; both must be there.\<close>

definition demo1_cl_main :: "string list \<Rightarrow> (int, 'p, 'm) io" where
  "demo1_cl_main t_args =
     io_bind (demo1_cl_args t_args) (\<lambda>(l_host, l_port, l_more).
     io_bind (arg_at 0 l_more) (\<lambda>l_resolution.
     io_seq (log_msg LOG_INFO (''Connection to '%s':%d. Resolution is: %s'' @ [LF]) [AStr l_host, AInt l_port, AStr l_resolution])
    (io_bind (resolve l_host) (\<lambda>ip.
     io_bind (sys_int CSocket) (\<lambda>s.
     if s = -1 then give_up ''Unable to create socket.'' []
     else
     io_bind (sys_int (CConnect s (htons l_port))) (\<lambda>r.
     if r < 0 then give_up ''Unable to connect server.'' []
     else
     io_seq (report_addresses s (ip, uint (htons l_port)))
    (io_seq (log_msg LOG_INFO ''Enter 'close' to close application.'' [])
    (io_bind (arg_at 1 l_more) (\<lambda>l_name.
     io_bind (name_line l_name) (\<lambda>line.
     io_seq (io_while (push_on s line) 0)
    (io_bind (sys_int (COpen ''runme.xz'')) (\<lambda>out_fd.
     io_seq (io_while (fetch_piece s out_fd) ())
    (io_seq (emit (CClose out_fd)) (unpack_and_run s))))))))))))))"

section \<open>Loops\<close>

lemma sane_demo_parts [ext_intros]: "sane sys_pipe" "sane (perror t)" "sane (perror_exit t s)" "sane (convert_child a b r)"
  "sane (xz_child a b s)" "sane (convert_for s r)" "sane demo0_help" "sane (demo0_connect h p)" "sane (build_and_send s bs)"
  "sane (demo1_client s n bs)" "sane (demo1_child_serve bs l s adr n)" "sane (demo1_stdin l bs)"
  unfolding demo1_child_serve_def demo1_client_def build_and_send_def wait_any_def demo0_connect_def demo0_help_def convert_for_def xz_child_def
    convert_child_def perror_exit_def sys_pipe_def perror_def demo1_stdin_def buf_str_def
  by (intro ext_intros)+

interpretation res_loop: bounded_loop "read_res s"
proof
  show "sane (read_res s b)" for b
    unfolding read_res_def by (intro ext_intros)
  fix b b' w w'
  have "uses (io_bind (sys_read s 1) (\<lambda>(n, d). case d of [] \<Rightarrow> io_ret (Inr b :: string + string)
        | c # _ \<Rightarrow> io_ret (if c = LF then Inr b else Inl (b @ [c]))))"
    by (rule uses_bind_first [OF uses_sys(2)]) (intro ext_intros)
  from usesD [OF this] show "read_res s b w = (Val (Inl b'), w') \<Longrightarrow> length (w_oracle w') < length (w_oracle w)"
    by (auto simp: read_res_def io_ret_def split: if_splits)
qed

lemma sane_serve_client [ext_intros]: "sane (serve_client c l)"
  unfolding serve_client_def by (intro ext_intros res_loop.while_sane)

interpretation demo0_rounds: event_loop "demo0_round peer l"
proof
  show "sane (demo0_round peer l u)" for u
    unfolding demo0_round_def by (intro ext_intros)
  show "uses (demo0_round peer l u)" for u
    unfolding demo0_round_def by (rule uses_bind_first [OF uses_sys(1)]) (intro ext_intros)
qed

interpretation picture_pieces: event_loop "picture_piece s"
proof
  show "sane (picture_piece s u)" for u
    unfolding picture_piece_def by (intro ext_intros)
  show "uses (picture_piece s u)" for u
    unfolding picture_piece_def by (rule uses_bind_first [OF uses_sys(2)]) (intro ext_intros)
qed

interpretation demo1_rounds: event_loop "demo1_round b0 buf a l"
proof
  show "sane (demo1_round b0 buf a l x)" for x
    unfolding demo1_round_def by (intro ext_intros)
  show "uses (demo1_round b0 buf a l x)" for x
    unfolding demo1_round_def by (cases x) (auto intro!: uses_bind_first [OF uses_poll_or_exit] ext_intros)
qed

interpretation pushes: bounded_loop "push_on f t"
proof
  show "sane (push_on f t off)" for off
    unfolding push_on_def by (intro ext_intros)
  fix off off' w w'
  have "uses (io_bind (sys_int (CWrite f (drop (nat off) t))) (\<lambda>x. io_ret (Inl (off + x) :: int + unit)))"
    by (rule uses_bind_first [OF uses_sys(1)]) (intro ext_intros)
  from usesD [OF this] show "push_on f t off w = (Val (Inl off'), w') \<Longrightarrow> length (w_oracle w') < length (w_oracle w)"
    by (auto simp: push_on_def io_ret_def io_ub_def split: if_splits)
qed

interpretation fetches: event_loop "fetch_piece s f"
proof
  show "sane (fetch_piece s f u)" for u
    unfolding fetch_piece_def by (intro ext_intros pushes.while_sane)
  show "uses (fetch_piece s f u)" for u
    unfolding fetch_piece_def by (rule uses_bind_first [OF uses_sys(2)]) (intro ext_intros pushes.while_sane)
qed

end
