(* ===== verification/Followers.thy ===== *)
theory Followers
  imports DemoServers
begin

text \<open>
  Three programs that follow the growth of files: \<open>ostatne/main.cpp\<close>, \<open>DU/DU02/tail.cpp\<close> and
  \<open>cv/cv_du2/main.cpp\<close>. A parent starts a child for each file and sends \<open>check\<close> down a pipe every few
  seconds until there is a file named \<open>stop\<close>.

  Of the result of \<open>stat\<close> the model has the size and whether it is a directory; mode and time, which are
  only printed, are left out of the printed text.
\<close>

abbreviation CHECK :: string where "CHECK \<equiv> ''check'' @ [LF]"

section \<open>Common parts\<close>

definition sys_stat :: "string \<Rightarrow> ((bool \<times> int) option, 'p, 'm) io" where
  "sys_stat path = io_bind (pop (CStat path)) (\<lambda>r. case r of
      Stat d n \<Rightarrow> io_ret (Some (d, n))
    | Fail e \<Rightarrow> io_seq (set_errno e) (io_ret None)
    | _ \<Rightarrow> io_ret None)"

definition can_access :: "string \<Rightarrow> nat \<Rightarrow> (bool, 'p, 'm) io" where
  "can_access path mode = io_bind (sys_int (CAccess path mode)) (\<lambda>r. io_ret (r = 0))"

abbreviation X_OK :: nat where "X_OK \<equiv> 1"
abbreviation R_OK :: nat where "R_OK \<equiv> 4"
abbreviation F_OK :: nat where "F_OK \<equiv> 0"

definition print_size :: "string \<Rightarrow> int \<Rightarrow> (unit, 'p, 'm) io" where
  "print_size path sz = emit (CPrint (''size='' @ show_int sz @ '' name='' @ path @ [LF]))"

definition err_print :: "string \<Rightarrow> string \<Rightarrow> (unit, 'p, 'm) io" where
  "err_print path t = emit (CWrite STDERR_FILENO (path @ '': '' @ t))"

text \<open>\<open>send_checks\<close>: send \<open>check\<close> to every child; \<open>close_both\<close>: the pipes of the earlier children.\<close>

definition send_checks :: "(int \<times> int) list \<Rightarrow> (unit, 'p, 'm) io" where
  "send_checks ps = io_block (map (\<lambda>(r, w). emit (CWrite w CHECK)) ps)"

definition close_ends :: "(int \<times> int) list \<Rightarrow> (unit, 'p, 'm) io" where
  "close_ends ps = io_block (map (\<lambda>(r, w). emit (CClose w)) ps)"

definition close_both :: "(int \<times> int) list \<Rightarrow> (unit, 'p, 'm) io" where
  "close_both ps = io_block (map (\<lambda>(r, w). io_seq (emit (CClose r)) (emit (CClose w))) ps)"

definition wait_all :: "int list \<Rightarrow> (unit, 'p, 'm) io" where
  "wait_all pids = io_block (map wait_child pids)"

text \<open>One round of the parent.\<close>

definition tick :: "int \<Rightarrow> (int \<times> int) list \<Rightarrow> unit \<Rightarrow> (unit + unit, 'p, 'm) io" where
  "tick us ps = (\<lambda>_.
     io_bind (can_access ''stop'' F_OK) (\<lambda>stop.
     if stop then io_seq (close_ends ps) (io_ret (Inr ()))
     else io_seq (send_checks ps) (io_seq (sys_usleep us) (io_ret (Inl ())))))"

section \<open>ostatne/main.cpp\<close>

definition is_valid_target :: "string \<Rightarrow> (bool, 'p, 'm) io" where
  "is_valid_target path =
     io_bind (sys_stat path) (\<lambda>st. case st of
       None \<Rightarrow> io_seq (err_print path ''stat'') (io_ret False)
     | Some (dir, _) \<Rightarrow>
     if dir then io_seq (err_print path ''directory'') (io_ret False)
     else
     io_bind (can_access path R_OK) (\<lambda>rd.
     if \<not> rd then io_seq (err_print path ''not readable'') (io_ret False)
     else
     io_bind (can_access path X_OK) (\<lambda>ex.
     if ex then io_seq (err_print path ''executable'') (io_ret False) else io_ret True)))"

text \<open>All of a piece, through interruptions; another error drops the rest of the piece.\<close>

definition put_part :: "string \<Rightarrow> nat \<Rightarrow> (nat + unit, 'p, 'm) io" where
  "put_part chunk off =
     (if off < length chunk then
        io_bind (sys_int (CWrite STDOUT_FILENO (drop off chunk))) (\<lambda>w.
        if w < 0 then io_bind get_errno (\<lambda>e. io_ret (if e = EINTR then Inl off else Inr ()))
        else io_ret (Inl (off + nat w)))
      else io_ret (Inr ()))"

definition put_piece :: "int \<Rightarrow> int \<Rightarrow> (int + unit, 'p, 'm) io" where
  "put_piece fd to_read =
     (if to_read > 0 then
        io_bind (sys_read fd (if to_read > 4096 then 4096 else nat to_read)) (\<lambda>(n, chunk).
        if n \<le> 0 then io_ret (Inr ())
        else io_seq (io_while (put_part chunk) 0) (io_ret (Inl (to_read - n))))
      else io_ret (Inr ()))"

text \<open>
  What was added since \<open>last\<close> (\<open>last0\<close>); the result is the new \<open>last\<close>, or the end of the child. A file that became
  shorter is followed from its beginning.
\<close>

definition print_new :: "string \<Rightarrow> int \<Rightarrow> int \<Rightarrow> int \<Rightarrow> (int + unit, 'p, 'm) io" where
  "print_new path fd sz last0 =
     (if sz > last0 then
        io_seq (print_size path sz)
       (io_bind (sys_int (CLseek fd last0)) (\<lambda>r.
        if r = -1 then io_seq (err_print path ''lseek'') (io_ret (Inr ()))
        else io_seq (io_while (put_piece fd) (sz - last0)) (io_seq (emit (CWrite STDOUT_FILENO [LF])) (io_ret (Inl sz)))))
      else io_ret (Inl last0))"

definition follow_round :: "string \<Rightarrow> int \<Rightarrow> int \<Rightarrow> int \<Rightarrow> (int + unit, 'p, 'm) io" where
  "follow_round path fd pipe_read_end last0 =
     io_bind (sys_read pipe_read_end 16) (\<lambda>(r, buf).
     if r = 0 then io_ret (Inr ())
     else if r < 0 then
       io_bind get_errno (\<lambda>e. if e = EINTR then io_ret (Inl last0) else io_seq (err_print path ''read'') (io_ret (Inr ())))
     else if r \<ge> 6 \<and> strncmp_eq buf CHECK 6 then
       io_bind (sys_stat path) (\<lambda>st. case st of
         None \<Rightarrow> io_seq (err_print path ''fstat'') (io_ret (Inr ()))
       | Some (_, sz) \<Rightarrow> print_new path fd sz (if sz < last0 then 0 else last0))
     else io_ret (Inl last0))"

definition child_run :: "string \<Rightarrow> int \<Rightarrow> (unit, 'p, 'm) io" where
  "child_run path pipe_read_end =
     io_bind (sys_int (COpen path)) (\<lambda>fd.
     if fd < 0 then io_block [err_print path ''open'', emit (CClose pipe_read_end), io_exit 1]
     else
     io_bind (sys_stat path) (\<lambda>st. case st of
       None \<Rightarrow> io_block [err_print path ''fstat'', emit (CClose fd), emit (CClose pipe_read_end), io_exit 1]
     | Some (_, sz) \<Rightarrow>
     io_seq (print_size path sz)
    (io_bind (sys_int (CLseek fd 0)) (\<lambda>last0.
     io_seq (io_while (follow_round path fd pipe_read_end) (if last0 = -1 then sz else last0))
       (io_block [emit (CClose fd), emit (CClose pipe_read_end), io_exit 0])))))"

text \<open>The first 64 valid arguments.\<close>

fun pick_targets :: "string list \<Rightarrow> string list \<Rightarrow> (string list, 'p, 'm) io" where
  "pick_targets [] paths = io_ret paths"
| "pick_targets (a # as) paths =
     (if length paths < 64 then
        io_bind (is_valid_target a) (\<lambda>ok.
        if ok then io_seq (emit (CPrint (''[OK]  '' @ a @ [LF]))) (pick_targets as (paths @ [a]))
        else pick_targets as paths)
      else io_ret paths)"

fun start_children :: "string list \<Rightarrow> (int \<times> int) list \<Rightarrow> int list \<Rightarrow> ((int \<times> int) list \<times> int list, 'p, 'm) io" where
  "start_children [] pipes pids = io_ret (pipes, pids)"
| "start_children (path # paths) pipes pids =
     io_bind sys_pipe (\<lambda>p. case p of
       None \<Rightarrow> io_seq (perror ''pipe'') (io_exit 1)
     | Some (rd, wr) \<Rightarrow>
     io_bind (sys_int CFork) (\<lambda>pid.
     if pid < 0 then io_seq (perror ''fork'') (io_exit 1)
     else
     io_seq (if pid = 0 then io_block [emit (CClose wr), close_both pipes, child_run path rd] else emit (CClose rd))
       (start_children paths (pipes @ [(rd, wr)]) (pids @ [pid]))))"

definition follow_main :: "string list \<Rightarrow> (int, 'p, 'm) io" where
  "follow_main argv =
     (if length argv < 2 then io_seq (emit (CWrite STDERR_FILENO ''usage'')) (io_ret 1)
      else
      io_seq (emit (CPrint (''=== Overujem vstupy ==='' @ [LF])))
     (io_bind (pick_targets (tl argv) []) (\<lambda>paths.
      io_seq (emit (CPrint (''======================='' @ [LF])))
     (if paths = [] then io_seq (emit (CWrite STDERR_FILENO (''Nie je co monitorovat.'' @ [LF]))) (io_ret 1)
      else
      io_bind (start_children paths [] []) (\<lambda>(pipes, pids).
      io_seq (io_while (tick 1000000 pipes) ())
     (io_seq (wait_all pids)
     (io_seq (emit (CPrint ''Hotovo.'')) (io_ret 0))))))))"

section \<open>DU/DU02/tail.cpp\<close>

definition is_valid_file :: "string \<Rightarrow> (bool, 'p, 'm) io" where
  "is_valid_file input_file =
     io_bind (sys_stat input_file) (\<lambda>st. case st of
       None \<Rightarrow> io_seq (emit (CPrint (''stat zlyhal'' @ [LF]))) (io_ret False)
     | Some (dir, _) \<Rightarrow>
     if dir then io_seq (err_print input_file ''je adresar'') (io_ret False)
     else
     io_bind (can_access input_file X_OK) (\<lambda>ex.
     if ex then io_seq (emit (CPrint (input_file @ '': je spustitelny'' @ [LF]))) (io_ret False)
     else
     io_bind (can_access input_file R_OK) (\<lambda>rd.
     if \<not> rd then io_seq (emit (CPrint (input_file @ '': je necitatelny'' @ [LF]))) (io_ret False) else io_ret True)))"

text \<open>If \<open>stat\<close> fails, a structure is printed that was not set.\<close>

definition file_info :: "string \<Rightarrow> (unit, 'p, 'm) io" where
  "file_info input_file = io_bind (sys_stat input_file) (\<lambda>st. case st of None \<Rightarrow> io_ub | Some (_, sz) \<Rightarrow> print_size input_file sz)"

definition show_chunk :: "int \<Rightarrow> unit \<Rightarrow> (unit + unit, 'p, 'm) io" where
  "show_chunk f = (\<lambda>_.
     io_bind (sys_read f 4096) (\<lambda>(n, d). if n > 0 then io_seq (emit (CPrint d)) (io_ret (Inl ())) else io_ret (Inr ())))"

text \<open>The whole file is printed each time. An error of \<open>read\<close> is not the end.\<close>

definition tail_round :: "string \<Rightarrow> int \<Rightarrow> int \<Rightarrow> unit \<Rightarrow> (unit + unit, 'p, 'm) io" where
  "tail_round input_file f pipe_r = (\<lambda>_.
     io_bind (sys_read pipe_r 16) (\<lambda>(r_pipe, buf).
     if r_pipe = 0 then io_ret (Inr ())
     else if r_pipe < 0 then io_ret (Inl ())
     else
     io_seq (io_when (r_pipe \<ge> 6 \<and> strncmp_eq buf CHECK 6)
         (if f < 0 then io_ub
          else io_block [io_bind (sys_stat input_file) (\<lambda>_. io_ret ()), file_info input_file, emit (CLseek f 0),
            io_while (show_chunk f) (), emit (CPrint (''==============='' @ [LF]))]))
       (io_ret (Inl ()))))"

definition child_read :: "string \<Rightarrow> int \<Rightarrow> (unit, 'p, 'm) io" where
  "child_read input_file pipe_r =
     io_bind (sys_int (COpen input_file)) (\<lambda>f.
     io_block [io_bind (sys_stat input_file) (\<lambda>_. io_ret ()), file_info input_file, io_while (tail_round input_file f pipe_r) (),
       if f < 0 then io_ub else emit (CClose f), emit (CClose pipe_r)])"

text \<open>The array has 50 places.\<close>

fun pick_files :: "string list \<Rightarrow> string list \<Rightarrow> (string list, 'p, 'm) io" where
  "pick_files [] paths = io_ret paths"
| "pick_files (a # as) paths =
     io_bind (is_valid_file a) (\<lambda>ok.
     if \<not> ok then pick_files as paths
     else io_seq (io_block [emit (CPrint (''Ok - '' @ a @ '' '')), file_info a, emit (CPrint (''-----------------'' @ [LF]))])
       (if length paths \<ge> 50 then io_ub else pick_files as (paths @ [a])))"

text \<open>Neither \<open>pipe\<close> nor \<open>fork\<close> is checked: without a pipe the descriptors are not set.\<close>

fun start_tails :: "string list \<Rightarrow> (int \<times> int) list \<Rightarrow> int list \<Rightarrow> ((int \<times> int) list \<times> int list, 'p, 'm) io" where
  "start_tails [] pipes pids = io_ret (pipes, pids)"
| "start_tails (path # paths) pipes pids =
     io_bind sys_pipe (\<lambda>p.
     io_bind (sys_int CFork) (\<lambda>pid. case p of
       None \<Rightarrow> io_ub
     | Some (rd, wr) \<Rightarrow>
     io_seq (if pid = 0 then io_block [emit (CClose wr), close_both pipes, child_read path rd, io_exit 0] else emit (CClose rd))
       (start_tails paths (pipes @ [(rd, wr)]) (pids @ [pid]))))"

definition tail_main :: "string list \<Rightarrow> (int, 'p, 'm) io" where
  "tail_main argv =
     io_bind (pick_files (tl argv) []) (\<lambda>paths.
     io_bind (start_tails paths [] []) (\<lambda>(pipes, pids).
     io_seq (io_while (tick 1000000 pipes) ())
    (io_seq (wait_all pids)
    (io_seq (emit (CPrint (''Subor stop zastavil program'' @ [LF]))) (io_ret 0)))))"

section \<open>cv/cv\_du2/main.cpp\<close>

text \<open>The result of \<open>stat\<close> is not looked at: \<open>dir0\<close> is what the structure holds if it fails.\<close>

definition du2_valid :: "string \<Rightarrow> bool \<Rightarrow> (bool, 'p, 'm) io" where
  "du2_valid f dir =
     io_bind (can_access f X_OK) (\<lambda>ex.
     if ex then io_ret False
     else io_bind (can_access f R_OK) (\<lambda>rd. io_ret (rd \<and> \<not> dir)))"

definition du2_info :: "string \<Rightarrow> bool \<times> int \<Rightarrow> (unit, 'p, 'm) io" where
  "du2_info f i =
     io_seq (print_size f (snd i))
    (io_seq (emit (CPrint ''je validny: ''))
    (io_bind (du2_valid f (fst i)) (\<lambda>ok. emit (CPrint ((if ok then ''ANO'' else ''NIE'') @ [LF])))))"

text \<open>The bytes read are printed as a string, although nothing ends it.\<close>

definition du2_piece :: "int \<Rightarrow> char list \<Rightarrow> (char list + unit, 'p, 'm) io" where
  "du2_piece f b =
     io_bind (sys_read f 1024) (\<lambda>(r, d).
     if r > 0 then
       io_bind (buf_str (buf_fill b d)) (\<lambda>s.
       io_seq (emit (CPrint (''Nove data: '' @ s @ [LF]))) (io_ret (Inl (buf_fill b d))))
     else io_ret (Inr ()))"

text \<open>
  A failed \<open>read\<close> of the pipe gives an unsigned number that is not 0; the buffer is compared as it is.
\<close>

definition du2_round :: "string \<Rightarrow> bool \<times> int \<Rightarrow> int \<Rightarrow> int \<Rightarrow> char list \<Rightarrow> char list \<Rightarrow> (char list + unit, 'p, 'm) io" where
  "du2_round path st f rd b0 buf =
     io_bind (sys_read rd 6) (\<lambda>(r, d).
     if r = 0 then io_ret (Inr ())
     else
     let buf = buf_fill buf d in
     io_seq (io_when (strncmp_eq buf CHECK 6) (io_seq (du2_info path st) (io_while (du2_piece f) b0))) (io_ret (Inl buf)))"

definition du2_child :: "string \<Rightarrow> bool \<times> int \<Rightarrow> int \<Rightarrow> char list \<Rightarrow> char list \<Rightarrow> (int \<times> int) list \<Rightarrow> int \<Rightarrow> int \<Rightarrow> (unit, 'p, 'm) io" where
  "du2_child path st0 logger c0 b0 pipes rd wr =
     io_seq (emit (CClose wr)) (io_seq (emit (CClose logger))
    (io_bind (sys_stat path) (\<lambda>st.
     io_seq (close_both pipes)
    (io_bind (sys_int (COpen path)) (\<lambda>f.
     io_seq (emit (CLseek f 0))
    (io_seq (io_while (du2_round path (case st of None \<Rightarrow> st0 | Some s \<Rightarrow> s) f rd b0) c0)
    (io_block [emit (CClose f), emit (CClose rd), io_exit 0])))))))"

fun du2_pick :: "string list \<Rightarrow> bool \<Rightarrow> string list \<Rightarrow> (string list, 'p, 'm) io" where
  "du2_pick [] dir0 paths = io_ret paths"
| "du2_pick (a # as) dir0 paths =
     io_bind (sys_stat a) (\<lambda>st.
     let dir = (case st of None \<Rightarrow> dir0 | Some (d, _) \<Rightarrow> d) in
     io_seq (emit (CPrint (''==============='' @ [LF])))
    (io_bind (du2_valid a dir) (\<lambda>ok.
     if \<not> ok then du2_pick as dir paths
     else if length paths \<ge> 50 then io_ub
     else du2_pick as dir (paths @ [a]))))"

fun du2_start :: "(string \<Rightarrow> (int \<times> int) list \<Rightarrow> int \<Rightarrow> int \<Rightarrow> (unit, 'p, 'm) io) \<Rightarrow> string list \<Rightarrow> (int \<times> int) list \<Rightarrow> int list \<Rightarrow>
    ((int \<times> int) list \<times> int list, 'p, 'm) io" where
  "du2_start child [] pipes pids = io_ret (pipes, pids)"
| "du2_start child (path # paths) pipes pids =
     io_bind sys_pipe (\<lambda>p. case p of
       None \<Rightarrow> io_seq (perror ''pipe chyba'') (io_exit 1)
     | Some (rd, wr) \<Rightarrow>
     io_bind (sys_int CFork) (\<lambda>pid.
     if pid = -1 then io_seq (perror ''fork zlyhal'') (io_exit 1)
     else
     io_seq (if pid = 0 then child path pipes rd wr else emit (CClose rd))
       (du2_start child paths (pipes @ [(rd, wr)]) (pids @ [pid]))))"

text \<open>
  The ends of the pipes are closed after the loop. \<open>st0\<close>, \<open>logger\<close>, \<open>c0\<close> and \<open>b0\<close> are what the variables
  hold that are not set: the structures of \<open>stat\<close>, a descriptor and two arrays.
\<close>

definition du2_tick :: "(int \<times> int) list \<Rightarrow> unit \<Rightarrow> (unit + unit, 'p, 'm) io" where
  "du2_tick ps = (\<lambda>_.
     io_bind (can_access ''stop'' F_OK) (\<lambda>stop.
     if stop then io_seq (emit (CPrint ''Subor stop zastavil program'')) (io_ret (Inr ()))
     else io_seq (send_checks ps) (io_seq (sys_usleep 3000000) (io_ret (Inl ())))))"

definition du2_main :: "bool \<times> int \<Rightarrow> int \<Rightarrow> char list \<Rightarrow> char list \<Rightarrow> string list \<Rightarrow> (int, 'p, 'm) io" where
  "du2_main st0 logger c0 b0 argv =
     io_bind (du2_pick (tl argv) (fst st0) []) (\<lambda>paths.
     io_bind (du2_start (\<lambda>path. du2_child path st0 logger c0 b0) paths [] []) (\<lambda>(pipes, pids).
     io_seq (io_while (du2_tick pipes) ())
    (io_seq (close_ends pipes) (io_seq (wait_all pids) (io_ret 0)))))"

section \<open>Loops\<close>

lemma sane_follow_parts [ext_intros]: "sane (sys_stat p)" "sane (can_access p m)" "sane (print_size p n)" "sane (err_print p t)"
  "sane (du2_valid p d)" "sane (is_valid_target p)" "sane (file_info p)" "sane (is_valid_file p)"
  unfolding sys_stat_def can_access_def print_size_def err_print_def du2_valid_def is_valid_target_def file_info_def is_valid_file_def
  by (intro ext_intros)+

lemma sane_pipes [ext_intros]: "sane (send_checks ps)" "sane (close_ends ps)" "sane (close_both ps)"
  unfolding send_checks_def close_ends_def close_both_def by (induction ps; auto intro!: ext_intros)+

lemma sane_wait_all [ext_intros]: "sane (wait_all pids)"
  unfolding wait_all_def by (induction pids) (auto intro!: ext_intros)

lemma uses_access: "(\<And>b. sane (f b)) \<Longrightarrow> uses (io_bind (can_access p m) f)"
  unfolding can_access_def io_bind_assoc by (rule uses_bind_first [OF uses_sys(1)]) (auto intro: ext_intros simp: io_basic_simps(1))

interpretation ticks: event_loop "tick us ps"
proof
  show "sane (tick us ps u)" for u
    unfolding tick_def by (intro ext_intros)
  show "uses (tick us ps u)" for u
    unfolding tick_def by (rule uses_access) (intro ext_intros)
qed

interpretation du2_ticks: event_loop "du2_tick ps"
proof
  show "sane (du2_tick ps u)" for u
    unfolding du2_tick_def by (intro ext_intros)
  show "uses (du2_tick ps u)" for u
    unfolding du2_tick_def by (rule uses_access) (intro ext_intros)
qed

interpretation put_parts: bounded_loop "put_part t"
proof
  show "sane (put_part t off)" for off
    unfolding put_part_def by (intro ext_intros)
  fix off off' w w'
  have "uses (io_bind (sys_int (CWrite STDOUT_FILENO (drop off t))) (\<lambda>x.
      if x < 0 then io_bind get_errno (\<lambda>e. io_ret (if e = EINTR then Inl off else Inr ())) else io_ret (Inl (off + nat x) :: nat + unit)))"
    by (rule uses_bind_first [OF uses_sys(1)]) (intro ext_intros)
  from usesD [OF this] show "put_part t off w = (Val (Inl off'), w') \<Longrightarrow> length (w_oracle w') < length (w_oracle w)"
    by (auto simp: put_part_def io_ret_def split: if_splits)
qed

interpretation put_pieces: bounded_loop "put_piece fd"
proof
  show "sane (put_piece fd n)" for n
    unfolding put_piece_def by (intro ext_intros put_parts.while_sane)
  fix n n' w w'
  have "uses (io_bind (sys_read fd (if n > 4096 then 4096 else nat n)) (\<lambda>(k, chunk).
        if k \<le> 0 then io_ret (Inr ()) else io_seq (io_while (put_part chunk) 0) (io_ret (Inl (n - k) :: int + unit))))"
    by (rule uses_bind_first [OF uses_sys(2)]) (intro ext_intros put_parts.while_sane)
  from usesD [OF this] show "put_piece fd n w = (Val (Inl n'), w') \<Longrightarrow> length (w_oracle w') < length (w_oracle w)"
    by (auto simp: put_piece_def io_ret_def split: if_splits)
qed

interpretation follows: event_loop "follow_round path fd rd"
proof
  show "sane (follow_round path fd rd l)" for l
    unfolding follow_round_def print_new_def by (intro ext_intros put_pieces.while_sane)
  show "uses (follow_round path fd rd l)" for l
    unfolding follow_round_def print_new_def by (rule uses_bind_first [OF uses_sys(2)]) (intro ext_intros put_pieces.while_sane)
qed

interpretation show_chunks: event_loop "show_chunk f"
proof
  show "sane (show_chunk f u)" for u
    unfolding show_chunk_def by (intro ext_intros)
  show "uses (show_chunk f u)" for u
    unfolding show_chunk_def by (rule uses_bind_first [OF uses_sys(2)]) (intro ext_intros)
qed

interpretation tails: event_loop "tail_round path f rd"
proof
  show "sane (tail_round path f rd u)" for u
    unfolding tail_round_def by (intro ext_intros show_chunks.while_sane)
  show "uses (tail_round path f rd u)" for u
    unfolding tail_round_def by (rule uses_bind_first [OF uses_sys(2)]) (intro ext_intros show_chunks.while_sane)
qed

interpretation du2_pieces: event_loop "du2_piece f"
proof
  show "sane (du2_piece f b)" for b
    unfolding du2_piece_def by (intro ext_intros)
  show "uses (du2_piece f b)" for b
    unfolding du2_piece_def by (rule uses_bind_first [OF uses_sys(2)]) (intro ext_intros)
qed

interpretation du2_rounds: event_loop "du2_round path st f rd b0"
proof
  show "sane (du2_round path st f rd b0 b)" for b
    unfolding du2_round_def du2_info_def by (intro ext_intros du2_pieces.while_sane)
  show "uses (du2_round path st f rd b0 b)" for b
    unfolding du2_round_def du2_info_def by (rule uses_bind_first [OF uses_sys(2)]) (intro ext_intros du2_pieces.while_sane)
qed

end
