(* ===== verification/FollowerProps.thy ===== *)
theory FollowerProps
  imports Followers JobProps
begin

text \<open>
  The follower of \<open>ostatne/main.cpp\<close>: what is appended to a file between two checks is printed once,
  completely and in order.
\<close>

section \<open>A growing file\<close>

text \<open>
  The answers to one check of a file that was \<open>l\<close> bytes long and to which \<open>g\<close> was appended: the request,
  the new size, the position, and the new bytes in pieces of at most 4096, each written at once.
\<close>

definition piece_answers :: "string \<Rightarrow> sysret list" where
  "piece_answers g = concat (map (\<lambda>c. [Data c, Ret (int (length c))]) (chop g))"

definition check_answers :: "nat \<Rightarrow> string \<Rightarrow> sysret list" where
  "check_answers l g = [Data CHECK, Stat False (int (l + length g))] @ (if g = [] then [] else Ret (int l) # piece_answers g)"

fun growth_answers :: "nat \<Rightarrow> string list \<Rightarrow> sysret list" where
  "growth_answers l [] = []"
| "growth_answers l (g # gs) = check_answers l g @ growth_answers (l + length g) gs"

text \<open>The calls that matter: the position asked for and what is printed.\<close>

definition shown :: "string list \<Rightarrow> string list" where
  "shown gs = concat (map (\<lambda>g. if g = [] then [] else chop g @ [[LF]]) gs)"

lemma concat_shown: "concat (shown gs) = concat (map (\<lambda>g. if g = [] then [] else g @ [LF]) gs)"
  by (induction gs) (auto simp: shown_def concat_chop)

lemma put_all:
  assumes "map snd (w_oracle w) = [Ret (int (length c))] @ as" and "c \<noteq> []"
  shows "\<exists>w'. io_while (put_part c) 0 w = (Val (), w') \<and> map snd (w_oracle w') = as \<and> w_calls w' = w_calls w @ [CWrite STDOUT_FILENO c]"
proof -
  obtain e os where o: "w_oracle w = (e, Ret (int (length c))) # os" "map snd os = as" using assms(1) by (cases "w_oracle w") auto
  define v where "v = snd (put_part c 0 w)"
  have v: "put_part c 0 w = (Val (Inl (length c)), v)" "w_oracle v = os" "w_calls v = w_calls w @ [CWrite STDOUT_FILENO c]"
    using o assms(2) by (simp_all add: v_def put_part_def io_simps)
  have "io_while (put_part c) (length c) v = (Val (), v)"
    by (subst put_parts.while_unfold) (simp add: put_part_def io_bind_def io_ret_def)
  then have "io_while (put_part c) 0 w = (Val (), v)"
    by (subst put_parts.while_unfold) (simp add: io_bind_def v(1))
  with v o(2) show ?thesis by auto
qed

lemma put_new:
  assumes "map snd (w_oracle w) = piece_answers g @ as"
  shows "\<exists>w'. io_while (put_piece fd) (int (length g)) w = (Val (), w') \<and> map snd (w_oracle w') = as \<and>
    sent_to STDOUT_FILENO (w_calls w') = sent_to STDOUT_FILENO (w_calls w) @ chop g"
  using assms
proof (induction g arbitrary: w rule: chop.induct)
  case (1 g)
  show ?case
  proof (cases "g = []")
    case True
    then show ?thesis using 1(2)
      by (subst put_pieces.while_unfold) (simp add: put_piece_def piece_answers_def chop.simps [of "[]"] io_simps)
  next
    case False
    define c where "c = take SEND_BUF g"
    define r where "r = drop SEND_BUF g"
    have c: "c \<noteq> []" "length c \<le> 4096" "length g = length c + length r" "chop g = c # chop r"
      using False by (auto simp: c_def r_def SEND_BUF_def chop.simps [of g] min_def)
    have a: "map snd (w_oracle w) = Data c # Ret (int (length c)) # piece_answers r @ as"
      using 1(2) by (simp add: piece_answers_def c(4))
    then obtain e os where o: "w_oracle w = (e, Data c) # os" "map snd os = Ret (int (length c)) # piece_answers r @ as"
      by (cases "w_oracle w") auto
    let ?n = "if int (length g) > 4096 then 4096 else nat (int (length g))"
    have n: "length c \<le> ?n" "0 < length g" using c False by auto
    define v where "v = snd (sys_read fd ?n w)"
    have v: "sys_read fd ?n w = (Val (int (length c), c), v)" "w_oracle v = os" "w_calls v = w_calls w @ [CRead fd ?n]"
      using o(1) n(1) by (simp_all add: v_def io_simps)
    from put_all [of v c "piece_answers r @ as"] v(2) o(2) c(1) obtain x where
      x: "io_while (put_part c) 0 v = (Val (), x)" "map snd (w_oracle x) = piece_answers r @ as" "w_calls x = w_calls v @ [CWrite STDOUT_FILENO c]"
      by auto
    have pp: "put_piece fd (int (length g)) = io_bind (sys_read fd ?n) (\<lambda>(n, chunk).
        if n \<le> 0 then io_ret (Inr ())
        else io_seq (io_while (put_part chunk) 0) (io_ret (Inl (int (length g) - n))))"
      unfolding put_piece_def by (simp only: of_nat_0_less_iff n(2) if_True)
    have st: "put_piece fd (int (length g)) w = (Val (Inl (int (length r))), x)"
      unfolding pp io_bind_simps(1) [where m = "sys_read fd k" for k, OF v(1)] using c(1,3)
      by (simp add: io_seq_def io_bind_simps(1) [where m = "io_while (put_part c) 0", OF x(1)] io_ret_def)
    from 1(1) [OF False, folded r_def, OF x(2)] obtain w' where
      "io_while (put_piece fd) (int (length r)) x = (Val (), w')" "map snd (w_oracle w') = as"
      "sent_to STDOUT_FILENO (w_calls w') = sent_to STDOUT_FILENO (w_calls x) @ chop r" by auto
    then show ?thesis
      using x(3) v(3) c(4) by (subst put_pieces.while_unfold) (auto simp: io_bind_def st)
  qed
qed

lemma one_check:
  assumes "map snd (w_oracle w) = check_answers l g @ as"
  shows "\<exists>w'. follow_round path fd rd (int l) w = (Val (Inl (int (l + length g))), w') \<and> map snd (w_oracle w') = as \<and>
    sent_to STDOUT_FILENO (w_calls w') = sent_to STDOUT_FILENO (w_calls w) @ shown [g]"
proof -
  let ?sz = "int (l + length g)"
  from assms obtain e1 e2 os where o: "w_oracle w = (e1, Data CHECK) # (e2, Stat False ?sz) # os"
    and os: "map snd os = (if g = [] then [] else Ret (int l) # piece_answers g) @ as"
    by (auto simp: check_answers_def map_eq_Cons_conv)
  define v where "v = snd (sys_stat path (snd (sys_read rd 16 w)))"
  have v: "w_oracle v = os" "w_calls v = w_calls w @ [CRead rd 16, CStat path]"
    using o by (simp_all add: v_def sys_stat_def io_simps)
  have run: "follow_round path fd rd (int l) w = print_new path fd ?sz (int l) v"
    using o by (simp add: follow_round_def v_def sys_stat_def io_simps strncmp_eq_def)
  show ?thesis
  proof (cases "g = []")
    case True
    then show ?thesis using v os unfolding run by (simp add: print_new_def io_simps shown_def sent_to_def)
  next
    case False
    obtain e3 ps where ps: "os = (e3, Ret (int l)) # ps" "map snd ps = piece_answers g @ as"
      using os False by (cases os) auto
    define u where "u = snd (sys_int (CLseek fd (int l)) (snd (print_size path ?sz v)))"
    have u: "map snd (w_oracle u) = piece_answers g @ as" "sent_to STDOUT_FILENO (w_calls u) = sent_to STDOUT_FILENO (w_calls w)"
      using v ps by (simp_all add: u_def print_size_def io_simps sent_to_def)
    from put_new [OF u(1), of fd] obtain x where x: "io_while (put_piece fd) (int (length g)) u = (Val (), x)"
      "map snd (w_oracle x) = as" "sent_to STDOUT_FILENO (w_calls x) = sent_to STDOUT_FILENO (w_calls u) @ chop g" by auto
    have "print_new path fd ?sz (int l) v = io_seq (io_while (put_piece fd) (int (length g)))
        (io_seq (emit (CWrite STDOUT_FILENO [LF])) (io_ret (Inl ?sz))) u"
      using False v(1) ps(1) by (simp add: print_new_def u_def print_size_def io_seq_def emit_def io_bind_def [of "\<lambda>w. (Val (), f w)" for f]
          io_bind_def [of "sys_int c" for c]) (simp add: io_simps)
    then show ?thesis using x u(2) False unfolding run
      by (simp add: io_seq_def io_bind_simps(1) [where m = "io_while b i" for b i, OF x(1)]) (simp add: io_simps shown_def sent_to_def)
  qed
qed



end
