(* ===== verification/PollServers.thy ===== *)
theory PollServers
  imports Du04Client
begin

text \<open>
  Servers that watch all their clients in one process: the echo server
  \<open>cv/cv_exec_dup_socket/server_poll_echo.cpp\<close> and the chat server \<open>cv/cv_socket/serv.c\<close>, with its client
  \<open>cv/cv_socket/client.cpp\<close>.

  The state of a server is the list of the descriptors of its 64 places, -1 for a free one; the place \<open>k\<close>
  is the slot \<open>k + 1\<close> of the echo server and the slot \<open>k + 2\<close> of the chat server, whose second descriptor
  is the standard input. \<open>peer\<close> is the address \<open>accept\<close> stores, which is only printed. The signal handler
  of the chat server is left out.
\<close>

abbreviation MAX_CLIENTS :: nat where "MAX_CLIENTS \<equiv> 64"

section \<open>Common parts\<close>

definition sys_poll_all :: "int list \<Rightarrow> ((bool \<times> bool) list option, 'p, 'm) io" where
  "sys_poll_all fds = io_bind (pop (CPoll fds)) (\<lambda>r. case r of
      Events es \<Rightarrow> io_ret (Some es)
    | Fail e \<Rightarrow> io_seq (set_errno e) (io_ret None)
    | _ \<Rightarrow> io_ret None)"

text \<open>What \<open>poll\<close> says of a descriptor; a free place is not watched.\<close>

definition ev_of :: "(bool \<times> bool) list \<Rightarrow> nat \<Rightarrow> bool \<times> bool" where
  "ev_of es i = (if i < length es then es ! i else (False, False))"

definition revents :: "nat \<Rightarrow> int list \<Rightarrow> (bool \<times> bool) list \<Rightarrow> (nat \<times> bool \<times> bool) list" where
  "revents base slots es = map (\<lambda>k. (k, if slots ! k = -1 then (False, False) else ev_of es (base + k))) [0..<length slots]"

text \<open>\<open>write_all\<close>: until everything is written, through interruptions; \<open>False\<close> for an error.\<close>

definition write_on :: "int \<Rightarrow> string \<Rightarrow> nat \<Rightarrow> (nat + bool, 'p, 'm) io" where
  "write_on fd t off =
     (if off < length t then
        io_bind (sys_int (CWrite fd (drop off t))) (\<lambda>n.
        if n < 0 then io_bind get_errno (\<lambda>e. io_ret (if e = EINTR then Inl off else Inr False))
        else io_ret (Inl (off + nat n)))
      else io_ret (Inr True))"

definition write_whole :: "int \<Rightarrow> string \<Rightarrow> (bool, 'p, 'm) io" where
  "write_whole fd t = io_while (write_on fd t) 0"

definition first_free :: "int list \<Rightarrow> nat option" where
  "first_free slots = (let n = length (takeWhile (\<lambda>f. f \<noteq> -1) slots) in if n < length slots then Some n else None)"

definition leave_slot :: "nat \<Rightarrow> int list \<Rightarrow> (int list, 'p, 'm) io" where
  "leave_slot k slots = io_seq (emit (CClose (slots ! k))) (io_ret (slots[k := -1]))"

text \<open>
  One client after \<open>poll\<close>. \<open>act\<close> is what is done with data. An interrupted \<open>read\<close> goes on with the next
  client; else a hang-up closes the descriptor, which may be closed already.
\<close>

definition client_slot :: "(nat \<Rightarrow> string) \<Rightarrow> nat \<Rightarrow> nat \<Rightarrow> (nat \<Rightarrow> string \<Rightarrow> int list \<Rightarrow> (int list, 'p, 'm) io) \<Rightarrow> nat \<Rightarrow> bool \<times> bool \<Rightarrow> int list \<Rightarrow> (int list, 'p, 'm) io" where
  "client_slot slot_name base cap act k ev slots =
     (if slots ! k = -1 \<or> ev = (False, False) then io_ret slots
      else
      io_bind (if fst ev then
          io_bind (sys_read (slots ! k) cap) (\<lambda>(n, d).
          if n > 0 then io_bind (act k d slots) (\<lambda>slots. io_ret (slots, False))
          else if n = 0 then
            io_seq (emit (CPrint (''[-] Klient '' @ slot_name (k + base) @ '' sa odpojil.'' @ [LF])))
           (io_bind (leave_slot k slots) (\<lambda>slots. io_ret (slots, False)))
          else
            io_bind get_errno (\<lambda>e.
            if e = EINTR then io_ret (slots, True)
            else io_seq (perror ''read'') (io_bind (leave_slot k slots) (\<lambda>slots. io_ret (slots, False)))))
        else io_ret (slots, False)) (\<lambda>(slots, skip).
      if \<not> skip \<and> snd ev then leave_slot k slots else io_ret slots))"

fun all_slots :: "(nat \<Rightarrow> bool \<times> bool \<Rightarrow> int list \<Rightarrow> (int list, 'p, 'm) io) \<Rightarrow> (nat \<times> bool \<times> bool) list \<Rightarrow> int list \<Rightarrow> (int list, 'p, 'm) io" where
  "all_slots h [] slots = io_ret slots"
| "all_slots h ((k, ev) # evs) slots = io_bind (h k ev slots) (all_slots h evs)"

text \<open>A listening socket on the loop-back address.\<close>

definition local_listener :: "int \<Rightarrow> nat \<Rightarrow> (int option, 'p, 'm) io" where
  "local_listener port backlog =
     io_bind (sys_int CSocket) (\<lambda>l.
     if l = -1 then io_seq (perror ''socket'') (io_ret None)
     else
     io_bind (sys_int (CSetsockopt l)) (\<lambda>r.
     if r = -1 then io_seq (perror ''setsockopt'') (io_seq (emit (CClose l)) (io_ret None))
     else
     io_bind (sys_int (CBind l (htons port))) (\<lambda>r.
     if r = -1 then io_seq (perror ''bind'') (io_seq (emit (CClose l)) (io_ret None))
     else
     io_bind (sys_int (CListen l backlog)) (\<lambda>r.
     if r = -1 then io_seq (perror ''listen'') (io_seq (emit (CClose l)) (io_ret None))
     else io_ret (Some l)))))"

text \<open>A new client takes the first free place; \<open>hello\<close> is said to it; one without a
  place gets \<open>refuse\<close> and is closed.\<close>

definition admit :: "(int \<Rightarrow> string \<times> int) \<Rightarrow> (nat \<Rightarrow> string) \<Rightarrow> nat \<Rightarrow> (int \<Rightarrow> (unit, 'p, 'm) io) \<Rightarrow> (int \<Rightarrow> (unit, 'p, 'm) io) \<Rightarrow> int \<Rightarrow> int list \<Rightarrow> (int list, 'p, 'm) io" where
  "admit peer slot_text base hello refuse listenfd slots =
     io_bind (sys_int (CAccept listenfd)) (\<lambda>cfd.
     if cfd = -1 then io_seq (perror ''accept'') (io_ret slots)
     else (case first_free slots of
        Some k \<Rightarrow> io_seq (emit (CPrint (''[+] Klient '' @ fst (peer cfd) @ '':'' @ show_int (snd (peer cfd)) @ slot_text (k + base) @ [LF])))
           (io_seq (hello cfd) (io_ret (slots[k := cfd])))
      | None \<Rightarrow> io_seq (refuse cfd) (io_seq (emit (CClose cfd)) (io_ret slots))))"

section \<open>The echo server\<close>

definition echo_back :: "nat \<Rightarrow> string \<Rightarrow> int list \<Rightarrow> (int list, 'p, 'm) io" where
  "echo_back k d slots =
     io_bind (write_whole (slots ! k) d) (\<lambda>ok.
     if ok then io_ret slots else io_seq (perror ''write'') (leave_slot k slots))"

definition echo_round :: "(int \<Rightarrow> string \<times> int) \<Rightarrow> int \<Rightarrow> int list \<Rightarrow> (int list + unit, 'p, 'm) io" where
  "echo_round peer listenfd slots =
     io_bind (sys_poll_all (listenfd # slots)) (\<lambda>p. case p of
       None \<Rightarrow> io_bind get_errno (\<lambda>e. if e = EINTR then io_ret (Inl slots) else io_seq (perror ''poll'') (io_ret (Inr ())))
     | Some es \<Rightarrow>
         io_bind (if fst (ev_of es 0) then admit peer (\<lambda>i. '' (slot '' @ show_nat i @ '')'') 1 (\<lambda>_. io_ret ()) (\<lambda>_. emit (CWrite STDERR_FILENO (''Plno, zatv'' @ [CHR 0xC3, CHR 0xA1] @ ''ram klienta.'' @ [LF]))) listenfd slots
           else io_ret slots) (\<lambda>slots'.
         io_bind (all_slots (client_slot (\<lambda>i. ''(slot '' @ show_nat i @ '')'') 1 4096 echo_back) (revents 1 slots es) slots') (\<lambda>slots. io_ret (Inl slots))))"

definition echo_main :: "(int \<Rightarrow> string \<times> int) \<Rightarrow> (int, 'p, 'm) io" where
  "echo_main peer =
     io_bind (local_listener 9090 16) (\<lambda>l. case l of
       None \<Rightarrow> io_ret 1
     | Some listenfd \<Rightarrow>
         io_seq (emit (CPrint (''Echo server be'' @ [CHR 0xC5, CHR 0xBE, CHR 0xC3, CHR 0xAD] @ '' na 127.0.0.1:9090 '' @ [CHR 0xE2, CHR 0x80, CHR 0xA6, LF])))
        (io_seq (io_while (echo_round peer listenfd) (replicate MAX_CLIENTS (-1)))
        (io_seq (emit (CClose listenfd)) (io_ret 0))))"

section \<open>The chat server\<close>

text \<open>
  The lines of what was read that are complete; what follows the last line feed is dropped, and so is
  everything after a null character.
\<close>

fun complete_lines :: "string \<Rightarrow> string \<Rightarrow> string list" where
  "complete_lines acc [] = []"
| "complete_lines acc (c # cs) = (if c = LF then acc # complete_lines [] cs else complete_lines (acc @ [c]) cs)"

definition message :: "nat \<Rightarrow> string \<Rightarrow> string" where
  "message k line = CHR ''['' # show_nat (k + 2) @ ''] '' @ line @ [LF]"

text \<open>
  The number of bytes sent is what \<open>snprintf\<close> would have written into its 4096 bytes: the last one may be
  the null character, more are behind the array.
\<close>

definition message_bytes :: "string \<Rightarrow> string option" where
  "message_bytes m = (if length m < 4096 then Some m else if length m = 4096 then Some (butlast m @ [NUL]) else None)"

definition others :: "nat \<Rightarrow> int list \<Rightarrow> int list" where
  "others k slots = map (\<lambda>j. slots ! j) (filter (\<lambda>j. j \<noteq> k \<and> slots ! j \<noteq> -1) [0..<length slots])"

fun send_each :: "string \<Rightarrow> int list \<Rightarrow> (unit, 'p, 'm) io" where
  "send_each m [] = io_ret ()"
| "send_each m (f # fs) = io_bind (nonnull (message_bytes m)) (\<lambda>b. io_seq (write_whole f b) (send_each m fs))"

definition chat_line :: "nat \<Rightarrow> string \<Rightarrow> int list \<Rightarrow> (int list, 'p, 'm) io" where
  "chat_line k l slots =
     (let line = strip_eol (take 4095 l) in
      if line = ''bye'' then
        io_seq (write_whole (slots ! k) (''bye!'' @ [LF]))
       (io_bind (leave_slot k slots) (\<lambda>slots.
        io_seq (emit (CPrint (''[-] Klient slot '' @ show_nat (k + 2) @ '' odpojen'' @ [CHR 0xC3, CHR 0xBD] @ '' (bye)'' @ [LF]))) (io_ret slots)))
      else if line \<noteq> [] then io_seq (send_each (message k line) (others k slots)) (io_ret slots)
      else io_ret slots)"

fun chat_lines :: "nat \<Rightarrow> string list \<Rightarrow> int list \<Rightarrow> (int list, 'p, 'm) io" where
  "chat_lines k [] slots = io_ret slots"
| "chat_lines k (l # ls) slots = io_bind (chat_line k l slots) (chat_lines k ls)"

definition chat_data :: "nat \<Rightarrow> string \<Rightarrow> int list \<Rightarrow> (int list, 'p, 'm) io" where
  "chat_data k d slots = chat_lines k (complete_lines [] (cstr d)) slots"

text \<open>The texts are written in UTF-8, as the source file holds them.\<close>

definition slot_list :: "nat list \<Rightarrow> string" where
  "slot_list used = (case used of [] \<Rightarrow> ''('' @ [CHR 0xC5, CHR 0xBE] @ ''iadne)''
    | k # ks \<Rightarrow> show_nat (k + 2) @ concat (map (\<lambda>k. '', '' @ show_nat (k + 2)) ks))"

definition welcome_text :: string where
  "welcome_text = ''Welcome! Nap'' @ [CHR 0xC3, CHR 0xAD, CHR 0xC5, CHR 0xA1] @ '' '' @ [CHR 0x27] @ ''bye'' @ [CHR 0x27] @ '' pre odpojenie.'' @ [LF]"

definition full_text :: string where
  "full_text = ''Server pln'' @ [CHR 0xC3, CHR 0xBD] @ '', sk'' @ [CHR 0xC3, CHR 0xBA] @ ''s nesk'' @ [CHR 0xC3, CHR 0xB4] @ ''r.'' @ [LF]"

text \<open>The end of the standard input, or an error, is not noticed.\<close>

definition chat_console :: "int \<Rightarrow> int list \<Rightarrow> (bool, 'p, 'm) io" where
  "chat_console listenfd slots =
     io_bind (sys_read STDIN_FILENO 4095) (\<lambda>(n, d).
     if n \<le> 0 then io_ret False
     else
     let buf = strip_eol (cstr d); used = filter (\<lambda>k. slots ! k \<noteq> -1) [0..<length slots] in
     if buf = ''quit'' then
       io_seq (emit (CPrint (''Koniec'' @ [CHR 0xE2, CHR 0x80, CHR 0xA6] @ '' zatv'' @ [CHR 0xC3, CHR 0xA1] @ ''ram spojenia.'' @ [LF])))
      (io_seq (io_block (map (\<lambda>k. emit (CClose (slots ! k))) used)) (io_seq (emit (CClose listenfd)) (io_ret True)))
     else if buf = ''list'' then io_seq (emit (CPrint (''Akt'' @ [CHR 0xC3, CHR 0xAD] @ ''vne sloty: '' @ slot_list used @ [LF]))) (io_ret False)
     else io_seq (io_when (buf \<noteq> []) (emit (CPrint (''Nezn'' @ [CHR 0xC3, CHR 0xA1] @ ''my pr'' @ [CHR 0xC3, CHR 0xAD] @ ''kaz: '' @ buf @ '' (pou'' @ [CHR 0xC5, CHR 0xBE] @ ''i '' @ [CHR 0x27] @ ''list'' @ [CHR 0x27] @ '' alebo '' @ [CHR 0x27] @ ''quit'' @ [CHR 0x27] @ '')'' @ [LF])))) (io_ret False))"

text \<open>The loop ends with \<open>True\<close> when everything is closed already.\<close>

definition chat_round :: "(int \<Rightarrow> string \<times> int) \<Rightarrow> int \<Rightarrow> int list \<Rightarrow> (int list + bool, 'p, 'm) io" where
  "chat_round peer listenfd slots =
     io_bind (sys_poll_all (listenfd # STDIN_FILENO # slots)) (\<lambda>p. case p of
       None \<Rightarrow> io_bind get_errno (\<lambda>e. if e = EINTR then io_ret (Inl slots) else io_seq (perror ''poll'') (io_ret (Inr False)))
     | Some es \<Rightarrow>
         io_bind (if fst (ev_of es 0) then admit peer (\<lambda>i. '' '' @ [CHR 0xE2, CHR 0x86, CHR 0x92] @ '' slot '' @ show_nat i) 2 (\<lambda>f. io_seq (write_whole f welcome_text) (io_ret ()))
             (\<lambda>f. io_seq (write_whole f full_text) (io_ret ())) listenfd slots
           else io_ret slots) (\<lambda>slots'.
         io_bind (if fst (ev_of es 1) then chat_console listenfd slots' else io_ret False) (\<lambda>stop.
         if stop then io_ret (Inr True)
         else io_bind (all_slots (client_slot (\<lambda>i. ''slot '' @ show_nat i) 2 4095 chat_data) (revents 2 slots es) slots') (\<lambda>slots. io_ret (Inl slots)))))"

definition chat_main :: "(int \<Rightarrow> string \<times> int) \<Rightarrow> string list \<Rightarrow> (int, 'p, 'm) io" where
  "chat_main peer argv =
     io_seq (emit CSignal) (io_seq (emit CSignal)
    (io_bind (if length argv > 1 then atoi_io (argv ! 1) else io_ret 9090) (\<lambda>port.
     io_bind (local_listener port 32) (\<lambda>l. case l of
       None \<Rightarrow> io_ret 1
     | Some listenfd \<Rightarrow>
         io_seq (emit (CPrint (''Chat server be'' @ [CHR 0xC5, CHR 0xBE, CHR 0xC3, CHR 0xAD] @ '' na 127.0.0.1:'' @ show_int port @ [LF])))
        (io_seq (emit (CPrint (''Pr'' @ [CHR 0xC3, CHR 0xAD] @ ''kazy na serveri: '' @ [CHR 0x27] @ ''list'' @ [CHR 0x27] @ '', '' @ [CHR 0x27] @ ''quit'' @ [CHR 0x27, LF])))
        (io_bind (io_while (chat_round peer listenfd) (replicate MAX_CLIENTS (-1))) (\<lambda>closed.
         io_seq (io_when (\<not> closed) (emit (CClose listenfd))) (io_ret 0))))))))"

section \<open>The client\<close>

definition chat_client_main :: "(int, 'p, 'm) io" where
  "chat_client_main =
     io_bind (sys_int CSocket) (\<lambda>sock.
     if sock = -1 then io_seq (perror ''socket'') (io_ret 1)
     else
     io_bind (sys_int (CConnect sock (htons 9090))) (\<lambda>r.
     if r = -1 then io_seq (perror ''connect'') (io_seq (emit (CClose sock)) (io_ret 1))
     else
     io_seq (emit (CPrint (''Pripojen'' @ [CHR 0xC3, CHR 0xBD] @ '' na server!'' @ [LF])))
    (io_bind (sys_read sock 99) (\<lambda>(n, d).
     if n < 0 then io_ub
     else io_seq (io_block [emit (CPrint (''Server: '' @ cstr d)), emit (CWrite sock (''Ahoj server!'' @ [LF])), emit (CClose sock)])
         (io_ret 0)))))"

section \<open>Loops\<close>

interpretation write_ons: bounded_loop "write_on f t"
proof
  show "sane (write_on f t off)" for off
    unfolding write_on_def by (intro ext_intros)
  fix off off' w w'
  have "uses (io_bind (sys_int (CWrite f (drop off t))) (\<lambda>n. if n < 0 then io_bind get_errno (\<lambda>e. io_ret (if e = EINTR then Inl off else Inr False))
        else io_ret (Inl (off + nat n) :: nat + bool)))"
    by (rule uses_bind_first [OF uses_sys(1)]) (intro ext_intros)
  from usesD [OF this] show "write_on f t off w = (Val (Inl off'), w') \<Longrightarrow> length (w_oracle w') < length (w_oracle w)"
    by (auto simp: write_on_def io_ret_def split: if_splits)
qed

lemma sane_slots [ext_intros]: "sane (sys_poll_all fds)" "sane (write_whole f t)" "sane (leave_slot k s)"
  "sane (echo_back k d s)" "sane (local_listener p b)"
  unfolding sys_poll_all_def write_whole_def leave_slot_def echo_back_def local_listener_def
  by (intro ext_intros write_ons.while_sane)+

lemma sane_client_slot [ext_intros]: "(\<And>d s. sane (act k d s)) \<Longrightarrow> sane (client_slot nm base cap act k ev slots)"
  unfolding client_slot_def by (intro ext_intros)

lemma sane_all_slots [ext_intros]: "(\<And>k ev s. sane (h k ev s)) \<Longrightarrow> sane (all_slots h evs slots)"
  by (induction h evs slots rule: all_slots.induct) (auto intro!: ext_intros)

lemma sane_send_each [ext_intros]: "sane (nonnull x)" "sane (send_each m fs)"
  by (simp add: nonnull_def ext_intros) (induction m fs rule: send_each.induct; auto simp: nonnull_def intro!: ext_intros)

lemma sane_chat [ext_intros]: "sane (chat_line k l s)" "sane (chat_lines k ls s)" "sane (chat_data k d s)"
proof -
  show line: "sane (chat_line k l s)" for k l s
    unfolding chat_line_def by (intro ext_intros)
  show lines: "sane (chat_lines k ls s)" for k ls s
    by (induction k ls s rule: chat_lines.induct) (auto intro!: ext_intros line)
  show "sane (chat_data k d s)"
    unfolding chat_data_def by (rule lines)
qed

lemma sane_admit [ext_intros]: "(\<And>f. sane (a f)) \<Longrightarrow> (\<And>f. sane (b f)) \<Longrightarrow> sane (admit peer st base a b l s)"
  unfolding admit_def by (intro ext_intros)

lemma sane_closes [ext_intros]: "sane (io_block (map (\<lambda>k. emit (g k)) ks))"
  by (induction ks) (auto intro!: ext_intros)

lemma sane_console [ext_intros]: "sane (chat_console l s)"
  unfolding chat_console_def by (intro ext_intros)

lemma uses_poll_all: "(\<And>p. sane (f p)) \<Longrightarrow> uses (io_bind (sys_poll_all fds) f)"
  unfolding sys_poll_all_def by (rule uses_bind_first, rule uses_bind_first [OF uses_pop]) (intro ext_intros)+

interpretation echo_rounds: event_loop "echo_round peer l"
proof
  show "sane (echo_round peer l s)" for s
    unfolding echo_round_def by (intro ext_intros)
  show "uses (echo_round peer l s)" for s
    unfolding echo_round_def by (rule uses_poll_all) (intro ext_intros)
qed

interpretation chat_rounds: event_loop "chat_round peer l"
proof
  show "sane (chat_round peer l s)" for s
    unfolding chat_round_def by (intro ext_intros)
  show "uses (chat_round peer l s)" for s
    unfolding chat_round_def by (rule uses_poll_all) (intro ext_intros)
qed

end
