(* ===== verification/PollProps.thy ===== *)
theory PollProps
  imports PollServers
begin

text \<open>
  The chat server: a reading with complete lines is sent line by line to every other client.
\<close>

section \<open>Sending\<close>

lemma write_whole_full:
  assumes "w_oracle w = (None, Ret (int (length b))) # os" and "b \<noteq> []"
  shows "write_whole f b w = (Val True, w\<lparr>w_oracle := os, w_calls := w_calls w @ [CWrite f b]\<rparr>)"
proof -
  let ?u = "w\<lparr>w_oracle := os, w_calls := w_calls w @ [CWrite f b]\<rparr>"
  have a: "write_on f b 0 w = (Val (Inl (length b)), ?u)"
    using assms by (simp add: write_on_def io_simps)
  have e: "write_on f b (length b) ?u = (Val (Inr True), ?u)"
    by (simp add: write_on_def io_simps)
  have "io_while (write_on f b) (length b) ?u = (Val True, ?u)"
    by (subst write_ons.while_unfold) (simp add: io_bind_def e io_ret_def)
  then show ?thesis
    unfolding write_whole_def by (subst write_ons.while_unfold) (simp add: io_bind_def a)
qed

text \<open>The answers of writes that take everything.\<close>

definition all_taken :: "string \<Rightarrow> int list \<Rightarrow> 'm entry list" where
  "all_taken m fs = map (\<lambda>_. (None, Ret (int (length m)))) fs"

lemma send_each_run:
  assumes "w_oracle w = all_taken m fs @ os" and "m \<noteq> []" and "length m < 4096"
  shows "send_each m fs w = (Val (), w\<lparr>w_oracle := os, w_calls := w_calls w @ map (\<lambda>f. CWrite f m) fs\<rparr>)"
  using assms(1)
proof (induction fs arbitrary: w)
  case Nil
  then show ?case by (simp add: all_taken_def io_simps)
next
  case (Cons f fs)
  let ?u = "w\<lparr>w_oracle := all_taken m fs @ os, w_calls := w_calls w @ [CWrite f m]\<rparr>"
  have "write_whole f m w = (Val True, ?u)"
    by (rule write_whole_full) (use Cons.prems assms(2) in \<open>simp_all add: all_taken_def\<close>)
  moreover have "message_bytes m = Some m" using assms(3) by (simp add: message_bytes_def)
  ultimately have "send_each m (f # fs) w = send_each m fs ?u"
    by (simp add: nonnull_def io_seq_def io_bind_def io_ret_def)
  with Cons.IH [of ?u] show ?case by simp
qed

section \<open>Lines\<close>

lemma complete_lines_line: "LF \<notin> set l \<Longrightarrow> complete_lines acc (l @ LF # s) = (acc @ l) # complete_lines [] s"
  by (induction l arbitrary: acc) auto

lemma complete_lines_rest: "LF \<notin> set r \<Longrightarrow> complete_lines acc r = []"
  by (induction r arbitrary: acc) auto

lemma complete_lines_text:
  "\<forall>l \<in> set ls. LF \<notin> set l \<Longrightarrow> LF \<notin> set r \<Longrightarrow> complete_lines [] (concat (map (\<lambda>l. l @ [LF]) ls) @ r) = ls"
  by (induction ls) (simp_all add: complete_lines_line complete_lines_rest)

text \<open>A line that is passed on: not empty, not the command \<open>bye\<close>, without line ends and null characters.\<close>

definition chat_text :: "nat \<Rightarrow> string \<Rightarrow> bool" where
  "chat_text k l \<longleftrightarrow> l \<noteq> [] \<and> l \<noteq> ''bye'' \<and> set l \<inter> {LF, CR, NUL} = {} \<and> length (message k l) < 4096"

lemma chat_text_strip:
  assumes "chat_text k l"
  shows "strip_eol (take 4095 l) = l"
proof -
  have "length l < 4095" using assms by (simp add: chat_text_def message_def)
  then show ?thesis using assms
    by (cases l rule: rev_cases) (auto simp: strip_eol_def chat_text_def)
qed

definition broadcast :: "nat \<Rightarrow> int list \<Rightarrow> string list \<Rightarrow> call list" where
  "broadcast k slots ls = concat (map (\<lambda>l. map (\<lambda>f. CWrite f (message k l)) (others k slots)) ls)"

lemma chat_lines_run:
  assumes "\<forall>l \<in> set ls. chat_text k l"
    and "w_oracle w = concat (map (\<lambda>l. all_taken (message k l) (others k slots)) ls) @ os"
  shows "chat_lines k ls slots w = (Val slots, w\<lparr>w_oracle := os, w_calls := w_calls w @ broadcast k slots ls\<rparr>)"
  using assms
proof (induction ls arbitrary: w)
  case Nil
  then show ?case by (simp add: broadcast_def io_simps)
next
  case (Cons l ls)
  then have l: "chat_text k l" by simp
  let ?os = "concat (map (\<lambda>l. all_taken (message k l) (others k slots)) ls) @ os"
  let ?u = "w\<lparr>w_oracle := ?os, w_calls := w_calls w @ map (\<lambda>f. CWrite f (message k l)) (others k slots)\<rparr>"
  have "send_each (message k l) (others k slots) w = (Val (), ?u)"
    by (rule send_each_run) (use Cons.prems(2) l in \<open>simp_all add: chat_text_def message_def\<close>)
  then have "chat_line k l slots w = (Val slots, ?u)"
    using l chat_text_strip [OF l] by (simp add: chat_line_def chat_text_def Let_def io_seq_def io_bind_def io_ret_def)
  then have "chat_lines k (l # ls) slots w = chat_lines k ls slots ?u"
    by (simp add: io_bind_def)
  with Cons.IH [of ?u] Cons.prems show ?case by (simp add: broadcast_def)
qed



end
