(* ===== verification/SlotQueues.thy ===== *)
theory SlotQueues
  imports Queues CircleBuffer
begin

text \<open>
  The thread exercises with a shared queue: \<open>cv_skuska/cv2_consumer_sem.cpp\<close> and
  \<open>cv_skuska/cv3_queue.cpp\<close>, queues of four strings guarded by semaphores, and
  \<open>cv/cv_thread/consumer_producer.cpp\<close> and \<open>cv/cv_thread/cv_thread.cpp\<close>, one value guarded by a mutex
  and two condition variables. The shared variables are the cell 0 of the memory. The semaphores
  \<open>mutex\<close>, \<open>empty\<close>, \<open>full\<close> are the numbers 0, 1, 2; the mutex \<open>m\<close> is the number 0, the condition variables
  \<open>not_empty\<close> and \<open>not_full\<close> are 0 and 1. Destroying them at the end is left out.
\<close>

section \<open>Four strings under semaphores\<close>

interpretation q128: bounded_fifo "q_put 4 128" "q_get 4 128" "take 127" "q_rep 4 128" 4
  using q_fifo [of 4 128] by simp

definition cv2_put :: "nat \<Rightarrow> (unit, 'p, queue) io" where
  "cv2_put i =
     (let item = snprintf_str 128 (''item-'' @ show_nat i) in
      io_block [down 1, down 0, q_put_io 4 128 item, sem_post 0, sem_post 2,
        dprintf STDERR_FILENO (''P: '' @ item @ [LF]), sys_usleep 50000])"

definition cv2_producer :: "(unit, 'p, queue) io" where
  "cv2_producer = io_block (map cv2_put [0..<10])"

definition cv2_get :: "(unit, 'p, queue) io" where
  "cv2_get = io_seq (down 2) (io_seq (down 0) (io_bind (q_get_io 4 128) (\<lambda>item.
     io_block [sem_post 0, sem_post 1, emit (CPrint (''C: '' @ item @ [LF])), sys_usleep 120000])))"

definition cv2_consumer :: "(unit, 'p, queue) io" where
  "cv2_consumer = io_block (replicate 10 cv2_get)"

definition two_threads :: "(unit, 'p, 'm) io" where
  "two_threads = io_block [emit (CThread ''producer''), emit (CThread ''consumer''), emit CThreadJoin, emit CThreadJoin]"

definition cv2_main :: "(int, 'p, queue) io" where
  "cv2_main = io_seq (q_init 4) (io_seq two_threads (io_ret 0))"

section \<open>Lines of the standard input\<close>

text \<open>
  \<open>cv3_queue.cpp\<close>. The line is the list of its characters; \<open>strncpy\<close> stops at a null character, and
  the terminator of a line of 256 characters lies outside the row. The consumer reads the row itself.
\<close>

definition row_put :: "string \<Rightarrow> queue \<Rightarrow> queue" where
  "row_put row q = q\<lparr>q_buffer := (q_buffer q)[q_tail q := row], q_tail := (q_tail q + 1) mod 4\<rparr>"

definition cv3_put :: "string \<Rightarrow> (unit, 'p, queue) io" where
  "cv3_put line =
     io_seq (down 1) (io_seq (down 0)
    (io_bind (mem_get 0 id) (\<lambda>q.
     if q_tail q < length (q_buffer q) \<and> length line < 256 then
       io_block [mem_upd 0 (row_put (cstr line)), sem_post 0, sem_post 2]
     else io_ub)))"

fun cv3_chars :: "string \<Rightarrow> string \<Rightarrow> (string, 'p, queue) io" where
  "cv3_chars [] line = io_ret line"
| "cv3_chars (c # cs) line =
     (if c = LF then io_seq (cv3_put line) (cv3_chars cs [])
      else if length line < 256 then cv3_chars cs (line @ [c]) else io_ub)"

definition cv3_read :: "string \<Rightarrow> (string + unit, 'p, queue) io" where
  "cv3_read line =
     io_bind (sys_read STDIN_FILENO 8) (\<lambda>(n, d).
     if n > 0 then io_bind (cv3_chars d line) (\<lambda>line. io_seq (sys_usleep 500000) (io_ret (Inl line)))
     else io_ret (Inr ()))"

text \<open>What follows the last line feed is dropped.\<close>

definition cv3_producer :: "(unit, 'p, queue) io" where
  "cv3_producer = io_seq (io_while cv3_read []) (cv3_put ''quit'')"

definition row_next :: "queue \<Rightarrow> queue" where
  "row_next q = q\<lparr>q_head := (q_head q + 1) mod 4\<rparr>"

text \<open>At the end both semaphores are posted before \<open>head\<close> moves.\<close>

definition cv3_consume :: "int \<Rightarrow> (int + unit, 'p, queue) io" where
  "cv3_consume line_no =
     io_seq (down 2) (io_seq (down 0)
    (io_bind (mem_get 0 id) (\<lambda>q.
     if q_head q < length (q_buffer q) then
      (let row = q_buffer q ! q_head q in
       if row = ''quit'' then io_seq (io_block [sem_post 0, sem_post 1, mem_upd 0 row_next]) (io_ret (Inr ()))
       else
       io_seq (io_block [dprintf STDOUT_FILENO (''C '' @ show_int line_no @ '': '' @ row @ [LF]),
         mem_upd 0 (\<lambda>q. row_next (q\<lparr>q_buffer := (q_buffer q)[q_head q := []]\<rparr>)), sem_post 0, sem_post 1,
         sys_usleep 50000]) (io_ret (Inl (line_no + 1))))
     else io_ub)))"

definition cv3_consumer :: "(unit, 'p, queue) io" where
  "cv3_consumer = io_while cv3_consume 0"

definition cv3_main :: "(int, 'p, queue) io" where
  "cv3_main = io_seq (q_init 4) (io_seq two_threads (io_ret 0))"

section \<open>One value\<close>

record slot =
  s_value :: int
  s_has_value :: bool

definition s_put :: "int \<Rightarrow> 'x slot_scheme \<Rightarrow> 'x slot_scheme" where
  "s_put i s = s\<lparr>s_value := i, s_has_value := True\<rparr>"

definition s_get :: "'x slot_scheme \<Rightarrow> int \<times> 'x slot_scheme" where
  "s_get s = (s_value s, s\<lparr>s_has_value := False\<rparr>)"

definition s_rep :: "'x slot_scheme \<Rightarrow> int list \<Rightarrow> bool" where
  "s_rep s xs \<longleftrightarrow> xs = (if s_has_value s then [s_value s] else [])"

text \<open>With the flag set by the producer the variable is a queue of one.\<close>

interpretation one_slot: bounded_fifo s_put s_get "\<lambda>x. x" s_rep 1
  by unfold_locales (auto simp: s_put_def s_get_def s_rep_def split: if_splits)

definition sl_produce :: "int \<Rightarrow> (unit, 'p, slot) io" where
  "sl_produce i =
     io_seq c_lock
    (io_seq (io_while (wait_while s_has_value 1) ())
    (io_block [mem_upd 0 (s_put i), emit (CPrint (''[P] vyrobil '' @ show_int i @ [LF])), emit (CCondSignal 0),
       sem_post 0, sys_usleep 50000]))"

definition sl_producer :: "(unit, 'p, slot) io" where
  "sl_producer = io_block (map (\<lambda>i. sl_produce (int i)) [0..<5])"

text \<open>\<open>wait\<close> and \<open>wake\<close> are the condition variables the consumer waits on and signals.\<close>

definition sl_consume :: "nat \<Rightarrow> nat \<Rightarrow> (unit, 'p, 'x slot_scheme) io" where
  "sl_consume wait wake =
     io_seq c_lock
    (io_seq (io_while (wait_while (\<lambda>s. \<not> s_has_value s) wait) ())
    (io_bind (mem_get 0 s_value) (\<lambda>v.
     io_block [mem_upd 0 (\<lambda>s. snd (s_get s)), emit (CPrint (''[C] spotreboval '' @ show_int v @ [LF])),
       emit (CCondSignal wake), sem_post 0])))"

definition sl_consumer :: "nat \<Rightarrow> nat \<Rightarrow> (unit, 'p, 'x slot_scheme) io" where
  "sl_consumer wait wake = io_block (replicate 5 (sl_consume wait wake))"

definition sl_main :: "(int, 'p, slot) io" where
  "sl_main = io_seq two_threads (io_ret 0)"

section \<open>cv\_thread.cpp\<close>

text \<open>
  Here the condition variables have changed their parts: the producer waits on \<open>not_empty\<close> and
  signals \<open>not_full\<close>. And the producer clears the flag where it should set it.
\<close>

record thread_slot = slot +
  s_counter :: int

definition t_put :: "int \<Rightarrow> 'x slot_scheme \<Rightarrow> 'x slot_scheme" where
  "t_put i s = s\<lparr>s_value := i, s_has_value := False\<rparr>"

definition t_produce :: "int \<Rightarrow> (unit, 'p, 'x slot_scheme) io" where
  "t_produce i =
     io_seq c_lock
    (io_seq (io_while (wait_while s_has_value 0) ())
    (io_block [mem_upd 0 (t_put i), emit (CCondSignal 1), sem_post 0, sys_usleep 50000]))"

definition t_producer :: "(unit, 'p, 'x slot_scheme) io" where
  "t_producer = io_block (map (\<lambda>i. t_produce (int i)) [0..<5])"

definition hello_thread :: "int \<Rightarrow> (unit, 'p, 'm) io" where
  "hello_thread a = emit (CPrint (''Ahoj z vlakna, mam cislo: '' @ show_int a @ [LF]))"

definition sum_thread :: "int \<times> int \<Rightarrow> (int, 'p, 'm) io" where
  "sum_thread s = (if int_range (fst s + snd s) then io_ret (fst s + snd s) else io_ub)"

fun add_n :: "nat \<Rightarrow> (unit, 'p, thread_slot) io" where
  "add_n 0 = io_ret ()"
| "add_n (Suc n) =
     io_seq c_lock
    (io_bind (mem_get 0 s_counter) (\<lambda>c.
     if int_range (c + 1) then io_seq (mem_upd 0 (\<lambda>s. s\<lparr>s_counter := c + 1\<rparr>)) (io_seq (sem_post 0) (add_n n))
     else io_ub))"

definition add_thread :: "(unit, 'p, thread_slot) io" where
  "add_thread = add_n 1000000"

text \<open>A thread that is joined at once runs in the place of the wait.\<close>

definition cv_thread_main :: "(int, 'p, thread_slot) io" where
  "cv_thread_main =
     io_seq (hello_thread 4)
    (io_bind (sum_thread (1, 5)) (\<lambda>c.
     io_seq (io_block [emit (CPrint (''Sucet= '' @ show_int c @ [LF])), emit (CPrint (''============'' @ [LF])),
       emit (CThread ''add''), emit (CThread ''add''), emit CThreadJoin, emit CThreadJoin])
    (io_bind (mem_get 0 s_counter) (\<lambda>n.
     io_seq (io_block [emit (CPrint (''counter = '' @ show_int n @ [LF])), emit (CPrint (''============'' @ [LF]))])
    (io_seq two_threads (io_ret 0))))))"

section \<open>Facts\<close>

lemma sane_slots_queue [ext_intros]: "sane (cv3_put l)" "sane two_threads"
  unfolding cv3_put_def two_threads_def by (intro ext_intros)+

lemma sane_cv3_chars [ext_intros]: "sane (cv3_chars s l)"
  by (induction s l rule: cv3_chars.induct) (auto intro!: ext_intros)

interpretation cv3_reads: event_loop cv3_read
proof
  show "sane (cv3_read s)" for s
    unfolding cv3_read_def by (intro ext_intros sane_buf_str)
  show "uses (cv3_read s)" for s
    unfolding cv3_read_def by (rule uses_bind_first [OF uses_sys(2)]) (intro ext_intros)
qed

interpretation cv3_consumes: event_loop cv3_consume
proof
  show "sane (cv3_consume s)" for s
    unfolding cv3_consume_def by (intro ext_intros)
  show "uses (cv3_consume s)" for s
    unfolding cv3_consume_def down_def io_seq_def
    by (rule uses_bind_first, rule uses_bind_first [OF uses_sem(1)]) (intro ext_intros)+
qed

end
