(* ===== verification/SlotProps.thy ===== *)
theory SlotProps
  imports Guarantee SlotQueues
begin

text \<open>
  The one-value programs. In \<open>cv_thread.cpp\<close> the producer never sets the flag the consumer waits for.
\<close>

definition flag_clear :: "('x slot_scheme) kernel \<Rightarrow> bool" where
  "flag_clear k \<longleftrightarrow> \<not> s_has_value (k_shm k 0)"

lemma mem_only_flag [keeps_intros]: "mem_only flag_clear"
  by (simp add: mem_only_def flag_clear_def)

abbreviation stays_clear :: "('a, 'p, 'x slot_scheme) io \<Rightarrow> bool" where
  "stays_clear m \<equiv> keeps (\<lambda>_. True) flag_clear m"

lemma clear_cond [keeps_intros]: "stays_clear c_lock" "stays_clear (cond_wait c)" "stays_clear (sys_usleep us)"
  unfolding c_lock_def cond_wait_def sys_usleep_def by (intro keeps_intros)+

lemma clear_produce: "stays_clear (t_produce i)"
proof -
  have "stays_clear (wait_while s_has_value 0 u)" for u
    unfolding wait_while_def by (intro keeps_intros)
  moreover have "stays_clear (mem_upd 0 (t_put i))"
    by (rule keeps_mem_upd) (simp add: flag_clear_def t_put_def)
  ultimately show ?thesis
    unfolding t_produce_def by (intro keeps_intros keeps_while_simple)
qed

lemma clear_producer: "stays_clear t_producer"
  unfolding t_producer_def by (rule keeps_block_all) (auto intro: clear_produce)

text \<open>The loop around the wait is not left while the flag is clear.\<close>

lemma waits_for_ever:
  fixes w :: "('p, 'x slot_scheme) world"
  assumes "rely (\<lambda>_. True) flag_clear w"
  shows "fst (io_while (wait_while (\<lambda>s. \<not> s_has_value s) c) () w) = Blocked"
proof -
  let ?b = "wait_while (\<lambda>s. \<not> s_has_value s) c :: unit \<Rightarrow> (unit + unit, 'p, 'x slot_scheme) io"
  define I :: "unit \<Rightarrow> ('p, 'x slot_scheme) world \<Rightarrow> bool" where "I s u \<longleftrightarrow> rely (\<lambda>_. True) flag_clear u" for s u
  define Q :: "unit res \<Rightarrow> ('p, 'x slot_scheme) world \<Rightarrow> bool" where "Q r u \<longleftrightarrow> r = Blocked" for r u
  have "Q (fst (io_while ?b () w)) (snd (io_while ?b () w))"
  proof (rule wait_while_loop.while_invariant [where I = I])
    show "I () w" using assms by (simp add: I_def)
    fix s u
    assume i: "I s u"
    then have clear: "\<not> s_has_value (k_shm (w_kern u) 0)" by (simp add: I_def rely_def flag_clear_def)
    obtain q u' where b: "?b s u = (q, u')" by (cases "?b s u")
    have "stays_clear (?b s)" unfolding wait_while_def by (intro keeps_intros)
    with i b have g: "I () u'" "q \<noteq> UB" by (auto simp: gives_def I_def)
    have "q = Val (Inl ()) \<or> q = Blocked"
      using b clear by (auto simp: wait_while_def cond_wait_def sem_wait_def sem_down_def sem_post_def set_errno_def
          upd_kern_def emit_def pop_def io_bind_def io_seq_def io_ret_def mem_get_def get_kern_def
          split: list.splits prod.splits sysret.splits if_splits)
    then show "case ?b s u of (Val (Inl s'), w') \<Rightarrow> I s' w' | (Val (Inr a), w') \<Rightarrow> Q (Val a) w'
        | (Exit c, w') \<Rightarrow> Q (Exit c) w' | (Fuel, w') \<Rightarrow> True | (Blocked, w') \<Rightarrow> Q Blocked w'
        | (UB, w') \<Rightarrow> Q UB w'"
      using g b by (auto simp: Q_def)
  qed
  then show ?thesis by (simp add: Q_def)
qed

text \<open>
  C37. \<open>cv_thread.cpp\<close>: the producer leaves the flag clear, which it should set, whatever the other threads do
  while they keep it clear; and then the consumer, whichever way its waits end and however often it is
  woken, never gets a value.
\<close>

theorem thread_consumer_starves:
  assumes "\<not> s_has_value (k_shm (w_kern w) 0)"
    and "\<forall>k r. (Some k, r) \<in> set (w_oracle w) \<longrightarrow> \<not> s_has_value (k_shm k 0)"
    and "length (w_oracle w) < 2 ^ 31"
  shows "\<not> s_has_value (k_shm (w_kern (snd (t_producer w))) 0) \<and> fst (sl_consumer 1 0 w) = Blocked"
proof
  have r: "rely (\<lambda>_. True) flag_clear w" unfolding rely_def flag_clear_def using assms by blast
  with clear_producer show "\<not> s_has_value (k_shm (w_kern (snd (t_producer w))) 0)"
    by (auto simp: gives_def rely_def flag_clear_def)
  obtain q u where l: "c_lock w = (q, u)" by (cases "c_lock w")
  then have u: "rely (\<lambda>_. True) flag_clear u" using clear_cond(1) r by (auto simp: gives_def)
  have q: "q = Val () \<or> q = Blocked"
    using l by (auto simp: c_lock_def sem_wait_def sem_down_def set_errno_def pop_def io_bind_def io_seq_def io_ret_def
        split: list.splits prod.splits sysret.splits if_splits)
  obtain q' u' where l': "io_while (wait_while (\<lambda>s. \<not> s_has_value s) 1) () u = (q', u')"
    by (cases "io_while (wait_while (\<lambda>s. \<not> s_has_value s) 1) () u")
  with waits_for_ever [OF u, of 1] have "q' = Blocked" by simp
  with l l' q have "fst (sl_consume 1 0 w) = Blocked"
    by (auto simp: sl_consume_def io_seq_def io_bind_def)
  then show "fst (sl_consumer 1 0 w) = Blocked"
    by (cases "sl_consume 1 0 w") (simp add: sl_consumer_def numeral_eq_Suc io_seq_def io_bind_def)
qed

theorem thread_consumer_starves_witness:
  "fst (sl_consumer 1 0 \<lparr>w_oracle = [(None, Ret 0), (None, Ret 0), (None, Ret 0)], w_calls = [], w_errno = 0, w_debug = 0, w_priv = (),
     w_kern = \<lparr>k_sem = (\<lambda>_. 1), k_sem_dir = (\<lambda>_. None), k_sem_next = 1, k_shm = (\<lambda>_. \<lparr>s_value = 0, s_has_value = False, s_counter = 0\<rparr>),
       k_shm_dir = (\<lambda>_. None), k_shm_next = 1, k_mq = (\<lambda>_. []), k_mq_dir = (\<lambda>_. None), k_mq_next = 0\<rparr>\<rparr>) = Blocked"
  by (rule conjunct2 [OF thread_consumer_starves]) simp_all

end
