(* ===== verification/LineTools.thy ===== *)
theory LineTools
  imports LineServers ExamClients
begin

text \<open>
  Programs that read in small pieces and put lines together: \<open>cv_skuska/cv1_done.cpp\<close> and
  \<open>cv_skuska/cv1_write.cpp\<close>, which number the lines of the standard input, and the line server
  \<open>cv_skuska/main.cpp\<close> with a process for every client.
\<close>

section \<open>cv1\_done.cpp\<close>

text \<open>At most \<open>t\<close> digits, the last one first.\<close>

fun rev_digits :: "nat \<Rightarrow> int \<Rightarrow> string" where
  "rev_digits 0 x = []"
| "rev_digits (Suc t) x = (if x > 0 then char_of (48 + nat (x mod 10)) # rev_digits t (x div 10) else [])"

text \<open>What is written into the \<open>mx\<close> bytes of \<open>out\<close>; its length is returned.\<close>

definition int_to_str :: "int \<Rightarrow> int \<Rightarrow> string" where
  "int_to_str x mx =
     (if mx \<le> 0 then []
      else if x = 0 then (if mx < 2 then [] else ''0'')
      else take (nat (mx - 1)) (rev (rev_digits 32 x)))"

definition number_line :: "int \<Rightarrow> string \<Rightarrow> (unit, 'p, 'm) io" where
  "number_line line_no line =
     (let num = int_to_str line_no 32 in
      io_block [io_when (num \<noteq> []) (emit (CWrite STDOUT_FILENO num)), emit (CWrite STDOUT_FILENO '': ''),
        io_when (line \<noteq> []) (emit (CWrite STDOUT_FILENO line)), emit (CWrite STDOUT_FILENO [LF])])"

text \<open>A line that is too long loses its end.\<close>

fun number_chars :: "string \<Rightarrow> string \<times> int \<Rightarrow> (string \<times> int, 'p, 'm) io" where
  "number_chars [] st = io_ret st"
| "number_chars (c # cs) (line, line_no) =
     (if c = LF then
        if int_range (line_no + 1) then io_seq (number_line line_no line) (number_chars cs ([], line_no + 1)) else io_ub
      else number_chars cs (if length line < 1023 then line @ [c] else line, line_no))"

definition number_read :: "string \<times> int \<Rightarrow> ((string \<times> int) + (string \<times> int), 'p, 'm) io" where
  "number_read st =
     io_bind (sys_read STDIN_FILENO 8) (\<lambda>(n, d).
     if n > 0 then io_bind (number_chars d st) (\<lambda>st. io_ret (Inl st)) else io_ret (Inr st))"

definition number_main :: "(int, 'p, 'm) io" where
  "number_main =
     io_bind (io_while number_read ([], 1)) (\<lambda>(line, line_no).
     io_seq (io_when (line \<noteq> []) (number_line line_no line)) (io_ret 0))"

section \<open>cv1\_write.cpp\<close>

text \<open>
  The line is the array and a length that grows also when a character is not stored: a line of 1024
  characters or more is written out with what was not set, or lies behind the array.
\<close>

definition write_line :: "int \<Rightarrow> string \<Rightarrow> nat \<Rightarrow> (unit, 'p, 'm) io" where
  "write_line line_no arr len =
     (if len \<le> length arr then
        io_block [emit (CWrite STDOUT_FILENO (show_int line_no)), emit (CWrite STDOUT_FILENO '':''),
          emit (CWrite STDOUT_FILENO (take len arr)), emit (CWrite STDOUT_FILENO [LF])]
      else io_ub)"

fun write_chars :: "string \<Rightarrow> string \<times> nat \<times> int \<Rightarrow> (string \<times> nat \<times> int, 'p, 'm) io" where
  "write_chars [] st = io_ret st"
| "write_chars (c # cs) (arr, len, line_no) =
     (if c = LF then
        if int_range (line_no + 1) then io_seq (write_line line_no arr len) (write_chars cs (arr, 0, line_no + 1)) else io_ub
      else write_chars cs (if len < 1023 then arr[len := c] else arr, len + 1, line_no))"

definition write_read :: "string \<times> nat \<times> int \<Rightarrow> ((string \<times> nat \<times> int) + unit, 'p, 'm) io" where
  "write_read st =
     io_bind (sys_read STDIN_FILENO 8) (\<lambda>(n, d).
     if n > 0 then io_bind (write_chars d st) (\<lambda>st. io_ret (Inl st)) else io_ret (Inr ()))"

text \<open>\<open>arr\<close> is what the array of 1024 bytes holds at the start.\<close>

definition write_main :: "string \<Rightarrow> (int, 'p, 'm) io" where
  "write_main arr = io_seq (io_while write_read (arr, 0, 1)) (io_ret 0)"

section \<open>main.cpp\<close>

text \<open>\<open>Inr\<close> for the end of the session, after \<open>quit\<close>.\<close>

fun ok_chars :: "int \<Rightarrow> string \<Rightarrow> string \<Rightarrow> (string + unit, 'p, 'm) io" where
  "ok_chars cfd [] line = io_ret (Inl line)"
| "ok_chars cfd (c # cs) line =
     (if length line \<ge> 1024 then io_ub
      else if c = LF then
        io_seq (dprintf STDERR_FILENO (''RX: '' @ [CHR 0x27] @ cstr line @ [CHR 0x27, LF]))
       (if cstr line = ''quit'' then io_seq (emit (CWrite cfd (''Bye'' @ [LF]))) (io_ret (Inr ()))
        else io_seq (emit (CWrite cfd (''Ok'' @ [LF]))) (ok_chars cfd cs []))
      else ok_chars cfd cs (line @ [c]))"

definition ok_read :: "int \<Rightarrow> string \<Rightarrow> (string + unit, 'p, 'm) io" where
  "ok_read cfd line =
     io_bind (sys_read cfd 64) (\<lambda>(n, d). if n > 0 then ok_chars cfd d line else io_ret (Inr ()))"

definition ok_client :: "int \<Rightarrow> (unit, 'p, 'm) io" where
  "ok_client cfd = io_while (ok_read cfd) []"

definition die :: "string \<Rightarrow> ('a, 'p, 'm) io" where
  "die m = io_seq (perror m) (io_exit 1)"

definition ok_round :: "int \<Rightarrow> unit \<Rightarrow> (unit + unit, 'p, 'm) io" where
  "ok_round sfd = (\<lambda>_.
     io_bind (sys_int (CAccept sfd)) (\<lambda>cfd.
     if cfd < 0 then die ''accept''
     else
     io_bind (sys_int CFork) (\<lambda>pid.
     if pid < 0 then die ''fork''
     else
     io_seq (io_when (pid = 0) (io_block [emit (CClose sfd), ok_client cfd, emit (CClose cfd), io_exit 0]))
    (io_seq (emit (CClose cfd)) (io_ret (Inl ()))))))"

definition ok_main :: "string list \<Rightarrow> (int, 'p, 'm) io" where
  "ok_main argv =
     (if length argv \<noteq> 2 then
        io_bind (nonnull (if argv = [] then None else Some (argv ! 0))) (\<lambda>nm.
        io_seq (emit (CWrite STDERR_FILENO (''usage: '' @ nm @ '' <port>'' @ [LF]))) (io_ret 1))
      else
      io_bind (atoi_io (argv ! 1)) (\<lambda>port.
      io_bind (sys_int CSocket) (\<lambda>sfd.
      if sfd < 0 then die ''socket''
      else
      io_seq (emit (CSetsockopt sfd))
     (io_bind (sys_int (CBind sfd (htons port))) (\<lambda>r.
      if r < 0 then die ''bind''
      else
      io_bind (sys_int (CListen sfd 5)) (\<lambda>r.
      if r < 0 then die ''listen''
      else
      io_seq (dprintf STDERR_FILENO (''Listening on port '' @ show_int port @ ''...'' @ [LF]))
     (io_seq (io_while (ok_round sfd) ()) (io_ret 0))))))))"

section \<open>Loops\<close>

lemma sane_line_tools [ext_intros]: "sane (number_line n l)" "sane (write_line n l k)" "sane (die m)"
  unfolding number_line_def write_line_def die_def perror_def by (intro ext_intros)+

lemma sane_tool_chars [ext_intros]: "sane (number_chars s st)" "sane (write_chars s st')" "sane (ok_chars cfd s l)"
    apply (induction s st rule: number_chars.induct; auto intro!: ext_intros)
   apply (induction s st' rule: write_chars.induct; auto intro!: ext_intros)
  apply (induction cfd s l rule: ok_chars.induct; auto intro!: ext_intros)
  done

interpretation number_reads: event_loop number_read
proof
  show "sane (number_read s)" for s
    unfolding number_read_def by (intro ext_intros)
  show "uses (number_read s)" for s
    unfolding number_read_def by (rule uses_bind_first [OF uses_sys(2)]) (intro ext_intros)
qed

interpretation write_reads: event_loop write_read
proof
  show "sane (write_read s)" for s
    unfolding write_read_def by (intro ext_intros)
  show "uses (write_read s)" for s
    unfolding write_read_def by (rule uses_bind_first [OF uses_sys(2)]) (intro ext_intros)
qed

interpretation ok_reads: event_loop "ok_read cfd"
proof
  show "sane (ok_read cfd s)" for s
    unfolding ok_read_def by (intro ext_intros)
  show "uses (ok_read cfd s)" for s
    unfolding ok_read_def by (rule uses_bind_first [OF uses_sys(2)]) (intro ext_intros)
qed

lemma sane_ok_client [ext_intros]: "sane (ok_client cfd)"
  unfolding ok_client_def by (rule ok_reads.while_sane)

interpretation ok_rounds: event_loop "ok_round sfd"
proof
  show "sane (ok_round sfd s)" for s
    unfolding ok_round_def by (intro ext_intros)
  show "uses (ok_round sfd s)" for s
    unfolding ok_round_def by (rule uses_bind_first [OF uses_sys(1)]) (intro ext_intros)
qed

end
