(* ===== verification/ToolProps.thy ===== *)
theory ToolProps
  imports LineTools LineProps
begin

text \<open>The line numbering tool \<open>cv1_done.cpp\<close>: what it prints does not depend on the pieces its input comes in.\<close>

section \<open>Printing a number by hand\<close>

lemma rev_digits_show: "0 < x \<Longrightarrow> nat x < 10 ^ t \<Longrightarrow> rev (rev_digits t x) = show_nat (nat x)"
proof (induction t arbitrary: x)
  case 0
  then show ?case by simp
next
  case (Suc t)
  have m: "nat (x mod 10) = nat x mod 10" "nat (x div 10) = nat x div 10" using Suc.prems(1) by (simp_all add: nat_mod_distrib nat_div_distrib)
  show ?case
  proof (cases "x < 10")
    case True
    then have "x div 10 = 0" "nat x < 10" using Suc.prems(1) by auto
    moreover have "rev_digits t 0 = []" by (cases t) simp_all
    ultimately show ?thesis using Suc.prems(1) m by (simp add: show_nat.simps [of "nat x"])
  next
    case False
    then have x: "0 < x div 10" "\<not> nat x < 10" by auto
    have "nat (x div 10) < 10 ^ t" using Suc.prems(2) m(2) by (simp add: less_mult_imp_div_less mult.commute)
    from Suc.IH [OF x(1) this] show ?thesis using Suc.prems(1) x(2) m by (simp add: show_nat.simps [of "nat x"])
  qed
qed

text \<open>\<open>int_to_str\<close> prints like \<open>%d\<close>.\<close>

lemma int_to_str_show:
  assumes "0 < x" and "x < 2 ^ 31"
  shows "int_to_str x 32 = show_int x"
proof -
  have n: "nat x < 10 ^ 10" using assms by simp
  have "(10::nat) ^ 10 \<le> 10 ^ 32" by (rule power_increasing) simp_all
  with n have "nat x < 10 ^ 32" by linarith
  then have r: "rev (rev_digits 32 x) = show_nat (nat x)" by (rule rev_digits_show [OF assms(1)])
  have "length (show_nat (nat x)) \<le> 10" using n by (rule length_show_nat) simp
  with r assms(1) show ?thesis by (simp add: int_to_str_def show_int_def)
qed

section \<open>Numbered lines\<close>

definition numbered_line :: "int \<Rightarrow> string \<Rightarrow> string" where
  "numbered_line n l = show_int n @ '': '' @ take 1023 l @ [LF]"

definition numbered_text :: "string list \<Rightarrow> string \<Rightarrow> string" where
  "numbered_text ls rest = concat (map2 (\<lambda>n l. numbered_line n l) (map (\<lambda>i. int i + 1) [0..<length ls]) ls) @
     (if rest = [] then [] else numbered_line (int (length ls) + 1) rest)"

definition printed :: "('p, 'm) world \<Rightarrow> string" where
  "printed w = concat (sent_to STDOUT_FILENO (w_calls w))"

lemma number_line_run:
  assumes "0 < n" and "n < 2 ^ 31" and "length l \<le> 1023"
  shows "\<exists>cs. (\<forall>w :: ('p, 'm) world. number_line n l w = (Val (), w\<lparr>w_calls := w_calls w @ cs\<rparr>)) \<and> concat (sent_to STDOUT_FILENO cs) = numbered_line n l"
proof -
  have s: "int_to_str n 32 = show_int n" by (rule int_to_str_show [OF assms(1,2)])
  have ne: "show_int n \<noteq> []" using assms(1) show_nat_nonempty by (simp add: show_int_def)
  let ?cs = "[CWrite STDOUT_FILENO (show_int n), CWrite STDOUT_FILENO '': ''] @ (if l = [] then [] else [CWrite STDOUT_FILENO l]) @ [CWrite STDOUT_FILENO [LF]]"
  have "number_line n l w = (Val (), w\<lparr>w_calls := w_calls w @ ?cs\<rparr>)" for w :: "('p, 'm) world"
    by (simp add: number_line_def Let_def s ne io_simps io_when_def)
  moreover have "concat (sent_to STDOUT_FILENO ?cs) = numbered_line n l"
    using assms(3) by (simp add: numbered_line_def)
  ultimately show ?thesis by (intro exI [of _ ?cs]) simp
qed

text \<open>What the characters add to the output, and the state they leave.\<close>

fun number_spec :: "string \<Rightarrow> string \<times> int \<Rightarrow> string \<times> string \<times> int" where
  "number_spec [] st = ([], st)"
| "number_spec (c # cs) (line, n) =
     (if c = LF then (case number_spec cs ([], n + 1) of (out, st) \<Rightarrow> (numbered_line n line @ out, st))
      else number_spec cs (if length line < 1023 then line @ [c] else line, n))"

lemma number_spec_append:
  "number_spec (a @ b) st = (case number_spec a st of (out, st') \<Rightarrow> (case number_spec b st' of (out', st'') \<Rightarrow> (out @ out', st'')))"
  by (induction a st rule: number_spec.induct) (simp_all split: prod.split)

lemma number_spec_part:
  "LF \<notin> set r \<Longrightarrow> length l \<le> 1023 \<Longrightarrow> number_spec r (l, n) = ([], take 1023 (l @ r), n)"
proof (induction r arbitrary: l)
  case Nil
  then show ?case by simp
next
  case (Cons c r)
  then have c: "c \<noteq> LF" "LF \<notin> set r" by auto
  show ?case
  proof (cases "length l < 1023")
    case True
    then have k: "1023 - length l = Suc (1022 - length l)" by simp
    show ?thesis using c True Cons.IH [of "l @ [c]"] Cons.prems(1) by (simp add: k)
  qed (use c Cons in simp)
qed

lemma numbered_line_take: "numbered_line n (take 1023 l) = numbered_line n l"
  by (simp add: numbered_line_def)

lemma number_spec_lines:
  assumes "\<forall>l \<in> set ls. LF \<notin> set l" and "LF \<notin> set rest"
  shows "number_spec (concat (map (\<lambda>l. l @ [LF]) ls) @ rest) ([], n) =
    (concat (map2 numbered_line (map (\<lambda>i. int i + n) [0..<length ls]) ls), take 1023 rest, n + int (length ls))"
  using assms(1)
proof (induction ls arbitrary: n)
  case Nil
  then show ?case using assms(2) by (simp add: number_spec_part)
next
  case (Cons l ls)
  have u: "map (\<lambda>i. int i + n) [0..<length (l # ls)] = n # map (\<lambda>i. int i + (n + 1)) [0..<length ls]"
    by (simp add: map_upt_Suc algebra_simps del: upt_Suc)
  have "number_spec (l @ LF # s) ([], n) = (case number_spec s ([], n + 1) of (out, st) \<Rightarrow> (numbered_line n l @ out, st))" for s
    using Cons.prems by (simp add: number_spec_append number_spec_part numbered_line_take split: prod.split)
  with Cons show ?case unfolding u by simp
qed

lemma number_chars_run:
  assumes "0 < snd st" and "snd st + int (length (filter (\<lambda>c. c = LF) s)) < 2 ^ 31" and "length (fst st) \<le> 1023"
  shows "\<exists>cs. (\<forall>w :: ('p, 'm) world. number_chars s st w = (Val (snd (number_spec s st)), w\<lparr>w_calls := w_calls w @ cs\<rparr>)) \<and>
    concat (sent_to STDOUT_FILENO cs) = fst (number_spec s st)"
  using assms
proof (induction s st rule: number_spec.induct)
  case (1 st)
  then show ?case by (intro exI [of _ "[]"]) (simp add: io_ret_def)
next
  case (2 c cs line n)
  show ?case
  proof (cases "c = LF")
    case True
    have n: "0 < n" "n < 2 ^ 31" "length line \<le> 1023" "int_range (n + 1)"
      using "2.prems" True by (auto simp: int_range_def)
    obtain a where a: "\<And>w :: ('p, 'm) world. number_line n line w = (Val (), w\<lparr>w_calls := w_calls w @ a\<rparr>)"
        "concat (sent_to STDOUT_FILENO a) = numbered_line n line"
      using number_line_run [OF n(1-3), where 'p = 'p and 'm = 'm] by (elim exE conjE) (rule that, simp_all)
    obtain b where b: "\<And>w :: ('p, 'm) world. number_chars cs ([], n + 1) w = (Val (snd (number_spec cs ([], n + 1))), w\<lparr>w_calls := w_calls w @ b\<rparr>)"
        "concat (sent_to STDOUT_FILENO b) = fst (number_spec cs ([], n + 1))"
      using "2.IH"(1) [OF True] "2.prems" True by (elim meta_impE) (simp, simp, simp, elim exE conjE, rule that, simp_all)
    show ?thesis
      by (intro exI [of _ "a @ b"]) (simp add: True n(4) a b io_seq_def io_bind_def split: prod.split)
  next
    case False
    then show ?thesis using "2.IH"(2) [OF False] "2.prems" by simp
  qed
qed

lemma number_spec_state:
  "length (fst st) \<le> 1023 \<Longrightarrow> length (fst (snd (number_spec s st))) \<le> 1023 \<and>
    snd (snd (number_spec s st)) = snd st + int (length (filter (\<lambda>c. c = LF) s))"
  by (induction s st rule: number_spec.induct) (auto split: prod.split)

lemma number_loop:
  fixes w :: "('p, 'm) world"
  assumes "w_oracle w = arrivals ds @ (e, Data []) # os" and "\<forall>d \<in> set (map snd ds). d \<noteq> [] \<and> length d \<le> 8"
    and "0 < snd st" and "snd st + int (length (filter (\<lambda>c. c = LF) (concat (map snd ds)))) < 2 ^ 31" and "length (fst st) \<le> 1023"
  shows "\<exists>w'. io_while number_read st w = (Val (snd (number_spec (concat (map snd ds)) st)), w') \<and> w_oracle w' = os \<and>
    printed w' = printed w @ fst (number_spec (concat (map snd ds)) st)"
  using assms
proof (induction ds arbitrary: st w)
  case Nil
  then show ?case
    by (subst number_reads.while_unfold) (simp add: arrivals_def number_read_def io_simps printed_def)
next
  case (Cons x ds)
  obtain e' d where x: "x = (e', d)" by (cases x)
  have d: "d \<noteq> []" "length d \<le> 8" "take 8 d = d" using Cons.prems(2) x by auto
  have cnt: "snd st + int (length (filter (\<lambda>c. c = LF) d)) < 2 ^ 31" using Cons.prems(4) x by simp
  obtain cs where cs: "\<And>v :: ('p, 'm) world. number_chars d st v = (Val (snd (number_spec d st)), v\<lparr>w_calls := w_calls v @ cs\<rparr>)"
      "concat (sent_to STDOUT_FILENO cs) = fst (number_spec d st)"
    using number_chars_run [OF Cons.prems(3) cnt Cons.prems(5), where 'p = 'p and 'm = 'm] by (elim exE conjE) (rule that, simp_all)
  define w1 where "w1 = w\<lparr>w_oracle := arrivals ds @ (e, Data []) # os, w_calls := w_calls w @ CRead STDIN_FILENO 8 # cs,
      w_kern := (case e' of None \<Rightarrow> w_kern w | Some k \<Rightarrow> k)\<rparr>"
  have r1: "number_read st w = (Val (Inl (snd (number_spec d st))), w1)"
    using Cons.prems(1) d by (simp add: number_read_def io_simps io_bind_def [of "number_chars d st"] cs(1) arrivals_def x w1_def)
  note state = number_spec_state [OF Cons.prems(5), of d]
  have "\<exists>w'. io_while number_read (snd (number_spec d st)) w1 =
      (Val (snd (number_spec (concat (map snd ds)) (snd (number_spec d st)))), w') \<and> w_oracle w' = os \<and>
      printed w' = printed w1 @ fst (number_spec (concat (map snd ds)) (snd (number_spec d st)))"
    by (rule Cons.IH) (use Cons.prems state x in \<open>simp_all add: w1_def\<close>)
  then obtain w' where w': "io_while number_read (snd (number_spec d st)) w1 =
      (Val (snd (number_spec (concat (map snd ds)) (snd (number_spec d st)))), w')" "w_oracle w' = os"
      "printed w' = printed w1 @ fst (number_spec (concat (map snd ds)) (snd (number_spec d st)))" by blast
  have "io_while number_read st w = io_while number_read (snd (number_spec d st)) w1"
    by (subst number_reads.while_unfold) (simp add: io_bind_def r1)
  moreover have "printed w1 = printed w @ fst (number_spec d st)" by (simp add: printed_def w1_def cs(2))
  ultimately show ?case using w' x by (intro exI [of _ w']) (simp add: number_spec_append split: prod.split)
qed

text \<open>
  C40. The numbering tool \<open>cv1_done.cpp\<close>: however its input is cut into pieces of up to eight bytes, it prints each line with
  its number in front and cut at 1023 characters, also an unfinished last one, and ends with 0. No line is too long for it.
\<close>

theorem lines_numbered:
  fixes w :: "('p, 'm) world"
  assumes "w_oracle w = arrivals ds @ (e, Data []) # os" and "\<forall>d \<in> set (map snd ds). d \<noteq> [] \<and> length d \<le> 8"
    and "concat (map snd ds) = concat (map (\<lambda>l. l @ [LF]) ls) @ rest"
    and "\<forall>l \<in> set ls. LF \<notin> set l" and "LF \<notin> set rest" and "length ls < 2 ^ 31 - 2"
  shows "\<exists>w'. number_main w = (Val 0, w') \<and> printed w' = printed w @ numbered_text ls rest"
proof -
  have "length (filter (\<lambda>c. c = LF) (concat (map (\<lambda>l. l @ [LF]) ls) @ rest)) = length ls"
    using assms(4,5) by (induction ls) (auto simp: filter_empty_conv)
  then have cnt: "snd ([], 1) + int (length (filter (\<lambda>c. c = LF) (concat (map snd ds)))) < 2 ^ 31"
    using assms(3,6) by simp
  obtain u where u: "io_while number_read ([], 1) w = (Val (snd (number_spec (concat (map snd ds)) ([], 1))), u)" "w_oracle u = os"
      "printed u = printed w @ fst (number_spec (concat (map snd ds)) ([], 1))"
    using number_loop [OF assms(1,2) _ cnt] by auto
  note sp = number_spec_lines [OF assms(4,5), of 1]
  have n: "0 < 1 + int (length ls)" "1 + int (length ls) < 2 ^ 31" "length (take 1023 rest) \<le> 1023" using assms(6) by auto
  obtain cs where cs: "\<And>v :: ('p, 'm) world. number_line (1 + int (length ls)) (take 1023 rest) v = (Val (), v\<lparr>w_calls := w_calls v @ cs\<rparr>)"
      "concat (sent_to STDOUT_FILENO cs) = numbered_line (1 + int (length ls)) (take 1023 rest)"
    using number_line_run [OF n, where 'p = 'p and 'm = 'm] by (elim exE conjE) (rule that, simp_all)
  show ?thesis
    using u cs unfolding assms(3) sp number_main_def
    by (simp add: io_bind_def io_seq_def io_when_def io_ret_def numbered_text_def printed_def numbered_line_take add.commute)
qed

theorem lines_numbered_witness:
  "\<exists>w'. number_main \<lparr>w_oracle = arrivals [(None, ''Ev''), (None, ''a'' @ [LF] @ ''Ja''), (None, ''n'')] @ [(None, Data [])], w_calls = [], w_errno = 0,
     w_debug = 1, w_priv = (), w_kern = \<lparr>k_sem = (\<lambda>_. 0), k_sem_dir = (\<lambda>_. None), k_sem_next = 0, k_shm = (\<lambda>_. ()),
       k_shm_dir = (\<lambda>_. None), k_shm_next = 0, k_mq = (\<lambda>_. []), k_mq_dir = (\<lambda>_. None), k_mq_next = 0\<rparr>\<rparr> = (Val 0, w') \<and>
    printed w' = numbered_text [''Eva''] ''Jan''"
  using lines_numbered [where w = "\<lparr>w_oracle = arrivals [(None, ''Ev''), (None, ''a'' @ [LF] @ ''Ja''), (None, ''n'')] @ [(None, Data [])], w_calls = [], w_errno = 0,
     w_debug = 1, w_priv = (), w_kern = \<lparr>k_sem = (\<lambda>_. 0), k_sem_dir = (\<lambda>_. None), k_sem_next = 0, k_shm = (\<lambda>_. ()),
       k_shm_dir = (\<lambda>_. None), k_shm_next = 0, k_mq = (\<lambda>_. []), k_mq_dir = (\<lambda>_. None), k_mq_next = 0\<rparr>\<rparr>"
    and ds = "[(None, ''Ev''), (None, ''a'' @ [LF] @ ''Ja''), (None, ''n'')]" and e = None and os = "[]" and ls = "[''Eva'']" and rest = "''Jan''"]
  by (simp add: printed_def)

end
