(* ===== verification/BankNumbers.thy ===== *)
theory BankNumbers
  imports LineServers "HOL-Library.Signed_Division"
begin

text \<open>
  Number filters: the generators and checkers of account and birth numbers of \<open>DU/DU01\<close> and
  \<open>DU/JOP005_DU1\<close>, and \<open>tut01\<close>. A \<open>long\<close> is an integer between \<open>-2^63\<close> and \<open>2^63 - 1\<close>, division and remainder
  are those of C (\<open>sdiv\<close>, \<open>smod\<close>). The standard input as \<open>scanf\<close> reads it is a text, an argument of the
  program.
\<close>

section \<open>Long integers\<close>

definition long_range :: "int \<Rightarrow> bool" where
  "long_range x \<longleftrightarrow> - (2 ^ 63) \<le> x \<and> x < 2 ^ 63"

text \<open>\<open>strtol\<close> with base 10 stops at the ends of the range.\<close>

definition strtol :: "string \<Rightarrow> int" where
  "strtol s = max (- (2 ^ 63)) (min (2 ^ 63 - 1) (atoi s))"

text \<open>\<open>%010ld\<close>\<close>

definition show_long10 :: "int \<Rightarrow> string" where
  "show_long10 x =
     (let ds = show_nat (nat \<bar>x\<bar>) in
      if x < 0 then CHR ''-'' # replicate (9 - length ds) CHR ''0'' @ ds else replicate (10 - length ds) CHR ''0'' @ ds)"

text \<open>The \<open>n\<close> bytes of a number, the lowest first, and the number of eight bytes.\<close>

fun bytes_of :: "nat \<Rightarrow> int \<Rightarrow> string" where
  "bytes_of 0 x = []"
| "bytes_of (Suc n) x = char_of (nat (x mod 256)) # bytes_of n (x div 256)"

fun unsigned_of :: "string \<Rightarrow> int" where
  "unsigned_of [] = 0"
| "unsigned_of (c # cs) = int (of_char c) + 256 * unsigned_of cs"

definition long_of :: "string \<Rightarrow> int" where
  "long_of s = (let u = unsigned_of s in if u < 2 ^ 63 then u else u - 2 ^ 64)"

text \<open>What \<open>scanf("%10s")\<close> reads, call after call.\<close>

function words10 :: "string \<Rightarrow> string list" where
  "words10 s =
     (let t = dropWhile is_space s; a = take 10 (takeWhile (\<lambda>c. \<not> is_space c) t)
      in if t = [] then [] else a # words10 (drop (length a) t))"
  by pat_completeness auto

termination
proof (relation "measure length")
  fix s t a :: string
  assume t: "t = dropWhile is_space s" and a: "a = take 10 (takeWhile (\<lambda>c. \<not> is_space c) t)" and ne: "t \<noteq> []"
  have "\<not> is_space (hd t)" unfolding t by (rule hd_dropWhile) (use ne t in simp)
  with ne have "a \<noteq> []" by (cases t) (simp_all add: a)
  moreover have "length t \<le> length s" unfolding t by (rule length_dropWhile_le)
  ultimately show "(drop (length a) t, s) \<in> measure length" using ne by (cases t; cases a) auto
qed simp

declare words10.simps [simp del]

section \<open>DU01: generator\<close>

fun generator :: "int \<Rightarrow> nat \<Rightarrow> bool \<Rightarrow> (unit, 'p, 'm) io" where
  "generator num 0 binary = io_ret ()"
| "generator num (Suc n) binary =
     io_seq (if binary then io_seq (emit (CWrite STDOUT_FILENO (bytes_of 8 num))) (emit (CPrint [LF]))
             else emit (CPrint (show_long10 num @ [LF])))
       (if long_range (num + 1) then generator (num + 1) n binary else io_ub)"

definition gennum_main :: "string list \<Rightarrow> (int, 'p, 'm) io" where
  "gennum_main argv =
     io_bind (nonnull (if length argv > 1 then Some (argv ! 1) else None)) (\<lambda>a.
     io_bind (if length argv = 2 \<or> argv ! 2 = ''-b'' then io_ret 1000 else atoi_io (argv ! 2)) (\<lambda>n.
     io_seq (generator (strtol a) (nat n) (''-b'' \<in> set (tl argv))) (io_ret 0)))"

definition binary_main :: "string list \<Rightarrow> (int, 'p, 'm) io" where
  "binary_main argv =
     io_bind (nonnull (if length argv > 1 then Some (argv ! 1) else None)) (\<lambda>a.
     io_bind (atoi_io a) (\<lambda>x.
     io_seq (io_block [emit (CPrint (show_int x @ [LF])), emit (CWrite STDOUT_FILENO (bytes_of 4 x)), emit (CPrint [LF])])
       (io_ret 0)))"

section \<open>DU01: checker\<close>

text \<open>
  The weighted sum of the decimal digits, the last digit first. \<open>weight[i]\<close> with \<open>i\<close> outside the array is
  undefined. With weights of at most 10 the sum stays far below the range of \<open>int\<close>.
\<close>

fun weigh :: "int \<Rightarrow> int list \<Rightarrow> int \<Rightarrow> int option" where
  "weigh num [] acc = (if num > 0 then None else Some acc)"
| "weigh num (w # ws) acc = (if num > 0 then weigh (num div 10) ws (acc + num mod 10 * w) else Some acc)"

definition is_valid_bank_number :: "int \<Rightarrow> int list \<Rightarrow> bool \<Rightarrow> (bool, 'p, 'm) io" where
  "is_valid_bank_number S weight only_valid =
     io_bind (nonnull (weigh S weight 0)) (\<lambda>sum_w.
     let valid = (sum_w mod 11 = 0) in
     io_seq (if only_valid then io_when valid (emit (CPrint (''Cislo uctu: '' @ show_int S @ '' - platne'' @ [LF])))
             else emit (CPrint (''Cislo uctu: '' @ show_int S @ '' - '' @ (if valid then ''platne'' else ''neplatne'') @ [LF] @ '' '')))
       (io_ret valid))"

definition weights :: "int list" where
  "weights = [1, 2, 4, 8, 5, 10, 9, 7, 3, 6]"

definition check_words :: "(int \<Rightarrow> ('a, 'p, 'm) io) \<Rightarrow> string \<Rightarrow> (unit, 'p, 'm) io" where
  "check_words check input = io_block (map (\<lambda>w. io_seq (check (strtol (cstr w))) (io_ret ())) (words10 input))"

definition check_long :: "(int \<Rightarrow> ('a, 'p, 'm) io) \<Rightarrow> unit \<Rightarrow> (unit + unit, 'p, 'm) io" where
  "check_long check = (\<lambda>_. io_bind (sys_read STDIN_FILENO 8) (\<lambda>(n, d).
     if n = 8 then io_seq (check (long_of d)) (io_ret (Inl ())) else io_ret (Inr ())))"

text \<open>The array of weights has an eleventh element, 0.\<close>

definition verbank_main :: "string list \<Rightarrow> string \<Rightarrow> (int, 'p, 'm) io" where
  "verbank_main argv input =
     (if length argv > 3 then
        io_seq (emit (CWrite STDERR_FILENO (''Neplatny pocet argumentov'' @ [LF]))) (io_ret 1)
      else
      let check = (\<lambda>S. is_valid_bank_number S (weights @ [0]) (''-v'' \<in> set (tl argv))) in
      io_seq (if ''-b'' \<in> set (tl argv) then io_while (check_long check) () else check_words check input) (io_ret 0))"

section \<open>JOP005: generator\<close>

fun generator_num :: "int \<Rightarrow> nat \<Rightarrow> bool \<Rightarrow> (unit, 'p, 'm) io" where
  "generator_num num 0 binary = io_ret ()"
| "generator_num num (Suc n) binary =
     (if long_range (num + 1) then
        io_seq (if binary then emit (CWrite STDOUT_FILENO (bytes_of 8 (num + 1))) else emit (CPrint (show_long10 (num + 1) @ [LF])))
          (generator_num (num + 1) n binary)
      else io_ub)"

fun gen_args :: "string list \<Rightarrow> int \<Rightarrow> bool \<Rightarrow> (int \<times> bool, 'p, 'm) io" where
  "gen_args [] n binary = io_ret (n, binary)"
| "gen_args (a # as) n binary =
     (if a = ''-b'' then gen_args as n True else io_bind (atoi_io a) (\<lambda>n. gen_args as n binary))"

definition jop_gennum_main :: "string list \<Rightarrow> (int, 'p, 'm) io" where
  "jop_gennum_main argv =
     (if length argv < 2 \<or> length argv > 4 then
        io_seq (emit (CWrite STDERR_FILENO (''Neplatny pocet argumentov!'' @ [LF]))) (io_ret 1)
      else (case scan_int (argv ! 1) of
        None \<Rightarrow> io_seq (emit (CWrite STDERR_FILENO (''Zly format S'' @ [LF]))) (io_ret 1)
      | Some (S, _) \<Rightarrow>
          if \<not> long_range S then io_ub
          else io_bind (gen_args (drop 2 argv) 1000 False) (\<lambda>(n, binary). io_seq (generator_num S (nat n) binary) (io_ret 0))))"

section \<open>JOP005: account numbers\<close>

text \<open>At most ten digits are weighed; the rest of a longer number does not count.\<close>

fun weigh10 :: "int \<Rightarrow> int list \<Rightarrow> int \<Rightarrow> int" where
  "weigh10 num [] acc = acc"
| "weigh10 num (w # ws) acc = (if num > 0 then weigh10 (num div 10) ws (acc + num mod 10 * w) else acc)"

definition account_verification :: "int \<Rightarrow> int list \<Rightarrow> bool \<Rightarrow> (unit, 'p, 'm) io" where
  "account_verification S weight valid =
     (let sum_w = weigh10 S (take 10 weight) 0 in
      io_seq (io_when (valid \<and> sum_w mod 11 = 0) (io_block [emit (CPrint (''ucet: '' @ show_long10 S @ '': '')), emit (CPrint (''Platny'' @ [LF]))]))
        (io_when (\<not> valid) (io_block [emit (CPrint (''ucet: '' @ show_long10 S @ '': '')),
           emit (CPrint (if sum_w mod 11 = 0 then ''Platny'' @ [LF] else ''Neplatny'' @ [LF]))])))"

text \<open>\<open>verification\<close> comes from one of three libraries.\<close>

definition jop_verbank_main :: "(int \<Rightarrow> int list \<Rightarrow> bool \<Rightarrow> (unit, 'p, 'm) io) \<Rightarrow> string list \<Rightarrow> string \<Rightarrow> (int, 'p, 'm) io" where
  "jop_verbank_main verification argv input =
     io_seq (check_words (\<lambda>S. verification S weights (length argv = 2 \<and> argv ! 1 = ''-v'')) input) (io_ret 0)"

section \<open>JOP005: birth numbers\<close>

definition days_in_month :: "int \<Rightarrow> int \<Rightarrow> int" where
  "days_in_month y m =
     (if m = 4 \<or> m = 6 \<or> m = 9 \<or> m = 11 then 30
      else if m = 2 then (if y mod 4 = 0 \<and> (y mod 100 \<noteq> 0 \<or> y mod 400 = 0) then 29 else 28)
      else 31)"

text \<open>The last \<open>n\<close> digits, and what is left of the number. The digits of a negative number are negative.\<close>

fun last_digits :: "nat \<Rightarrow> int \<Rightarrow> int list \<times> int" where
  "last_digits 0 t = ([], t)"
| "last_digits (Suc n) t = (let (ds, r) = last_digits n (t sdiv 10) in (ds @ [t smod 10], r))"

definition rc_month :: "int \<Rightarrow> int" where
  "rc_month raw = (if 1 \<le> raw \<and> raw \<le> 12 then raw else if 51 \<le> raw \<and> raw \<le> 62 then raw - 50 else -1)"

definition rc_year :: "int \<Rightarrow> int" where
  "rc_year yy = (if yy \<ge> 54 then 1900 + yy else 2000 + yy)"

definition rc_date :: "int list \<Rightarrow> bool" where
  "rc_date d =
     (let year = rc_year (d ! 0 * 10 + d ! 1); month_num = rc_month (d ! 2 * 10 + d ! 3); day_num = d ! 4 * 10 + d ! 5
      in 1 \<le> month_num \<and> month_num \<le> 12 \<and> 1 \<le> day_num \<and> day_num \<le> days_in_month year month_num)"

definition rc_ok :: "int \<Rightarrow> bool" where
  "rc_ok S = (let (d, t) = last_digits 10 S in \<not> t > 0 \<and> rc_date d \<and> sum_list d smod 11 = 0)"

definition rc_verification :: "int \<Rightarrow> int list \<Rightarrow> bool \<Rightarrow> (unit, 'p, 'm) io" where
  "rc_verification S weight only_valid =
     (if snd (last_digits 10 S) > 0 then
        io_when (\<not> only_valid) (emit (CPrint (''RC: '' @ show_long10 S @ '': Neplatny'' @ [LF])))
      else
      let d = fst (last_digits 10 S); ok = (rc_date d \<and> sum_list d smod 11 = 0) in
      if only_valid then io_when ok (emit (CPrint (''RC: '' @ show_long10 S @ '': Platny'' @ [LF])))
      else emit (CPrint (''RC: '' @ show_long10 S @ '': '' @ (if ok then ''Platny'' else ''Neplatny'') @ [LF])))"

text \<open>All ten digits are weighed, whatever the sign.\<close>

definition is_bank_ok :: "int \<Rightarrow> int list \<Rightarrow> bool" where
  "is_bank_ok S w = (sum_list (map2 (*) (rev (fst (last_digits 10 S))) w) smod 11 = 0)"

definition both_verification :: "int \<Rightarrow> int list option \<Rightarrow> bool \<Rightarrow> (unit, 'p, 'm) io" where
  "both_verification S weight valid =
     (let ok = (rc_ok S \<and> is_bank_ok S (case weight of None \<Rightarrow> weights | Some w \<Rightarrow> w)) in
      if valid then io_when ok (emit (CPrint (''Platne: '' @ show_long10 S @ [LF])))
      else emit (CPrint (''RC aj BANK: '' @ show_long10 S @ '': '' @ (if ok then ''Platny'' else ''Neplatny'') @ [LF])))"

section \<open>tut01\<close>

text \<open>\<open>r i\<close> is what the call number \<open>i\<close> of \<open>rand\<close> returns.\<close>

definition random_main :: "(nat \<Rightarrow> int) \<Rightarrow> string list \<Rightarrow> (int, 'p, 'm) io" where
  "random_main r argv =
     (if length argv < 2 then io_seq (emit (CPrint (''Malo parametru!'' @ [LF]))) (io_exit 1)
      else io_bind (atoi_io (argv ! 1)) (\<lambda>n.
        io_seq (io_block (map (\<lambda>i. emit (CPrint (show_int (r i smod 100000) @ [LF]))) [0..<nat n])) (io_ret 0)))"

text \<open>The numbers \<open>scanf("%d")\<close> reads until it cannot read one.\<close>

lemma scan_int_shorter: "scan_int s = Some (x, r) \<Longrightarrow> length r < length s"
proof -
  assume s: "scan_int s = Some (x, r)"
  define u where "u = (let t = dropWhile is_space s in if t \<noteq> [] \<and> hd t \<in> {CHR ''-'', CHR ''+''} then tl t else t)"
  have "takeWhile is_digit u \<noteq> []" and r: "r = drop (length (takeWhile is_digit u)) u"
    using s unfolding scan_int_def Let_def u_def by (auto split: if_splits)
  then have "length r < length u" by (cases u) auto
  moreover have "length u \<le> length s"
    using length_dropWhile_le [of is_space s] by (auto simp: u_def Let_def)
  ultimately show ?thesis by simp
qed

function add_up :: "string \<Rightarrow> int \<Rightarrow> int option" where
  "add_up s acc = (case scan_int s of
      None \<Rightarrow> Some acc
    | Some (x, r) \<Rightarrow> if int_range x \<and> int_range (acc + x) then add_up r (acc + x) else None)"
  by pat_completeness auto

termination
  by (relation "measure (length \<circ> fst)") (auto dest: scan_int_shorter)

declare add_up.simps [simp del]

definition sum_main :: "string \<Rightarrow> (int, 'p, 'm) io" where
  "sum_main input = io_bind (nonnull (add_up input 0)) (\<lambda>s. io_seq (emit (CPrint (''Suma: '' @ show_int s @ [LF]))) (io_ret 0))"

section \<open>Loops\<close>

lemma check_loop: "(\<And>S. sane (check S)) \<Longrightarrow> event_loop (check_long check)"
  unfolding check_long_def
  by unfold_locales (intro ext_intros | assumption | rule uses_bind_first [OF uses_sys(2)])+

lemma sane_is_valid [ext_intros]: "sane (is_valid_bank_number S w v)"
  unfolding is_valid_bank_number_def by (intro ext_intros)

interpretation longs: event_loop "check_long (\<lambda>S. is_valid_bank_number S w v)"
  by (rule check_loop) (rule sane_is_valid)

end
