(* ===== verification/NumberProps.thy ===== *)
theory NumberProps
  imports BankNumbers
begin

text \<open>
  The number checkers: what they compute, which errors in an account number they notice, and that a
  checker reads what the generator writes.
\<close>

section \<open>Weighted sums of digits\<close>

definition digit_of :: "int \<Rightarrow> nat \<Rightarrow> int" where
  "digit_of S i = S div 10 ^ i mod 10"

definition weighted :: "int \<Rightarrow> int list \<Rightarrow> int" where
  "weighted S ws = (\<Sum>i<length ws. digit_of S i * ws ! i)"

lemma digit_of_simps: "digit_of S 0 = S mod 10" "digit_of S (Suc i) = digit_of (S div 10) i"
  by (simp_all add: digit_of_def zdiv_zmult2_eq)

lemma weighted_Cons: "weighted S (w # ws) = S mod 10 * w + weighted (S div 10) ws"
  by (simp add: weighted_def sum.lessThan_Suc_shift digit_of_simps del: sum.lessThan_Suc)

lemma weighted_zero: "weighted 0 ws = 0"
  by (simp add: weighted_def digit_of_def)

lemma weigh_sum: "0 \<le> S \<Longrightarrow> weigh S ws acc = (if S div 10 ^ length ws > 0 then None else Some (acc + weighted S ws))"
proof (induction ws arbitrary: S acc)
  case Nil
  then show ?case by (simp add: weighted_def)
next
  case (Cons w ws)
  have d: "S div 10 div 10 ^ length ws = S div 10 ^ length (w # ws)" by (simp add: zdiv_zmult2_eq)
  show ?case
  proof (cases "S > 0")
    case True
    then have "0 \<le> S div 10" by simp
    from Cons.IH [OF this] True show ?thesis by (simp add: weighted_Cons zdiv_zmult2_eq)
  next
    case False
    with Cons.prems have "S = 0" by simp
    then show ?thesis by (simp add: weighted_zero)
  qed
qed

lemma weigh10_sum: "0 \<le> S \<Longrightarrow> weigh10 S ws acc = acc + weighted S ws"
proof (induction ws arbitrary: S acc)
  case Nil
  then show ?case by (simp add: weighted_def)
next
  case (Cons w ws)
  show ?case
  proof (cases "S > 0")
    case True
    then have "0 \<le> S div 10" by simp
    from Cons.IH [OF this] True show ?thesis by (simp add: weighted_Cons)
  next
    case False
    with Cons.prems have "S = 0" by simp
    then show ?thesis by (simp add: weighted_zero)
  qed
qed

lemma signed_nonneg: "0 \<le> (a::int) \<Longrightarrow> 0 < b \<Longrightarrow> a sdiv b = a div b \<and> a smod b = a mod b"
  by (cases "a = 0") (simp_all add: signed_divide_int_def signed_modulo_int_def)

lemma last_digits_run: "0 \<le> S \<Longrightarrow> last_digits n S = (rev (map (digit_of S) [0..<n]), S div 10 ^ n)"
proof (induction n arbitrary: S)
  case 0
  then show ?case by simp
next
  case (Suc n)
  have "S sdiv 10 = S div 10" "S smod 10 = S mod 10" using Suc.prems by (simp_all add: signed_nonneg)
  moreover have "map (digit_of S) [0..<Suc n] = S mod 10 # map (digit_of (S div 10)) [0..<n]"
    by (simp add: digit_of_simps map_upt_Suc del: upt_Suc)
  moreover have "S div 10 div 10 ^ n = S div 10 ^ Suc n" by (simp add: zdiv_zmult2_eq)
  ultimately show ?case using Suc by (simp add: Let_def)
qed

lemma zip_sum: "length xs = length ws \<Longrightarrow> sum_list (map2 (*) xs ws) = (\<Sum>i<length ws. xs ! i * ws ! i :: int)"
  by (simp add: sum_list_sum_nth atLeast0LessThan)

lemma weighted_nonneg: "0 \<le> S \<Longrightarrow> \<forall>w \<in> set ws. 0 \<le> w \<Longrightarrow> 0 \<le> weighted S ws"
  by (induction ws arbitrary: S) (simp_all add: weighted_Cons weighted_def [of _ "[]"])

lemma weights_facts: "length weights = 10" "\<forall>w \<in> set weights. 0 < w \<and> w < 11"
  by (simp_all add: weights_def)

lemma bank_ok_sum:
  assumes "0 \<le> S"
  shows "is_bank_ok S weights \<longleftrightarrow> weighted S weights mod 11 = 0"
proof -
  have "sum_list (map2 (*) (rev (fst (last_digits 10 S))) weights) = weighted S weights"
    using assms weights_facts(1) by (simp add: last_digits_run zip_sum weighted_def)
  moreover have "0 \<le> weighted S weights" using assms weights_facts(2) by (intro weighted_nonneg) auto
  ultimately show ?thesis by (simp add: is_bank_ok_def signed_nonneg)
qed

lemma ten_digits:
  assumes "0 \<le> S" and "S < 10 ^ 10"
  shows "weigh S (weights @ [0]) 0 = Some (weighted S weights)"
proof -
  have "weighted S (weights @ [0]) = weighted S weights"
    by (simp add: weighted_def nth_append)
  moreover have "S div 10 ^ 11 = 0" using assms by simp
  ultimately show ?thesis using assms(1) weights_facts(1) by (simp add: weigh_sum)
qed

text \<open>The weights are the powers of two modulo 11.\<close>

lemma weights_powers: "i < 10 \<Longrightarrow> weights ! i = 2 ^ i mod 11"
proof -
  have "\<forall>i \<in> set [0..<10]. weights ! i = 2 ^ i mod 11" by (simp add: weights_def upt_rec)
  then show "i < 10 \<Longrightarrow> ?thesis" by simp
qed

lemma weighted_powers: "weighted S weights mod 11 = (\<Sum>i<10. digit_of S i * 2 ^ i) mod 11"
proof -
  have "weighted S weights mod 11 = (\<Sum>i<10. (digit_of S i * (2 ^ i mod 11)) mod 11) mod 11"
    unfolding weighted_def weights_facts(1) mod_sum_eq by (simp add: weights_powers)
  also have "\<dots> = (\<Sum>i<10. (digit_of S i * 2 ^ i) mod 11) mod 11"
    by (simp only: mod_mult_right_eq)
  finally show ?thesis by (simp only: mod_sum_eq)
qed

section \<open>Errors that are noticed\<close>

lemma inverse_11: "a mod 11 \<noteq> 0 \<Longrightarrow> \<exists>k. a * k mod 11 = (1::int)"
proof -
  assume "a mod 11 \<noteq> 0"
  then have "a mod 11 = 1 \<or> a mod 11 = 2 \<or> a mod 11 = 3 \<or> a mod 11 = 4 \<or> a mod 11 = 5 \<or> a mod 11 = 6 \<or>
    a mod 11 = 7 \<or> a mod 11 = 8 \<or> a mod 11 = 9 \<or> a mod 11 = 10" by presburger
  moreover have "\<exists>k. a * k mod 11 = 1" if "a mod 11 * k mod 11 = 1" for k
    using that by (intro exI [of _ k]) (simp add: mod_mult_left_eq)
  note this [of 1] this [of 6] this [of 4] this [of 3] this [of 9] this [of 2] this [of 8] this [of 7] this [of 5] this [of 10]
  ultimately show ?thesis by auto
qed

lemma product_mod_11:
  assumes "a mod 11 \<noteq> 0" and "b mod 11 \<noteq> (0::int)"
  shows "a * b mod 11 \<noteq> 0"
proof
  assume z: "a * b mod 11 = 0"
  from inverse_11 [OF assms(1)] obtain k where k: "a * k mod 11 = 1" by blast
  have "b mod 11 = (a * k mod 11) * b mod 11" by (simp add: k)
  also have "\<dots> = (a * k) * b mod 11" by (rule mod_mult_left_eq)
  also have "(a * k) * b = (a * b) * k" by simp
  also have "\<dots> mod 11 = (a * b mod 11) * k mod 11" by (rule mod_mult_left_eq [symmetric])
  finally show False using z assms(2) by simp
qed

lemma small_mod_11: "- 11 < a \<Longrightarrow> a < 11 \<Longrightarrow> a \<noteq> 0 \<Longrightarrow> a mod 11 \<noteq> (0::int)"
  by presburger

lemma weighted_diff: "weighted T weights - weighted S weights = (\<Sum>k<10. (digit_of T k - digit_of S k) * weights ! k)"
  by (simp add: weighted_def weights_facts(1) sum_subtractf left_diff_distrib)

lemma digit_range: "0 \<le> digit_of S i" "digit_of S i < 10"
  by (simp_all add: digit_of_def)

lemma weight_range: "i < 10 \<Longrightarrow> 0 < weights ! i \<and> weights ! i < 11"
  using weights_facts by auto

lemma weights_differ: "i < 10 \<Longrightarrow> j < 10 \<Longrightarrow> i \<noteq> j \<Longrightarrow> weights ! i \<noteq> weights ! j"
  using nth_eq_iff_index_eq [of weights i j] by (simp add: weights_def)

text \<open>One digit is another one, or two digits at any places have changed places.\<close>

definition digit_error :: "int \<Rightarrow> int \<Rightarrow> bool" where
  "digit_error S T \<longleftrightarrow> (\<exists>i<10. digit_of T i \<noteq> digit_of S i \<and> (\<forall>k<10. k \<noteq> i \<longrightarrow> digit_of T k = digit_of S k)) \<or>
     (\<exists>i<10. \<exists>j<10. digit_of S i \<noteq> digit_of S j \<and> digit_of T i = digit_of S j \<and> digit_of T j = digit_of S i \<and>
        (\<forall>k<10. k \<noteq> i \<and> k \<noteq> j \<longrightarrow> digit_of T k = digit_of S k))"

lemma error_changes_sum:
  assumes "digit_error S T"
  shows "(weighted T weights - weighted S weights) mod 11 \<noteq> 0"
  using assms unfolding digit_error_def
proof (elim disjE exE conjE)
  fix i
  assume i: "i < 10" "digit_of T i \<noteq> digit_of S i" "\<forall>k<10. k \<noteq> i \<longrightarrow> digit_of T k = digit_of S k"
  have "(\<Sum>k<10. (digit_of T k - digit_of S k) * weights ! k) = (\<Sum>k\<in>{i}. (digit_of T k - digit_of S k) * weights ! k)"
    by (rule sum.mono_neutral_right) (use i in auto)
  then have "weighted T weights - weighted S weights = (digit_of T i - digit_of S i) * weights ! i"
    by (simp add: weighted_diff)
  moreover have "(digit_of T i - digit_of S i) mod 11 \<noteq> 0"
    using i(2) digit_range [of T i] digit_range [of S i] by (intro small_mod_11) auto
  moreover have "weights ! i mod 11 \<noteq> 0" using weight_range [OF i(1)] by (intro small_mod_11) auto
  ultimately show ?thesis by (simp add: product_mod_11)
next
  fix i j
  assume i: "i < 10" "j < 10" "digit_of S i \<noteq> digit_of S j" "digit_of T i = digit_of S j" "digit_of T j = digit_of S i"
    "\<forall>k<10. k \<noteq> i \<and> k \<noteq> j \<longrightarrow> digit_of T k = digit_of S k"
  have ne: "i \<noteq> j" using i(3) by auto
  have "(\<Sum>k<10. (digit_of T k - digit_of S k) * weights ! k) = (\<Sum>k\<in>{i, j}. (digit_of T k - digit_of S k) * weights ! k)"
    by (rule sum.mono_neutral_right) (use i in auto)
  then have "weighted T weights - weighted S weights = (digit_of S j - digit_of S i) * (weights ! i - weights ! j)"
    using ne i(4,5) by (simp add: weighted_diff algebra_simps)
  moreover have "(digit_of S j - digit_of S i) mod 11 \<noteq> 0"
    using i(3) digit_range [of S i] digit_range [of S j] by (intro small_mod_11) auto
  moreover have "(weights ! i - weights ! j) mod 11 \<noteq> 0"
    using weights_differ [OF i(1,2) ne] weight_range [OF i(1)] weight_range [OF i(2)] by (intro small_mod_11) auto
  ultimately show ?thesis by (simp add: product_mod_11)
qed

lemma bank_number_run:
  assumes "0 \<le> S" and "S < 10 ^ 10"
  shows "is_valid_bank_number S (weights @ [0]) v w = (Val (weighted S weights mod 11 = 0), w\<lparr>w_calls := w_calls w @
    (if v then (if weighted S weights mod 11 = 0 then [CPrint (''Cislo uctu: '' @ show_int S @ '' - platne'' @ [LF])] else [])
     else [CPrint (''Cislo uctu: '' @ show_int S @ '' - '' @ (if weighted S weights mod 11 = 0 then ''platne'' else ''neplatne'') @ [LF] @ '' '')])\<rparr>)"
  unfolding is_valid_bank_number_def ten_digits [OF assms] nonnull_def
  by (simp add: io_simps io_when_def Let_def)

text \<open>
  C38. The account checker of DU01 notices every single wrong digit and every exchange of two different
  digits, at any places: of two numbers of at most ten digits that differ in one of these ways at most one is valid.
\<close>

theorem digit_errors_noticed:
  assumes "0 \<le> S" and "S < 10 ^ 10" and "0 \<le> T" and "T < 10 ^ 10" and "digit_error S T"
    and "fst (is_valid_bank_number S (weights @ [0]) v w) = Val True"
  shows "fst (is_valid_bank_number T (weights @ [0]) v' w') = Val False"
proof -
  have "weighted S weights mod 11 = 0" using bank_number_run [OF assms(1,2), of v w] assms(6) by (simp del: append_Cons)
  with error_changes_sum [OF assms(5)] have "weighted T weights mod 11 \<noteq> 0"
    by (metis diff_zero mod_diff_right_eq)
  with bank_number_run [OF assms(3,4), of v' w'] show ?thesis by simp
qed

theorem digit_errors_noticed_witness:
  "\<forall>w. fst (is_valid_bank_number 18 (weights @ [0]) False w) = Val False"
proof
  fix w :: "('p, 'm) world"
  have "digit_error 19 18"
    unfolding digit_error_def by (rule disjI1, rule exI [of _ 0]) (auto simp: digit_of_def numeral_eq_Suc less_Suc_eq)
  then show "fst (is_valid_bank_number 18 (weights @ [0]) False w) = Val False"
    using digit_errors_noticed [of 19 18 False w False w]
    by (simp add: is_valid_bank_number_def weights_def nonnull_def io_simps)
qed

section \<open>From the generator to the checker\<close>

lemma show_long10_facts:
  assumes "0 \<le> x" and "x < 10 ^ 10"
  shows "length (show_long10 x) = 10" and "\<forall>c \<in> set (show_long10 x). is_digit c"
proof -
  have "nat x < 10 ^ 10" using assms by simp
  then have "length (show_nat (nat x)) \<le> 10" by (rule length_show_nat) simp
  with assms(1) show "length (show_long10 x) = 10" by (simp add: show_long10_def Let_def)
  show "\<forall>c \<in> set (show_long10 x). is_digit c"
    using assms(1) show_nat_digits [of _ "nat x"] by (auto simp: show_long10_def Let_def is_digit_def)
qed

lemma digits_val_zeros: "digits_val 0 (replicate k (CHR ''0'') @ ds) = digits_val 0 ds"
  by (induction k) (simp_all add: is_digit_def digit_def)

lemma strtol_show_long10:
  assumes "0 \<le> x" and "x < 10 ^ 10"
  shows "strtol (cstr (show_long10 x)) = x"
proof -
  note f = show_long10_facts [OF assms]
  then obtain c cs where c: "show_long10 x = c # cs" "is_digit c" by (cases "show_long10 x") auto
  have "NUL \<notin> set (show_long10 x)" using f(2) by (auto simp: is_digit_def)
  then have cs: "cstr (show_long10 x) = show_long10 x" by (simp add: cstr_def takeWhile_eq_all_conv) metis
  have "digits_val 0 (show_long10 x) = x"
    using assms(1) by (simp add: show_long10_def Let_def digits_val_zeros digits_val_show_nat)
  then have "atoi (show_long10 x) = x"
    using digit_not_special [OF c(2)] c(1) by (simp add: atoi_def)
  with cs assms show ?thesis by (simp add: strtol_def)
qed

lemma words10_space: "is_space c \<Longrightarrow> words10 (c # s) = words10 s"
  by (subst (1 2) words10.simps) simp

lemma words10_word:
  assumes "length l = 10" and "\<forall>c \<in> set l. \<not> is_space c" and "is_space sp"
  shows "words10 (l @ sp # s) = l # words10 s"
proof -
  obtain c cs where l: "l = c # cs" using assms(1) by (cases l) auto
  then have d: "dropWhile is_space (l @ sp # s) = l @ sp # s" using assms(2) by simp
  have t: "takeWhile (\<lambda>c. \<not> is_space c) (l @ sp # s) = l"
    using assms(2,3) by (simp add: takeWhile_append2)
  have "words10 (l @ sp # s) = l # words10 (sp # s)"
    unfolding words10.simps [of "l @ sp # s"] d t Let_def using assms(1) l by simp
  with words10_space [OF assms(3)] show ?thesis by simp
qed

lemma words10_lines:
  assumes "\<forall>x \<in> set xs. 0 \<le> x \<and> x < 10 ^ 10"
  shows "words10 (concat (map (\<lambda>x. show_long10 x @ [LF]) xs)) = map show_long10 xs"
  using assms
proof (induction xs)
  case Nil
  then show ?case by (subst words10.simps) simp
next
  case (Cons x xs)
  then have x: "0 \<le> x" "x < 10 ^ 10" by auto
  have "\<forall>c \<in> set (show_long10 x). \<not> is_space c"
    using show_long10_facts(2) [OF x] by (auto simp: is_digit_def is_space_def)
  from words10_word [OF show_long10_facts(1) [OF x] this, of LF] Cons show ?case by (simp add: is_space_def)
qed

lemma generator_run:
  assumes "long_range S" and "long_range (S + int n)"
  shows "generator S n False w = (Val (), w\<lparr>w_calls := w_calls w @ map (\<lambda>i. CPrint (show_long10 (S + int i) @ [LF])) [0..<n]\<rparr>)"
  using assms
proof (induction n arbitrary: S w)
  case 0
  then show ?case by (simp add: io_simps)
next
  case (Suc n)
  then have r: "long_range (S + 1)" "long_range (S + 1 + int n)" by (auto simp: long_range_def)
  have "map (\<lambda>i. CPrint (show_long10 (S + int i) @ [LF])) [0..<Suc n] =
      CPrint (show_long10 S @ [LF]) # map (\<lambda>i. CPrint (show_long10 (S + 1 + int i) @ [LF])) [0..<n]"
    by (simp add: map_upt_Suc algebra_simps del: upt_Suc)
  with Suc.IH [OF r] r show ?case by (simp add: io_simps)
qed

definition verdict :: "int \<Rightarrow> string" where
  "verdict x = ''Cislo uctu: '' @ show_int x @ '' - '' @
     (if (\<Sum>i<10. digit_of x i * 2 ^ i) mod 11 = 0 then ''platne'' else ''neplatne'') @ [LF] @ '' ''"

lemma checks_run:
  assumes "\<forall>x \<in> set xs. 0 \<le> x \<and> x < 10 ^ 10"
  shows "io_block (map (\<lambda>w. io_seq (is_valid_bank_number (strtol (cstr w)) (weights @ [0]) False) (io_ret ())) (map show_long10 xs)) v =
    (Val (), v\<lparr>w_calls := w_calls v @ map (\<lambda>x. CPrint (verdict x)) xs\<rparr>)"
  using assms
proof (induction xs arbitrary: v)
  case Nil
  then show ?case by (simp add: io_simps)
next
  case (Cons x xs)
  then have x: "0 \<le> x" "x < 10 ^ 10" by auto
  let ?u = "v\<lparr>w_calls := w_calls v @ [CPrint (verdict x)]\<rparr>"
  have "is_valid_bank_number (strtol (cstr (show_long10 x))) (weights @ [0]) False v = (Val (weighted x weights mod 11 = 0), ?u)"
    unfolding strtol_show_long10 [OF x] bank_number_run [OF x] verdict_def weighted_powers by simp
  then have "io_block (map (\<lambda>w. io_seq (is_valid_bank_number (strtol (cstr w)) (weights @ [0]) False) (io_ret ())) (map show_long10 (x # xs))) v =
      io_block (map (\<lambda>w. io_seq (is_valid_bank_number (strtol (cstr w)) (weights @ [0]) False) (io_ret ())) (map show_long10 xs)) ?u"
    by (simp add: io_seq_def io_bind_def io_ret_def)
  also have "\<dots> = (Val (), v\<lparr>w_calls := w_calls v @ map (\<lambda>x. CPrint (verdict x)) (x # xs)\<rparr>)"
    using Cons by simp
  finally show ?case .
qed

lemma show_int_not_option: "0 \<le> i \<Longrightarrow> show_int i \<noteq> ''-b''"
  using show_nat_digits [of "CHR ''-''" "nat i"] by (auto simp: show_int_def is_digit_def)

lemma show_long10_range: "0 \<le> S \<Longrightarrow> S + int n \<le> 10 ^ 10 \<Longrightarrow> \<forall>x \<in> set (map (\<lambda>i. S + int i) [0..<n]). 0 \<le> x \<and> x < 10 ^ 10"
  by auto

text \<open>
  C39. \<open>gennum S N | verbank\<close>: the generator prints the N numbers from S on, and the checker, reading this text
  ten characters at a time, gives for each of them in order the verdict of the account rule, that the sum of
  the digits weighed with the powers of two is a multiple of 11.
\<close>

theorem generated_numbers_checked:
  assumes "0 \<le> S" and "S + int n \<le> 10 ^ 10" and "int n < 2 ^ 31"
  shows "gennum_main [p, show_int S, show_int (int n)] w =
      (Val 0, w\<lparr>w_calls := w_calls w @ map (\<lambda>i. CPrint (show_long10 (S + int i) @ [LF])) [0..<n]\<rparr>) \<and>
    verbank_main [q] (concat (map (\<lambda>i. show_long10 (S + int i) @ [LF]) [0..<n])) v =
      (Val 0, v\<lparr>w_calls := w_calls v @ map (\<lambda>i. CPrint (verdict (S + int i))) [0..<n]\<rparr>)"
proof -
  have r: "long_range S" "long_range (S + int n)" "int_range (int n)"
    using assms by (auto simp: long_range_def int_range_def)
  have S: "strtol (show_int S) = S" using r(1) by (simp add: strtol_def atoi_show_int long_range_def)
  have nb: "''-b'' \<noteq> show_int S" "''-b'' \<noteq> show_int (int n)" "show_int (int n) \<noteq> ''-b''"
    using show_int_not_option [OF assms(1)] show_int_not_option [of "int n"] by auto
  have gen: "gennum_main [p, show_int S, show_int (int n)] w =
      (Val 0, w\<lparr>w_calls := w_calls w @ map (\<lambda>i. CPrint (show_long10 (S + int i) @ [LF])) [0..<n]\<rparr>)"
    by (simp add: gennum_main_def nonnull_def atoi_io_def atoi_show_int r(3) nb S io_simps generator_run [OF r(1,2)])
  define xs where "xs = map (\<lambda>i. S + int i) [0..<n]"
  have xs: "\<forall>x \<in> set xs. 0 \<le> x \<and> x < 10 ^ 10" unfolding xs_def by (rule show_long10_range [OF assms(1,2)])
  have "check_words (\<lambda>S. is_valid_bank_number S (weights @ [0]) False) (concat (map (\<lambda>x. show_long10 x @ [LF]) xs)) v =
      (Val (), v\<lparr>w_calls := w_calls v @ map (\<lambda>x. CPrint (verdict x)) xs\<rparr>)"
    unfolding check_words_def words10_lines [OF xs] by (rule checks_run [OF xs])
  then have "verbank_main [q] (concat (map (\<lambda>i. show_long10 (S + int i) @ [LF]) [0..<n])) v =
      (Val 0, v\<lparr>w_calls := w_calls v @ map (\<lambda>i. CPrint (verdict (S + int i))) [0..<n]\<rparr>)"
    by (simp add: verbank_main_def xs_def comp_def io_simps)
  with gen show ?thesis by (rule conjI)
qed

theorem generated_numbers_checked_witness:
  "\<forall>w v. gennum_main [''gennum'', show_int 18, show_int (int 2)] w =
      (Val 0, w\<lparr>w_calls := w_calls w @ map (\<lambda>i. CPrint (show_long10 (18 + int i) @ [LF])) [0..<2]\<rparr>) \<and>
    verbank_main [''verbank''] (concat (map (\<lambda>i. show_long10 (18 + int i) @ [LF]) [0..<2])) v =
      (Val 0, v\<lparr>w_calls := w_calls v @ map (\<lambda>i. CPrint (verdict (18 + int i))) [0..<2]\<rparr>)"
  by (intro allI generated_numbers_checked) simp_all

end
