(* ===== verification/ProcessDrills.thy ===== *)
theory ProcessDrills
  imports PollServers DemoServers BankNumbers
begin

text \<open>
  The exercises with \<open>fork\<close>, \<open>pipe\<close>, \<open>dup2\<close>, \<open>exec\<close> and \<open>poll\<close>: \<open>cv/cv_pipe\<close>, \<open>cv/cv_exec_dup_socket\<close>,
  \<open>TUT02/testfork.cpp\<close> and \<open>tut03/testik.cpp\<close>, and the message queue of \<open>cv/cv_shm_sem_possix/main.cpp\<close>. A run
  follows the parent or a child, as \<open>fork\<close> answers. Numbers of processes that are only printed are parameters. Where
  a program uses the ends of a pipe without asking whether \<open>pipe\<close> failed they are not set, which is undefined.
\<close>

section \<open>Common parts\<close>

definition need_pipe :: "(int \<times> int, 'p, 'm) io" where
  "need_pipe = io_bind sys_pipe nonnull"

definition pipe_or :: "string \<Rightarrow> (int \<times> int \<Rightarrow> (int, 'p, 'm) io) \<Rightarrow> (int, 'p, 'm) io" where
  "pipe_or t k = io_bind sys_pipe (\<lambda>p. case p of None \<Rightarrow> io_seq (perror t) (io_ret 1) | Some e \<Rightarrow> k e)"

definition wait_one :: "(unit, 'p, 'm) io" where
  "wait_one = io_seq (sys_int (CWaitpid (-1))) (io_ret ())"

definition sleep_s :: "int \<Rightarrow> (unit, 'p, 'm) io" where
  "sleep_s s = sys_usleep (s * 1000000)"

text \<open>\<open>execlp\<close> with the message and the end of the process for the case that it returns.\<close>

definition exec_or_die :: "string list \<Rightarrow> (unit, 'p, 'm) io \<Rightarrow> ('a, 'p, 'm) io" where
  "exec_or_die argv msg_io = io_seq (sys_exec (hd argv) argv) (io_seq msg_io (io_exit 1))"

text \<open>What \<open>read\<close> put into an array on the stack, used as a string: without a null character it runs on into bytes not set.\<close>

definition read_string :: "int \<Rightarrow> nat \<Rightarrow> (string, 'p, 'm) io" where
  "read_string fd n = io_bind (sys_read fd n) (\<lambda>(r, d). buf_str d)"

section \<open>Pipes of programs\<close>

definition end_to :: "int \<Rightarrow> int \<Rightarrow> int \<Rightarrow> (unit, 'p, 'm) io" where
  "end_to used target unused = io_block [emit (CClose unused), emit (CDup2 used target), emit (CClose used)]"

definition pipe_ls_wc :: "(int, 'p, 'm) io" where
  "pipe_ls_wc =
     io_bind need_pipe (\<lambda>(rd, wr).
     io_bind (sys_int CFork) (\<lambda>pid.
     if pid = 0 then io_seq (end_to rd STDIN_FILENO wr) (exec_or_die [''wc'', ''-l''] (perror ''exec wc''))
     else io_seq (end_to wr STDOUT_FILENO rd) (io_seq (sleep_s 1) (exec_or_die [''ls'', ''-a''] (perror ''exec ls'')))))"

text \<open>\<open>grep.cpp\<close>: \<open>wc\<close> reads a pipe that \<open>grep\<close>, whose end is closed unused, never writes.\<close>

definition grep_child :: "int \<Rightarrow> int \<Rightarrow> (unit, 'p, 'm) io" where
  "grep_child rd wr =
     io_bind need_pipe (\<lambda>(rd2, wr2).
     io_bind (sys_int CFork) (\<lambda>p.
     if p = 0 then io_seq (end_to rd2 STDIN_FILENO wr2) (exec_or_die [''wc'', ''-l''] (io_ret ()))
     else io_seq (emit (CClose rd2)) (io_seq (end_to rd STDIN_FILENO wr) (exec_or_die [''grep'', ''include''] (perror ''exec grep'')))))"

definition grep_main :: "(int, 'p, 'm) io" where
  "grep_main =
     io_bind sys_pipe (\<lambda>p.
     io_seq (io_when (p = None) (perror ''pipe failed''))
    (io_bind (sys_int CFork) (\<lambda>p_cat.
     io_seq (io_when (p_cat = -1) (perror ''fork error''))
    (if p_cat = -1 then io_ret 0
     else io_bind (nonnull p) (\<lambda>(rd, wr).
     io_seq (if p_cat = 0 then grep_child rd wr
             else io_seq (end_to wr STDOUT_FILENO rd) (io_seq (sleep_s 1) (exec_or_die [''cat'', ''main.cpp''] (perror ''exec cat''))))
       (io_ret 0))))))"

definition close_pair :: "int \<times> int \<Rightarrow> (unit, 'p, 'm) io" where
  "close_pair e = io_block [emit (CClose (fst e)), emit (CClose (snd e))]"

definition grep2_main :: "(int, 'p, 'm) io" where
  "grep2_main =
     io_bind need_pipe (\<lambda>e1. io_bind need_pipe (\<lambda>e2.
     io_bind (sys_int CFork) (\<lambda>p1.
     io_seq (io_when (p1 = 0) (io_seq (end_to (snd e1) STDOUT_FILENO (fst e1)) (io_seq (close_pair e2) (exec_or_die [''cat'', ''main.cpp''] (perror ''exec'')))))
    (io_bind (sys_int CFork) (\<lambda>p2.
     io_seq (io_when (p2 = 0) (io_seq (io_block [emit (CClose (snd e1)), emit (CDup2 (fst e1) STDIN_FILENO), emit (CDup2 (snd e2) STDOUT_FILENO), emit (CClose (fst e1))])
       (io_seq (close_pair e2) (exec_or_die [''grep'', ''include''] (perror ''exec'')))))
    (io_bind (sys_int CFork) (\<lambda>p3.
     io_seq (io_when (p3 = 0) (io_seq (end_to (fst e2) STDIN_FILENO (snd e2)) (io_seq (close_pair e1) (exec_or_die [''wc'', ''-l''] (perror ''exec'')))))
    (io_seq (io_block [close_pair e1, close_pair e2, wait_one, wait_one]) (io_ret 0)))))))))"

text \<open>\<open>testik.cpp\<close>: \<open>ls\<close> in capitals, into a file.\<close>

definition testik_note :: "(unit, 'p, 'm) io" where
  "testik_note = emit (CPrint (''pokud jsem zde, neco je spatne'' @ [LF]))"

definition testik_main :: "(int, 'p, 'm) io" where
  "testik_main =
     io_bind need_pipe (\<lambda>e.
     io_bind (sys_int CFork) (\<lambda>p1.
     io_seq (io_when (p1 = 0) (io_seq (emit (CDup2 (snd e) 1)) (io_seq (close_pair e) (exec_or_die [''ls'', ''/home/fei/oli10/poli/'', ''/var/''] testik_note))))
    (io_bind (sys_int CFork) (\<lambda>p2.
     io_seq (io_when (p2 = 0)
       (io_bind (sys_int (COpen ''out.txt'')) (\<lambda>fd.
        io_seq (io_block [emit (CDup2 fd 1), emit (CClose fd), emit (CDup2 (fst e) 0)])
          (io_seq (close_pair e) (exec_or_die [''tr'', ''a-z'', ''A-Z''] testik_note)))))
    (io_seq (io_block [close_pair e, wait_one, wait_one]) (io_ret 0))))))"

definition ls_main :: "(int, 'p, 'm) io" where
  "ls_main =
     io_bind (sys_int CFork) (\<lambda>pid.
     io_seq (if pid = 0 then io_seq (sys_exec ''ls'' [''ls'', ''-l'']) (perror ''exec'')
             else io_seq wait_one (emit (CPrint (''Rodi'' @ [CHR 0xC4, CHR 0x8D] @ '': die'' @ [CHR 0xC5, CHR 0xA5] @ ''a ukon'' @ [CHR 0xC4, CHR 0x8D] @ ''ilo pr'' @ [CHR 0xC3, CHR 0xA1] @ ''cu.'' @ [LF]))))
       (io_ret 0))"

section \<open>Texts through pipes\<close>

text \<open>\<open>p01_pipe_self.cpp\<close>, \<open>p02_parent_to_child.cpp\<close>, \<open>p03_full_duplex.cpp\<close>: the text is printed with its length.\<close>

definition self_main :: "(int, 'p, 'm) io" where
  "self_main =
     pipe_or ''pipe error'' (\<lambda>(rd, wr).
     io_bind (sys_int (CWrite wr ''Ahoj'')) (\<lambda>w.
     if w = -1 then io_seq (perror ''write'') (io_ret 1)
     else
     io_seq (emit (CClose wr))
    (io_bind (sys_read rd 64) (\<lambda>(r, d).
     if r = -1 then io_seq (perror ''read'') (io_ret 1)
     else io_seq (emit (CClose rd)) (io_seq (emit (CPrint (''precital som: '' @ cstr d @ [LF]))) (io_ret 0))))))"

definition to_child_main :: "(int, 'p, 'm) io" where
  "to_child_main =
     pipe_or ''pipe'' (\<lambda>(rd, wr).
     io_bind (sys_int CFork) (\<lambda>p.
     if p = -1 then io_seq (perror ''fork'') (io_ret 1)
     else if p > 0 then
       io_seq (emit (CClose rd))
      (io_bind (sys_int (CWrite wr ''Ahoj David'')) (\<lambda>w.
       if w = -1 then io_seq (perror ''write'') (io_seq (emit (CClose wr)) (io_ret 1))
       else io_seq (emit (CClose wr)) (io_seq wait_one (io_ret 0))))
     else if p = 0 then
       io_seq (emit (CClose wr))
      (io_bind (sys_read rd 64) (\<lambda>(r, d).
       if r = -1 then io_seq (perror ''read'') (io_seq (emit (CClose rd)) (io_ret 1))
       else io_seq (emit (CClose rd)) (io_seq (emit (CPrint (''Dieta dostalo: '' @ cstr d @ [LF]))) (io_exit 0))))
     else io_ret 0))"

definition ask :: "int \<times> int \<Rightarrow> int \<times> int \<Rightarrow> (int, 'p, 'm) io" where
  "ask e_p e_ch =
     io_seq (emit (CClose (fst e_p))) (io_seq (emit (CClose (snd e_ch)))
    (io_bind (sys_int (CWrite (snd e_p) ''Ako sa volas?'')) (\<lambda>w.
     if w = -1 then io_seq (perror ''write_p'') (io_ret 1)
     else
     io_seq (emit (CClose (snd e_p))) (io_seq wait_one
    (io_bind (sys_read (fst e_ch) 64) (\<lambda>(r, d).
     if r = -1 then io_seq (perror ''read_p'') (io_ret 1)
     else io_seq (emit (CPrint (''Rodic dostal odpoved: '' @ cstr d @ [LF]))) (io_seq (emit (CClose (fst e_ch))) (io_ret 0))))))))"

definition answer_to :: "int \<times> int \<Rightarrow> int \<times> int \<Rightarrow> (int, 'p, 'm) io" where
  "answer_to e_p e_ch =
     io_seq (emit (CClose (fst e_ch))) (io_seq (emit (CClose (snd e_p)))
    (io_bind (sys_read (fst e_p) 64) (\<lambda>(r, d).
     if r = -1 then io_seq (perror ''read_ch'') (io_exit 0)
     else
     io_seq (io_block [emit (CPrint (''Dieta dostalo otazku: '' @ cstr d @ [LF])), emit (CClose (fst e_p)), sleep_s 2])
    (io_bind (sys_int (CWrite (snd e_ch) ''Volam sa dieta'')) (\<lambda>w.
     if w = -1 then io_seq (perror ''write_ch'') (io_exit 0)
     else io_seq (emit (CClose (snd e_ch))) (io_exit 0))))))"

definition duplex_main :: "(int, 'p, 'm) io" where
  "duplex_main =
     pipe_or ''pipe_p'' (\<lambda>e_p. pipe_or ''pipe_ch'' (\<lambda>e_ch.
     io_bind (sys_int CFork) (\<lambda>p.
     if p = -1 then io_seq (perror '' fork'') (io_ret 1)
     else if p > 0 then ask e_p e_ch
     else if p = 0 then answer_to e_p e_ch
     else io_ret 0)))"

text \<open>\<open>main2.cpp\<close>: the text is sent without its null character, so the child prints what follows it in the array.\<close>

definition no_end_main :: "(int, 'p, 'm) io" where
  "no_end_main =
     io_bind need_pipe (\<lambda>(rd, wr).
     io_bind (sys_int CFork) (\<lambda>p.
     if p = 0 then
       io_seq (emit (CClose wr)) (io_bind (read_string rd 64) (\<lambda>s. io_seq (emit (CPrint (''Dieta cita: '' @ s @ [LF]))) (io_exit 0)))
     else
     io_seq (io_block [emit (CClose rd), emit (CPrint (''Rodic posiela spravu Ahoj'' @ [LF])), emit (CWrite wr ''Ahoj''), emit (CClose wr), wait_one])
       (io_ret 0)))"

text \<open>\<open>concat.cpp\<close>: \<open>input\<close> is the word \<open>scanf\<close> reads, at most 99 characters.\<close>

definition concat_parent :: "string \<Rightarrow> int \<times> int \<Rightarrow> int \<times> int \<Rightarrow> (int, 'p, 'm) io" where
  "concat_parent input e1 e2 =
     io_seq (io_block [emit (CClose (fst e1)), emit (CWrite (snd e1) (input @ [NUL])), emit (CClose (snd e1)), wait_one, emit (CClose (snd e2))])
    (io_bind (read_string (fst e2) 100) (\<lambda>s.
     io_seq (emit (CPrint (''Concated string: '' @ s))) (io_seq (emit (CClose (fst e2))) (io_ret 0))))"

definition concat_child :: "int \<times> int \<Rightarrow> int \<times> int \<Rightarrow> (int, 'p, 'm) io" where
  "concat_child e1 e2 =
     io_seq (emit (CClose (snd e1)))
    (io_bind (read_string (fst e1) 100) (\<lambda>s.
     io_seq (emit (CPrint (''======= '' @ s @ '' ====='' @ [LF])))
    (if length s + 7 > 100 then io_ub
     else io_seq (io_block [emit (CClose (fst e1)), emit (CClose (fst e2)), emit (CWrite (snd e2) (s @ '' David'' @ [NUL])), emit (CClose (snd e2))])
       (io_exit 0))))"

definition concat_main :: "string \<Rightarrow> (int, 'p, 'm) io" where
  "concat_main input =
     io_seq (emit (CPrint ''Zadaj vstup: ''))
    (if length input > 99 then io_ub
     else io_bind need_pipe (\<lambda>e1. io_bind need_pipe (\<lambda>e2.
     io_bind (sys_int CFork) (\<lambda>p.
     if p < 0 then io_seq (emit (CWrite STDERR_FILENO ''fork failed'')) (io_ret 0)
     else if p > 0 then concat_parent input e1 e2
     else concat_child e1 e2))))"

text \<open>\<open>testfork.cpp\<close>: the child sends ten numbers, the parent copies what comes to its output. \<open>r i\<close> is the result of \<open>rand\<close>.\<close>

definition copy_on :: "int \<Rightarrow> unit \<Rightarrow> (unit + unit, 'p, 'm) io" where
  "copy_on fd = (\<lambda>_. io_bind (sys_read fd 111) (\<lambda>(r, d).
     if r = 0 then io_ret (Inr ()) else if r < 0 then io_ub else io_seq (emit (CWrite 1 d)) (io_ret (Inl ()))))"

definition testfork_main :: "(nat \<Rightarrow> int) \<Rightarrow> int \<Rightarrow> (int, 'p, 'm) io" where
  "testfork_main r pid =
     io_bind need_pipe (\<lambda>(rd, wr).
     io_bind (sys_int CFork) (\<lambda>p.
     if p = 0 then
       io_seq (io_block [emit (CClose rd), emit (CPrint (''Potomek PID '' @ show_int pid @ [LF]))])
      (io_seq (io_block (map (\<lambda>i. io_seq (emit (CWrite wr (show_int (r i mod 100000) @ [LF]))) (sys_usleep 500000)) [0..<10]))
      (io_seq (emit (CClose wr)) (io_ret 0)))
     else
       io_seq (emit (CClose wr)) (io_seq (io_while (copy_on rd) ())
      (io_seq (io_block [emit (CClose rd), emit (CPrint (''Rodic PID '' @ show_int pid @ [LF])), wait_one, emit (CPrint (''Rodic konci...'' @ [LF]))])
        (io_ret 0)))))"

section \<open>Processes\<close>

text \<open>\<open>fork.cpp\<close>, \<open>u01\<close> to \<open>u04\<close>. \<open>self\<close> and \<open>parent\<close> are the numbers of the process and its parent.\<close>

fun fork_two :: "int \<Rightarrow> nat \<Rightarrow> nat \<Rightarrow> (unit, 'p, 'm) io" where
  "fork_two self i 0 = io_ret ()"
| "fork_two self i (Suc n) =
     io_bind (sys_int CFork) (\<lambda>p.
     io_seq (io_when (p = 0) (io_block [emit (CPrint (''[child '' @ show_nat i @ '']My PID='' @ show_int self @ [LF])), sleep_s 1, io_exit 0]))
       (fork_two self (i + 1) n))"

definition fork_main :: "int \<Rightarrow> (int, 'p, 'm) io" where
  "fork_main self = io_seq (fork_two self 0 2)
     (io_seq (io_block [wait_one, wait_one, emit (CPrint (''Vsetky deti skoncili, rodic konci...'' @ [LF]))]) (io_ret 0))"

definition u01_main :: "int \<Rightarrow> int \<Rightarrow> (int, 'p, 'm) io" where
  "u01_main self parent =
     io_bind (sys_int CFork) (\<lambda>p.
     if p < 0 then io_seq (perror ''fork'') (io_ret 1)
     else
     io_seq (if p > 0 then io_block [emit (CPrint (''PID rodica='' @ show_int self @ [LF])), emit (CPrint (''PID dietata='' @ show_int p @ [LF]))]
             else io_block [emit (CPrint (''PID dietata='' @ show_int self @ [LF])), emit (CPrint (''PPID dietata='' @ show_int parent @ [LF]))])
       (io_ret 0))"

definition u02_main :: "int \<Rightarrow> (int, 'p, 'm) io" where
  "u02_main self =
     io_bind (sys_int CFork) (\<lambda>p.
     if p < 0 then io_seq (perror ''fork error'') (io_ret 1)
     else
     io_seq (if p > 0 then io_block [wait_one, emit (CPrint (''Dieta skoncilo'' @ [LF]))]
             else io_block [emit (CPrint (''Dieta start: PID='' @ show_int self @ ''...'' @ [LF])), sleep_s 3, emit (CPrint (''Dieta koniec'' @ [LF]))])
       (io_ret 0))"

fun u03_start :: "int \<Rightarrow> int \<Rightarrow> nat \<Rightarrow> nat \<Rightarrow> (unit, 'p, 'm) io" where
  "u03_start self parent i 0 = io_ret ()"
| "u03_start self parent i (Suc n) =
     io_bind (sys_int CFork) (\<lambda>p.
     io_seq (io_when (p = -1) (perror ''fork failed''))
    (io_seq (if p = 0 then
         io_seq (emit (CPrint (''[child] i='' @ show_nat i @ '' PID='' @ show_int self @ '' PPID='' @ show_int parent @ [LF]))) (io_exit (10 + int i))
       else emit (CPrint (''[parent] PID='' @ show_int self @ '' vytvoril som dieta '' @ show_int p @ [LF])))
    (u03_start self parent (i + 1) n)))"

definition WIFEXITED :: "int \<Rightarrow> bool" where
  "WIFEXITED status \<longleftrightarrow> status mod 128 = 0"

text \<open>\<open>st\<close> is the status \<open>wait\<close> stores, which stays 0 if it fails.\<close>

definition u03_wait :: "int \<Rightarrow> (unit, 'p, 'm) io" where
  "u03_wait st =
     io_bind (sys_int (CWaitpid (-1))) (\<lambda>child.
     let status = (if child = -1 then 0 else st) in
     emit (CPrint (if WIFEXITED status
       then ''[parent] ukoncene dieta PID = '' @ show_int child @ '' exit='' @ show_int (WEXITSTATUS status) @ [LF]
       else ''[parent] dieta PID='' @ show_int child @ '' neskopncilo normalne'' @ [LF])))"

definition u03_main :: "int \<Rightarrow> int \<Rightarrow> (nat \<Rightarrow> int) \<Rightarrow> (int, 'p, 'm) io" where
  "u03_main self parent st = io_seq (u03_start self parent 0 3) (io_seq (io_block (map (\<lambda>i. u03_wait (st i)) [0..<3])) (io_ret 0))"

text \<open>A \<open>long\<close> as an \<open>int\<close>: the low 32 bits.\<close>

definition int_of_long :: "int \<Rightarrow> int" where
  "int_of_long x = (x + 2 ^ 31) mod 2 ^ 32 - 2 ^ 31"

fun sum_from :: "int \<Rightarrow> int \<Rightarrow> nat \<Rightarrow> int" where
  "sum_from acc i 0 = acc"
| "sum_from acc i (Suc n) = sum_from (acc + i) (i + 1) n"

definition u04_main :: "string list \<Rightarrow> (int, 'p, 'm) io" where
  "u04_main argv =
     (if length argv \<noteq> 2 then io_seq (emit (CWrite STDERR_FILENO (''Neplatny pocet argumentov'' @ [LF]))) (io_ret 1)
      else
      let N = int_of_long (strtol (argv ! 1)) in
      if N > 50 \<or> N < 0 then io_seq (emit (CWrite STDERR_FILENO (''Cislo nie je v rozsahu'' @ [LF]))) (io_ret 1)
      else
      io_bind (sys_int CFork) (\<lambda>p.
      if p = -1 then io_seq (perror ''fork zlyhal'') (io_ret 1)
      else if p = 0 then io_exit (sum_from 0 0 (nat N + 1) mod 256)
      else
      io_bind (pop (CWaitpid (-1))) (\<lambda>r.
      let status = (case r of Ret st \<Rightarrow> st | _ \<Rightarrow> 0) in
      io_seq (io_when (p > 0 \<and> WIFEXITED status)
        (emit (CPrint (''Suma(0..'' @ show_int N @ '') mod 256 = '' @ show_int (WEXITSTATUS status) @ [LF]))))
        (io_ret 0))))"

text \<open>\<open>clock.cpp\<close> of \<open>uloha6\<close>, the program that the task compiles.\<close>

definition clock_main :: "(int, 'p, 'm) io" where
  "clock_main =
     io_seq (emit (CPrint (''clock: start'' @ [LF])))
    (io_seq (io_block (map (\<lambda>i. io_seq (emit (CPrint (''tick '' @ show_nat i @ [LF]))) (sys_usleep 200000)) [1..<6]))
    (io_seq (emit (CPrint (''clock: end'' @ [LF]))) (io_ret 0)))"

section \<open>Waiting with poll\<close>

text \<open>\<open>poll\<close> with a time limit: what it says of the descriptors, nothing when the time is over (\<open>Ret 0\<close>).\<close>

definition poll_timed :: "int list \<Rightarrow> ((bool \<times> bool) list option, 'p, 'm) io" where
  "poll_timed fds = io_bind (pop (CPoll fds)) (\<lambda>r. case r of
      Events es \<Rightarrow> io_ret (Some es)
    | Ret n \<Rightarrow> io_ret (if n = 0 then Some [] else None)
    | _ \<Rightarrow> io_ret None)"

definition child_writer :: "int \<Rightarrow> string \<Rightarrow> int \<Rightarrow> (unit, 'p, 'm) io" where
  "child_writer write_fd t delay = io_block [sys_usleep delay, emit (CWrite write_fd t)]"

text \<open>One of the two pipes; the state is its descriptor and the number of open pipes. At the end of its data a pipe can be counted twice.\<close>

definition pipe_data :: "nat \<Rightarrow> int \<times> int \<Rightarrow> (int \<times> int, 'p, 'm) io" where
  "pipe_data i = (\<lambda>(fd, open_streams).
     io_bind (sys_read fd 255) (\<lambda>(n, d).
     if n > 0 then io_seq (emit (CPrint (''[pipe'' @ show_nat (i + 1) @ ''] '' @ cstr d))) (io_ret (fd, open_streams))
     else if n = 0 then io_seq (emit (CClose fd)) (io_ret (-1, open_streams - 1))
     else io_ret (fd, open_streams)))"

definition pipe_event :: "nat \<Rightarrow> bool \<times> bool \<Rightarrow> int \<times> int \<Rightarrow> (int \<times> int, 'p, 'm) io" where
  "pipe_event i ev st =
     (if fst st = -1 then io_ret st
      else
      io_bind (if fst ev then pipe_data i st else io_ret st) (\<lambda>(fd, open_streams).
      if snd ev then io_seq (emit (CClose fd)) (io_ret (-1, open_streams - 1)) else io_ret (fd, open_streams)))"

definition two_pipes_round :: "int \<times> int \<times> int \<Rightarrow> ((int \<times> int \<times> int) + unit, 'p, 'm) io" where
  "two_pipes_round = (\<lambda>(f1, f2, open_streams).
     if open_streams > 0 then
       io_bind (poll_timed [f1, f2]) (\<lambda>p. case p of
         None \<Rightarrow> io_seq (perror ''poll'') (io_ret (Inr ()))
       | Some es \<Rightarrow>
         if es = [] then io_seq (emit (CPrint ([CHR 0xE2, CHR 0x80, CHR 0xA6] @ ''st'' @ [CHR 0xC3, CHR 0xA1] @ ''le '' @ [CHR 0xC4, CHR 0x8D] @ ''ak'' @
             [CHR 0xC3, CHR 0xA1] @ ''m'' @ [CHR 0xE2, CHR 0x80, CHR 0xA6, LF]))) (io_ret (Inl (f1, f2, open_streams)))
         else
           io_bind (pipe_event 0 (ev_of es 0) (f1, open_streams)) (\<lambda>(f1, open_streams).
           io_bind (pipe_event 1 (ev_of es 1) (f2, open_streams)) (\<lambda>(f2, open_streams).
           io_ret (Inl (f1, f2, open_streams)))))
     else io_ret (Inr ()))"

definition reap :: "unit \<Rightarrow> (unit + unit, 'p, 'm) io" where
  "reap = (\<lambda>_. io_bind (sys_int (CWaitpid (-1))) (\<lambda>r. io_ret (if r > 0 then Inl () else Inr ())))"

definition two_pipes_main :: "(int, 'p, 'm) io" where
  "two_pipes_main =
     pipe_or ''pipe'' (\<lambda>p1. pipe_or ''pipe'' (\<lambda>p2.
     io_bind (sys_int CFork) (\<lambda>c1.
     if c1 = -1 then io_seq (perror ''fork'') (io_ret 1)
     else if c1 = 0 then
       io_seq (io_block [emit (CClose (fst p1)), emit (CClose (fst p2)), emit (CClose (snd p2)),
         child_writer (snd p1) (''Ahoj z 1 - 1s'' @ [LF]) 1000000, child_writer (snd p1) (''Ahoj z 1 - 2s'' @ [LF]) 2000000, emit (CClose (snd p1))]) (io_exit 0)
     else
     io_bind (sys_int CFork) (\<lambda>c2.
     if c2 = -1 then io_seq (perror ''fork'') (io_ret 1)
     else if c2 = 0 then
       io_seq (io_block [emit (CClose (fst p2)), emit (CClose (fst p1)), emit (CClose (snd p1)),
         child_writer (snd p2) (''Ahoj z 2'' @ [LF]) 1500000, emit (CClose (snd p2))]) (io_exit 0)
     else
     io_seq (io_block [emit (CClose (snd p1)), emit (CClose (snd p2))])
    (io_seq (io_while two_pipes_round (fst p1, fst p2, 2))
    (io_seq (io_while reap ()) (io_ret 0)))))))"

text \<open>
  \<open>poll_stdin.cpp\<close>: the text is compared before its end is set; \<open>old\<close> is what the array held. \<open>strlen(buf) - 1\<close> wraps around.
\<close>

definition poll_stdin_main :: "string \<Rightarrow> (int, 'p, 'm) io" where
  "poll_stdin_main old =
     io_bind (poll_timed [STDIN_FILENO]) (\<lambda>p. case p of
       None \<Rightarrow> io_seq (perror ''poll'') (io_ret 1)
     | Some es \<Rightarrow>
       if es = [] then io_seq (emit (CPrint ([CHR 0xE2, CHR 0x8F, CHR 0xB1, CHR 0xEF, CHR 0xB8, CHR 0x8F] @ ''  timeout (ni'' @ [CHR 0xC4, CHR 0x8D] @ '' nepri'' @
           [CHR 0xC5, CHR 0xA1] @ ''lo)'' @ [LF]))) (io_ret 0)
       else if fst (ev_of es 0) then
         io_bind (sys_read STDIN_FILENO 255) (\<lambda>(n, d).
         if n > 0 then
           io_bind (buf_str (d @ drop (length d) old)) (\<lambda>s.
           if s = ''exit'' @ [LF] then io_ret 0
           else
           let len = length (cstr d) in
           io_seq (io_block [emit (CPrint ([CHR 0xF0, CHR 0x9F, CHR 0x92, CHR 0xAC] @ '' stdin: '' @ cstr d)),
             emit (CPrint (''Pocet znakov: '' @ show_nat (if len = 0 then 2 ^ 64 - 1 else len - 1) @ [LF]))]) (io_ret 0))
         else io_ret 0)
       else io_ret 0)"

section \<open>Threads with arguments\<close>

text \<open>
  \<open>pass_thread.cpp\<close> and \<open>pass_thread2.cpp\<close>: two threads add five primes each, and write the sum where their argument was.
  The threads share nothing, so only the order of their texts is open: \<open>second_first\<close>.
\<close>

definition primes :: "int list" where
  "primes = [2, 3, 5, 7, 11, 13, 17, 19, 23, 29]"

definition five_primes :: "nat \<Rightarrow> int option" where
  "five_primes a = (if a + 5 \<le> length primes then Some (sum_list (take 5 (drop a primes))) else None)"

definition rand_prime :: "nat \<Rightarrow> (int, 'p, 'm) io" where
  "rand_prime a = io_bind (nonnull (five_primes a)) (\<lambda>s.
     io_seq (emit (CPrint (''Sum thread '' @ show_nat a @ '' is: '' @ show_int s @ [LF]))) (io_ret s))"

definition prime_count :: "nat \<Rightarrow> (int, 'p, 'm) io" where
  "prime_count a = io_bind (nonnull (five_primes a)) (\<lambda>s.
     io_seq (emit (CPrint (''Local sum: '' @ show_int s @ [LF]))) (io_ret s))"

definition both_threads :: "(nat \<Rightarrow> (int, 'p, 'm) io) \<Rightarrow> bool \<Rightarrow> (int, 'p, 'm) io" where
  "both_threads thread second_first =
     (if second_first then io_bind (thread 5) (\<lambda>y. io_bind (thread 0) (\<lambda>x. io_ret (x + y)))
      else io_bind (thread 0) (\<lambda>x. io_bind (thread 5) (\<lambda>y. io_ret (x + y))))"

definition pass_main :: "bool \<Rightarrow> (int, 'p, 'm) io" where
  "pass_main second_first = io_bind (both_threads rand_prime second_first) (\<lambda>s.
     io_seq (emit (CPrint (''Global sum is: '' @ show_int s @ [LF]))) (io_ret 0))"

text \<open>\<open>failed i\<close>: whether the thread \<open>i\<close> could not be created; then \<open>main\<close> ends, and the first thread with it.\<close>

definition pass2_main :: "(nat \<Rightarrow> bool) \<Rightarrow> bool \<Rightarrow> (int, 'p, 'm) io" where
  "pass2_main failed second_first =
     (if failed 0 \<or> failed 1 then io_ret 1
      else io_bind (both_threads prime_count second_first) (\<lambda>s.
        io_seq (emit (CPrint (''Globl sum: '' @ show_int s))) (io_ret 0)))"

section \<open>Facts\<close>

text \<open>In either order the sum of the first ten primes is printed last.\<close>

lemma global_sum: "fst (both_threads rand_prime b w) = Val 129" "fst (both_threads prime_count b w) = Val 129"
  by (simp_all add: both_threads_def rand_prime_def prime_count_def five_primes_def primes_def nonnull_def io_simps)

lemma sum_from_range: "sum_from acc i n = acc + (\<Sum>k<n. i + int k)"
proof (induction n arbitrary: acc i)
  case 0
  then show ?case by simp
next
  case (Suc n)
  have "(\<Sum>k<Suc n. i + int k) = i + (\<Sum>k<n. (i + 1) + int k)"
    by (simp add: sum.lessThan_Suc_shift algebra_simps del: sum.lessThan_Suc)
  with Suc show ?case by simp
qed

lemma gauss: "2 * (\<Sum>k<n. int k) = int n * (int n - 1)"
  by (induction n) (simp_all add: algebra_simps)

text \<open>The child of \<open>u04\<close> exits with the sum of the numbers up to N modulo 256.\<close>

lemma child_sum: "2 * sum_from 0 0 (n + 1) = int n * (int n + 1)"
  using gauss [of "n + 1"] by (simp add: sum_from_range algebra_simps)

text \<open>What the parent of \<open>u04\<close> prints is the exit code of the child, since the wait status of a normal end is 256 times the code.\<close>

lemma status_of_exit: "0 \<le> c \<Longrightarrow> c < 256 \<Longrightarrow> WIFEXITED (c * 256) \<and> WEXITSTATUS (c * 256) = c"
  by (simp add: WIFEXITED_def WEXITSTATUS_def)

interpretation copies: event_loop "copy_on fd"
proof
  show "sane (copy_on fd s)" for s
    unfolding copy_on_def by (intro ext_intros)
  show "uses (copy_on fd s)" for s
    unfolding copy_on_def by (rule uses_bind_first [OF uses_sys(2)]) (intro ext_intros)
qed

interpretation reaps: event_loop reap
proof
  show "sane (reap s)" for s
    unfolding reap_def by (intro ext_intros)
  show "uses (reap s)" for s
    unfolding reap_def by (rule uses_bind_first [OF uses_sys(1)]) (intro ext_intros)
qed

lemma sane_pipe_event [ext_intros]: "sane (poll_timed fds)" "sane (pipe_data i st)" "sane (pipe_event i ev st)"
  unfolding pipe_event_def pipe_data_def poll_timed_def by (intro ext_intros)+

lemma uses_poll_timed: "(\<And>p. sane (f p)) \<Longrightarrow> uses (io_bind (poll_timed fds) f)"
  unfolding poll_timed_def by (rule uses_bind_first, rule uses_bind_first [OF uses_pop]) (intro ext_intros)+

interpretation two_pipes: bounded_loop two_pipes_round
proof
  show "sane (two_pipes_round s)" for s
    unfolding two_pipes_round_def by (intro ext_intros)
  fix s s' :: "int \<times> int \<times> int" and w w'
  obtain f1 f2 n where s: "s = (f1, f2, n)" by (cases s)
  have "n > 0 \<Longrightarrow> uses (two_pipes_round s)"
    unfolding s two_pipes_round_def by (simp, rule uses_poll_timed) (intro ext_intros)
  then show "two_pipes_round s w = (Val (Inl s'), w') \<Longrightarrow> length (w_oracle w') < length (w_oracle w)"
    by (cases "n > 0") (auto dest: usesD simp: s two_pipes_round_def io_ret_def)
qed

end
