(* ===== verification/GthreadSched.thy ===== *)
theory GthreadSched
  imports Gthreads
begin

text \<open>
  The rest of the thread library: the timer signal and the loop of \<open>gt_start_scheduler\<close>, the sleep that
  signals do not cut short, the build without preemption, whose switch \<open>gt_swtch\<close> saves five registers
  more, and the tables of the variants. What happens during one sleep of the main thread, signals and
  switches to the other threads included, is a function on the state.
\<close>

section \<open>The timer signal\<close>

record alarm =
  al_handler :: bool
  al_blocked :: bool
  al_period :: int

definition gt_sig_start :: "alarm \<Rightarrow> alarm" where
  "gt_sig_start a = a\<lparr>al_handler := True, al_period := TimePeriod * 1000\<rparr>"

definition gt_sig_stop :: "alarm \<Rightarrow> alarm" where
  "gt_sig_stop a = a\<lparr>al_period := 0, al_handler := False\<rparr>"

definition gt_sig_mask_reset :: "alarm \<Rightarrow> alarm" where
  "gt_sig_mask_reset a = a\<lparr>al_blocked := False\<rparr>"

text \<open>
  The signal is blocked while its handler runs, and the handler may switch to another thread before it
  returns; so it lets the signal in again first. Without a handler the signal ends the process (\<open>None\<close>).
\<close>

definition sigalrm :: "64 word \<Rightarrow> gt \<times> alarm \<Rightarrow> (gt \<times> alarm) option" where
  "sigalrm ra = (\<lambda>(s, a).
     if al_blocked a then Some (s, a)
     else if \<not> al_handler a then None
     else Some (gt_sig_handle ra s, gt_sig_mask_reset (a\<lparr>al_blocked := True\<rparr>)))"

text \<open>The loop of the main thread; \<open>None\<close> when it is still waiting after the given sleeps.\<close>

fun idle_loop :: "(gt \<Rightarrow> gt) list \<Rightarrow> gt \<Rightarrow> gt option" where
  "idle_loop [] s = (if scheduler_goes_on s then None else Some s)"
| "idle_loop (f # fs) s = (if scheduler_goes_on s then idle_loop fs (f s) else Some s)"

definition gt_start_scheduler :: "(gt \<Rightarrow> gt) list \<Rightarrow> gt \<times> alarm \<Rightarrow> (gt \<times> alarm) option" where
  "gt_start_scheduler sleeps = (\<lambda>(s, a). map_option (\<lambda>s. (s, gt_sig_stop (gt_sig_start a))) (idle_loop sleeps s))"

section \<open>Sleeping through signals\<close>

text \<open>What \<open>nanosleep\<close> answers: done, interrupted with the seconds and nanoseconds left, or an error.\<close>

datatype nano = Slept | Interrupted int int | Refused

fun uninterruptible_nano_sleep :: "nano list \<Rightarrow> int option" where
  "uninterruptible_nano_sleep [] = None"
| "uninterruptible_nano_sleep (Slept # ns) = Some 0"
| "uninterruptible_nano_sleep (Interrupted sec nsec # ns) = (if sec > 0 \<or> nsec > 0 then uninterruptible_nano_sleep ns else Some 0)"
| "uninterruptible_nano_sleep (Refused # ns) = Some (-1)"

section \<open>Without preemption\<close>

record more_regs =
  r15 :: "64 word"
  r14 :: "64 word"
  r13 :: "64 word"
  r12 :: "64 word"
  rbx :: "64 word"

text \<open>The five registers of the processor, and those saved in the table.\<close>

record coop = gt +
  cpu_more :: more_regs
  regs_more :: "nat \<Rightarrow> more_regs"

text \<open>\<open>gt_swtch\<close> runs on into \<open>gt_pree_swtch\<close>.\<close>

definition gt_swtch :: "64 word \<Rightarrow> nat \<Rightarrow> nat \<Rightarrow> coop \<Rightarrow> coop" where
  "gt_swtch ra old new s =
     (let m = (regs_more s)(old := cpu_more s)
      in gt_pree_swtch ra old new (s\<lparr>regs_more := m, cpu_more := m new\<rparr>))"

definition coop_yield :: "64 word \<Rightarrow> coop \<Rightarrow> int \<times> coop" where
  "coop_yield ra s = (case scan (g_gttbl s) (g_gtcur s) (g_gtcur s) 0 of
      Inl r \<Rightarrow> (r, s)
    | Inr p \<Rightarrow>
        (let old = g_gtcur s;
             s = (if state_of s old = Running then set_state old Ready s else s);
             s = set_state p Running s
         in (1, gt_swtch ra old p (s\<lparr>g_gtcur := p\<rparr>))))"

text \<open>The main thread yields until nobody else is left; \<open>None\<close> when it still does after the given turns.\<close>

fun coop_scheduler :: "64 word \<Rightarrow> (coop \<Rightarrow> coop) list \<Rightarrow> coop \<Rightarrow> coop option" where
  "coop_scheduler ra [] s = None"
| "coop_scheduler ra (f # fs) s = (case coop_yield ra s of (r, s') \<Rightarrow>
     if r = 0 then Some s' else coop_scheduler ra fs (if r = 1 then f s' else s'))"

section \<open>The tables of the variants\<close>

text \<open>The variants also clear the saved registers.\<close>

definition learn_init :: "'z gt_scheme \<Rightarrow> 'z gt_scheme" where
  "learn_init s = (let s = gt_init s in s\<lparr>g_gttbl := map (\<lambda>c. c\<lparr>regs := \<lparr>rsp = 0, rbp = 0\<rparr>\<rparr>) (g_gttbl s)\<rparr>)"

definition test_init :: "gt_test \<Rightarrow> gt_test" where
  "test_init s = (learn_init s)\<lparr>cpu_ticks := (\<lambda>i. if i < length (g_gttbl s) then 0 else cpu_ticks s i), g_sys_ticks := 0\<rparr>"

definition test_go :: "64 word \<Rightarrow> string option \<Rightarrow> 64 word \<Rightarrow> 64 word option \<Rightarrow> gt_test \<Rightarrow> int \<times> gt_test" where
  "test_go stop_addr t_name t_run l_stack s = (case gt_go stop_addr t_name t_run l_stack s of (idx, s') \<Rightarrow>
     (idx, if idx < 0 then s' else s'\<lparr>cpu_ticks := (cpu_ticks s')(nat idx := 0)\<rparr>))"

text \<open>The column of the ticks shows those of the system in every line. Products wrap around.\<close>

definition show_u64 :: "64 word \<Rightarrow> string" where
  "show_u64 x = show_nat (unat x)"

definition test_line :: "gt_test \<Rightarrow> nat \<Rightarrow> string" where
  "test_line s i =
     (let p = g_gttbl s ! i in
      (if i = g_gtcur s then CHR ''*'' else CHR '' '') # pad_left 2 (show_int (t_id p)) @ '' '' @
      pad_right 9 (gt_state_str (thread_state p)) @ '' '' @ pad_left 8 (show_u64 (g_sys_ticks s)) @ '' '' @
      pad_left 10 (show_u64 (cpu_ticks s i * word_of_int TimePeriod)) @ ''   '' @ name p @ [LF])"

definition test_task_list :: "gt_test \<Rightarrow> string list" where
  "test_task_list s =
     [''ID  State      Ticks     Time(ms)   Name'' @ [LF], ''----------------------------------------------'' @ [LF]] @
     map (test_line s) (filter (\<lambda>i. thread_state (g_gttbl s ! i) \<noteq> Unused) [0..<length (g_gttbl s)]) @
     [LF # ''SYSTEM: ticks='' @ show_u64 (g_sys_ticks s) @ ''  cpu_ticks='' @ show_u64 (cpu_ticks s (g_gtcur s)) @ [LF, LF] @
      ''  time(ms)='' @ show_u64 (g_sys_ticks s * word_of_int TimePeriod) @ [LF, LF]]"

section \<open>Facts\<close>

text \<open>The handler leaves the signal open, also when it switches to another thread.\<close>

lemma alarm_stays_open:
  "sigalrm ra (s, a) = Some (s', a') \<Longrightarrow> \<not> al_blocked a \<Longrightarrow> \<not> al_blocked a' \<and> al_handler a'"
  by (auto simp: sigalrm_def gt_sig_mask_reset_def split: if_splits)

text \<open>
  The scheduler ends exactly when the status of the last switch has become 0, with the handler and the
  timer removed.
\<close>

lemma scheduler_stops:
  "gt_start_scheduler sleeps (s, a) = Some (s', a') \<Longrightarrow> g_gt_yield_status s' = 0 \<and> al_period a' = 0 \<and> \<not> al_handler a'"
  by (induction sleeps s rule: idle_loop.induct)
    (auto simp: gt_start_scheduler_def scheduler_goes_on_def gt_sig_stop_def split: if_splits)

text \<open>However often it is interrupted, the sleep ends with 0, if \<open>nanosleep\<close> itself never fails and is done at last.\<close>

lemma sleeps_through: "Refused \<notin> set ns \<Longrightarrow> uninterruptible_nano_sleep (ns @ [Slept]) = Some 0"
  by (induction ns rule: uninterruptible_nano_sleep.induct) auto

text \<open>
  All callee-saved registers survive: a thread switched away from and back to finds them as they were, and goes on behind
  its call, as long as its table entry and the top of its stack were not touched.
\<close>

lemma coop_roundtrip:
  assumes "s1 = gt_swtch ra old new s" and "old < length (g_gttbl s)"
    and "regs_more s2 old = regs_more s1 old" and "regs (g_gttbl s2 ! old) = regs (g_gttbl s1 ! old)"
    and "memory s2 (rsp (cpu s) - 8) = memory s1 (rsp (cpu s) - 8)"
    and "x \<noteq> old" and "rsp (cpu s2) - 8 \<noteq> rsp (cpu s) - 8"
  shows "cpu_more (gt_swtch ra' x old s2) = cpu_more s \<and> cpu (gt_swtch ra' x old s2) = cpu s \<and> rip (gt_swtch ra' x old s2) = ra"
  using assms by (auto simp: gt_swtch_def gt_pree_swtch_def upd_thread_def Let_def)

end
