(* ===== verification/GthreadDemos.thy ===== *)
theory GthreadDemos
  imports GthreadSched
begin

text \<open>
  The programs on top of the thread library: \<open>main.c\<close> (the same as \<open>main2.c\<close> and the one of
  \<open>osy-gthreads-main-learn\<close>), \<open>heater.c\<close>, and \<open>fg.c\<close> and \<open>main.c\<close> of \<open>osy-gthreads-main_test\<close>.

  A thread is given by its segments: what it does from one return of a library call that can switch to
  another thread to the next such call. A segment takes and returns the state of the library and of the
  program, with the texts it prints; \<open>ra\<close> is the address behind the call. \<open>None\<close> is the undefined index of
  \<open>gt_resume\<close>.
\<close>

section \<open>Hello, Sleep and Ring\<close>

definition hello_segment :: "64 word \<Rightarrow> gt \<Rightarrow> string list \<times> gt" where
  "hello_segment ra s = ([''Hello world!'' @ [LF]], gt_delay ra 1000 s)"

text \<open>The first segment of a loop that begins with the call prints nothing.\<close>

definition sleep_segment :: "bool \<Rightarrow> 64 word \<Rightarrow> gt \<Rightarrow> string list \<times> gt" where
  "sleep_segment woken ra s = (if woken then [''Please do not wake up!'' @ [LF]] else [], gt_suspend ra s)"

definition ring_segment :: "int \<Rightarrow> bool \<Rightarrow> 64 word \<Rightarrow> gt \<Rightarrow> (string list \<times> gt) option" where
  "ring_segment sleep_id woken ra s =
     (if woken then map_option (\<lambda>s. ([''Ring! Ring! Ring!'' @ [LF]], gt_delay ra 5000 s)) (gt_resume sleep_id s)
      else Some ([], gt_delay ra 5000 s))"

text \<open>
  The start of a program: the addresses of the functions and the results of \<open>malloc\<close> are parameters. It returns the
  numbers of the threads in the order of their creation.
\<close>

fun go_all :: "64 word \<Rightarrow> (string \<times> 64 word \<times> 64 word option) list \<Rightarrow> 'z gt_scheme \<Rightarrow> int list \<times> 'z gt_scheme" where
  "go_all stop_addr [] s = ([], s)"
| "go_all stop_addr ((nm, run, stack) # ts) s =
     (case gt_go stop_addr (Some nm) run stack s of (idx, s) \<Rightarrow>
       (case go_all stop_addr ts s of (ids, s) \<Rightarrow> (idx # ids, s)))"

definition hello_start :: "64 word \<Rightarrow> (string \<Rightarrow> 64 word) \<Rightarrow> (nat \<Rightarrow> 64 word option) \<Rightarrow> gt \<Rightarrow> int \<times> string list \<times> gt" where
  "hello_start stop_addr addr stacks s =
     (case go_all stop_addr [(''Hello'', addr ''task_hello'', stacks 0), (''Sleep'', addr ''task_sleep'', stacks 1),
         (''Ring'', addr ''task_ring'', stacks 2)] (gt_init s) of
       (ids, s) \<Rightarrow> (ids ! 1, gt_task_list s, s))"

definition hello_main ::
  "64 word \<Rightarrow> (string \<Rightarrow> 64 word) \<Rightarrow> (nat \<Rightarrow> 64 word option) \<Rightarrow> (gt \<Rightarrow> gt) list \<Rightarrow> gt \<times> alarm \<Rightarrow> (string list \<times> gt \<times> alarm) option" where
  "hello_main stop_addr addr stacks sleeps = (\<lambda>(s, a).
     (case hello_start stop_addr addr stacks s of
       (_, out, s) \<Rightarrow> map_option (\<lambda>r. (out @ [''Threads finished'' @ [LF]], r)) (gt_start_scheduler sleeps (s, a))))"

section \<open>The heater\<close>

record house =
  heater_id :: int
  cooler_id :: int
  temperature :: int

text \<open>\<open>r\<close> is the result of \<open>rand\<close>; the temperature stays far inside \<open>int\<close>.\<close>

definition degrees :: string where
  "degrees = [CHR 0xC2, CHR 0xB0, CHR ''C'']"

definition waking :: "string \<Rightarrow> string \<Rightarrow> string" where
  "waking how whom = ''[SENSOR] Temperature '' @ how @ '' '' @ [CHR 0xE2, CHR 0x86, CHR 0x92] @ '' waking '' @ whom @ [LF]"

definition sensor_segment :: "int \<Rightarrow> 64 word \<Rightarrow> house \<times> gt \<Rightarrow> (string list \<times> house \<times> gt) option" where
  "sensor_segment r ra = (\<lambda>(h, s).
     let h = h\<lparr>temperature := temperature h + (r mod 3) - 1\<rparr>;
         line = ''[SENSOR] Temperature: '' @ show_int (temperature h) @ degrees @ [LF] in
     if temperature h < 18 then
       map_option (\<lambda>s. ([line, waking ''low'' ''HEATER''], h\<lparr>temperature := temperature h + 2\<rparr>, gt_delay ra 500 s)) (gt_resume (heater_id h) s)
     else if temperature h > 23 then
       map_option (\<lambda>s. ([line, waking ''high'' ''COOLER''], h\<lparr>temperature := temperature h - 2\<rparr>, gt_delay ra 500 s)) (gt_resume (cooler_id h) s)
     else Some ([line], h, gt_delay ra 500 s))"

text \<open>
  Heater and cooler are alike: asleep until resumed, on for two seconds, off and asleep again. The segments are
  numbered: 0 at the start, 1 after the suspension, 2 after the delay.
\<close>

definition machine_segment :: "string \<Rightarrow> string \<Rightarrow> string \<Rightarrow> nat \<Rightarrow> 64 word \<Rightarrow> gt \<Rightarrow> string list \<times> nat \<times> gt" where
  "machine_segment nm on_text off_text k ra s =
     (let to_sleep = nm @ '' Going to sleep...'' @ [LF] in
      if k = 0 then ([to_sleep], 1, gt_suspend ra s)
      else if k = 1 then ([on_text], 2, gt_delay ra 2000 s)
      else ([off_text, to_sleep], 1, gt_suspend ra s))"

definition heater_segment :: "nat \<Rightarrow> 64 word \<Rightarrow> gt \<Rightarrow> string list \<times> nat \<times> gt" where
  "heater_segment = machine_segment ''[HEATER]'' (''[HEATER] Heating ON! '' @ [CHR 0xF0, CHR 0x9F, CHR 0x94, CHR 0xA5, LF]) (''[HEATER] Heating OFF.'' @ [LF])"

definition cooler_segment :: "nat \<Rightarrow> 64 word \<Rightarrow> gt \<Rightarrow> string list \<times> nat \<times> gt" where
  "cooler_segment = machine_segment ''[COOLER]'' (''[COOLER] Cooling ON! '' @ [CHR 0xE2, CHR 0x9D, CHR 0x84, CHR 0xEF, CHR 0xB8, CHR 0x8F, LF]) (''[COOLER] Cooling OFF.'' @ [LF])"

text \<open>A round of the setter, which reads one character; \<open>c\<close> is what the variable holds afterwards, also at the end of the input.\<close>

definition set_temp_round :: "char \<Rightarrow> house \<Rightarrow> string list \<times> house" where
  "set_temp_round c h =
     (if c = CHR ''+'' then
       (let h = h\<lparr>temperature := temperature h + 1\<rparr> in ([''Temperature raised to: '' @ show_int (temperature h) @ [LF]], h))
      else if c = CHR ''-'' then
       (let h = h\<lparr>temperature := temperature h - 1\<rparr> in ([''Temperature lowered to: '' @ show_int (temperature h) @ [LF]], h))
      else ([], h))"

definition heater_start :: "64 word \<Rightarrow> (string \<Rightarrow> 64 word) \<Rightarrow> (nat \<Rightarrow> 64 word option) \<Rightarrow> gt \<Rightarrow> house \<times> gt" where
  "heater_start stop_addr addr stacks s =
     (case go_all stop_addr [(''Sensor'', addr ''task_sensor'', stacks 0), (''Heater'', addr ''task_heater'', stacks 1),
         (''Cooler'', addr ''task_cooler'', stacks 2), (''Setter'', addr ''set_temp'', stacks 3)] (gt_init s) of
       (ids, s) \<Rightarrow> (\<lparr>heater_id = ids ! 1, cooler_id = ids ! 2, temperature = 21\<rparr>, s))"

definition heater_main ::
  "64 word \<Rightarrow> (string \<Rightarrow> 64 word) \<Rightarrow> (nat \<Rightarrow> 64 word option) \<Rightarrow> (gt \<Rightarrow> gt) list \<Rightarrow> gt \<times> alarm \<Rightarrow> (gt \<times> alarm) option" where
  "heater_main stop_addr addr stacks sleeps = (\<lambda>(s, a). gt_start_scheduler sleeps (snd (heater_start stop_addr addr stacks s), a))"

section \<open>Counting threads\<close>

text \<open>
  \<open>f\<close> and \<open>g\<close>: each call takes a number from the counter of its function and counts down, sleeping a millisecond in
  between. The answers of \<open>nanosleep\<close> are parameters; \<open>None\<close> while it sleeps.
\<close>

fun count_down :: "char \<Rightarrow> int \<Rightarrow> nat \<Rightarrow> (nat \<Rightarrow> nano list) \<Rightarrow> string list option" where
  "count_down nm t_number 0 naps = Some []"
| "count_down nm t_number (Suc n) naps =
     (case uninterruptible_nano_sleep (naps n) of
       None \<Rightarrow> None
     | Some _ \<Rightarrow> map_option (\<lambda>ls. (nm # '' Thread id: '' @ show_int t_number @ '' count: '' @ show_int (int n) @ [LF]) # ls) (count_down nm t_number n naps))"

text \<open>The result is the new value of the static counter and what is printed.\<close>

definition counting_thread :: "char \<Rightarrow> nat \<Rightarrow> (nat \<Rightarrow> nano list) \<Rightarrow> int \<Rightarrow> int \<times> string list option" where
  "counting_thread nm cnt naps x = (x + 1, count_down nm (x + 1) cnt naps)"

definition fg_start :: "64 word \<Rightarrow> (string \<Rightarrow> 64 word) \<Rightarrow> (nat \<Rightarrow> 64 word option) \<Rightarrow> gt_test \<Rightarrow> string list \<times> gt_test" where
  "fg_start stop_addr addr stacks s =
     (let s = snd (test_go stop_addr (Some ''f'') (addr ''f'') (stacks 0) (test_init s));
          s = snd (test_go stop_addr (Some ''g'') (addr ''g'') (stacks 1) s)
      in (test_task_list s, s))"

text \<open>\<open>main.c\<close> of \<open>osy-gthreads-main_test\<close>: \<open>k\<close> is the static counter of the rounds of Hello, every fifth of which prints the list.\<close>

definition hello_list_texts :: "int \<Rightarrow> gt_test \<Rightarrow> int \<times> string list" where
  "hello_list_texts k s = (k + 1, (''Hello world!'' @ [LF]) # (if (k + 1) mod 5 = 0 then test_task_list s else []))"

fun test_go_all :: "64 word \<Rightarrow> (string \<times> 64 word \<times> 64 word option) list \<Rightarrow> gt_test \<Rightarrow> int list \<times> gt_test" where
  "test_go_all stop_addr [] s = ([], s)"
| "test_go_all stop_addr ((nm, run, stack) # ts) s =
     (case test_go stop_addr (Some nm) run stack s of (idx, s) \<Rightarrow>
       (case test_go_all stop_addr ts s of (ids, s) \<Rightarrow> (idx # ids, s)))"

definition test_start :: "64 word \<Rightarrow> (string \<Rightarrow> 64 word) \<Rightarrow> (nat \<Rightarrow> 64 word option) \<Rightarrow> gt_test \<Rightarrow> int \<times> string list \<times> gt_test" where
  "test_start stop_addr addr stacks s =
     (case test_go_all stop_addr [(''f'', addr ''f'', stacks 0), (''f'', addr ''f'', stacks 1), (''g'', addr ''g'', stacks 2), (''g'', addr ''g'', stacks 3),
         (''Hello'', addr ''task_hello'', stacks 4), (''Sleep'', addr ''task_sleep'', stacks 5), (''Ring'', addr ''task_ring'', stacks 6)] (test_init s) of
       (ids, s) \<Rightarrow> (ids ! 5, test_task_list s, s))"

section \<open>Facts\<close>

text \<open>Left alone, the sensor keeps the temperature between 17 and 24 degrees, whatever numbers it draws.\<close>

lemma sensor_range:
  assumes "sensor_segment r ra (h, s) = Some (out, h', s')" and "17 \<le> temperature h" and "temperature h \<le> 24"
  shows "17 \<le> temperature h' \<and> temperature h' \<le> 24"
proof -
  have "0 \<le> r mod 3" "r mod 3 < 3" by simp_all
  then show ?thesis using assms by (auto simp: sensor_segment_def Let_def split: if_splits)
qed

end
