(* ===== verification/Spec2Isabelle.thy ===== *)
theory Spec2Isabelle
  imports PcMainProps GthreadProps ServerProps QueueProps CircleProps GameProps JobProps LineProps
    Du04Client ExamClientProps FollowerProps PollProps
    SlotProps ToolProps NumberProps ProcessDrills GthreadDemos
begin

text \<open>
  A verification library for the programs of an operating systems course: socket servers and clients
  with processes or threads, producers and consumers over shared memory, semaphores and message
  queues, and a small library of user-space threads.

  \<^bold>\<open>The model.\<close> A program is a function on a \<open>world\<close> (theory \<open>Posix\<close>): what the environment will
  answer to the calls still to come (an oracle), the calls made so far, \<open>errno\<close>, the debug level, the
  globals of the program and the kernel objects it shares with other processes. Every call that can
  block, fail or return data takes one entry of the oracle, and an entry may also say what other
  processes have made of the shared objects meanwhile; so a theorem about all worlds is one about all
  clients, all failures and all interleavings at calls. A run ends with a value, with \<open>exit\<close>, waiting
  for ever in a call (\<open>Blocked\<close>) or in undefined behaviour (\<open>UB\<close>: an access outside an array, a null
  pointer, an overflow, a format without its argument). \<open>fork\<close> returns what the oracle says: a run
  follows the parent or the child.

  A loop that the code writes as \<open>while (1)\<close> is \<open>io_while\<close> (theory \<open>Run\<close>) with one round of fuel for
  each event still to come and one more; the locales \<open>bounded_loop\<close> and \<open>event_loop\<close>, interpreted for
  the loops of the programs, show that this is enough: the model never runs out of fuel, and the loop
  is the fixed point of its unfolding.

  \<^bold>\<open>Shared parts.\<close>
  \<^item> \<open>Prelude\<close>: collections of rules and general facts; \<open>CString\<close>: the C string functions, with \<open>atoi\<close>,
    \<open>printf\<close> and \<open>strtok\<close>; \<open>Posix\<close>, \<open>Run\<close>: the process model and its loops; \<open>Guarantee\<close>: a
    rely and guarantee logic for undefined behaviour and invariants of shared memory.
  \<^item> \<open>Ring\<close>: a bounded ring refines a list (the locale \<open>bounded_fifo\<close>, interpreted for each of the
    four rings of the programs); \<open>Protocol\<close>: the semaphore protocol of producers and consumers as a
    step relation over a bag of clients, with its invariant, the order of the items and the absence
    of deadlock, for any ring that meets the contract.
  \<^item> \<open>Server\<close>: what nearly all servers share (\<open>log_msg\<close>, arguments, listening socket, the waiting
    and talking loops; \<open>cv_skuska/socket-demo/socket_srv.cpp\<close>); \<open>ForkServer\<close>: the accept loop of the
    servers that start a process per client; \<open>Client\<close>: the relay client.

  \<^bold>\<open>Programs.\<close>
  \<^item> \<open>PcServer\<close>, \<open>PcServerMain\<close>: \<open>DU/DU05_test/socket_srv.cpp\<close>, one process per client, a ring of
    eight lines in shared memory and four named semaphores, or a message queue. \<open>PcQueueProps\<close>: the
    queue in every interleaving; \<open>PcCodeProps\<close>: the code implements the steps of the protocol,
    and its limits and time-outs; \<open>PcSafety\<close>: no undefined behaviour under interference;
    \<open>PcMainProps\<close>: start, sessions, console and end.
  \<^item> \<open>ClientFiles\<close>, \<open>PcClient\<close>: \<open>DU/DU05_test/socket_cl.cpp\<close>; \<open>Du05Client\<close>: the clients of \<open>DU05\<close> and
    \<open>DU04_1\<close> and \<open>socket2.cpp\<close>; \<open>ClientProps\<close>: what they send.
  \<^item> \<open>Queues\<close>: the semaphore queues of \<open>quee.cpp\<close>, \<open>sem.cpp\<close> and the threaded server \<open>DU04_1\<close>; \<open>Du04\<close>, \<open>Du05\<close>:
    the servers of these directories; \<open>QueueProps\<close>: their queue in every interleaving.
  \<^item> \<open>CircleBuffer\<close>: \<open>cv/cv_thread/circle_buffer.cpp\<close>, a ring with condition variables; \<open>CircleProps\<close>.
  \<^item> \<open>Board\<close>, \<open>Piskvorky\<close>: the three tic-tac-toe servers; \<open>GameProps\<close>: a turn.
  \<^item> \<open>HttpServers\<close>, \<open>AnimalServer\<close>: the servers that run the command of a URL, and the compile server;
    \<open>JobProps\<close>: the command that is run for a request, and what the compile server sends.
  \<^item> \<open>LineServers\<close>, \<open>FileServers\<close>: ten further exam servers that accept without \<open>poll\<close>; \<open>LineProps\<close>: lines
    from pieces, the calculator, a failed compiler.
  \<^item> \<open>ExamClients\<close>: the clients of the exam servers and of the compile server; \<open>ExamClientProps\<close>: the client
    and the server of \<open>animal_done\<close> against each other. \<open>Du04Client\<close>: the client of the threaded server.
  \<^item> \<open>DemoServers\<close>: \<open>cv/cv_socket/socket-demo-0\<close> and \<open>socket-demo-1\<close>, servers that run pipes of programs,
    and their clients.
  \<^item> \<open>PollServers\<close>: an echo server and a chat server that watch all their clients with one \<open>poll\<close>,
    \<open>cv/cv_exec_dup_socket/server_poll_echo.cpp\<close> and \<open>cv/cv_socket/serv.c\<close>; \<open>PollProps\<close>: every line reaches every
    other client once.
  \<^item> \<open>SlotQueues\<close>: the thread exercises with four strings under semaphores (\<open>cv2_consumer_sem.cpp\<close>, \<open>cv3_queue.cpp\<close>)
    and with one value under a mutex (\<open>consumer_producer.cpp\<close>, \<open>cv_thread.cpp\<close>); \<open>SlotProps\<close>: a consumer that starves.
  \<^item> \<open>LineTools\<close>: \<open>cv1_done.cpp\<close>, \<open>cv1_write.cpp\<close> and the line server \<open>main.cpp\<close> of \<open>cv_skuska\<close>; \<open>ToolProps\<close>: the
    output of the numbering tool does not depend on how its input arrives.
  \<^item> \<open>BankNumbers\<close>: generators and checkers of account and birth numbers (\<open>DU/DU01\<close>, \<open>DU/JOP005_DU1\<close>, \<open>tut01\<close>);
    \<open>NumberProps\<close>: the account rule, the errors it finds, the generator's text read by the checker.
  \<^item> \<open>Followers\<close>: three programs that follow growing files with a child per file, \<open>ostatne/main.cpp\<close>,
    \<open>DU/DU02/tail.cpp\<close> and \<open>cv/cv_du2/main.cpp\<close>; \<open>FollowerProps\<close>: nothing is lost or printed twice.
  \<^item> \<open>Gthreads\<close>: \<open>osy-gthreads-main\<close> and its two variants: thread table, round robin scheduler, timer
    ticks and the context switch of \<open>gtswtch.S\<close> on registers and memory words; \<open>GthreadProps\<close>.
  \<^item> \<open>GthreadSched\<close>: the timer signal, the loop of the scheduler, the build without preemption and the tables of the
    variants; \<open>GthreadDemos\<close>: the programs on top of the library, each thread by its segments between library calls.
  \<^item> \<open>ProcessDrills\<close>: the exercises with fork, pipe, exec and poll (\<open>cv/cv_pipe\<close>, \<open>cv/cv_exec_dup_socket\<close>, \<open>TUT02\<close>, \<open>tut03\<close>).
  \<^item> \<open>ServerProps\<close>: the listening socket on every branch, the single-client server.

  \<^bold>\<open>Bounds.\<close> Strings have the sizes of the C buffers, and what \<open>snprintf\<close> cuts is cut. Results of \<open>atoi\<close>
  outside \<open>int\<close> are undefined behaviour; port numbers are 16-bit words, registers and addresses of
  the thread library 64-bit words. Counters of clients, items and events are unbounded integers: they
  change by one per event, and the safety theorems assume fewer than \<open>2 ^ 31\<close> events.

  \<^bold>\<open>Not modelled.\<close> \<open>osy-freertos-posix-main\<close> is a vendored kernel, \<open>pozdrav.cpp\<close> an image as a table of
  bytes, and several directories hold copies of programs modelled here under another path. The
  exercises that only print what \<open>stat\<close> says and the reference sheets are left out. Instructions between two calls of a process run without
  interference; the model shows races at calls only. Time is not modelled beyond the number of timer
  signals and the arguments of the sleeping calls.
\<close>

end
